(* ===== verification/Prelude.thy ===== *)
theory Prelude
  imports Main "HOL-Library.Word" "HOL-Library.Sublist" "HOL-Library.State_Monad"
    "HOL-Library.Multiset"
begin

text \<open>
  What the components share: the named collections, the parts of Go and of its standard
  library that the sources use (byte strings and the package \<open>strings\<close>, decimal
  printing, 64-bit integers, the character classes of the regular expressions), the
  computations of the handlers, and two interfaces that the filtering loops of the
  program satisfy.

  A Go string is a byte string. \<open>ToLower\<close> and \<open>TrimSpace\<close> are modelled on the ASCII
  range, which is where the sources use them (status words, user agents, commands).
\<close>

named_theorems go_simps "unfolding rules for the computations of the handlers"
named_theorems str_simps "rules for the string operations of Go"

subsection \<open>Strings\<close>

definition HasPrefix :: "string \<Rightarrow> string \<Rightarrow> bool" where
  "HasPrefix s p \<longleftrightarrow> prefix p s"

definition HasSuffix :: "string \<Rightarrow> string \<Rightarrow> bool" where
  "HasSuffix s p \<longleftrightarrow> suffix p s"

definition TrimPrefix :: "string \<Rightarrow> string \<Rightarrow> string" where
  "TrimPrefix s p = (if prefix p s then drop (length p) s else s)"

definition TrimSuffix :: "string \<Rightarrow> string \<Rightarrow> string" where
  "TrimSuffix s p = (if suffix p s then take (length s - length p) s else s)"

definition Contains :: "string \<Rightarrow> string \<Rightarrow> bool" where
  "Contains s p \<longleftrightarrow> sublist p s"

text \<open>\<open>strings.Split\<close> with a separator of one byte; the result is never empty.\<close>

fun Split :: "char \<Rightarrow> string \<Rightarrow> string list" where
  "Split c [] = [[]]"
| "Split c (x # xs) =
     (if x = c then [] # Split c xs
      else (case Split c xs of [] \<Rightarrow> [[x]] | p # ps \<Rightarrow> (x # p) # ps))"

fun Join :: "string list \<Rightarrow> string \<Rightarrow> string" where
  "Join [] sep = []"
| "Join [p] sep = p"
| "Join (p # q # ps) sep = p @ sep @ Join (q # ps) sep"

definition is_space :: "char \<Rightarrow> bool" where
  "is_space c \<longleftrightarrow> c = CHR '' '' \<or> (9 \<le> (of_char c :: nat) \<and> (of_char c :: nat) \<le> 13)"

definition TrimSpace :: "string \<Rightarrow> string" where
  "TrimSpace s = rev (dropWhile is_space (rev (dropWhile is_space s)))"

definition lower_char :: "char \<Rightarrow> char" where
  "lower_char c = (let n = (of_char c :: nat)
     in if 65 \<le> n \<and> n \<le> 90 then char_of (n + 32) else c)"

definition upper_char :: "char \<Rightarrow> char" where
  "upper_char c = (let n = (of_char c :: nat)
     in if 97 \<le> n \<and> n \<le> 122 then char_of (n - 32) else c)"

definition ToLower :: "string \<Rightarrow> string" where
  "ToLower s = map lower_char s"

lemma Split_not_Nil [simp]: "Split c s \<noteq> []"
  by (cases s) (auto split: list.splits)

lemma TrimSuffix_append [simp, str_simps]: "TrimSuffix (s @ p) p = s"
  by (simp add: TrimSuffix_def suffix_def)

lemma TrimSuffix_id [str_simps]: "\<not> suffix p s \<Longrightarrow> TrimSuffix s p = s"
  by (simp add: TrimSuffix_def)

lemma TrimPrefix_append [simp, str_simps]: "TrimPrefix (p @ s) p = s"
  by (simp add: TrimPrefix_def)

lemma TrimSuffix_cases:
  obtains "s = TrimSuffix s p @ p" | "TrimSuffix s p = s" "\<not> suffix p s"
  by (cases "suffix p s") (auto simp: TrimSuffix_def suffix_def)

lemma Join_Cons: "ps \<noteq> [] \<Longrightarrow> Join (p # ps) sep = p @ sep @ Join ps sep"
  by (cases ps) auto

lemma Join_Split [simp]: "Join (Split c s) [c] = s"
proof (induction s)
  case Nil
  then show ?case by simp
next
  case (Cons x xs)
  show ?case
  proof (cases "x = c")
    case True
    with Cons show ?thesis by (simp add: Join_Cons)
  next
    case False
    obtain p ps where s: "Split c xs = p # ps" by (cases "Split c xs") auto
    with False Cons show ?thesis by (cases ps) auto
  qed
qed

lemma Split_no_sep: "c \<notin> set s \<Longrightarrow> Split c s = [s]"
  by (induction s) auto

lemma Split_append_sep: "c \<notin> set p \<Longrightarrow> Split c (p @ c # s) = p # Split c s"
  by (induction p) auto

lemma Split_pieces: "p \<in> set (Split c s) \<Longrightarrow> c \<notin> set p"
proof (induction s arbitrary: p)
  case (Cons x xs)
  obtain q qs where s: "Split c xs = q # qs" by (cases "Split c xs") auto
  with Cons show ?case by (auto split: if_splits)
qed simp

lemma Split_Join:
  "ps \<noteq> [] \<Longrightarrow> (\<And>p. p \<in> set ps \<Longrightarrow> c \<notin> set p) \<Longrightarrow> Split c (Join ps [c]) = ps"
proof (induction ps)
  case (Cons p ps)
  then show ?case
    by (cases ps) (auto simp: Split_no_sep Split_append_sep)
qed simp

lemma length_Split: "length (Split c s) = Suc (count_list s c)"
proof (induction s)
  case (Cons x xs)
  obtain q qs where "Split c xs = q # qs" by (cases "Split c xs") auto
  with Cons show ?case by auto
qed simp

lemma Split_eq_two:
  "Split c s = [p, q] \<longleftrightarrow> s = p @ c # q \<and> c \<notin> set p \<and> c \<notin> set q"
proof
  assume a: "Split c s = [p, q]"
  then have "s = Join [p, q] [c]" by (metis Join_Split)
  moreover have "c \<notin> set p" "c \<notin> set q" using a Split_pieces [of _ c s] by auto
  ultimately show "s = p @ c # q \<and> c \<notin> set p \<and> c \<notin> set q" by simp
qed (auto simp: Split_append_sep Split_no_sep)

subsection \<open>Decimal printing\<close>

definition digit_char :: "nat \<Rightarrow> char" where
  "digit_char n = char_of (48 + n)"

fun show_nat :: "nat \<Rightarrow> string" where
  "show_nat n = (if n < 10 then [digit_char n] else show_nat (n div 10) @ [digit_char (n mod 10)])"

declare show_nat.simps [simp del]

definition show_int :: "int \<Rightarrow> string" where
  "show_int i = (if i < 0 then ''-'' @ show_nat (nat (- i)) else show_nat (nat i))"

definition is_digit :: "char \<Rightarrow> bool" where
  "is_digit c \<longleftrightarrow> 48 \<le> (of_char c :: nat) \<and> (of_char c :: nat) \<le> 57"

definition digit_val :: "char \<Rightarrow> nat" where
  "digit_val c = of_char c - 48"

definition read_nat :: "string \<Rightarrow> nat" where
  "read_nat s = foldl (\<lambda>a c. 10 * a + digit_val c) 0 s"

lemma digit_char_props:
  assumes "n < 10"
  shows "is_digit (digit_char n)" "digit_val (digit_char n) = n"
  using assms by (auto simp: is_digit_def digit_val_def digit_char_def of_char_of take_bit_eq_mod)

lemma show_nat_digits: "c \<in> set (show_nat n) \<Longrightarrow> is_digit c"
proof (induction n rule: show_nat.induct)
  case (1 n)
  show ?case
  proof (cases "n < 10")
    case True
    with 1 show ?thesis by (simp add: show_nat.simps [of n] digit_char_props)
  next
    case False
    with 1 show ?thesis by (auto simp: show_nat.simps [of n] digit_char_props)
  qed
qed

lemma read_show_nat [simp]: "read_nat (show_nat n) = n"
proof (induction n rule: show_nat.induct)
  case (1 n)
  show ?case
  proof (cases "n < 10")
    case True
    then show ?thesis by (simp add: show_nat.simps [of n] read_nat_def digit_char_props)
  next
    case False
    with 1 show ?thesis
      by (simp add: show_nat.simps [of n] read_nat_def digit_char_props)
  qed
qed

lemma show_nat_inject [simp]: "show_nat m = show_nat n \<longleftrightarrow> m = n"
  by (metis read_show_nat)

lemma show_nat_no_colon [simp]: "CHR '':'' \<notin> set (show_nat n)"
  using show_nat_digits [of "CHR '':''" n] by (auto simp: is_digit_def)

lemma show_nat_not_Nil [simp]: "show_nat n \<noteq> []"
  by (subst show_nat.simps) simp

subsection \<open>Integers\<close>

text \<open>
  The type \<open>int\<close> of Go on a 64-bit platform: the sum wraps, and a division (the sources divide
  by a positive constant only) rounds towards zero.
\<close>

definition wrap64 :: "int \<Rightarrow> int" where
  "wrap64 x = (x + 2 ^ 63) mod 2 ^ 64 - 2 ^ 63"

definition trunc_div :: "int \<Rightarrow> int \<Rightarrow> int" where
  "trunc_div a b = (if 0 \<le> a then a div b else - ((- a) div b))"

lemma wrap64_id: "- (2 ^ 63) \<le> x \<Longrightarrow> x < 2 ^ 63 \<Longrightarrow> wrap64 x = x"
  by (simp add: wrap64_def)

lemma wrap64_idem: "wrap64 (wrap64 x) = wrap64 x"
  by (simp add: wrap64_def)

lemma wrap64_range: "- (2 ^ 63) \<le> wrap64 x" "wrap64 x < 2 ^ 63"
  by (simp_all add: wrap64_def)

lemma trunc_div_nonneg: "0 \<le> a \<Longrightarrow> trunc_div a b = a div b"
  by (simp add: trunc_div_def)

subsection \<open>Character classes of the regular expressions\<close>

definition is_alnum :: "char \<Rightarrow> bool" where
  "is_alnum c \<longleftrightarrow> (let n = (of_char c :: nat) in
     (48 \<le> n \<and> n \<le> 57) \<or> (65 \<le> n \<and> n \<le> 90) \<or> (97 \<le> n \<and> n \<le> 122))"

text \<open>\<open>^[a-zA-Z_0-9.]+$\<close> and \<open>^[a-zA-Z0-9]+$\<close>; \<open>$\<close> is the end of the text in Go.\<close>

definition match_id :: "string \<Rightarrow> bool" where
  "match_id s \<longleftrightarrow> s \<noteq> [] \<and> list_all (\<lambda>c. is_alnum c \<or> c = CHR ''_'' \<or> c = CHR ''.'') s"

definition match_alnum :: "string \<Rightarrow> bool" where
  "match_alnum s \<longleftrightarrow> s \<noteq> [] \<and> list_all is_alnum s"

text \<open>\<open>^([a-zA-Z_0-9.]+)[|]([a-zA-Z_0-9.]+)$\<close>: neither class holds the bar.\<close>

definition match_composite :: "string \<Rightarrow> bool" where
  "match_composite s \<longleftrightarrow>
     (case Split (CHR ''|'') s of [p, q] \<Rightarrow> match_id p \<and> match_id q | _ \<Rightarrow> False)"

lemma match_id_no_bar [simp]: "match_id s \<Longrightarrow> CHR ''|'' \<notin> set s"
  by (auto simp: match_id_def list_all_iff is_alnum_def)

lemma match_composite_iff:
  "match_composite s \<longleftrightarrow> (\<exists>p q. s = p @ ''|'' @ q \<and> match_id p \<and> match_id q)"
proof
  assume "match_composite s"
  then obtain p q where "Split (CHR ''|'') s = [p, q]" "match_id p" "match_id q"
    by (auto simp: match_composite_def split: list.splits)
  then show "\<exists>p q. s = p @ ''|'' @ q \<and> match_id p \<and> match_id q"
    by (auto simp: Split_eq_two)
next
  assume "\<exists>p q. s = p @ ''|'' @ q \<and> match_id p \<and> match_id q"
  then obtain p q where "s = p @ CHR ''|'' # q" "match_id p" "match_id q" by auto
  then show "match_composite s"
    by (simp add: match_composite_def Split_append_sep Split_no_sep)
qed

subsection \<open>Lists that stand for Go maps\<close>

text \<open>
  A Go map whose iteration matters is an association list: the list order stands for the
  order in which the runtime happens to iterate, which Go leaves open, so a statement for
  every list is a statement for every order. A map that is only looked up is a HOL map.
\<close>

definition bump :: "('k \<rightharpoonup> int) \<Rightarrow> 'k \<Rightarrow> int \<Rightarrow> ('k \<rightharpoonup> int)" where
  "bump m k n = m(k \<mapsto> (case m k of None \<Rightarrow> n | Some v \<Rightarrow> v + n))"

definition getint :: "('k \<rightharpoonup> int) \<Rightarrow> 'k \<Rightarrow> int" where
  "getint m k = (case m k of None \<Rightarrow> 0 | Some v \<Rightarrow> v)"

lemma getint_bump [simp]: "getint (bump m k n) k' = getint m k' + (if k' = k then n else 0)"
  by (auto simp: getint_def bump_def split: option.splits)

text \<open>The same for counts that come from elsewhere: Go's \<open>int\<close> wraps at 64 bits.\<close>

definition bump64 :: "('k \<rightharpoonup> int) \<Rightarrow> 'k \<Rightarrow> int \<Rightarrow> ('k \<rightharpoonup> int)" where
  "bump64 m k n = m(k \<mapsto> wrap64 (getint m k + n))"

lemma getint_bump64 [simp]: "getint (bump64 m k n) k' = (if k' = k then wrap64 (getint m k + n) else getint m k')"
  by (simp add: getint_def bump64_def)

lemma wrap64_add: "wrap64 (wrap64 a + b) = wrap64 (a + b)"
  by (simp add: wrap64_def algebra_simps mod_simps)

lemma dom_bump [simp]: "dom (bump m k n) = insert k (dom m)"
  by (simp add: bump_def)

definition getbool :: "('k \<rightharpoonup> bool) \<Rightarrow> 'k \<Rightarrow> bool" where
  "getbool m k \<longleftrightarrow> m k = Some True"

subsection \<open>Filtering loops\<close>

text \<open>
  Many loops of the program walk over a slice and append to a result only what passes
  their \<open>continue\<close> guards. \<open>filter_loop\<close> is the contract of the loops that keep the
  element, \<open>select_loop\<close> of those that append something built from it.
\<close>

locale select_loop =
  fixes loop :: "'a list \<Rightarrow> 'b list" and pick :: "'a \<Rightarrow> 'b option"
  assumes loop_Nil: "loop [] = []"
    and loop_Cons: "loop (x # xs) = (case pick x of None \<Rightarrow> loop xs | Some y \<Rightarrow> y # loop xs)"
begin

lemma loop_eq: "loop xs = List.map_filter pick xs"
  by (induction xs) (auto simp: loop_Nil loop_Cons List.map_filter_def split: option.splits)

lemma loop_append: "loop (xs @ ys) = loop xs @ loop ys"
  by (induction xs) (auto simp: loop_Nil loop_Cons split: option.splits)

lemma set_loop: "y \<in> set (loop xs) \<longleftrightarrow> (\<exists>x \<in> set xs. pick x = Some y)"
  by (induction xs) (auto simp: loop_Nil loop_Cons split: option.splits)

lemma length_loop: "length (loop xs) \<le> length xs"
  by (induction xs) (auto simp: loop_Nil loop_Cons split: option.splits)

lemma length_loop_eq: "length (loop xs) = length (filter (\<lambda>x. pick x \<noteq> None) xs)"
  by (induction xs) (auto simp: loop_Nil loop_Cons split: option.splits)

lemma loop_empty_iff: "loop xs = [] \<longleftrightarrow> (\<forall>x \<in> set xs. pick x = None)"
  by (induction xs) (auto simp: loop_Nil loop_Cons split: option.splits)

end

locale filter_loop =
  fixes floop :: "'a list \<Rightarrow> 'a list" and keep :: "'a \<Rightarrow> bool"
  assumes floop_Nil: "floop [] = []"
    and floop_Cons: "floop (x # xs) = (if keep x then x # floop xs else floop xs)"
begin

lemma floop_eq: "floop xs = filter keep xs"
  by (induction xs) (auto simp: floop_Nil floop_Cons)

lemma floop_idem: "floop (floop xs) = floop xs"
  by (simp add: floop_eq)

lemma floop_subseq: "subseq (floop xs) xs"
  by (simp add: floop_eq)

lemma floop_distinct: "distinct xs \<Longrightarrow> distinct (floop xs)"
  by (simp add: floop_eq)

end

sublocale filter_loop \<subseteq> sel: select_loop floop "\<lambda>x. if keep x then Some x else None"
  by unfold_locales (auto simp: floop_Nil floop_Cons)

end
