(* ===== verification/Types.thy ===== *)
theory Types
  imports Prelude
begin

text \<open>
  The data of the service: the structs of the package \<open>types\<close> and, of the structs of
  \<open>insights-results-types\<close> and \<open>insights-operator-utils\<close> (packages outside the
  repository), the fields the sources read or write; whatever else such a struct carries
  is kept as an opaque value. The Go \<open>error\<close> values are the datatype \<open>gerror\<close>, one
  constructor per dynamic type the sources distinguish. Then the three operations of
  \<open>types/operations.go\<close>.

  \<open>OrgID\<close> is \<open>uint32\<close>; the named string types (\<open>RuleID\<close>, \<open>ErrorKey\<close>,
  \<open>ClusterName\<close>, \<open>UserID\<close>, ...) are byte strings.
\<close>

type_synonym OrgID = "32 word"
type_synonym RuleID = string
type_synonym ErrorKey = string
type_synonym ClusterName = string
type_synonym UserID = string
type_synonym RequestID = string
type_synonym Timestamp = string

text \<open>A JSON value or a struct that the service only passes on.\<close>

datatype opaque = Opaque string

text \<open>\<open>time.Time\<close>: seconds since the zero time, and the offset of its location.\<close>

record gotime =
  instant :: int
  zone :: int

definition zero_time :: gotime where
  "zero_time = \<lparr>instant = 0, zone = 0\<rparr>"

definition IsZero :: "gotime \<Rightarrow> bool" where
  "IsZero t \<longleftrightarrow> instant t = 0"

definition UTC :: "gotime \<Rightarrow> gotime" where
  "UTC t = t\<lparr>zone := 0\<rparr>"

record NullTime =
  nt_Time :: gotime
  nt_Valid :: bool

subsection \<open>Errors\<close>

datatype item_id = ItemStr string | ItemOrg OrgID | ItemNone

datatype gerror =
    RouterMissingParamError string
  | RouterParsingError string string string
  | NoBodyError
  | BadBodyContent
  | TooManyClustersError
  | ContentServiceUnavailableError
  | AggregatorServiceUnavailableError
  | UpgradesDataEngServiceUnavailableError
  | AMSAPIUnavailableError
  | ParamsParsingError
  | AuthenticationError string
  | AuthorizationError string
  | RuleContentDirectoryTimeoutError
  | ItemNotFoundError item_id
  | NoContentError string
  | JSONSyntaxError string
  | JSONUnmarshalTypeError string
  | UrlError string
  | ErrorString string
  | OtherError string

type_synonym 'a res = "gerror + 'a"

definition is_timeout :: "gerror \<Rightarrow> bool" where
  "is_timeout e \<longleftrightarrow> e = RuleContentDirectoryTimeoutError"

fun is_url_error :: "gerror \<Rightarrow> bool" where
  "is_url_error (UrlError s) = True"
| "is_url_error _ = False"

subsection \<open>Rule content\<close>

record Plugin =
  pl_Name :: string
  pl_PythonModule :: string

record Impact =
  im_Name :: string
  im_Impact :: int

record ErrorKeyMetadata =
  md_Description :: string
  md_Impact :: Impact
  md_Likelihood :: int
  md_ResolutionRisk :: int
  md_PublishDate :: string
  md_Status :: string
  md_Tags :: "string list"

record RuleErrorKeyContent =
  ek_Metadata :: ErrorKeyMetadata
  ek_TotalRisk :: int
  ek_Generic :: string
  ek_Summary :: string
  ek_Resolution :: string
  ek_MoreInfo :: string
  ek_Reason :: string
  ek_HasReason :: bool

record RuleContent =
  rc_Plugin :: Plugin
  rc_Generic :: string
  rc_Summary :: string
  rc_Resolution :: string
  rc_MoreInfo :: string
  rc_Reason :: string
  rc_HasReason :: bool
  rc_ErrorKeys :: "(string \<times> RuleErrorKeyContent) list"

type_synonym RuleContentDirectory = "(string \<times> RuleContent) list"

record ErrorKeyMetadataV1 =
  m1_Description :: string
  m1_Impact :: string
  m1_Likelihood :: int
  m1_PublishDate :: string
  m1_Status :: string
  m1_Tags :: "string list"

record ErrorKeyMetadataV2 =
  m2_Description :: string
  m2_Impact :: int
  m2_Likelihood :: int
  m2_PublishDate :: string
  m2_Status :: string
  m2_Tags :: "string list"

record 'm RuleErrorKeyContentOf =
  ko_Metadata :: 'm
  ko_TotalRisk :: int
  ko_Generic :: string
  ko_Summary :: string
  ko_Resolution :: string
  ko_MoreInfo :: string
  ko_Reason :: string
  ko_HasReason :: bool

record 'm RuleContentOf =
  co_Plugin :: Plugin
  co_Generic :: string
  co_Summary :: string
  co_Resolution :: string
  co_MoreInfo :: string
  co_Reason :: string
  co_HasReason :: bool
  co_ErrorKeys :: "(string \<times> 'm RuleErrorKeyContentOf) list"

type_synonym RuleContentV1 = "ErrorKeyMetadataV1 RuleContentOf"
type_synonym RuleContentV2 = "ErrorKeyMetadataV2 RuleContentOf"

record RuleWithContent =
  rwc_Module :: RuleID
  rwc_Name :: string
  rwc_Summary :: string
  rwc_Reason :: string
  rwc_Resolution :: string
  rwc_MoreInfo :: string
  rwc_ErrorKey :: ErrorKey
  rwc_Description :: string
  rwc_TotalRisk :: int
  rwc_ResolutionRisk :: int
  rwc_Impact :: int
  rwc_Likelihood :: int
  rwc_PublishDate :: gotime
  rwc_Active :: bool
  rwc_Internal :: bool
  rwc_Generic :: string
  rwc_Tags :: "string list"
  rwc_OSDCustomer :: bool

record RecommendationContent =
  rcn_RuleSelector :: RuleID
  rcn_Description :: string
  rcn_Generic :: string
  rcn_Reason :: string
  rcn_Resolution :: string
  rcn_MoreInfo :: string
  rcn_TotalRisk :: "8 word"
  rcn_Impact :: "8 word"
  rcn_Likelihood :: "8 word"
  rcn_PublishDate :: gotime
  rcn_Tags :: "string list"

record RecommendationContentUserData = RecommendationContent +
  rcu_Rating :: int
  rcu_AckedCount :: "32 word"
  rcu_Disabled :: bool
  rcu_ResolutionRisk :: "8 word"

record RecommendationListView =
  rlv_RuleID :: RuleID
  rlv_Description :: string
  rlv_Generic :: string
  rlv_PublishDate :: gotime
  rlv_TotalRisk :: "8 word"
  rlv_ResolutionRisk :: "8 word"
  rlv_Impact :: "8 word"
  rlv_Likelihood :: "8 word"
  rlv_Tags :: "string list"
  rlv_Disabled :: bool
  rlv_ImpactedClustersCnt :: "32 word"

subsection \<open>Reports\<close>

record RuleOnReport =
  ror_Module :: RuleID
  ror_ErrorKey :: ErrorKey
  ror_UserVote :: int
  ror_Disabled :: bool
  ror_DisableFeedback :: string
  ror_DisabledAt :: Timestamp
  ror_TemplateData :: opaque
  ror_CreatedAt :: Timestamp

record ReportResponseMeta =
  rm_LastCheckedAt :: Timestamp
  rm_GatheredAt :: Timestamp

record ReportResponse =
  rr_Meta :: ReportResponseMeta
  rr_Report :: "RuleOnReport list"

record ClusterReports =
  cr_Reports :: "(ClusterName \<times> string) list"
  cr_Other :: opaque

record RuleWithContentResponse =
  rwr_RuleID :: RuleID
  rwr_ErrorKey :: ErrorKey
  rwr_CreatedAt :: string
  rwr_Description :: string
  rwr_Generic :: string
  rwr_Reason :: string
  rwr_Resolution :: string
  rwr_MoreInfo :: string
  rwr_TotalRisk :: int
  rwr_Disabled :: bool
  rwr_DisableFeedback :: string
  rwr_DisabledAt :: Timestamp
  rwr_Internal :: bool
  rwr_UserVote :: int
  rwr_TemplateData :: opaque
  rwr_Tags :: "string list"
  rwr_Impacted :: Timestamp

record ReportResponseMetaV1 =
  mv1_Count :: int
  mv1_LastCheckedAt :: Timestamp

record ReportResponseMetaV2 =
  mv2_DisplayName :: string
  mv2_Managed :: bool
  mv2_Count :: int
  mv2_LastCheckedAt :: Timestamp
  mv2_GatheredAt :: Timestamp

record SmartProxyReportV1 =
  rp1_Meta :: ReportResponseMetaV1
  rp1_Data :: "RuleWithContentResponse list"

record SmartProxyReportV2 =
  rp2_Meta :: ReportResponseMetaV2
  rp2_Data :: "RuleWithContentResponse list"

record SimplifiedRuleHit =
  srh_RuleFQDN :: string
  srh_ErrorKey :: string
  srh_Description :: string
  srh_TotalRisk :: int

record RequestStatus =
  rs_RequestID :: string
  rs_Valid :: bool
  rs_Received :: string
  rs_Processed :: string

subsection \<open>Clusters\<close>

record ClusterInfo =
  ci_ID :: ClusterName
  ci_DisplayName :: string
  ci_Managed :: bool
  ci_Status :: string

definition empty_ClusterInfo :: ClusterInfo where
  "empty_ClusterInfo = \<lparr>ci_ID = '''', ci_DisplayName = '''', ci_Managed = False, ci_Status = ''''\<rparr>"

record ClusterListView =
  clv_ClusterID :: ClusterName
  clv_ClusterName :: string
  clv_Managed :: bool
  clv_LastCheckedAt :: Timestamp
  clv_TotalHitCount :: "32 word"
  clv_HitsByTotalRisk :: "int \<rightharpoonup> int"
  clv_Version :: string

record ClusterRecommendationList =
  crl_CreatedAt :: gotime
  crl_Version :: string
  crl_Recommendations :: "RuleID list"

record OrgOverviewResponse =
  oo_ClustersHit :: int
  oo_ClustersHitByTotalRisk :: "int \<rightharpoonup> int"
  oo_ClustersHitByTag :: "string \<rightharpoonup> int"

record HittingClustersData =
  hc_Cluster :: ClusterName
  hc_Name :: string
  hc_Other :: opaque

record DisabledClusterInfo =
  dc_ClusterID :: ClusterName
  dc_ClusterName :: string
  dc_DisabledAt :: gotime
  dc_Justification :: string

record ClustersDetailData =
  cd_EnabledClusters :: "HittingClustersData list"
  cd_DisabledClusters :: "DisabledClusterInfo list"

subsection \<open>User data kept by the aggregator\<close>

record DisabledRule =
  dr_ClusterID :: ClusterName
  dr_RuleID :: RuleID
  dr_ErrorKey :: ErrorKey

record SystemWideRuleDisable =
  sw_RuleID :: RuleID
  sw_ErrorKey :: ErrorKey
  sw_Justification :: string
  sw_UserID :: UserID
  sw_CreatedAt :: NullTime
  sw_UpdatedAT :: NullTime

record Acknowledgement =
  ack_Rule :: string
  ack_Justification :: string
  ack_CreatedBy :: string
  ack_CreatedAt :: string
  ack_UpdatedAt :: string

record AcknowledgementsResponse =
  al_Count :: int
  al_Data :: "Acknowledgement list"

record RuleRating =
  rt_Rule :: string
  rt_Rating :: int

subsection \<open>Workloads and upgrade risks\<close>

record Cluster =
  cl_UUID :: string
  cl_DisplayName :: string

record Namespace =
  ns_UUID :: string
  ns_FullName :: string

record Metadata =
  mt_Recommendations :: int
  mt_Objects :: int
  mt_ReportedAt :: string
  mt_LastCheckedAt :: string
  mt_HighestSeverity :: int
  mt_HitsBySeverity :: "int \<rightharpoonup> int"

record Workload =
  wl_Cluster :: Cluster
  wl_Namespace :: Namespace
  wl_Metadata :: Metadata

record DVOObject =
  do_Kind :: string
  do_UID :: string
  do_Name :: string

record DVORecommendation =
  dv_Check :: string
  dv_Details :: string
  dv_Resolution :: string
  dv_Modified :: string
  dv_MoreInfo :: string
  dv_Reason :: string
  dv_TotalRisk :: int
  dv_TemplateData :: opaque
  dv_Objects :: "DVOObject list"

record WorkloadsForCluster =
  wc_Cluster :: Cluster
  wc_Namespace :: Namespace
  wc_Metadata :: Metadata
  wc_Recommendations :: "DVORecommendation list"

record WorkloadsForNamespace =
  wn_Cluster :: Cluster
  wn_Namespace :: Namespace
  wn_Metadata :: Metadata
  wn_RecommendationsHitCount :: "(string \<times> int) list"

record Alert =
  al_Name :: string
  al_Namespace :: string
  al_Severity :: string
  al_URL :: string

record OperatorCondition =
  oc_Name :: string
  oc_Condition :: string
  oc_Reason :: string
  oc_URL :: string

record UpgradeRisksPredictors =
  up_Alerts :: "Alert list"
  up_OperatorConditions :: "OperatorCondition list"

record DataEngResponse =
  de_Recommended :: bool
  de_RisksPredictors :: UpgradeRisksPredictors
  de_LastCheckedAt :: Timestamp

record UpgradeRecommendation =
  ur_Recommended :: bool
  ur_RisksPredictors :: UpgradeRisksPredictors

record UpgradeRisksMeta =
  um_LastCheckedAt :: Timestamp

record UpgradeRisksPrediction =
  pr_ClusterID :: ClusterName
  pr_PredictionStatus :: string
  pr_Recommended :: "bool option"
  pr_RisksPredictors :: "UpgradeRisksPredictors option"
  pr_LastCheckedAt :: "Timestamp option"

record UpgradeRisksRecommendations =
  us_Status :: string
  us_Predictions :: "UpgradeRisksPrediction list"

text \<open>\<open>types/rbac.go\<close>; the value of a filter is any JSON value.\<close>

record attributeFilter =
  af_Key :: string
  af_Value :: opaque
  af_Operation :: string

record rbacResourceDefinitions =
  rbd_AttributeFilter :: attributeFilter

record RbacData =
  rd_ResourceDefinitions :: "rbacResourceDefinitions list"
  rd_Permission :: string

record RbacMetadata =
  rbm_Count :: int
  rbm_Limit :: int
  rbm_Offset :: int

record rbacLinks =
  rbl_First :: string
  rbl_Next :: string
  rbl_Previous :: string
  rbl_Last :: string

record RbacResponse =
  rb_Meta :: RbacMetadata
  rb_Links :: rbacLinks
  rb_Data :: "RbacData list"

subsection \<open>Operations of \<open>types/operations.go\<close>\<close>

definition GetClusterNames :: "ClusterInfo list \<Rightarrow> ClusterName list" where
  "GetClusterNames clustersInfo = map ci_ID clustersInfo"

fun cluster_info_loop ::
  "(ClusterName \<rightharpoonup> ClusterInfo) \<Rightarrow> ClusterInfo list \<Rightarrow> (ClusterName \<rightharpoonup> ClusterInfo)" where
  "cluster_info_loop retval [] = retval"
| "cluster_info_loop retval (clusterInfo # rest) =
     cluster_info_loop (retval(ci_ID clusterInfo \<mapsto> clusterInfo)) rest"

definition ClusterInfoArrayToMap :: "ClusterInfo list \<Rightarrow> (ClusterName \<rightharpoonup> ClusterInfo)" where
  "ClusterInfoArrayToMap clustersInfo = cluster_info_loop Map.empty clustersInfo"

definition RuleIDWithErrorKeyFromCompositeRuleID :: "RuleID \<Rightarrow> (RuleID \<times> ErrorKey) res" where
  "RuleIDWithErrorKeyFromCompositeRuleID compositeRuleID =
     (let splitedRuleID = Split (CHR ''|'') compositeRuleID in
      if length splitedRuleID \<noteq> 2 then
        Inl (ErrorString ''invalid rule ID, it must contain only rule ID and error key separated by |'')
      else
        let isRuleIDValid = match_id (splitedRuleID ! 0);
            isErrorKeyValid = match_id (splitedRuleID ! 1)
        in if \<not> isRuleIDValid \<or> \<not> isErrorKeyValid then
             Inl (ErrorString ''invalid rule ID, each part of ID must contain only latin characters, number, underscores or dots'')
           else Inr (splitedRuleID ! 0, splitedRuleID ! 1))"

lemma find_append_case:
  "find P (xs @ ys) = (case find P xs of None \<Rightarrow> find P ys | Some x \<Rightarrow> Some x)"
  by (induction xs) auto

lemma cluster_info_loop_lookup:
  "cluster_info_loop m xs c =
     (case find (\<lambda>i. ci_ID i = c) (rev xs) of None \<Rightarrow> m c | Some i \<Rightarrow> Some i)"
  by (induction xs arbitrary: m) (auto simp: find_append_case split: option.splits)

lemma ClusterInfoArrayToMap_eq:
  "ClusterInfoArrayToMap xs c = find (\<lambda>i. ci_ID i = c) (rev xs)"
  by (simp add: ClusterInfoArrayToMap_def cluster_info_loop_lookup split: option.splits)

lemma ClusterInfoArrayToMap_dom:
  "ClusterInfoArrayToMap xs c = None \<longleftrightarrow> c \<notin> set (GetClusterNames xs)"
  by (auto simp: ClusterInfoArrayToMap_eq find_None_iff GetClusterNames_def)

lemma ClusterInfoArrayToMap_SomeD:
  "ClusterInfoArrayToMap xs c = Some i \<Longrightarrow> i \<in> set xs \<and> ci_ID i = c"
  by (auto simp: ClusterInfoArrayToMap_eq find_Some_iff) (metis nth_mem set_rev length_rev)

lemma ClusterInfoArrayToMap_distinct:
  assumes "distinct (GetClusterNames xs)" and "i \<in> set xs"
  shows "ClusterInfoArrayToMap xs (ci_ID i) = Some i"
proof -
  have "ClusterInfoArrayToMap xs (ci_ID i) \<noteq> None"
    using assms(2) by (simp add: ClusterInfoArrayToMap_dom GetClusterNames_def)
  then obtain j where j: "ClusterInfoArrayToMap xs (ci_ID i) = Some j" by blast
  with ClusterInfoArrayToMap_SomeD [OF j] assms show ?thesis
    by (auto simp: GetClusterNames_def distinct_map inj_on_def)
qed

lemma composite_ok_iff:
  "RuleIDWithErrorKeyFromCompositeRuleID s = Inr (r, k) \<longleftrightarrow>
     s = r @ ''|'' @ k \<and> match_id r \<and> match_id k"
proof
  assume a: "RuleIDWithErrorKeyFromCompositeRuleID s = Inr (r, k)"
  then have "length (Split (CHR ''|'') s) = 2"
    by (auto simp: RuleIDWithErrorKeyFromCompositeRuleID_def Let_def split: if_splits)
  then obtain p q where pq: "Split (CHR ''|'') s = [p, q]"
    by (auto simp: numeral_2_eq_2 length_Suc_conv)
  have "match_id r \<and> match_id k \<and> r = p \<and> k = q"
    using a by (simp add: RuleIDWithErrorKeyFromCompositeRuleID_def Let_def pq split: if_splits)
  moreover from pq have "s = p @ CHR ''|'' # q" by (simp only: Split_eq_two)
  ultimately show "s = r @ ''|'' @ k \<and> match_id r \<and> match_id k" by auto
next
  assume "s = r @ ''|'' @ k \<and> match_id r \<and> match_id k"
  then show "RuleIDWithErrorKeyFromCompositeRuleID s = Inr (r, k)"
    by (simp add: RuleIDWithErrorKeyFromCompositeRuleID_def Let_def Split_append_sep Split_no_sep)
qed

lemma composite_valid_iff:
  "(\<exists>r k. RuleIDWithErrorKeyFromCompositeRuleID s = Inr (r, k)) \<longleftrightarrow> match_composite s"
  by (auto simp: composite_ok_iff match_composite_iff)

end
