(* ===== verification/Content.thy ===== *)
theory Content
  imports Types "HOL-Library.AList"
begin

text \<open>
  The package \<open>content\<close>: the in-memory storage of rule content
  (\<open>content/content.go\<close>, \<open>content/rule_content.go\<close>), the loader that fills it from
  the directory the content service sends (\<open>content/parsing.go\<close>), and the lookups the
  handlers call.

  \<open>content_env\<close> holds what the package takes from elsewhere: the generator of composite
  rule ids (value and error, as Go returns them), membership in a string slice, the
  parsing and printing of times, and the orders in which the runtime iterates over the
  two maps that are ranged over after they are built. The package variables
  \<open>ruleContentDirectory\<close> and \<open>rulesWithContentStorage\<close> are the record
  \<open>content_state\<close>. No code signals \<open>ruleContentDirectoryReady\<close>, so a wait on a nil
  directory always ends in the timeout.
\<close>

record content_env =
  ce_GenerateCompositeRuleID :: "string \<Rightarrow> string \<Rightarrow> string \<times> gerror option"
  ce_StringInSlice :: "string \<Rightarrow> string list \<Rightarrow> bool"
  ce_TimeParse :: "string \<Rightarrow> string \<Rightarrow> gotime res"
  ce_FormatRFC3339 :: "gotime \<Rightarrow> string"
  ce_severity_order :: "int list \<Rightarrow> int list"
  ce_rules_order :: "(RuleID \<times> RuleContent) list \<Rightarrow> (RuleID \<times> RuleContent) list"

record RulesWithContentStorage =
  st_rules :: "(RuleID \<times> RuleContent) list"
  st_rulesWithContent :: "(RuleID \<times> ErrorKey) \<rightharpoonup> RuleWithContent"
  st_recommendationsWithContent :: "RuleID \<rightharpoonup> RuleWithContent"
  st_internalRuleIDs :: "RuleID list"
  st_externalRuleIDs :: "RuleID list"

record content_state =
  cs_ruleContentDirectory :: "RuleContentDirectory option"
  cs_storage :: RulesWithContentStorage

abbreviation dotReport :: string where
  "dotReport \<equiv> ''.report''"

subsection \<open>Storage operations\<close>

definition getEmptyRulesWithContentMap :: RulesWithContentStorage where
  "getEmptyRulesWithContentMap =
     \<lparr>st_rules = [], st_rulesWithContent = Map.empty, st_recommendationsWithContent = Map.empty,
      st_internalRuleIDs = [], st_externalRuleIDs = []\<rparr>"

definition storage_GetRuleWithErrorKeyContent ::
  "RulesWithContentStorage \<Rightarrow> RuleID \<Rightarrow> ErrorKey \<Rightarrow> RuleWithContent option" where
  "storage_GetRuleWithErrorKeyContent s ruleID errorKey = st_rulesWithContent s (ruleID, errorKey)"

definition storage_GetContentForRecommendation ::
  "RulesWithContentStorage \<Rightarrow> RuleID \<Rightarrow> RuleWithContent option" where
  "storage_GetContentForRecommendation s ruleID = st_recommendationsWithContent s ruleID"

definition storage_getRuleContent :: "RulesWithContentStorage \<Rightarrow> RuleID \<Rightarrow> RuleContent option" where
  "storage_getRuleContent s ruleID = map_of (st_rules s) ruleID"

definition RuleContentToV1 :: "RuleContent \<Rightarrow> RuleContentV1" where
  "RuleContentToV1 res =
     \<lparr>co_Plugin = rc_Plugin res, co_Generic = rc_Generic res, co_Summary = rc_Summary res,
      co_Resolution = rc_Resolution res, co_MoreInfo = rc_MoreInfo res,
      co_Reason = rc_Reason res, co_HasReason = rc_HasReason res,
      co_ErrorKeys = map (\<lambda>(k, elem). (k,
        \<lparr>ko_Metadata =
           \<lparr>m1_Description = md_Description (ek_Metadata elem),
            m1_Impact = im_Name (md_Impact (ek_Metadata elem)),
            m1_Likelihood = md_Likelihood (ek_Metadata elem),
            m1_PublishDate = md_PublishDate (ek_Metadata elem),
            m1_Status = md_Status (ek_Metadata elem),
            m1_Tags = md_Tags (ek_Metadata elem)\<rparr>,
         ko_TotalRisk = ek_TotalRisk elem, ko_Generic = ek_Generic elem,
         ko_Summary = ek_Summary elem, ko_Resolution = ek_Resolution elem,
         ko_MoreInfo = ek_MoreInfo elem, ko_Reason = ek_Reason elem,
         ko_HasReason = ek_HasReason elem\<rparr>)) (rc_ErrorKeys res)\<rparr>"

definition RuleContentToV2 :: "RuleContent \<Rightarrow> RuleContentV2" where
  "RuleContentToV2 res =
     \<lparr>co_Plugin = rc_Plugin res, co_Generic = rc_Generic res, co_Summary = rc_Summary res,
      co_Resolution = rc_Resolution res, co_MoreInfo = rc_MoreInfo res,
      co_Reason = rc_Reason res, co_HasReason = rc_HasReason res,
      co_ErrorKeys = map (\<lambda>(k, elem). (k,
        \<lparr>ko_Metadata =
           \<lparr>m2_Description = md_Description (ek_Metadata elem),
            m2_Impact = im_Impact (md_Impact (ek_Metadata elem)),
            m2_Likelihood = md_Likelihood (ek_Metadata elem),
            m2_PublishDate = md_PublishDate (ek_Metadata elem),
            m2_Status = md_Status (ek_Metadata elem),
            m2_Tags = md_Tags (ek_Metadata elem)\<rparr>,
         ko_TotalRisk = ek_TotalRisk elem, ko_Generic = ek_Generic elem,
         ko_Summary = ek_Summary elem, ko_Resolution = ek_Resolution elem,
         ko_MoreInfo = ek_MoreInfo elem, ko_Reason = ek_Reason elem,
         ko_HasReason = ek_HasReason elem\<rparr>)) (rc_ErrorKeys res)\<rparr>"

definition storage_GetAllContentV1 :: "content_env \<Rightarrow> RulesWithContentStorage \<Rightarrow> RuleContentV1 list" where
  "storage_GetAllContentV1 ce s = map (\<lambda>(_, rule). RuleContentToV1 rule) (ce_rules_order ce (st_rules s))"

definition storage_GetAllContentV2 :: "content_env \<Rightarrow> RulesWithContentStorage \<Rightarrow> RuleContentV2 list" where
  "storage_GetAllContentV2 ce s = map (\<lambda>(_, rule). RuleContentToV2 rule) (ce_rules_order ce (st_rules s))"

definition SetRuleWithContent ::
  "content_env \<Rightarrow> RuleID \<Rightarrow> ErrorKey \<Rightarrow> RuleWithContent \<Rightarrow> RulesWithContentStorage
    \<Rightarrow> RulesWithContentStorage" where
  "SetRuleWithContent ce ruleID errorKey ruleWithContent s =
     (let (compositeRuleID, err) = ce_GenerateCompositeRuleID ce ruleID errorKey;
          s1 = (if err = None
                then s\<lparr>st_recommendationsWithContent :=
                       (st_recommendationsWithContent s)(compositeRuleID \<mapsto> ruleWithContent)\<rparr>
                else s);
          s2 = s1\<lparr>st_rulesWithContent :=
                  (st_rulesWithContent s1)((ruleID, errorKey) \<mapsto> ruleWithContent)\<rparr>
      in if rwc_Internal ruleWithContent
         then s2\<lparr>st_internalRuleIDs := st_internalRuleIDs s2 @ [compositeRuleID]\<rparr>
         else s2\<lparr>st_externalRuleIDs := st_externalRuleIDs s2 @ [compositeRuleID]\<rparr>)"

definition SetRule :: "RuleID \<Rightarrow> RuleContent \<Rightarrow> RulesWithContentStorage \<Rightarrow> RulesWithContentStorage" where
  "SetRule ruleID ruleContent s = s\<lparr>st_rules := AList.update ruleID ruleContent (st_rules s)\<rparr>"

definition storage_GetRuleIDs :: "content_env \<Rightarrow> RulesWithContentStorage \<Rightarrow> string list" where
  "storage_GetRuleIDs ce s =
     map (\<lambda>(_, ruleContent). pl_PythonModule (rc_Plugin ruleContent)) (ce_rules_order ce (st_rules s))"

text \<open>
  The loop dereferences the map entry of every external rule id: a missing entry is a nil
  pointer, and the panic is \<open>None\<close>.
\<close>

fun severities_loop ::
  "RulesWithContentStorage \<Rightarrow> RuleID list \<Rightarrow> (RuleID \<rightharpoonup> int) \<Rightarrow> int list
    \<Rightarrow> ((RuleID \<rightharpoonup> int) \<times> int list) option" where
  "severities_loop s [] severityMap uniqueMap = Some (severityMap, uniqueMap)"
| "severities_loop s (ruleID # rest) severityMap uniqueMap =
     (case st_recommendationsWithContent s ruleID of
        None \<Rightarrow> None
      | Some c \<Rightarrow> severities_loop s rest (severityMap(ruleID \<mapsto> rwc_TotalRisk c))
                    (List.insert (rwc_TotalRisk c) uniqueMap))"

definition storage_GetExternalRuleSeverities ::
  "content_env \<Rightarrow> RulesWithContentStorage \<Rightarrow> ((RuleID \<rightharpoonup> int) \<times> int list) option" where
  "storage_GetExternalRuleSeverities ce s =
     map_option (\<lambda>(m, u). (m, ce_severity_order ce u))
       (severities_loop s (st_externalRuleIDs s) Map.empty [])"

fun managed_loop ::
  "RulesWithContentStorage \<Rightarrow> RuleID list \<Rightarrow> (RuleID \<rightharpoonup> bool) \<Rightarrow> (RuleID \<rightharpoonup> bool) option" where
  "managed_loop s [] managedMap = Some managedMap"
| "managed_loop s (ruleID # rest) managedMap =
     (case st_recommendationsWithContent s ruleID of
        None \<Rightarrow> None
      | Some c \<Rightarrow> managed_loop s rest (managedMap(ruleID \<mapsto> rwc_OSDCustomer c)))"

definition storage_GetExternalRulesManagedInfo ::
  "RulesWithContentStorage \<Rightarrow> (RuleID \<rightharpoonup> bool) option" where
  "storage_GetExternalRulesManagedInfo s = managed_loop s (st_externalRuleIDs s) Map.empty"

definition storage_GetInternalRuleIDs :: "RulesWithContentStorage \<Rightarrow> RuleID list" where
  [simp]: "storage_GetInternalRuleIDs s = st_internalRuleIDs s"

definition storage_GetExternalRuleIDs :: "RulesWithContentStorage \<Rightarrow> RuleID list" where
  [simp]: "storage_GetExternalRuleIDs s = st_externalRuleIDs s"

subsection \<open>Lookups of the package\<close>

definition SetRuleContentDirectory :: "RuleContentDirectory option \<Rightarrow> content_state \<Rightarrow> content_state" where
  "SetRuleContentDirectory contentDir cs = cs\<lparr>cs_ruleContentDirectory := contentDir\<rparr>"

definition WaitForContentDirectoryToBeReady :: "content_state \<Rightarrow> gerror option" where
  "WaitForContentDirectoryToBeReady cs =
     (if cs_ruleContentDirectory cs = None then Some RuleContentDirectoryTimeoutError else None)"

definition when_ready :: "content_state \<Rightarrow> 'a res \<Rightarrow> 'a res" where
  "when_ready cs r = (case WaitForContentDirectoryToBeReady cs of Some err \<Rightarrow> Inl err | None \<Rightarrow> r)"

definition GetRuleWithErrorKeyContent ::
  "content_state \<Rightarrow> RuleID \<Rightarrow> ErrorKey \<Rightarrow> RuleWithContent res" where
  "GetRuleWithErrorKeyContent cs ruleID errorKey = when_ready cs
     (let ruleID = TrimSuffix ruleID dotReport in
      case storage_GetRuleWithErrorKeyContent (cs_storage cs) ruleID errorKey of
        None \<Rightarrow> Inl (ItemNotFoundError (ItemStr (ruleID @ ''/'' @ errorKey)))
      | Some res \<Rightarrow> Inr res)"

definition GetContentForRecommendation :: "content_state \<Rightarrow> RuleID \<Rightarrow> RuleWithContent res" where
  "GetContentForRecommendation cs ruleID = when_ready cs
     (case storage_GetContentForRecommendation (cs_storage cs) ruleID of
        None \<Rightarrow> Inl (ItemNotFoundError (ItemStr ruleID))
      | Some res \<Rightarrow> Inr res)"

definition getRuleContent :: "content_state \<Rightarrow> RuleID \<Rightarrow> RuleContent res" where
  "getRuleContent cs ruleID = when_ready cs
     (let ruleID = TrimSuffix ruleID dotReport in
      case storage_getRuleContent (cs_storage cs) ruleID of
        None \<Rightarrow> Inl (ItemNotFoundError (ItemStr ruleID))
      | Some res \<Rightarrow> Inr res)"

definition GetRuleContentV1 :: "content_state \<Rightarrow> RuleID \<Rightarrow> RuleContentV1 res" where
  "GetRuleContentV1 cs ruleID = map_sum id RuleContentToV1 (getRuleContent cs ruleID)"

definition GetRuleContentV2 :: "content_state \<Rightarrow> RuleID \<Rightarrow> RuleContentV2 res" where
  "GetRuleContentV2 cs ruleID = map_sum id RuleContentToV2 (getRuleContent cs ruleID)"

definition GetRuleIDs :: "content_env \<Rightarrow> content_state \<Rightarrow> string list res" where
  "GetRuleIDs ce cs = when_ready cs (Inr (storage_GetRuleIDs ce (cs_storage cs)))"

definition GetInternalRuleIDs :: "content_state \<Rightarrow> RuleID list res" where
  "GetInternalRuleIDs cs = when_ready cs (Inr (storage_GetInternalRuleIDs (cs_storage cs)))"

definition GetExternalRuleIDs :: "content_state \<Rightarrow> RuleID list res" where
  "GetExternalRuleIDs cs = when_ready cs (Inr (storage_GetExternalRuleIDs (cs_storage cs)))"

definition GetExternalRuleSeverities ::
  "content_env \<Rightarrow> content_state \<Rightarrow> ((RuleID \<rightharpoonup> int) \<times> int list) res option" where
  "GetExternalRuleSeverities ce cs =
     (case WaitForContentDirectoryToBeReady cs of
        Some err \<Rightarrow> Some (Inl err)
      | None \<Rightarrow> map_option Inr (storage_GetExternalRuleSeverities ce (cs_storage cs)))"

definition GetExternalRulesManagedInfo :: "content_state \<Rightarrow> (RuleID \<rightharpoonup> bool) res option" where
  "GetExternalRulesManagedInfo cs =
     (case WaitForContentDirectoryToBeReady cs of
        Some err \<Rightarrow> Some (Inl err)
      | None \<Rightarrow> map_option Inr (storage_GetExternalRulesManagedInfo (cs_storage cs)))"

definition GetAllContentV1 :: "content_env \<Rightarrow> content_state \<Rightarrow> RuleContentV1 list res" where
  "GetAllContentV1 ce cs = when_ready cs (Inr (storage_GetAllContentV1 ce (cs_storage cs)))"

definition GetAllContentV2 :: "content_env \<Rightarrow> content_state \<Rightarrow> RuleContentV2 list res" where
  "GetAllContentV2 ce cs = when_ready cs (Inr (storage_GetAllContentV2 ce (cs_storage cs)))"

subsection \<open>Parsing\<close>

definition calculateTotalRisk :: "int \<Rightarrow> int \<Rightarrow> int" where
  "calculateTotalRisk impact likelihood = trunc_div (wrap64 (impact + likelihood)) 2"

definition commaSeparatedStrToTags :: "string \<Rightarrow> string list" where
  "commaSeparatedStrToTags str =
     (let str = TrimSpace str in if str = [] then [] else Split (CHR '','') str)"

definition timeParseFormats :: "string list" where
  "timeParseFormats = [''2006-01-02 15:04:05'', ''2006-01-02T15:04:05Z07:00'']"

fun time_parse_loop ::
  "content_env \<Rightarrow> string list \<Rightarrow> string \<Rightarrow> gotime \<times> gerror option \<Rightarrow> gotime \<times> gerror option" where
  "time_parse_loop ce [] value acc = acc"
| "time_parse_loop ce (datetimeLayout # rest) value acc =
     (case ce_TimeParse ce datetimeLayout value of
        Inl err \<Rightarrow> time_parse_loop ce rest value (zero_time, Some err)
      | Inr publishDate \<Rightarrow> (publishDate, None))"

definition timeParse :: "content_env \<Rightarrow> string \<Rightarrow> gotime \<times> bool \<times> gerror option" where
  "timeParse ce value =
     (if value = [] then (zero_time, True, None)
      else let (publishDate, err) = time_parse_loop ce timeParseFormats value (zero_time, None)
           in (publishDate, False,
               if err \<noteq> None then Some (ErrorString ''invalid format of publish_date'') else None))"

text \<open>The three results are \<open>active\<close>, \<open>success\<close> and \<open>missing\<close>.\<close>

definition getActiveStatus :: "string \<Rightarrow> bool \<times> bool \<times> bool" where
  "getActiveStatus status =
     (let status = ToLower (TrimSpace status) in
      if status = ''active'' then (True, True, False)
      else if status = ''inactive'' then (False, True, False)
      else if status = [] then (False, True, True)
      else (False, False, False))"

definition IsRuleInternal :: "RuleID \<Rightarrow> bool" where
  "IsRuleInternal ruleID =
     (let splitRuleID = Split (CHR ''.'') ruleID in
      length splitRuleID > 1 \<and> (splitRuleID ! 1 = ''internal'' \<or> splitRuleID ! 1 = ''ocs''))"

definition mk_RuleWithContent ::
  "content_env \<Rightarrow> RuleID \<Rightarrow> RuleContent \<Rightarrow> string \<Rightarrow> RuleErrorKeyContent \<Rightarrow> RuleWithContent" where
  "mk_RuleWithContent ce ruleID rule errorKey errorProperties =
     (let md = ek_Metadata errorProperties;
          impact = md_Impact md;
          (active, success, missing) = getActiveStatus (md_Status md);
          (publishDate, missing', err) = timeParse ce (md_PublishDate md)
      in \<lparr>rwc_Module = ruleID, rwc_Name = pl_Name (rc_Plugin rule),
          rwc_Summary = ek_Summary errorProperties, rwc_Reason = ek_Reason errorProperties,
          rwc_Resolution = ek_Resolution errorProperties, rwc_MoreInfo = ek_MoreInfo errorProperties,
          rwc_ErrorKey = errorKey, rwc_Description = md_Description md,
          rwc_TotalRisk = calculateTotalRisk (im_Impact impact) (md_Likelihood md),
          rwc_ResolutionRisk = md_ResolutionRisk md, rwc_Impact = im_Impact impact,
          rwc_Likelihood = md_Likelihood md, rwc_PublishDate = publishDate, rwc_Active = active,
          rwc_Internal = IsRuleInternal ruleID, rwc_Generic = ek_Generic errorProperties,
          rwc_Tags = md_Tags md,
          rwc_OSDCustomer = ce_StringInSlice ce ''osd_customer'' (md_Tags md)\<rparr>)"

text \<open>
  One turn of the inner loop of \<open>LoadRuleContent\<close>. \<open>ErrorKeys\<close> is shared between the
  directory entry and \<open>ruleTmp\<close>, so the loop carries it next to the storage.
\<close>

definition load_error_key ::
  "content_env \<Rightarrow> RuleContent \<Rightarrow> (string \<times> RuleErrorKeyContent) list \<times> RulesWithContentStorage
    \<Rightarrow> string \<times> RuleErrorKeyContent \<Rightarrow> (string \<times> RuleErrorKeyContent) list \<times> RulesWithContentStorage" where
  "load_error_key ce rule acc entry =
     (let (errorKeys, s) = acc;
          (errorKey, errorProperties) = entry;
          ruleID = pl_PythonModule (rc_Plugin rule);
          md = ek_Metadata errorProperties;
          (active, success, missing) = getActiveStatus (md_Status md)
      in if \<not> success then (errorKeys, s)
         else let (publishDate, missing', err) = timeParse ce (md_PublishDate md)
              in if err \<noteq> None then (errorKeys, s)
                 else let totalRisk = calculateTotalRisk (im_Impact (md_Impact md)) (md_Likelihood md);
                          errorKeys' = (case map_of errorKeys errorKey of
                             Some ruleTmpErrorKey \<Rightarrow>
                               AList.update errorKey (ruleTmpErrorKey\<lparr>ek_TotalRisk := totalRisk\<rparr>) errorKeys
                           | None \<Rightarrow> errorKeys);
                          s1 = SetRule ruleID (rule\<lparr>rc_ErrorKeys := errorKeys'\<rparr>) s
                      in (errorKeys', SetRuleWithContent ce ruleID errorKey
                            (mk_RuleWithContent ce ruleID rule errorKey errorProperties) s1))"

definition load_rule ::
  "content_env \<Rightarrow> RuleContentDirectory \<times> RulesWithContentStorage \<Rightarrow> string \<times> RuleContent
    \<Rightarrow> RuleContentDirectory \<times> RulesWithContentStorage" where
  "load_rule ce acc entry =
     (let (dir, s) = acc;
          (i, rule) = entry;
          (errorKeys, s') = foldl (load_error_key ce rule) (rc_ErrorKeys rule, s) (rc_ErrorKeys rule)
      in (dir @ [(i, rule\<lparr>rc_ErrorKeys := errorKeys\<rparr>)], s'))"

text \<open>
  The new storage, and the directory with the \<open>TotalRisk\<close> fields the loop filled in.
\<close>

definition LoadRuleContent ::
  "content_env \<Rightarrow> RuleContentDirectory \<Rightarrow> RuleContentDirectory \<times> RulesWithContentStorage" where
  "LoadRuleContent ce contentDir =
     foldl (load_rule ce) ([], getEmptyRulesWithContentMap) contentDir"

definition UpdateContent ::
  "content_env \<Rightarrow> content_state \<Rightarrow> RuleContentDirectory res \<Rightarrow> content_state" where
  "UpdateContent ce cs fetched =
     (case fetched of
        Inl err \<Rightarrow> cs
      | Inr contentServiceDirectory \<Rightarrow>
          (let cs1 = SetRuleContentDirectory (Some contentServiceDirectory) cs
           in case WaitForContentDirectoryToBeReady cs1 of
                Some err \<Rightarrow> cs1
              | None \<Rightarrow> let (dir, s) = LoadRuleContent ce contentServiceDirectory
                        in cs1\<lparr>cs_ruleContentDirectory := Some dir, cs_storage := s\<rparr>))"

text \<open>The update loop, over the answers of the content service until it is stopped.\<close>

definition RunUpdateContentLoop ::
  "content_env \<Rightarrow> content_state \<Rightarrow> RuleContentDirectory res list \<Rightarrow> content_state" where
  "RunUpdateContentLoop ce cs fetches = foldl (UpdateContent ce) cs fetches"

definition FetchRuleContent ::
  "content_env \<Rightarrow> content_state \<Rightarrow> RuleOnReport \<Rightarrow> bool
    \<Rightarrow> RuleWithContentResponse option \<times> bool \<times> gerror option" where
  "FetchRuleContent ce cs rule OSDEligible =
     (let ruleID = ror_Module rule; errorKey = ror_ErrorKey rule in
      case GetRuleWithErrorKeyContent cs ruleID errorKey of
        Inl err \<Rightarrow> (None, False, Some err)
      | Inr ruleWithContent \<Rightarrow>
          if OSDEligible \<and> \<not> rwc_OSDCustomer ruleWithContent then (None, True, None)
          else (Some \<lparr>rwr_RuleID = ruleID, rwr_ErrorKey = errorKey,
                  rwr_CreatedAt = ce_FormatRFC3339 ce (UTC (rwc_PublishDate ruleWithContent)),
                  rwr_Description = rwc_Description ruleWithContent,
                  rwr_Generic = rwc_Generic ruleWithContent, rwr_Reason = rwc_Reason ruleWithContent,
                  rwr_Resolution = rwc_Resolution ruleWithContent,
                  rwr_MoreInfo = rwc_MoreInfo ruleWithContent,
                  rwr_TotalRisk = rwc_TotalRisk ruleWithContent,
                  rwr_Disabled = ror_Disabled rule, rwr_DisableFeedback = ror_DisableFeedback rule,
                  rwr_DisabledAt = ror_DisabledAt rule, rwr_Internal = rwc_Internal ruleWithContent,
                  rwr_UserVote = ror_UserVote rule, rwr_TemplateData = ror_TemplateData rule,
                  rwr_Tags = rwc_Tags ruleWithContent, rwr_Impacted = ''''\<rparr>, False, None))"

end
