(* ===== verification/Content_Props.thy ===== *)
theory Content_Props
  imports Content
begin

text \<open>
  Correctness of the package \<open>content\<close>: the storage as a keyed store, the loader
  against a list of the valid entries of the directory, the lookups after an update, the
  totality of the severity tables, the risk formula and the internal-rule test.
\<close>

subsection \<open>The keyed tables\<close>

text \<open>
  The contract of a table that is filled by insertions and read by key: an insertion
  changes the entry of its key and no other.
\<close>

locale keyed_store =
  fixes upd :: "'k \<Rightarrow> 'v \<Rightarrow> 's \<Rightarrow> 's" and look :: "'s \<Rightarrow> 'k \<Rightarrow> 'v option"
  assumes look_upd: "look (upd k v s) k' = (if k' = k then Some v else look s k')"
begin

lemma look_fold:
  "look (fold (\<lambda>(k, v). upd k v) kvs s) k' =
     (case map_of (rev kvs) k' of None \<Rightarrow> look s k' | Some v \<Rightarrow> Some v)"
proof (induction kvs arbitrary: s)
  case (Cons kv kvs)
  obtain k v where "kv = (k, v)" by (cases kv)
  with Cons show ?case
    by (auto simp: look_upd map_add_def split: option.splits)
qed simp

lemma look_fold_None:
  "look (fold (\<lambda>(k, v). upd k v) kvs s) k' = None \<longleftrightarrow> look s k' = None \<and> k' \<notin> fst ` set kvs"
proof -
  have "map_of (rev kvs) k' = None \<longleftrightarrow> k' \<notin> fst ` set kvs"
    by (simp add: map_of_eq_None_iff)
  then show ?thesis by (cases "map_of (rev kvs) k'") (simp_all add: look_fold)
qed

end

interpretation rwc: keyed_store "\<lambda>(r, k). SetRuleWithContent ce r k" st_rulesWithContent for ce
  by unfold_locales (auto simp: SetRuleWithContent_def Let_def split: prod.splits)

interpretation rules: keyed_store SetRule storage_getRuleContent
  by unfold_locales (simp add: SetRule_def storage_getRuleContent_def update_conv')

interpretation infos: keyed_store "\<lambda>k v m. m(k \<mapsto> v)" "\<lambda>m k. m k"
  by unfold_locales simp

subsection \<open>The loader against the list of valid entries\<close>

text \<open>
  An entry of the directory is loaded when its status is known or missing and its publish
  date parses or is missing. \<open>loaded_entries\<close> lists the content of these entries in the
  order in which the loops visit them.
\<close>

definition valid_entry :: "content_env \<Rightarrow> RuleErrorKeyContent \<Rightarrow> bool" where
  "valid_entry ce p \<longleftrightarrow>
     fst (snd (getActiveStatus (md_Status (ek_Metadata p)))) \<and>
     snd (snd (timeParse ce (md_PublishDate (ek_Metadata p)))) = None"

definition rule_entries ::
  "content_env \<Rightarrow> RuleContent \<Rightarrow> (string \<times> RuleErrorKeyContent) list
    \<Rightarrow> ((RuleID \<times> ErrorKey) \<times> RuleWithContent) list" where
  "rule_entries ce rule eks = concat (map (\<lambda>(k, p).
     if valid_entry ce p
     then [((pl_PythonModule (rc_Plugin rule), k),
            mk_RuleWithContent ce (pl_PythonModule (rc_Plugin rule)) rule k p)]
     else []) eks)"

definition loaded_entries ::
  "content_env \<Rightarrow> RuleContentDirectory \<Rightarrow> ((RuleID \<times> ErrorKey) \<times> RuleWithContent) list" where
  "loaded_entries ce dir = concat (map (\<lambda>(i, rule). rule_entries ce rule (rc_ErrorKeys rule)) dir)"

text \<open>The part of the storage that is keyed by rule and error key, and its insertion.\<close>

definition tables :: "RulesWithContentStorage \<Rightarrow>
    ((RuleID \<times> ErrorKey) \<rightharpoonup> RuleWithContent) \<times> (RuleID \<rightharpoonup> RuleWithContent) \<times> RuleID list \<times> RuleID list" where
  "tables s = (st_rulesWithContent s, st_recommendationsWithContent s,
     st_internalRuleIDs s, st_externalRuleIDs s)"

definition put_entry :: "content_env \<Rightarrow> (RuleID \<times> ErrorKey) \<times> RuleWithContent
    \<Rightarrow> RulesWithContentStorage \<Rightarrow> RulesWithContentStorage" where
  "put_entry ce e s = SetRuleWithContent ce (fst (fst e)) (snd (fst e)) (snd e) s"

lemma tables_SetRule [simp]: "tables (SetRule r c s) = tables s"
  by (simp add: tables_def SetRule_def)

lemma tables_put_cong: "tables s = tables s' \<Longrightarrow> tables (put_entry ce e s) = tables (put_entry ce e s')"
  by (auto simp: tables_def put_entry_def SetRuleWithContent_def Let_def split: prod.splits)

lemma tables_fold_cong:
  "tables s = tables s' \<Longrightarrow> tables (fold (put_entry ce) es s) = tables (fold (put_entry ce) es s')"
proof (induction es arbitrary: s s')
  case (Cons e es)
  from tables_put_cong [OF Cons.prems, of ce e] show ?case
    unfolding fold_Cons comp_apply by (rule Cons.IH)
qed simp

lemma load_error_key_valid:
  assumes "valid_entry ce p"
  shows "\<exists>eks' c. load_error_key ce rule (eks, s) (k, p) =
    (eks', put_entry ce ((pl_PythonModule (rc_Plugin rule), k),
        mk_RuleWithContent ce (pl_PythonModule (rc_Plugin rule)) rule k p)
      (SetRule (pl_PythonModule (rc_Plugin rule)) c s))"
proof -
  obtain active missing where st: "getActiveStatus (md_Status (ek_Metadata p)) = (active, True, missing)"
    using assms by (cases "getActiveStatus (md_Status (ek_Metadata p))") (auto simp: valid_entry_def)
  obtain d missing' where tp: "timeParse ce (md_PublishDate (ek_Metadata p)) = (d, missing', None)"
    using assms by (cases "timeParse ce (md_PublishDate (ek_Metadata p))") (auto simp: valid_entry_def)
  show ?thesis
    by (simp add: load_error_key_def Let_def st tp put_entry_def) blast
qed

lemma load_error_key_invalid:
  "\<not> valid_entry ce p \<Longrightarrow> load_error_key ce rule (eks, s) (k, p) = (eks, s)"
  by (cases "getActiveStatus (md_Status (ek_Metadata p))";
      cases "timeParse ce (md_PublishDate (ek_Metadata p))")
     (simp add: load_error_key_def Let_def valid_entry_def)

lemma tables_load_error_key:
  "tables (snd (load_error_key ce rule acc (k, p))) =
   tables (fold (put_entry ce) (rule_entries ce rule [(k, p)]) (snd acc))"
proof (cases "valid_entry ce p")
  case True
  from load_error_key_valid [OF True, of rule "fst acc" "snd acc" k]
  show ?thesis using True
    by (auto simp: rule_entries_def intro!: tables_put_cong)
next
  case False
  then show ?thesis
    using load_error_key_invalid [OF False, of rule "fst acc" "snd acc" k]
    by (simp add: rule_entries_def)
qed

lemma rule_entries_Cons: "rule_entries ce rule (x # xs) = rule_entries ce rule [x] @ rule_entries ce rule xs"
  by (simp add: rule_entries_def)

lemma tables_load_keys:
  "tables (snd (foldl (load_error_key ce rule) acc eks)) =
   tables (fold (put_entry ce) (rule_entries ce rule eks) (snd acc))"
proof (induction eks arbitrary: acc)
  case Nil
  then show ?case by (simp add: rule_entries_def)
next
  case (Cons x eks)
  obtain k p where x: "x = (k, p)" by (cases x)
  show ?case
    by (simp only: foldl_Cons Cons.IH x rule_entries_Cons [of _ _ "(k, p)" eks] fold_append comp_apply)
       (rule tables_fold_cong, rule tables_load_error_key)
qed

lemma snd_load_rule:
  "snd (load_rule ce acc (i, rule)) =
     snd (foldl (load_error_key ce rule) (rc_ErrorKeys rule, snd acc) (rc_ErrorKeys rule))"
  by (simp add: load_rule_def split_beta Let_def)

lemma tables_load_rules:
  "tables (snd (foldl (load_rule ce) acc dir)) = tables (fold (put_entry ce) (loaded_entries ce dir) (snd acc))"
proof (induction dir arbitrary: acc)
  case Nil
  then show ?case by (simp add: loaded_entries_def)
next
  case (Cons x dir)
  obtain i rule where x: "x = (i, rule)" by (cases x)
  have "loaded_entries ce (x # dir) = rule_entries ce rule (rc_ErrorKeys rule) @ loaded_entries ce dir"
    by (simp add: loaded_entries_def x)
  moreover have "tables (snd (load_rule ce acc x)) =
    tables (fold (put_entry ce) (rule_entries ce rule (rc_ErrorKeys rule)) (snd acc))"
    by (simp add: x snd_load_rule tables_load_keys)
  ultimately show ?case
    unfolding foldl_Cons Cons.IH by (simp add: tables_fold_cong [of "snd (load_rule ce acc x)"])
qed

lemma tables_LoadRuleContent:
  "tables (snd (LoadRuleContent ce dir)) =
   tables (fold (put_entry ce) (loaded_entries ce dir) getEmptyRulesWithContentMap)"
  by (simp add: LoadRuleContent_def tables_load_rules)

lemma fold_put_entry:
  "fold (put_entry ce) es s = fold (\<lambda>(k, v). (case k of (r, e) \<Rightarrow> SetRuleWithContent ce r e) v) es s"
  by (rule fold_cong) (auto simp: put_entry_def split_beta)

lemma rulesWithContent_LoadRuleContent:
  "st_rulesWithContent (snd (LoadRuleContent ce dir)) = map_of (rev (loaded_entries ce dir))"
proof
  fix k
  have "st_rulesWithContent (snd (LoadRuleContent ce dir)) =
    st_rulesWithContent (fold (put_entry ce) (loaded_entries ce dir) getEmptyRulesWithContentMap)"
    using tables_LoadRuleContent [of ce dir] by (simp add: tables_def)
  then show "st_rulesWithContent (snd (LoadRuleContent ce dir)) k = map_of (rev (loaded_entries ce dir)) k"
    by (simp add: fold_put_entry rwc.look_fold getEmptyRulesWithContentMap_def split: option.splits)
qed

text \<open>
  The table by composite id gets the entries whose composite id could be generated, and the
  two id lists get the (possibly erroneous) generated value of every entry.
\<close>

definition gen_of :: "content_env \<Rightarrow> (RuleID \<times> ErrorKey) \<times> RuleWithContent \<Rightarrow> string \<times> gerror option" where
  "gen_of ce e = ce_GenerateCompositeRuleID ce (fst (fst e)) (snd (fst e))"

definition composite_entries ::
  "content_env \<Rightarrow> ((RuleID \<times> ErrorKey) \<times> RuleWithContent) list \<Rightarrow> (RuleID \<times> RuleWithContent) list" where
  "composite_entries ce es =
     map (\<lambda>e. (fst (gen_of ce e), snd e)) (filter (\<lambda>e. snd (gen_of ce e) = None) es)"

lemma recommendations_fold:
  "st_recommendationsWithContent (fold (put_entry ce) es s) =
     st_recommendationsWithContent s ++ map_of (rev (composite_entries ce es))"
proof (induction es arbitrary: s)
  case (Cons e es)
  have "st_recommendationsWithContent (put_entry ce e s) =
    (if snd (gen_of ce e) = None
     then (st_recommendationsWithContent s)(fst (gen_of ce e) \<mapsto> snd e)
     else st_recommendationsWithContent s)"
    by (auto simp: put_entry_def SetRuleWithContent_def gen_of_def Let_def split: prod.splits)
  with Cons show ?case by (simp add: composite_entries_def)
qed (simp add: composite_entries_def)

lemma external_fold:
  "st_externalRuleIDs (fold (put_entry ce) es s) =
     st_externalRuleIDs s @ map (\<lambda>e. fst (gen_of ce e)) (filter (\<lambda>e. \<not> rwc_Internal (snd e)) es)"
proof (induction es arbitrary: s)
  case (Cons e es)
  have "st_externalRuleIDs (put_entry ce e s) =
    st_externalRuleIDs s @ (if rwc_Internal (snd e) then [] else [fst (gen_of ce e)])"
    by (auto simp: put_entry_def SetRuleWithContent_def gen_of_def Let_def split: prod.splits)
  with Cons show ?case by simp
qed simp

lemma recommendations_LoadRuleContent:
  "st_recommendationsWithContent (snd (LoadRuleContent ce dir)) =
     map_of (rev (composite_entries ce (loaded_entries ce dir)))"
  using tables_LoadRuleContent [of ce dir] recommendations_fold
  by (simp add: tables_def getEmptyRulesWithContentMap_def)

lemma external_LoadRuleContent:
  "st_externalRuleIDs (snd (LoadRuleContent ce dir)) =
     map (\<lambda>e. fst (gen_of ce e)) (filter (\<lambda>e. \<not> rwc_Internal (snd e)) (loaded_entries ce dir))"
  using tables_LoadRuleContent [of ce dir] external_fold
  by (simp add: tables_def getEmptyRulesWithContentMap_def)

subsection \<open>A sample directory\<close>

text \<open>
  A generator that refuses one error key, as the generator of the operator utilities refuses
  malformed ones, and a directory with a valid key, a refused key and a key of unknown
  status, at which the properties of this theory are instantiated.
\<close>

definition sample_ce :: content_env where
  "sample_ce = \<lparr>ce_GenerateCompositeRuleID = (\<lambda>r k. if k = ''BAD'' then ([], Some (ErrorString ''refused'')) else (r @ ''|'' @ k, None)),
     ce_StringInSlice = (\<lambda>x xs. x \<in> set xs),
     ce_TimeParse = (\<lambda>layout v. Inl (ErrorString ''unparsable'')),
     ce_FormatRFC3339 = (\<lambda>t. []), ce_severity_order = (\<lambda>xs. xs), ce_rules_order = (\<lambda>xs. xs)\<rparr>"

definition sample_key :: "string \<Rightarrow> int \<Rightarrow> RuleErrorKeyContent" where
  "sample_key status impact =
     \<lparr>ek_Metadata = \<lparr>md_Description = ''d'', md_Impact = \<lparr>im_Name = ''i'', im_Impact = impact\<rparr>,
        md_Likelihood = 2, md_ResolutionRisk = 1, md_PublishDate = [], md_Status = status, md_Tags = [''osd_customer'']\<rparr>,
      ek_TotalRisk = 0, ek_Generic = ''g'', ek_Summary = [], ek_Resolution = [], ek_MoreInfo = [],
      ek_Reason = [], ek_HasReason = False\<rparr>"

definition sample_dir :: "(string \<times> int) list \<Rightarrow> RuleContentDirectory" where
  "sample_dir ks = [(''rule'',
     \<lparr>rc_Plugin = \<lparr>pl_Name = ''n'', pl_PythonModule = ''ccx.rule''\<rparr>, rc_Generic = [], rc_Summary = [],
      rc_Resolution = [], rc_MoreInfo = [], rc_Reason = [], rc_HasReason = False,
      rc_ErrorKeys = map (\<lambda>(k, i). (k, sample_key ''active'' i)) ks\<rparr>)]"

definition sample_state :: content_state where
  "sample_state = \<lparr>cs_ruleContentDirectory = None, cs_storage = getEmptyRulesWithContentMap\<rparr>"

lemma sample_valid [simp]: "valid_entry sample_ce (sample_key ''active'' i)"
  by (simp add: valid_entry_def sample_key_def getActiveStatus_def timeParse_def TrimSpace_def
      is_space_def ToLower_def lower_char_def)

lemma sample_entries [simp]:
  "loaded_entries sample_ce (sample_dir ks) =
     map (\<lambda>(k, i). ((''ccx.rule'', k), mk_RuleWithContent sample_ce ''ccx.rule''
       (snd (hd (sample_dir ks))) k (sample_key ''active'' i))) ks"
proof -
  have "rule_entries sample_ce r (map (\<lambda>(k, i). (k, sample_key ''active'' i)) ks) =
    map (\<lambda>(k, i). ((pl_PythonModule (rc_Plugin r), k), mk_RuleWithContent sample_ce (pl_PythonModule (rc_Plugin r))
      r k (sample_key ''active'' i))) ks" for r
    by (induction ks) (auto simp: rule_entries_def)
  then show ?thesis by (simp add: loaded_entries_def sample_dir_def)
qed

lemma sample_internal [simp]: "\<not> rwc_Internal (mk_RuleWithContent ce ''ccx.rule'' r k p)"
  by (simp add: mk_RuleWithContent_def Let_def split_beta IsRuleInternal_def)

lemma sample_gen [simp]:
  "ce_GenerateCompositeRuleID sample_ce r k =
     (if k = ''BAD'' then ([], Some (ErrorString ''refused'')) else (r @ ''|'' @ k, None))"
  "ce_severity_order sample_ce = (\<lambda>xs. xs)"
  by (simp_all add: sample_ce_def)

subsection \<open>Lookups after an update\<close>

lemma UpdateContent_ok:
  "UpdateContent ce cs (Inr dir) =
     cs\<lparr>cs_ruleContentDirectory := Some (fst (LoadRuleContent ce dir)),
        cs_storage := snd (LoadRuleContent ce dir)\<rparr>"
  by (simp add: UpdateContent_def SetRuleContentDirectory_def WaitForContentDirectoryToBeReady_def
      Let_def split_beta)

lemma ready_after_update [simp]:
  "WaitForContentDirectoryToBeReady (UpdateContent ce cs (Inr dir)) = None"
  "cs_storage (UpdateContent ce cs (Inr dir)) = snd (LoadRuleContent ce dir)"
  by (simp_all add: UpdateContent_ok WaitForContentDirectoryToBeReady_def)

lemma when_ready_None [simp]: "WaitForContentDirectoryToBeReady cs = None \<Longrightarrow> when_ready cs r = r"
  by (simp add: when_ready_def)

text \<open>
  Claim C6: after the content service has sent a directory, the content of a rule and an
  error key is that of the last valid directory entry for the rule (its module without
  the suffix \<open>.report\<close>) and that key, in the order of the loops; where there is none the
  lookup is an \<open>ItemNotFoundError\<close>. The storage before the update does not matter.
\<close>

theorem lookup_after_update:
  "GetRuleWithErrorKeyContent (UpdateContent ce cs (Inr dir)) r k =
     (case map_of (rev (loaded_entries ce dir)) (TrimSuffix r dotReport, k) of
        None \<Rightarrow> Inl (ItemNotFoundError (ItemStr (TrimSuffix r dotReport @ ''/'' @ k)))
      | Some c \<Rightarrow> Inr c)"
  by (simp add: GetRuleWithErrorKeyContent_def storage_GetRuleWithErrorKeyContent_def Let_def
      rulesWithContent_LoadRuleContent)

text \<open>
  The documented result of the generator of composite ids: what it returns without an
  error is the module and the error key with a bar between them.
\<close>

definition composite_format :: "content_env \<Rightarrow> bool" where
  "composite_format ce \<longleftrightarrow>
     (\<forall>r k. snd (ce_GenerateCompositeRuleID ce r k) = None \<longrightarrow>
            fst (ce_GenerateCompositeRuleID ce r k) = r @ ''|'' @ k)"

lemma bar_pair_inject:
  assumes "r @ ''|'' @ k = r' @ ''|'' @ k'" and "match_id r" and "match_id k"
  shows "r' = r \<and> k' = k"
proof -
  have "Split (CHR ''|'') (r' @ CHR ''|'' # k') = [r, k]"
    using assms by (simp add: Split_eq_two)
  then have "CHR ''|'' \<notin> set (r' @ k')"
    using length_Split [of "CHR ''|''" "r' @ CHR ''|'' # k'"]
    by (simp add: count_list_0_iff)
  then have "Split (CHR ''|'') (r' @ CHR ''|'' # k') = [r', k']"
    by (simp add: Split_append_sep Split_no_sep)
  with \<open>Split (CHR ''|'') (r' @ CHR ''|'' # k') = [r, k]\<close> show ?thesis by simp
qed

lemma composite_entries_Cons:
  "composite_entries ce (e # es) =
     (if snd (gen_of ce e) = None then [(fst (gen_of ce e), snd e)] else []) @ composite_entries ce es"
  by (simp add: composite_entries_def)

lemma composite_entries_lookup:
  assumes "composite_format ce" and "match_id r" and "match_id k"
    and "snd (ce_GenerateCompositeRuleID ce r k) = None"
  shows "map_of (composite_entries ce es) (r @ ''|'' @ k) = map_of es (r, k)"
proof (induction es)
  case (Cons e es)
  have e: "map_of (e # es) (r, k) = (if fst e = (r, k) then Some (snd e) else map_of es (r, k))"
    by (cases e) simp
  have key: "snd (gen_of ce e) = None \<and> fst (gen_of ce e) = r @ ''|'' @ k \<longleftrightarrow> fst e = (r, k)"
  proof
    assume a: "snd (gen_of ce e) = None \<and> fst (gen_of ce e) = r @ ''|'' @ k"
    then have "r @ ''|'' @ k = fst (fst e) @ ''|'' @ snd (fst e)"
      using assms(1) by (auto simp: gen_of_def composite_format_def)
    from bar_pair_inject [OF this assms(2,3)] show "fst e = (r, k)" by (simp add: prod_eq_iff)
  next
    assume "fst e = (r, k)"
    then show "snd (gen_of ce e) = None \<and> fst (gen_of ce e) = r @ ''|'' @ k"
      using assms(1,4) by (simp add: gen_of_def composite_format_def)
  qed
  show ?case
  proof (cases "fst e = (r, k)")
    case True
    with key e show ?thesis by (simp add: composite_entries_Cons)
  next
    case False
    show ?thesis
    proof (cases "snd (gen_of ce e) = None")
      case True
      with False key have "fst (gen_of ce e) \<noteq> r @ ''|'' @ k" by blast
      with True False Cons.IH e show ?thesis
        by (simp only: composite_entries_Cons) (simp add: eq_commute [of "fst (gen_of ce e)"])
    next
      case gen: False
      then have "composite_entries ce (e # es) = composite_entries ce es"
        by (simp only: composite_entries_Cons) simp
      with False Cons.IH e show ?thesis by simp
    qed
  qed
qed (simp add: composite_entries_def)

lemma composite_entries_rev: "rev (composite_entries ce es) = composite_entries ce (rev es)"
  by (simp add: composite_entries_def rev_map rev_filter)

text \<open>
  Claim C31: the table by composite id and the table by rule and error key agree: for a
  module and an error key of the accepted alphabet (the module without the suffix
  \<open>.report\<close>) whose composite id can be generated, \<open>GetContentForRecommendation\<close> on
  \<open>module|KEY\<close> finds exactly the content \<open>GetRuleWithErrorKeyContent\<close> finds.
\<close>

theorem recommendation_lookup_agrees:
  assumes "composite_format ce" and "match_id r" and "match_id k"
    and "snd (ce_GenerateCompositeRuleID ce r k) = None" and "\<not> suffix dotReport r"
  shows "GetContentForRecommendation (UpdateContent ce cs (Inr dir)) (r @ ''|'' @ k) = Inr c \<longleftrightarrow>
    GetRuleWithErrorKeyContent (UpdateContent ce cs (Inr dir)) r k = Inr c"
proof -
  have "st_recommendationsWithContent (snd (LoadRuleContent ce dir)) (r @ ''|'' @ k) =
    st_rulesWithContent (snd (LoadRuleContent ce dir)) (r, k)"
    by (simp only: recommendations_LoadRuleContent rulesWithContent_LoadRuleContent
        composite_entries_rev composite_entries_lookup [OF assms(1-4)])
  then show ?thesis
    by (simp add: GetContentForRecommendation_def storage_GetContentForRecommendation_def
        GetRuleWithErrorKeyContent_def storage_GetRuleWithErrorKeyContent_def
        TrimSuffix_id [OF assms(5)] split: option.splits)
qed

theorem recommendation_lookup_agrees_witness:
  "composite_format sample_ce \<and>
   (\<exists>c. GetContentForRecommendation (UpdateContent sample_ce sample_state
          (Inr (sample_dir [(''KEY'', 3)]))) ''ccx.rule|KEY'' = Inr c)"
proof -
  let ?dir = "sample_dir [(''KEY'', 3)]"
  have f: "composite_format sample_ce" by (simp add: composite_format_def)
  have "\<exists>c. GetRuleWithErrorKeyContent (UpdateContent sample_ce sample_state (Inr ?dir)) ''ccx.rule'' ''KEY'' = Inr c"
    by (simp add: GetRuleWithErrorKeyContent_def storage_GetRuleWithErrorKeyContent_def
        rulesWithContent_LoadRuleContent TrimSuffix_def suffix_def)
  then show ?thesis
    using f recommendation_lookup_agrees [of sample_ce "''ccx.rule''" "''KEY''" sample_state ?dir]
    by (auto simp: match_id_def is_alnum_def suffix_def)
qed

subsection \<open>The severity tables\<close>

definition risk_in :: "RulesWithContentStorage \<Rightarrow> RuleID \<Rightarrow> int" where
  "risk_in s i = rwc_TotalRisk (the (st_recommendationsWithContent s i))"

lemma severities_loop_spec:
  assumes "\<forall>i \<in> set ids. st_recommendationsWithContent s i \<noteq> None"
  shows "severities_loop s ids m u =
    Some (m ++ map_of (map (\<lambda>i. (i, risk_in s i)) ids), fold (\<lambda>i. List.insert (risk_in s i)) ids u)"
  using assms
proof (induction ids arbitrary: m u)
  case (Cons i ids)
  then obtain c where c: "st_recommendationsWithContent s i = Some c" by auto
  let ?f = "\<lambda>ids. map_of (map (\<lambda>i. (i, risk_in s i)) ids)"
  have step: "severities_loop s (i # ids) m u =
    severities_loop s ids (m(i \<mapsto> risk_in s i)) (List.insert (risk_in s i) u)"
    using c by (simp add: risk_in_def)
  have f: "?f ids j = (if j \<in> set ids then Some (risk_in s j) else None)" for ids j
    by (simp add: map_of_map_restrict restrict_map_def)
  have "m(i \<mapsto> risk_in s i) ++ ?f ids = m ++ ?f (i # ids)"
    unfolding map_add_def f by auto
  moreover have "severities_loop s ids (m(i \<mapsto> risk_in s i)) (List.insert (risk_in s i) u) =
    Some (m(i \<mapsto> risk_in s i) ++ ?f ids, fold (\<lambda>i. List.insert (risk_in s i)) (i # ids) u)"
    using Cons by simp
  ultimately show ?case by (simp only: step)
qed simp

lemma set_fold_insert: "set (fold (\<lambda>i. List.insert (f i)) ids u) = f ` set ids \<union> set u"
  by (induction ids arbitrary: u) auto

lemma distinct_fold_insert: "distinct u \<Longrightarrow> distinct (fold (\<lambda>i. List.insert (f i)) ids u)"
  by (induction ids arbitrary: u) auto

lemma severities_loop_None:
  "severities_loop s ids m u = None \<longleftrightarrow> (\<exists>i \<in> set ids. st_recommendationsWithContent s i = None)"
  by (induction ids arbitrary: m u) (auto split: option.splits)

lemma managed_loop_None:
  "managed_loop s ids m = None \<longleftrightarrow> (\<exists>i \<in> set ids. st_recommendationsWithContent s i = None)"
  by (induction ids arbitrary: m) (auto split: option.splits)

lemma managed_loop_Some:
  "managed_loop s ids m = Some m' \<Longrightarrow>
     m' i = (if i \<in> set ids then map_option rwc_OSDCustomer (st_recommendationsWithContent s i) else m i)"
proof (induction ids arbitrary: m)
  case (Cons j ids)
  then show ?case by (auto split: option.splits if_splits)
qed simp

definition iteration_order :: "('a list \<Rightarrow> 'a list) \<Rightarrow> bool" where
  "iteration_order ord \<longleftrightarrow> (\<forall>xs. mset (ord xs) = mset xs)"

lemma iteration_orderD:
  assumes "iteration_order ord"
  shows "set (ord xs) = set xs" "distinct (ord xs) = distinct xs" "length (ord xs) = length xs"
  using assms unfolding iteration_order_def
  by (metis mset_eq_setD) (metis mset_eq_imp_distinct_iff assms iteration_order_def, metis assms iteration_order_def mset_eq_length)

lemma external_in_recommendations:
  assumes "\<forall>e \<in> set (loaded_entries ce dir). snd (gen_of ce e) = None"
    and "i \<in> set (st_externalRuleIDs (snd (LoadRuleContent ce dir)))"
  shows "st_recommendationsWithContent (snd (LoadRuleContent ce dir)) i \<noteq> None"
proof -
  from assms(2) obtain e where "e \<in> set (loaded_entries ce dir)" "i = fst (gen_of ce e)"
    by (auto simp: external_LoadRuleContent)
  with assms(1) have "(i, snd e) \<in> set (composite_entries ce (loaded_entries ce dir))"
    by (auto simp: composite_entries_def)
  then have "i \<in> fst ` set (rev (composite_entries ce (loaded_entries ce dir)))" by force
  then show ?thesis
    by (simp only: recommendations_LoadRuleContent map_of_eq_None_iff) simp
qed

text \<open>
  Claim C32: when every loaded entry has a composite id, the severity table is produced
  without a panic after an update: it holds exactly the external rules, each with its
  total risk, and the list of unique severities has each of these risks once, whatever
  order the runtime iterates in.
\<close>

theorem severities_after_update:
  assumes "\<forall>e \<in> set (loaded_entries ce dir). snd (gen_of ce e) = None"
    and "iteration_order (ce_severity_order ce)"
  shows "\<exists>m u. GetExternalRuleSeverities ce (UpdateContent ce cs (Inr dir)) = Some (Inr (m, u)) \<and>
    dom m = set (st_externalRuleIDs (snd (LoadRuleContent ce dir))) \<and>
    (\<forall>i \<in> dom m. m i = map_option rwc_TotalRisk
       (st_recommendationsWithContent (snd (LoadRuleContent ce dir)) i)) \<and>
    distinct u \<and> set u = ran m"
proof -
  let ?s = "snd (LoadRuleContent ce dir)"
  let ?ids = "st_externalRuleIDs ?s"
  let ?m = "map_of (map (\<lambda>i. (i, risk_in ?s i)) ?ids)"
  let ?u = "fold (\<lambda>i. List.insert (risk_in ?s i)) ?ids []"
  note ok = external_in_recommendations [OF assms(1)]
  have loop: "severities_loop ?s ?ids Map.empty [] = Some (?m, ?u)"
    using severities_loop_spec [of ?ids ?s Map.empty "[]"] ok by simp
  have m: "?m i = (if i \<in> set ?ids then Some (risk_in ?s i) else None)" for i
    by (simp add: map_of_map_restrict restrict_map_def)
  have "dom ?m = set ?ids" by (auto simp: m split: if_splits)
  moreover have "\<forall>i \<in> dom ?m. ?m i = map_option rwc_TotalRisk (st_recommendationsWithContent ?s i)"
  proof
    fix i
    assume "i \<in> dom ?m"
    with \<open>dom ?m = set ?ids\<close> have i: "i \<in> set ?ids" by simp
    then obtain c where "st_recommendationsWithContent ?s i = Some c" using ok by blast
    with i show "?m i = map_option rwc_TotalRisk (st_recommendationsWithContent ?s i)"
      by (simp only: m) (simp add: risk_in_def)
  qed
  moreover have "set ?u = ran ?m" by (auto simp: set_fold_insert ran_def m)
  moreover have "distinct ?u" by (simp add: distinct_fold_insert)
  ultimately show ?thesis
    using loop iteration_orderD [OF assms(2)]
    by (intro exI [of _ ?m] exI [of _ "ce_severity_order ce ?u"])
       (simp add: GetExternalRuleSeverities_def storage_GetExternalRuleSeverities_def)
qed

theorem severities_after_update_witness:
  "\<exists>m u. GetExternalRuleSeverities sample_ce (UpdateContent sample_ce sample_state
     (Inr (sample_dir [(''KEY'', 3)]))) = Some (Inr (m, u)) \<and>
     dom m = {''ccx.rule|KEY''}"
proof -
  let ?ks = "[(''KEY'', 3)] :: (string \<times> int) list"
  note e = sample_entries [of ?ks]
  have "\<forall>e \<in> set (loaded_entries sample_ce (sample_dir ?ks)). snd (gen_of sample_ce e) = None"
    by (simp add: gen_of_def)
  moreover have "iteration_order (ce_severity_order sample_ce)" by (simp add: iteration_order_def)
  ultimately show ?thesis
    using severities_after_update [of sample_ce "sample_dir ?ks" sample_state]
    unfolding external_LoadRuleContent e by (auto simp: gen_of_def)
qed

text \<open>
  Claim C33: an external entry whose composite id could not be generated makes the severity
  table panic after the update, unless another entry happens to be stored under the value
  the generator returned: the loader appends that value to the list of external ids
  although it stored no content under it, and the table dereferences the missing entry.
\<close>

theorem severities_panic:
  assumes "e \<in> set (loaded_entries ce dir)" and "\<not> rwc_Internal (snd e)"
    and "\<forall>e' \<in> set (loaded_entries ce dir). snd (gen_of ce e') = None \<longrightarrow> fst (gen_of ce e') \<noteq> fst (gen_of ce e)"
  shows "GetExternalRuleSeverities ce (UpdateContent ce cs (Inr dir)) = None"
proof -
  let ?s = "snd (LoadRuleContent ce dir)"
  have "fst (gen_of ce e) \<in> set (st_externalRuleIDs ?s)"
    using assms(1,2) by (auto simp: external_LoadRuleContent)
  moreover have "st_recommendationsWithContent ?s (fst (gen_of ce e)) = None"
    using assms(3) by (auto simp: recommendations_LoadRuleContent map_of_eq_None_iff composite_entries_def)
  ultimately have "severities_loop ?s (st_externalRuleIDs ?s) Map.empty [] = None"
    by (auto simp: severities_loop_None)
  then show ?thesis
    by (simp add: GetExternalRuleSeverities_def storage_GetExternalRuleSeverities_def)
qed

theorem severities_panic_witness:
  "GetExternalRuleSeverities sample_ce (UpdateContent sample_ce sample_state
     (Inr (sample_dir [(''KEY'', 3), (''BAD'', 1)]))) = None"
proof -
  let ?ks = "[(''KEY'', 3), (''BAD'', 1)] :: (string \<times> int) list"
  let ?dir = "sample_dir ?ks"
  note e = sample_entries [of ?ks]
  let ?e = "((''ccx.rule'', ''BAD''), mk_RuleWithContent sample_ce ''ccx.rule'' (snd (hd ?dir)) ''BAD'' (sample_key ''active'' 1))"
  show ?thesis
  proof (rule severities_panic [of ?e])
    show "?e \<in> set (loaded_entries sample_ce ?dir)" unfolding e by simp
    show "\<not> rwc_Internal (snd ?e)" by simp
    show "\<forall>e' \<in> set (loaded_entries sample_ce ?dir). snd (gen_of sample_ce e') = None \<longrightarrow>
      fst (gen_of sample_ce e') \<noteq> fst (gen_of sample_ce ?e)"
      unfolding e by (simp add: gen_of_def)
  qed
qed

subsection \<open>The update loop\<close>

lemma UpdateContent_Inl [simp]: "UpdateContent ce cs (Inl err) = cs"
  by (simp add: UpdateContent_def)

lemma foldl_failures: "foldl (UpdateContent ce) cs (map Inl errs) = cs"
  by (induction errs) auto

text \<open>
  The update loop keeps the content of the last answer that could be fetched:
  whatever came before it, and however many failed fetches follow it, the storage is the
  one loaded from that answer and lookups no longer time out.
\<close>

lemma update_loop_last_success:
  "cs_storage (RunUpdateContentLoop ce cs (fetches @ [Inr dir] @ map Inl errs)) =
     snd (LoadRuleContent ce dir) \<and>
   WaitForContentDirectoryToBeReady (RunUpdateContentLoop ce cs (fetches @ [Inr dir] @ map Inl errs)) = None"
  by (simp add: RunUpdateContentLoop_def foldl_failures)

subsection \<open>Total risk\<close>

text \<open>
  For an impact and a likelihood that are not negative and below \<open>2 ^ 62\<close>, the
  total risk is the floor of their mean and lies between them.
\<close>

lemma total_risk_mean:
  assumes "0 \<le> impact" and "impact < 2 ^ 62" and "0 \<le> likelihood" and "likelihood < 2 ^ 62"
  shows "calculateTotalRisk impact likelihood = (impact + likelihood) div 2 \<and>
    min impact likelihood \<le> calculateTotalRisk impact likelihood \<and>
    calculateTotalRisk impact likelihood \<le> max impact likelihood"
proof -
  have "wrap64 (impact + likelihood) = impact + likelihood"
    using assms by (intro wrap64_id) simp_all
  then have "calculateTotalRisk impact likelihood = (impact + likelihood) div 2"
    using assms by (simp add: calculateTotalRisk_def trunc_div_nonneg)
  then show ?thesis by auto
qed

lemma total_risk_mean_instance:
  "calculateTotalRisk 3 4 = 3 \<and> min 3 4 \<le> calculateTotalRisk 3 4"
  using total_risk_mean [of 3 4] by simp

lemma total_risk_not_floor: "calculateTotalRisk (- 3) 0 = - 1 \<and> (- 3 + 0) div 2 = (- 2 :: int)"
  by (simp add: calculateTotalRisk_def wrap64_def trunc_div_def)

subsection \<open>Internal rules\<close>

lemma Split_append_no_sep:
  assumes "Split c s = p # q # ps" and "ps \<noteq> []"
  shows "\<exists>ps'. Split c (s @ t) = p # q # ps'"
  using assms
proof (induction s arbitrary: p q ps)
  case (Cons x s)
  show ?case
  proof (cases "x = c")
    case True
    with Cons.prems(1) have s: "p = []" "Split c s = q # ps" by simp_all
    have "\<exists>ps'. Split c (s @ t) = q # ps'" if "Split c s = q # ps" "ps \<noteq> []" for q ps and s
      using that
    proof (induction s arbitrary: q ps)
      case (Cons y s)
      then show ?case by (auto split: if_splits list.splits)
    qed simp
    from this [OF s(2) Cons.prems(2)] True s(1) show ?thesis by simp
  next
    case False
    with Cons.prems(1) obtain p' where "p = x # p'" "Split c s = p' # q # ps"
      by (auto split: list.splits)
    with Cons.IH [OF _ Cons.prems(2)] False show ?thesis by fastforce
  qed
qed simp

text \<open>The test on the composite id agrees with the test on a module of three or more components.\<close>

lemma internal_composite:
  assumes "2 \<le> count_list m (CHR ''.'')"
  shows "IsRuleInternal (m @ ''|'' @ k) = IsRuleInternal m"
proof -
  have "3 \<le> length (Split (CHR ''.'') m)" using assms by (simp add: length_Split)
  then obtain p q r ps where s: "Split (CHR ''.'') m = p # q # r # ps"
    by (auto simp: numeral_3_eq_3 Suc_le_length_iff)
  then obtain ps' where "Split (CHR ''.'') (m @ ''|'' @ k) = p # q # ps'"
    using Split_append_no_sep [of _ m p q "r # ps" "''|'' @ k"] by auto
  with s show ?thesis by (simp add: IsRuleInternal_def)
qed

text \<open>
  With two components the test on the composite id misses an internal rule: the second
  component then carries the error key.
\<close>

lemma internal_composite_missed:
  "IsRuleInternal ''ccx.internal'' \<and> \<not> IsRuleInternal ''ccx.internal|KEY''"
  by (simp add: IsRuleInternal_def)

end
