(* ===== verification/ContentWait.thy ===== *)
theory ContentWait
  imports Content_Props
begin

text \<open>
  The concurrent side of \<open>content/content.go\<close>: requests that wait for the content directory
  while the update loop fetches it. \<open>WaitForContentDirectoryToBeReady\<close> starts a goroutine that
  waits on a condition variable, and waits itself for that goroutine or for a timer; the
  update loop sets the directory and then swaps the storage.

  A step of \<open>content_step\<close> is one access to what is shared, or one entry of the directory that
  \<open>LoadRuleContent\<close> puts into its local storage: the loading is cut into its rounds, between
  which requests run, and the storage of the package is replaced when it is done. Callers and their goroutines are
  numbered; \<open>Wait\<close> of the condition variable puts the goroutine on the list of waiters and
  unlocks the mutex, and locks it again when it was notified (\<open>cw_notified\<close>). The lookups in
  \<open>Content\<close> treat waiting as the test of the directory; this theory shows that they may.
\<close>

datatype caller = Calling | Locking | Selecting int | Unlocking | Returned "gerror option"

datatype goroutine = NotStarted | Started | Waiting | Finished

text \<open>
  What \<open>LoadRuleContent\<close> has in hand: the rules it is done with, the rule it is at, with the
  error keys it filled in and those that are left, the rules to come, and its storage \<open>s\<close>.
\<close>

record load_progress =
  lp_done :: RuleContentDirectory
  lp_current :: "(string \<times> RuleContent \<times> (string \<times> RuleErrorKeyContent) list \<times> (string \<times> RuleErrorKeyContent) list) option"
  lp_rules :: RuleContentDirectory
  lp_storage :: RulesWithContentStorage

definition begin_loading :: "RuleContentDirectory \<Rightarrow> load_progress" where
  "begin_loading dir = \<lparr>lp_done = [], lp_current = None, lp_rules = dir, lp_storage = getEmptyRulesWithContentMap\<rparr>"

text \<open>
  \<open>cw_fetched\<close> is a history: the directories \<open>UpdateContent\<close> has set so far, the latest one last.
\<close>

record content_service =
  cw_content :: content_state
  cw_fetched :: "RuleContentDirectory list"
  cw_pending :: "load_progress option"
  cw_running :: bool
  cw_timeout :: int
  cw_now :: int
  cw_locked :: bool
  cw_notified :: "nat set"
  cw_caller :: "nat \<Rightarrow> caller"
  cw_goroutine :: "nat \<Rightarrow> goroutine"

definition SetContentDirectoryTimeout :: "int \<Rightarrow> content_service \<Rightarrow> content_service" where
  "SetContentDirectoryTimeout timeout st = st\<lparr>cw_timeout := timeout\<rparr>"

definition StopUpdateContentLoop :: "content_service \<Rightarrow> content_service" where
  "StopUpdateContentLoop st = st\<lparr>cw_running := False\<rparr>"

text \<open>The variables of the package before the update loop is started; the default timeout is 5 seconds.\<close>

definition initial_service :: content_service where
  "initial_service = \<lparr>cw_content = \<lparr>cs_ruleContentDirectory = None, cs_storage = getEmptyRulesWithContentMap\<rparr>,
     cw_fetched = [], cw_pending = None, cw_running = True, cw_timeout = 5, cw_now = 0, cw_locked = False, cw_notified = {},
     cw_caller = (\<lambda>t. Calling), cw_goroutine = (\<lambda>t. NotStarted)\<rparr>"

inductive content_step :: "content_env \<Rightarrow> content_service \<Rightarrow> content_service \<Rightarrow> bool" for ce where
  fetch_failed: "cw_running st \<Longrightarrow> cw_pending st = None \<Longrightarrow> content_step ce st st"
| set_directory: "cw_running st \<Longrightarrow> cw_pending st = None \<Longrightarrow>
    content_step ce st (st\<lparr>cw_content := SetRuleContentDirectory (Some dir) (cw_content st),
      cw_fetched := cw_fetched st @ [dir], cw_pending := Some (begin_loading dir)\<rparr>)"
| load_rule: "cw_pending st = Some p \<Longrightarrow> lp_current p = None \<Longrightarrow> lp_rules p = (i, rule) # rest \<Longrightarrow>
    content_step ce st (st\<lparr>cw_pending := Some (p\<lparr>lp_current := Some (i, rule, rc_ErrorKeys rule, rc_ErrorKeys rule), lp_rules := rest\<rparr>)\<rparr>)"
| load_entry: "cw_pending st = Some p \<Longrightarrow> lp_current p = Some (i, rule, errorKeys, e # left) \<Longrightarrow>
    load_error_key ce rule (errorKeys, lp_storage p) e = (errorKeys', s') \<Longrightarrow>
    content_step ce st (st\<lparr>cw_pending := Some (p\<lparr>lp_current := Some (i, rule, errorKeys', left), lp_storage := s'\<rparr>)\<rparr>)"
| rule_loaded: "cw_pending st = Some p \<Longrightarrow> lp_current p = Some (i, rule, errorKeys, []) \<Longrightarrow>
    content_step ce st (st\<lparr>cw_pending := Some (p\<lparr>lp_done := lp_done p @ [(i, rule\<lparr>rc_ErrorKeys := errorKeys\<rparr>)], lp_current := None\<rparr>)\<rparr>)"
| swap_storage: "cw_pending st = Some p \<Longrightarrow> lp_current p = None \<Longrightarrow> lp_rules p = [] \<Longrightarrow>
    content_step ce st (st\<lparr>cw_content := \<lparr>cs_ruleContentDirectory = Some (lp_done p), cs_storage = lp_storage p\<rparr>, cw_pending := None\<rparr>)"
| stop_loop: "cw_running st \<Longrightarrow> cw_pending st = None \<Longrightarrow> content_step ce st (StopUpdateContentLoop st)"
| set_timeout: "content_step ce st (SetContentDirectoryTimeout timeout st)"
| time_passes: "0 \<le> d \<Longrightarrow> content_step ce st (st\<lparr>cw_now := cw_now st + d\<rparr>)"
| found_ready: "cw_caller st t = Calling \<Longrightarrow> cs_ruleContentDirectory (cw_content st) \<noteq> None \<Longrightarrow>
    content_step ce st (st\<lparr>cw_caller := (cw_caller st)(t := Returned None)\<rparr>)"
| found_empty: "cw_caller st t = Calling \<Longrightarrow> cs_ruleContentDirectory (cw_content st) = None \<Longrightarrow>
    content_step ce st (st\<lparr>cw_caller := (cw_caller st)(t := Locking)\<rparr>)"
| lock: "cw_caller st t = Locking \<Longrightarrow> \<not> cw_locked st \<Longrightarrow>
    content_step ce st (st\<lparr>cw_locked := True, cw_goroutine := (cw_goroutine st)(t := Started),
      cw_caller := (cw_caller st)(t := Selecting (cw_now st + cw_timeout st))\<rparr>)"
| wait: "cw_goroutine st t = Started \<Longrightarrow>
    content_step ce st (st\<lparr>cw_locked := False, cw_goroutine := (cw_goroutine st)(t := Waiting)\<rparr>)"
| wake: "cw_goroutine st t = Waiting \<Longrightarrow> t \<in> cw_notified st \<Longrightarrow> \<not> cw_locked st \<Longrightarrow>
    content_step ce st (st\<lparr>cw_locked := True, cw_goroutine := (cw_goroutine st)(t := Finished)\<rparr>)"
| select_done: "cw_caller st t = Selecting deadline \<Longrightarrow> cw_goroutine st t = Finished \<Longrightarrow>
    content_step ce st (st\<lparr>cw_caller := (cw_caller st)(t := Unlocking)\<rparr>)"
| select_timeout: "cw_caller st t = Selecting deadline \<Longrightarrow> deadline \<le> cw_now st \<Longrightarrow>
    content_step ce st (st\<lparr>cw_caller := (cw_caller st)(t := Returned (Some RuleContentDirectoryTimeoutError))\<rparr>)"
| unlock: "cw_caller st t = Unlocking \<Longrightarrow>
    content_step ce st (st\<lparr>cw_locked := False, cw_caller := (cw_caller st)(t := Returned None)\<rparr>)"

inductive_cases content_stepE: "content_step ce st st'"

definition reachable_service :: "content_env \<Rightarrow> content_service \<Rightarrow> bool" where
  "reachable_service ce st \<longleftrightarrow> (content_step ce)\<^sup>*\<^sup>* initial_service st"

lemma reachable_initial [simp]: "reachable_service ce initial_service"
  by (simp add: reachable_service_def)

lemma reachable_step: "reachable_service ce st \<Longrightarrow> content_step ce st st' \<Longrightarrow> reachable_service ce st'"
  by (simp add: reachable_service_def)

lemma reachable_induct [consumes 1, case_names initial step]:
  assumes "reachable_service ce st" and "P initial_service"
    and "\<And>st st'. reachable_service ce st \<Longrightarrow> P st \<Longrightarrow> content_step ce st st' \<Longrightarrow> P st'"
  shows "P st"
proof -
  from assms(1) have "(content_step ce)\<^sup>*\<^sup>* initial_service st" by (simp add: reachable_service_def)
  then show ?thesis
    by induction (use assms(2,3) in \<open>auto simp: reachable_service_def\<close>)
qed

subsection \<open>The mutex and the condition variable\<close>

text \<open>
  Nothing signals the condition variable, so no goroutine ever finishes; the mutex is held
  exactly between the \<open>Lock\<close> of a caller and the \<open>Wait\<close> of its goroutine, by one of them.
\<close>

definition wait_invariant :: "content_service \<Rightarrow> bool" where
  "wait_invariant st \<longleftrightarrow> cw_notified st = {} \<and>
     (\<forall>t. cw_goroutine st t \<noteq> Finished \<and> cw_caller st t \<noteq> Unlocking \<and>
       (cw_caller st t \<in> {Calling, Locking} \<longrightarrow> cw_goroutine st t = NotStarted)) \<and>
     (cw_locked st \<longleftrightarrow> (\<exists>t. cw_goroutine st t = Started)) \<and>
     (\<forall>t u. cw_goroutine st t = Started \<longrightarrow> cw_goroutine st u = Started \<longrightarrow> t = u)"

lemma wait_invariant_reachable: "reachable_service ce st \<Longrightarrow> wait_invariant st"
proof (induction rule: reachable_induct)
  case initial
  show ?case by (simp add: wait_invariant_def initial_service_def)
next
  case (step st st')
  from step.hyps(2) step.IH show ?case
    by cases (auto simp: wait_invariant_def SetContentDirectoryTimeout_def StopUpdateContentLoop_def)
qed

text \<open>
  Claim C25: waiting for the content. A caller returns without an error exactly by finding
  the directory set when it is called, which is the test that the lookups of the package
  use; a caller that finds no directory returns with the timeout error, never before its
  timer, and never because the directory was set in the meantime.
\<close>

theorem wait_answers:
  assumes "reachable_service ce st" and "content_step ce st st'"
    and "cw_caller st' t = Returned r" and "cw_caller st t \<noteq> Returned r"
  shows "r = WaitForContentDirectoryToBeReady (cw_content st) \<and> r = None \<and> cw_caller st t = Calling \<or>
    r = Some RuleContentDirectoryTimeoutError \<and> (\<exists>deadline. cw_caller st t = Selecting deadline \<and> deadline \<le> cw_now st)"
  using assms(2-) wait_invariant_reachable [OF assms(1)]
  by cases (auto simp: wait_invariant_def WaitForContentDirectoryToBeReady_def SetContentDirectoryTimeout_def
      StopUpdateContentLoop_def split: if_splits)

lemma waiting_reachable:
  "reachable_service ce (initial_service\<lparr>cw_caller := (\<lambda>t. Calling)(0 := Locking)\<rparr>)"
  using reachable_step [OF reachable_initial found_empty [of initial_service 0 ce]] by (simp add: initial_service_def)

definition selecting_service :: content_service where
  "selecting_service = initial_service\<lparr>cw_locked := True, cw_goroutine := (\<lambda>t. NotStarted)(0 := Started),
     cw_caller := (\<lambda>t. Calling)(0 := Selecting 5), cw_now := 7\<rparr>"

lemma selecting_reachable: "reachable_service ce selecting_service"
proof -
  let ?st = "initial_service\<lparr>cw_caller := (\<lambda>t. Calling)(0 := Locking)\<rparr>"
  have "reachable_service ce (?st\<lparr>cw_locked := True, cw_goroutine := (cw_goroutine ?st)(0 := Started),
      cw_caller := (cw_caller ?st)(0 := Selecting (cw_now ?st + cw_timeout ?st))\<rparr>)" (is "reachable_service ce ?st1")
    by (rule reachable_step [OF waiting_reachable lock]) (simp_all add: initial_service_def)
  from reachable_step [OF this time_passes [of 7]] show ?thesis
    by (simp add: selecting_service_def initial_service_def)
qed

theorem wait_answers_witness:
  "\<exists>st'. content_step sample_ce selecting_service st' \<and> cw_caller st' 0 = Returned (Some RuleContentDirectoryTimeoutError) \<and>
     (\<exists>deadline. cw_caller selecting_service 0 = Selecting deadline \<and> deadline \<le> cw_now selecting_service)"
proof -
  let ?st' = "selecting_service\<lparr>cw_caller := (cw_caller selecting_service)(0 := Returned (Some RuleContentDirectoryTimeoutError))\<rparr>"
  have step: "content_step sample_ce selecting_service ?st'"
    by (rule select_timeout [of _ _ 5]) (simp_all add: selecting_service_def)
  have "\<exists>deadline. cw_caller selecting_service 0 = Selecting deadline \<and> deadline \<le> cw_now selecting_service"
    using wait_answers [OF selecting_reachable step, of 0 "Some RuleContentDirectoryTimeoutError"]
    by (simp add: selecting_service_def)
  with step show ?thesis by (intro exI [of _ ?st']) simp
qed

lemma can_unlock:
  assumes "wait_invariant st"
  obtains st' where "(content_step ce)\<^sup>*\<^sup>* st st'" "\<not> cw_locked st'" "cw_caller st' = cw_caller st"
proof (cases "cw_locked st")
  case True
  with assms obtain t where "cw_goroutine st t = Started" by (auto simp: wait_invariant_def)
  then have "content_step ce st (st\<lparr>cw_locked := False, cw_goroutine := (cw_goroutine st)(t := Waiting)\<rparr>)"
    by (rule content_step.wait)
  with that [OF r_into_rtranclp [of "content_step ce"]] show ?thesis by simp
qed (use that in blast)

lemma selecting_returns:
  assumes "cw_caller st t = Selecting deadline"
  shows "\<exists>st'. (content_step ce)\<^sup>*\<^sup>* st st' \<and> cw_caller st' t = Returned (Some RuleContentDirectoryTimeoutError)"
proof -
  let ?st = "st\<lparr>cw_now := cw_now st + max 0 (deadline - cw_now st)\<rparr>"
  have "content_step ce st ?st" by (rule time_passes) simp
  moreover have "content_step ce ?st (?st\<lparr>cw_caller := (cw_caller ?st)(t := Returned (Some RuleContentDirectoryTimeoutError))\<rparr>)"
    by (rule select_timeout [of _ _ deadline]) (simp_all add: assms)
  ultimately show ?thesis
    by (intro exI [of _ "?st\<lparr>cw_caller := (cw_caller ?st)(t := Returned (Some RuleContentDirectoryTimeoutError))\<rparr>"] conjI)
       (rule converse_rtranclp_into_rtranclp, assumption, rule r_into_rtranclp, assumption, simp)
qed

lemma locking_returns:
  assumes "wait_invariant st" and "cw_caller st t = Locking"
  shows "\<exists>st' r. (content_step ce)\<^sup>*\<^sup>* st st' \<and> cw_caller st' t = Returned r"
proof -
  obtain st1 where st1: "(content_step ce)\<^sup>*\<^sup>* st st1" "\<not> cw_locked st1" "cw_caller st1 = cw_caller st"
    using can_unlock [OF assms(1)] .
  let ?st2 = "st1\<lparr>cw_locked := True, cw_goroutine := (cw_goroutine st1)(t := Started),
      cw_caller := (cw_caller st1)(t := Selecting (cw_now st1 + cw_timeout st1))\<rparr>"
  have "content_step ce st1 ?st2" by (rule lock) (simp_all add: st1 assms)
  moreover obtain st3 where "(content_step ce)\<^sup>*\<^sup>* ?st2 st3" "cw_caller st3 t = Returned (Some RuleContentDirectoryTimeoutError)"
    using selecting_returns [of ?st2 t "cw_now st1 + cw_timeout st1" ce] by auto
  ultimately show ?thesis using st1(1) by (meson converse_rtranclp_into_rtranclp rtranclp_trans)
qed

text \<open>
  Claim C24: no caller is stuck. From every reachable state, whatever the other callers, their
  goroutines and the update loop have done, every caller can return: the mutex is never
  left locked, although the timeout branch does not unlock it.
\<close>

theorem wait_returns:
  assumes "reachable_service ce st"
  shows "\<exists>st' r. (content_step ce)\<^sup>*\<^sup>* st st' \<and> cw_caller st' t = Returned r"
proof (cases "cw_caller st t")
  case Calling
  show ?thesis
  proof (cases "cs_ruleContentDirectory (cw_content st) = None")
    case True
    let ?st = "st\<lparr>cw_caller := (cw_caller st)(t := Locking)\<rparr>"
    have "content_step ce st ?st" using Calling True by (rule found_empty)
    then show ?thesis
      using locking_returns [of ?st t ce] wait_invariant_reachable [OF reachable_step [OF assms]]
      by (auto intro: converse_rtranclp_into_rtranclp)
  next
    case False
    with Calling show ?thesis using found_ready [of st t ce] by (intro exI conjI) (rule r_into_rtranclp, auto)
  qed
next
  case Locking
  then show ?thesis using locking_returns wait_invariant_reachable [OF assms] by blast
next
  case (Selecting deadline)
  then show ?thesis using selecting_returns by blast
next
  case Unlocking
  with wait_invariant_reachable [OF assms] show ?thesis by (auto simp: wait_invariant_def)
qed blast

theorem wait_returns_witness:
  "\<exists>st' r. (content_step sample_ce)\<^sup>*\<^sup>* selecting_service st' \<and> cw_caller st' 1 = Returned r"
  by (rule wait_returns [OF selecting_reachable])

subsection \<open>The storage\<close>

text \<open>What becomes of a loading when it is carried on to its end.\<close>

definition finish_rule :: "content_env \<Rightarrow> load_progress \<Rightarrow> RuleContentDirectory \<times> RulesWithContentStorage" where
  "finish_rule ce p = (case lp_current p of
      None \<Rightarrow> (lp_done p, lp_storage p)
    | Some (i, rule, errorKeys, left) \<Rightarrow>
        (case foldl (load_error_key ce rule) (errorKeys, lp_storage p) left of
           (errorKeys', s') \<Rightarrow> (lp_done p @ [(i, rule\<lparr>rc_ErrorKeys := errorKeys'\<rparr>)], s')))"

definition finish_loading :: "content_env \<Rightarrow> load_progress \<Rightarrow> RuleContentDirectory \<times> RulesWithContentStorage" where
  "finish_loading ce p = foldl (Content.load_rule ce) (finish_rule ce p) (lp_rules p)"

lemma finish_begin: "finish_loading ce (begin_loading dir) = LoadRuleContent ce dir"
  by (simp add: finish_loading_def finish_rule_def begin_loading_def LoadRuleContent_def)

lemma finish_step:
  "lp_current p = None \<Longrightarrow> lp_rules p = (i, rule) # rest \<Longrightarrow>
     finish_loading ce (p\<lparr>lp_current := Some (i, rule, rc_ErrorKeys rule, rc_ErrorKeys rule), lp_rules := rest\<rparr>) = finish_loading ce p"
  "lp_current p = Some (i, rule, errorKeys, e # left) \<Longrightarrow> load_error_key ce rule (errorKeys, lp_storage p) e = (errorKeys', s') \<Longrightarrow>
     finish_loading ce (p\<lparr>lp_current := Some (i, rule, errorKeys', left), lp_storage := s'\<rparr>) = finish_loading ce p"
  "lp_current p = Some (i, rule, errorKeys, []) \<Longrightarrow>
     finish_loading ce (p\<lparr>lp_done := lp_done p @ [(i, rule\<lparr>rc_ErrorKeys := errorKeys\<rparr>)], lp_current := None\<rparr>) = finish_loading ce p"
  "lp_current p = None \<Longrightarrow> lp_rules p = [] \<Longrightarrow> finish_loading ce p = (lp_done p, lp_storage p)"
  by (simp_all add: finish_loading_def finish_rule_def Content.load_rule_def)

text \<open>The storage that was loaded from the last of some directories.\<close>

definition storage_of :: "content_env \<Rightarrow> RuleContentDirectory list \<Rightarrow> RulesWithContentStorage" where
  "storage_of ce ds = (if ds = [] then getEmptyRulesWithContentMap else snd (LoadRuleContent ce (last ds)))"

definition storage_invariant :: "content_env \<Rightarrow> content_service \<Rightarrow> bool" where
  "storage_invariant ce st \<longleftrightarrow> (case cw_pending st of
      None \<Rightarrow> cs_storage (cw_content st) = storage_of ce (cw_fetched st) \<and>
        (cs_ruleContentDirectory (cw_content st) = None \<longleftrightarrow> cw_fetched st = [])
    | Some p \<Rightarrow> cs_storage (cw_content st) = storage_of ce (butlast (cw_fetched st)) \<and> cw_fetched st \<noteq> [] \<and>
        cs_ruleContentDirectory (cw_content st) \<noteq> None \<and> finish_loading ce p = LoadRuleContent ce (last (cw_fetched st)))"

lemma storage_invariant_reachable: "reachable_service ce st \<Longrightarrow> storage_invariant ce st"
proof (induction rule: reachable_induct)
  case initial
  show ?case by (simp add: storage_invariant_def initial_service_def storage_of_def)
next
  case (step st st')
  from step.hyps(2) step.IH show ?case
  proof cases
    case (swap_storage p)
    with step.IH have "LoadRuleContent ce (last (cw_fetched st)) = (lp_done p, lp_storage p)" "cw_fetched st \<noteq> []"
      using finish_step(4) [of p ce] by (auto simp: storage_invariant_def)
    then show ?thesis unfolding swap_storage(1) by (simp add: storage_invariant_def storage_of_def)
  qed (auto simp: storage_invariant_def finish_begin finish_step SetContentDirectoryTimeout_def StopUpdateContentLoop_def SetRuleContentDirectory_def
      split: option.splits)
qed

text \<open>
  Claim C26: a request never sees a storage that is half loaded. However requests and the
  rounds of the loading interleave, the storage of the package is the empty one of the
  start until the first directory is loaded, and then everything that \<open>LoadRuleContent\<close> makes
  of one fetched directory: of the latest one, or, while that is being loaded, of the one
  before it. The directory is there from the moment the first one is fetched.
\<close>

theorem storage_is_complete:
  assumes "reachable_service ce st"
  shows "cs_storage (cw_content st) =
      (let loaded = (if cw_pending st = None then cw_fetched st else butlast (cw_fetched st))
       in if loaded = [] then getEmptyRulesWithContentMap else snd (LoadRuleContent ce (last loaded))) \<and>
    (WaitForContentDirectoryToBeReady (cw_content st) = None \<longleftrightarrow> cw_fetched st \<noteq> [])"
  using storage_invariant_reachable [OF assms]
  by (auto simp: storage_invariant_def storage_of_def WaitForContentDirectoryToBeReady_def Let_def split: option.splits)

text \<open>A directory with a rule is being loaded: its storage is not visible before the swap.\<close>

definition loading_service :: content_service where
  "loading_service = initial_service\<lparr>
     cw_content := SetRuleContentDirectory (Some (sample_dir [(''K'', 3)])) (cw_content initial_service),
     cw_fetched := [sample_dir [(''K'', 3)]],
     cw_pending := Some (begin_loading (sample_dir [(''K'', 3)]))\<rparr>"

lemma loading_reachable: "reachable_service sample_ce loading_service"
proof -
  have "content_step sample_ce initial_service (initial_service\<lparr>
     cw_content := SetRuleContentDirectory (Some (sample_dir [(''K'', 3)])) (cw_content initial_service),
     cw_fetched := cw_fetched initial_service @ [sample_dir [(''K'', 3)]],
     cw_pending := Some (begin_loading (sample_dir [(''K'', 3)]))\<rparr>)"
    by (rule set_directory) (simp_all add: initial_service_def)
  from reachable_step [OF reachable_initial this] show ?thesis by (simp add: loading_service_def initial_service_def)
qed

text \<open>The loading of a directory on its own ends with the swap.\<close>

lemma loading_entries:
  assumes "cw_pending st = Some p" and "lp_current p = Some (i, rule, errorKeys, left)"
  shows "(content_step ce)\<^sup>*\<^sup>* st (st\<lparr>cw_pending := Some (p\<lparr>lp_done := fst (finish_rule ce p), lp_current := None,
    lp_storage := snd (finish_rule ce p)\<rparr>)\<rparr>)"
  using assms
proof (induction left arbitrary: st p errorKeys)
  case Nil
  then have "content_step ce st (st\<lparr>cw_pending := Some (p\<lparr>lp_done := lp_done p @ [(i, rule\<lparr>rc_ErrorKeys := errorKeys\<rparr>)], lp_current := None\<rparr>)\<rparr>)"
    by (rule rule_loaded)
  with Nil.prems show ?case by (simp add: finish_rule_def)
next
  case (Cons e left)
  obtain errorKeys' s' where e: "load_error_key ce rule (errorKeys, lp_storage p) e = (errorKeys', s')" by (meson surj_pair)
  let ?p = "p\<lparr>lp_current := Some (i, rule, errorKeys', left), lp_storage := s'\<rparr>" and ?st = "\<lambda>p. st\<lparr>cw_pending := Some p\<rparr>"
  have "content_step ce st (?st ?p)" by (rule load_entry [OF Cons.prems e])
  moreover have "(content_step ce)\<^sup>*\<^sup>* (?st ?p) (?st ?p\<lparr>cw_pending := Some (?p\<lparr>lp_done := fst (finish_rule ce ?p), lp_current := None,
      lp_storage := snd (finish_rule ce ?p)\<rparr>)\<rparr>)"
    by (rule Cons.IH) simp_all
  moreover have "finish_rule ce ?p = finish_rule ce p" using Cons.prems(2) e by (simp add: finish_rule_def)
  ultimately show ?case by (simp add: converse_rtranclp_into_rtranclp)
qed

lemma loading_rules:
  assumes "cw_pending st = Some p" and "lp_current p = None"
  shows "(content_step ce)\<^sup>*\<^sup>* st (st\<lparr>cw_content := \<lparr>cs_ruleContentDirectory = Some (fst (finish_loading ce p)),
    cs_storage = snd (finish_loading ce p)\<rparr>, cw_pending := None\<rparr>)"
  using assms
proof (induction "lp_rules p" arbitrary: st p)
  case Nil
  then have "content_step ce st (st\<lparr>cw_content := \<lparr>cs_ruleContentDirectory = Some (lp_done p), cs_storage = lp_storage p\<rparr>, cw_pending := None\<rparr>)"
    by (intro swap_storage) simp_all
  with Nil show ?case by (simp add: finish_step(4) r_into_rtranclp)
next
  case (Cons r rest)
  obtain i rule where r: "lp_rules p = (i, rule) # rest" using Cons.hyps(2) by (metis surj_pair)
  let ?p = "p\<lparr>lp_current := Some (i, rule, rc_ErrorKeys rule, rc_ErrorKeys rule), lp_rules := rest\<rparr>"
  let ?q = "?p\<lparr>lp_done := fst (finish_rule ce ?p), lp_current := None, lp_storage := snd (finish_rule ce ?p)\<rparr>"
  have "content_step ce st (st\<lparr>cw_pending := Some ?p\<rparr>)" by (rule content_step.load_rule [OF Cons.prems r])
  moreover have "(content_step ce)\<^sup>*\<^sup>* (st\<lparr>cw_pending := Some ?p\<rparr>) (st\<lparr>cw_pending := Some ?p\<rparr>\<lparr>cw_pending := Some ?q\<rparr>)"
    by (rule loading_entries) simp_all
  moreover have "(content_step ce)\<^sup>*\<^sup>* (st\<lparr>cw_pending := Some ?q\<rparr>) (st\<lparr>cw_pending := Some ?q\<rparr>\<lparr>cw_content :=
      \<lparr>cs_ruleContentDirectory = Some (fst (finish_loading ce ?q)), cs_storage = snd (finish_loading ce ?q)\<rparr>, cw_pending := None\<rparr>)"
    by (rule Cons.hyps(1)) simp_all
  moreover have "finish_loading ce ?q = finish_loading ce ?p"
    by (simp add: finish_loading_def) (simp add: finish_rule_def)
  ultimately show ?case
    using finish_step(1) [OF Cons.prems(2) r, of ce] by simp
qed

theorem storage_is_complete_witness:
  "reachable_service sample_ce loading_service \<and> cw_pending loading_service \<noteq> None \<and>
   cs_storage (cw_content loading_service) = getEmptyRulesWithContentMap \<and>
   (\<exists>st. (content_step sample_ce)\<^sup>*\<^sup>* loading_service st \<and> reachable_service sample_ce st \<and>
      cs_storage (cw_content st) = snd (LoadRuleContent sample_ce (sample_dir [(''K'', 3)])))"
proof -
  let ?st = "loading_service\<lparr>cw_content := \<lparr>cs_ruleContentDirectory = Some (fst (finish_loading sample_ce (begin_loading (sample_dir [(''K'', 3)])))),
    cs_storage = snd (finish_loading sample_ce (begin_loading (sample_dir [(''K'', 3)])))\<rparr>, cw_pending := None\<rparr>"
  have steps: "(content_step sample_ce)\<^sup>*\<^sup>* loading_service ?st"
    by (rule loading_rules) (simp_all add: loading_service_def begin_loading_def)
  have st: "reachable_service sample_ce ?st"
    using loading_reachable steps by (simp add: reachable_service_def)
  have "cw_pending loading_service \<noteq> None" "cw_fetched loading_service = [sample_dir [(''K'', 3)]]"
    "cw_fetched ?st = [sample_dir [(''K'', 3)]]" "cw_pending ?st = None"
    by (simp_all add: loading_service_def)
  with storage_is_complete [OF loading_reachable] storage_is_complete [OF st] steps st loading_reachable show ?thesis
    by (intro conjI exI [of _ ?st]) simp_all
qed

text \<open>The update loop on its own is the fold over the fetched directories of \<open>RunUpdateContentLoop\<close>.\<close>

lemma update_loop_steps:
  assumes "cw_running st" and "cw_pending st = None"
  shows "(content_step ce)\<^sup>*\<^sup>* st (st\<lparr>cw_content := RunUpdateContentLoop ce (cw_content st) fetches,
    cw_fetched := cw_fetched st @ List.map_filter (case_sum (\<lambda>e. None) Some) fetches\<rparr>)"
  using assms
proof (induction fetches arbitrary: st)
  case Nil
  then show ?case by (simp add: RunUpdateContentLoop_def map_filter_simps)
next
  case (Cons fetched fetches)
  let ?st = "st\<lparr>cw_content := UpdateContent ce (cw_content st) fetched,
    cw_fetched := cw_fetched st @ (case fetched of Inl e \<Rightarrow> [] | Inr dir \<Rightarrow> [dir])\<rparr>"
  have "(content_step ce)\<^sup>*\<^sup>* st ?st"
  proof (cases fetched)
    case (Inr dir)
    let ?st1 = "st\<lparr>cw_content := SetRuleContentDirectory (Some dir) (cw_content st), cw_fetched := cw_fetched st @ [dir],
      cw_pending := Some (begin_loading dir)\<rparr>"
    let ?st2 = "?st1\<lparr>cw_content := \<lparr>cs_ruleContentDirectory = Some (fst (finish_loading ce (begin_loading dir))),
        cs_storage = snd (finish_loading ce (begin_loading dir))\<rparr>, cw_pending := None\<rparr>"
    have "content_step ce st ?st1" using Cons.prems by (rule set_directory)
    moreover have "(content_step ce)\<^sup>*\<^sup>* ?st1 ?st2"
      by (rule loading_rules) (simp_all add: begin_loading_def)
    moreover have "?st2 = ?st"
      using Cons.prems by (simp add: Inr UpdateContent_ok finish_begin)
    ultimately show ?thesis by (metis converse_rtranclp_into_rtranclp)
  qed (simp add: UpdateContent_def)
  moreover have "(content_step ce)\<^sup>*\<^sup>* ?st (?st\<lparr>cw_content := RunUpdateContentLoop ce (cw_content ?st) fetches,
      cw_fetched := cw_fetched ?st @ List.map_filter (case_sum (\<lambda>e. None) Some) fetches\<rparr>)"
    by (rule Cons.IH) (simp_all add: Cons.prems)
  ultimately show ?case by (cases fetched) (simp_all add: RunUpdateContentLoop_def map_filter_simps)
qed

text \<open>
  The directory is set before the storage is swapped: at the start of the service there is
  a moment at which a caller finds the directory ready and the storage still empty, so
  that every lookup fails as if the rule did not exist.
\<close>

lemma ready_before_loaded:
  "\<exists>st. reachable_service ce st \<and> cw_caller st t = Returned None \<and>
     GetRuleWithErrorKeyContent (cw_content st) ruleID errorKey =
       Inl (ItemNotFoundError (ItemStr (TrimSuffix ruleID dotReport @ ''/'' @ errorKey)))"
proof -
  let ?st1 = "initial_service\<lparr>cw_content := SetRuleContentDirectory (Some dir) (cw_content initial_service),
    cw_fetched := cw_fetched initial_service @ [dir], cw_pending := Some (begin_loading dir)\<rparr>"
  let ?st2 = "?st1\<lparr>cw_caller := (cw_caller ?st1)(t := Returned None)\<rparr>"
  have "content_step ce initial_service ?st1" by (rule set_directory) (simp_all add: initial_service_def)
  moreover have "content_step ce ?st1 ?st2"
    by (rule found_ready) (simp_all add: initial_service_def SetRuleContentDirectory_def)
  ultimately have "reachable_service ce ?st2" by (intro reachable_step [OF reachable_step [OF reachable_initial]])
  then show ?thesis
    by (intro exI [of _ ?st2] conjI) (simp_all add: initial_service_def SetRuleContentDirectory_def GetRuleWithErrorKeyContent_def when_ready_def
        WaitForContentDirectoryToBeReady_def storage_GetRuleWithErrorKeyContent_def getEmptyRulesWithContentMap_def Let_def)
qed

end
