(* ===== verification/World.thy ===== *)
theory World
  imports Content
begin

text \<open>
  What a handler of the package \<open>server\<close> acts on. The state of a running handler is a
  \<open>world\<close>: the HTTP calls it has made to other services, the replies it has written to its
  client and the response headers it has set, each in order. A handler is a computation
  of the state monad over \<open>world\<close>.

  \<open>env\<close> collects everything that is not code of the repository: the answers of the other
  services (a function of the calls made so far), the result of writing a reply, the
  parameter readers of \<open>insights-operator-utils\<close>, which answer the client themselves when
  they fail, the JSON and gob decoders of the messages, and times. URLs stay symbolic:
  \<open>Endpoint base name args\<close> is what \<open>MakeURLToEndpoint\<close> builds for the endpoint constant
  \<open>name\<close>. Then \<open>server/errors.go\<close>: the texts of the errors and \<open>handleServerError\<close>.
\<close>

abbreviation ret :: "'a \<Rightarrow> ('s, 'a) state" where
  "ret \<equiv> State_Monad.return"

subsection \<open>Requests, calls and replies\<close>

record Identity =
  id_AccountNumber :: string
  id_OrgID :: OrgID
  id_UserID :: UserID
  id_Type :: string
  id_ClientID :: string
  id_Other :: opaque

datatype ctx_value = NoValue | IdentityValue Identity | OtherValue

record http_request =
  rq_Method :: string
  rq_RequestURI :: string
  rq_Path :: string
  rq_Query :: "(string \<times> string) list"
  rq_Header :: "(string \<times> string list) list"
  rq_ContentLength :: int
  rq_Body :: "string res"
  rq_Vars :: "(string \<times> string) list"
  rq_User :: ctx_value

datatype url_arg = ArgOrg OrgID | ArgStr string

datatype url = Endpoint string string "url_arg list" | RawURL string

datatype call_body =
    NoBody
  | BodyBytes string
  | BodyReader "string res"
  | BodyStrings "string list"
  | BodyClusters "string list"
  | BodyJustification string

record http_call =
  ca_Method :: string
  ca_URL :: url
  ca_Header :: "(string \<times> string list) list"
  ca_Body :: call_body

record http_response =
  hr_StatusCode :: int
  hr_Header :: "(string \<times> string list) list"
  hr_Body :: "string res"

abbreviation (input) StatusOK :: int where "StatusOK \<equiv> 200"
abbreviation (input) StatusCreated :: int where "StatusCreated \<equiv> 201"
abbreviation (input) StatusNoContent :: int where "StatusNoContent \<equiv> 204"
abbreviation (input) StatusBadRequest :: int where "StatusBadRequest \<equiv> 400"
abbreviation (input) StatusNotFound :: int where "StatusNotFound \<equiv> 404"
abbreviation (input) StatusInternalServerError :: int where "StatusInternalServerError \<equiv> 500"

abbreviation JSONContentType :: string where
  "JSONContentType \<equiv> ''application/json; charset=utf-8''"

abbreviation contentTypeHeader :: string where
  "contentTypeHeader \<equiv> ''Content-Type''"

text \<open>
  The payload of a reply, one constructor per kind of data the handlers send. The groups
  of rules are values of the content service; \<open>None\<close> is a nil slice.
\<close>

datatype payload =
    POk
  | PBytes string
  | PGroups "opaque list option"
  | PContentV1 RuleContentV1
  | PContentsV1 "RuleContentV1 list"
  | PContentsV2 "RuleContentV2 list" "opaque list option"
  | PClusters "ClusterName list"
  | PRuleIDs "string list"
  | POverview OrgOverviewResponse
  | PInfo "string \<rightharpoonup> string" "string \<rightharpoonup> string" "string \<rightharpoonup> string"
  | PReportV1 SmartProxyReportV1
  | PReportV2 SmartProxyReportV2
  | PMetainfo "opaque option"
  | PClusterReports ClusterReports
  | PRule RuleWithContentResponse
  | PRecommendation RecommendationContent "opaque list option"
  | PRecommendationUserData RecommendationContentUserData "opaque list option"
  | PRecommendations "RecommendationListView list"
  | PClustersView int "ClusterListView list"
  | PClusterInfo ClusterInfo
  | PClustersDetail ClustersDetailData
  | PRequestStatus ClusterName RequestID
  | PRequests ClusterName "RequestStatus list"
  | PReportForRequest ClusterName RequestID "SimplifiedRuleHit list"
  | PWorkloads "Workload list"
  | PWorkload WorkloadsForCluster
  | PUpgrade UpgradeRecommendation UpgradeRisksMeta
  | PPredictions "UpgradeRisksPrediction list"
  | PAck Acknowledgement
  | PAckList AcknowledgementsResponse
  | PRating RuleRating

datatype reply =
    SendOK payload
  | Send int payload
  | SendBadRequest string
  | SendNotFound string
  | SendNoContent
  | SendForbidden string
  | SendServiceUnavailable string
  | SendInternalServerError string
  | WriteHeader int
  | WriteBody payload
  | HttpError string int

text \<open>The increments of the counters that the access control keeps (\<open>metrics/metrics.go\<close>).\<close>

datatype increment = RBACIdentityType string | RBACServiceAccountRejected

record world =
  w_calls :: "http_call list"
  w_replies :: "reply list"
  w_headers :: "(string \<times> string) list"
  w_counted :: "increment list"

definition empty_world :: world where
  "empty_world = \<lparr>w_calls = [], w_replies = [], w_headers = [], w_counted = []\<rparr>"

subsection \<open>The code outside the repository\<close>

record decoders =
  dc_clusters :: "string res \<Rightarrow> ClusterName list \<times> gerror option"
  dc_report :: "string \<Rightarrow> ReportResponse option res"
  dc_metainfo :: "string \<Rightarrow> opaque option res"
  dc_cluster_reports :: "string \<Rightarrow> ClusterReports res"
  dc_rule :: "string \<Rightarrow> RuleOnReport option res"
  dc_report_rules :: "string \<Rightarrow> RuleOnReport list res"
  dc_disabled_rules :: "string res \<Rightarrow> DisabledRule list res"
  dc_workloads_cluster :: "string res \<Rightarrow> WorkloadsForCluster res"
  dc_workloads_org :: "string res \<Rightarrow> WorkloadsForNamespace list res"
  dc_acked :: "string res \<Rightarrow> SystemWideRuleDisable list res"
  dc_ack :: "string res \<Rightarrow> SystemWideRuleDisable res"
  dc_justification :: "string res \<Rightarrow> string res"
  dc_selector_justification :: "string res \<Rightarrow> (string \<times> string) res"
  dc_rating_body :: "string \<Rightarrow> RuleRating res"
  dc_rating_post :: "string res \<Rightarrow> RuleRating \<times> gerror option"
  dc_rating_get :: "string \<Rightarrow> RuleRating res"
  dc_recommendations :: "string \<Rightarrow> (RuleID \<times> ClusterName list) list res"
  dc_cluster_recommendations :: "string \<Rightarrow> (ClusterName \<rightharpoonup> ClusterRecommendationList) res"
  dc_hitting :: "string res \<Rightarrow> HittingClustersData list res"
  dc_disabled_clusters :: "string res \<Rightarrow> DisabledClusterInfo list res"
  dc_request_ids :: "string res \<Rightarrow> string list res"
  dc_cluster_list :: "string res \<Rightarrow> string list res"
  dc_data_eng :: "string \<Rightarrow> DataEngResponse option res"
  dc_predictions :: "string \<Rightarrow> UpgradeRisksRecommendations option res"
  dc_info :: "string \<Rightarrow> (string \<rightharpoonup> string) option res"
  dc_token :: "string \<Rightarrow> Identity res"
  dc_rbac :: "string \<Rightarrow> RbacResponse \<times> gerror option"
  dc_groups :: "string res \<Rightarrow> opaque list option res"
  dc_content :: "string \<Rightarrow> RuleContentDirectory res"

record env =
  net :: "http_call list \<Rightarrow> http_call \<Rightarrow> http_response res"
  send_err :: "reply list \<Rightarrow> reply \<Rightarrow> gerror option"
  ev_content :: content_env
  ev_dec :: decoders
  ev_GetRouterParam :: "http_request \<Rightarrow> string \<Rightarrow> string res"
  ev_ReadClusterName :: "http_request \<Rightarrow> reply list + ClusterName"
  ev_ReadRuleID :: "http_request \<Rightarrow> reply list + RuleID"
  ev_ReadOrganizationID :: "http_request \<Rightarrow> bool \<Rightarrow> reply list + OrgID"
  ev_ReadRuleSelector :: "http_request \<Rightarrow> reply list + string"
  ev_ReadClusterListFromPath :: "http_request \<Rightarrow> reply list + string list"
  ev_ParseRuleSelector :: "string \<Rightarrow> (RuleID \<times> ErrorKey) res"
  ev_item_not_found_text :: "item_id \<Rightarrow> string"
  ev_base64 :: "string \<Rightarrow> string res"
  ev_fmt_user :: "Identity \<Rightarrow> string"
  ev_url_ok :: "url \<Rightarrow> gerror option"

subsection \<open>Effects\<close>

text \<open>\<open>client.Do\<close>, \<open>http.Get\<close> and \<open>http.Post\<close>.\<close>

definition http_do :: "env \<Rightarrow> http_call \<Rightarrow> (world, http_response res) state" where
  "http_do ev call = State (\<lambda>w. (net ev (w_calls w) call, w\<lparr>w_calls := w_calls w @ [call]\<rparr>))"

definition http_get :: "env \<Rightarrow> url \<Rightarrow> (world, http_response res) state" where
  "http_get ev url =
     http_do ev \<lparr>ca_Method = ''GET'', ca_URL = url, ca_Header = [], ca_Body = NoBody\<rparr>"

definition http_post :: "env \<Rightarrow> url \<Rightarrow> call_body \<Rightarrow> (world, http_response res) state" where
  "http_post ev url body =
     http_do ev \<lparr>ca_Method = ''POST'', ca_URL = url,
       ca_Header = [(contentTypeHeader, [JSONContentType])], ca_Body = body\<rparr>"

text \<open>A call of a function that writes to the client; the result is its error.\<close>

definition send :: "env \<Rightarrow> reply \<Rightarrow> (world, gerror option) state" where
  "send ev r = State (\<lambda>w. (send_err ev (w_replies w) r, w\<lparr>w_replies := w_replies w @ [r]\<rparr>))"

definition set_header :: "string \<Rightarrow> string \<Rightarrow> (world, unit) state" where
  "set_header k v = State (\<lambda>w. ((), w\<lparr>w_headers := w_headers w @ [(k, v)]\<rparr>))"

text \<open>A parameter reader of \<open>httputils\<close>: on failure it has written to the client.\<close>

definition ext_read :: "reply list + 'a \<Rightarrow> (world, 'a option) state" where
  "ext_read r = (case r of
      Inr v \<Rightarrow> ret (Some v)
    | Inl replies \<Rightarrow> State (\<lambda>w. (None, w\<lparr>w_replies := w_replies w @ replies\<rparr>)))"

subsection \<open>\<open>server/errors.go\<close>\<close>

definition MaxAllowedClusters :: nat where
  "MaxAllowedClusters = 100"

fun Error :: "env \<Rightarrow> gerror \<Rightarrow> string" where
  "Error ev (RouterMissingParamError p) = ''Missing required param from request: '' @ p"
| "Error ev (RouterParsingError p v e) =
     ''Error during parsing param '' @ [CHR 0x27] @ p @ [CHR 0x27] @ '' with value '' @ [CHR 0x27] @ v
       @ [CHR 0x27] @ ''. Error: '' @ [CHR 0x27] @ e @ [CHR 0x27]"
| "Error ev NoBodyError = ''client didn'' @ [CHR 0x27] @ ''t provide request body''"
| "Error ev BadBodyContent = ''client didn'' @ [CHR 0x27] @ ''t provide a valid request body''"
| "Error ev TooManyClustersError = ''the maximum amount of clusters allowed are '' @ show_nat MaxAllowedClusters"
| "Error ev ContentServiceUnavailableError = ''Content service is unreachable''"
| "Error ev AggregatorServiceUnavailableError = ''Aggregator service is unreachable''"
| "Error ev UpgradesDataEngServiceUnavailableError = ''Upgrade Failure Prediction service is unreachable''"
| "Error ev AMSAPIUnavailableError = ''AMS API is unreachable''"
| "Error ev ParamsParsingError = ''the parameters contains invalid characters and cannot be used''"
| "Error ev (AuthenticationError s) = s"
| "Error ev (AuthorizationError s) = s"
| "Error ev RuleContentDirectoryTimeoutError = ''Content directory cache has been empty for too long time; timeout triggered''"
| "Error ev (ItemNotFoundError i) = ev_item_not_found_text ev i"
| "Error ev (NoContentError s) = s"
| "Error ev (JSONSyntaxError s) = s"
| "Error ev (JSONUnmarshalTypeError s) = s"
| "Error ev (UrlError s) = s"
| "Error ev (ErrorString s) = s"
| "Error ev (OtherError s) = s"

text \<open>The call \<open>handleServerError\<close> makes on the writer; \<open>None\<close> is the nil error.\<close>

fun error_reply :: "env \<Rightarrow> gerror option \<Rightarrow> reply" where
  "error_reply ev (Some (RouterMissingParamError p)) = SendBadRequest (Error ev (RouterMissingParamError p))"
| "error_reply ev (Some (RouterParsingError p v e)) = SendBadRequest (Error ev (RouterParsingError p v e))"
| "error_reply ev (Some (JSONSyntaxError s)) = SendBadRequest (Error ev (JSONSyntaxError s))"
| "error_reply ev (Some NoBodyError) = SendBadRequest (Error ev NoBodyError)"
| "error_reply ev (Some ParamsParsingError) = SendBadRequest (Error ev ParamsParsingError)"
| "error_reply ev (Some BadBodyContent) = SendBadRequest (Error ev BadBodyContent)"
| "error_reply ev (Some TooManyClustersError) = SendBadRequest (Error ev TooManyClustersError)"
| "error_reply ev (Some (JSONUnmarshalTypeError s)) = SendBadRequest ''bad type in json data''"
| "error_reply ev (Some (ItemNotFoundError i)) = SendNotFound (Error ev (ItemNotFoundError i))"
| "error_reply ev (Some (NoContentError s)) = SendNoContent"
| "error_reply ev (Some (AuthenticationError s)) = SendForbidden (Error ev (AuthenticationError s))"
| "error_reply ev (Some (AuthorizationError s)) = SendForbidden (Error ev (AuthorizationError s))"
| "error_reply ev (Some ContentServiceUnavailableError) =
     SendServiceUnavailable (Error ev ContentServiceUnavailableError)"
| "error_reply ev (Some AggregatorServiceUnavailableError) =
     SendServiceUnavailable (Error ev AggregatorServiceUnavailableError)"
| "error_reply ev (Some AMSAPIUnavailableError) = SendServiceUnavailable (Error ev AMSAPIUnavailableError)"
| "error_reply ev (Some RuleContentDirectoryTimeoutError) =
     SendServiceUnavailable (Error ev RuleContentDirectoryTimeoutError)"
| "error_reply ev (Some UpgradesDataEngServiceUnavailableError) =
     SendServiceUnavailable (Error ev UpgradesDataEngServiceUnavailableError)"
| "error_reply ev _ = SendInternalServerError ''Internal Server Error''"

definition handleServerError :: "env \<Rightarrow> gerror option \<Rightarrow> (world, unit) state" where
  "handleServerError ev err = do {
     respErr \<leftarrow> send ev (error_reply ev err);
     ret ()
   }"

text \<open>A reply whose error is only logged, and one whose error is handled.\<close>

definition send_log :: "env \<Rightarrow> reply \<Rightarrow> (world, unit) state" where
  "send_log ev r = do { err \<leftarrow> send ev r; ret () }"

definition send_handle :: "env \<Rightarrow> reply \<Rightarrow> (world, unit) state" where
  "send_handle ev r = do {
     err \<leftarrow> send ev r;
     (case err of None \<Rightarrow> ret () | Some e \<Rightarrow> handleServerError ev (Some e))
   }"

subsection \<open>What the effects do\<close>

definition sends_ok :: "env \<Rightarrow> bool" where
  "sends_ok ev \<longleftrightarrow> (\<forall>rs r. send_err ev rs r = None)"

definition add_reply :: "reply \<Rightarrow> world \<Rightarrow> world" where
  "add_reply r w = w\<lparr>w_replies := w_replies w @ [r]\<rparr>"

definition add_call :: "http_call \<Rightarrow> world \<Rightarrow> world" where
  "add_call c w = w\<lparr>w_calls := w_calls w @ [c]\<rparr>"

definition Inc :: "increment \<Rightarrow> world \<Rightarrow> world" where
  "Inc c w = w\<lparr>w_counted := w_counted w @ [c]\<rparr>"

lemma add_simps [simp]:
  "w_replies (add_reply r w) = w_replies w @ [r]" "w_calls (add_reply r w) = w_calls w"
  "w_calls (add_call c w) = w_calls w @ [c]" "w_replies (add_call c w) = w_replies w"
  "w_headers (add_reply r w) = w_headers w" "w_headers (add_call c w) = w_headers w"
  "w_counted (add_reply r w) = w_counted w" "w_counted (add_call c w) = w_counted w"
  by (simp_all add: add_reply_def add_call_def)

lemma Inc_simps [simp]:
  "w_calls (Inc i w) = w_calls w" "w_replies (Inc i w) = w_replies w" "w_headers (Inc i w) = w_headers w"
  "w_counted (Inc i w) = w_counted w @ [i]"
  by (simp_all add: Inc_def)

lemma run_ret [simp]: "run_state (ret x) w = (x, w)"
  by (simp add: State_Monad.return_def)

lemma run_http_do [simp]: "run_state (http_do ev c) w = (net ev (w_calls w) c, add_call c w)"
  by (simp add: http_do_def add_call_def)

lemma run_send [simp]: "run_state (send ev r) w = (send_err ev (w_replies w) r, add_reply r w)"
  by (simp add: send_def add_reply_def)

lemma run_handleServerError [simp]:
  "run_state (handleServerError ev err) w = ((), add_reply (error_reply ev err) w)"
  by (simp add: handleServerError_def)

lemma run_send_log [simp]: "run_state (send_log ev r) w = ((), add_reply r w)"
  by (simp add: send_log_def)

lemma run_send_handle:
  "run_state (send_handle ev r) w =
     (case send_err ev (w_replies w) r of
        None \<Rightarrow> ((), add_reply r w)
      | Some e \<Rightarrow> ((), add_reply (error_reply ev (Some e)) (add_reply r w)))"
  by (simp add: send_handle_def split: option.splits)

lemma run_send_handle_ok [simp]:
  "sends_ok ev \<Longrightarrow> run_state (send_handle ev r) w = ((), add_reply r w)"
  by (simp add: run_send_handle sends_ok_def)

lemma run_set_header [simp]:
  "run_state (set_header k v) w = ((), w\<lparr>w_headers := w_headers w @ [(k, v)]\<rparr>)"
  by (simp add: set_header_def)

lemma run_ext_read [simp]:
  "run_state (ext_read (Inr v)) w = (Some v, w)"
  "run_state (ext_read (Inl rs)) w = (None, w\<lparr>w_replies := w_replies w @ rs\<rparr>)"
  by (simp_all add: ext_read_def)

subsection \<open>A sample environment\<close>

text \<open>
  Services that cannot be reached, decoders that refuse every message and replies that are
  always written: the starting point of the examples, which replace what they need.
\<close>

definition rbac_page_of :: "int \<Rightarrow> string \<Rightarrow> RbacData list \<Rightarrow> RbacResponse" where
  "rbac_page_of n link acl = \<lparr>rb_Meta = \<lparr>rbm_Count = n, rbm_Limit = 0, rbm_Offset = 0\<rparr>,
     rb_Links = \<lparr>rbl_First = [], rbl_Next = link, rbl_Previous = [], rbl_Last = []\<rparr>, rb_Data = acl\<rparr>"

definition sample_dec :: decoders where
  "sample_dec = \<lparr>
     dc_clusters = (\<lambda>_. ([], Some (JSONSyntaxError []))),
     dc_report = (\<lambda>_. Inl (JSONSyntaxError [])),
     dc_metainfo = (\<lambda>_. Inl (JSONSyntaxError [])),
     dc_cluster_reports = (\<lambda>_. Inl (JSONSyntaxError [])),
     dc_rule = (\<lambda>_. Inl (JSONSyntaxError [])),
     dc_report_rules = (\<lambda>_. Inl (JSONSyntaxError [])),
     dc_disabled_rules = (\<lambda>_. Inl (JSONSyntaxError [])),
     dc_workloads_cluster = (\<lambda>_. Inl (JSONSyntaxError [])),
     dc_workloads_org = (\<lambda>_. Inl (JSONSyntaxError [])),
     dc_acked = (\<lambda>_. Inl (JSONSyntaxError [])),
     dc_ack = (\<lambda>_. Inl (JSONSyntaxError [])),
     dc_justification = (\<lambda>_. Inl (JSONSyntaxError [])),
     dc_selector_justification = (\<lambda>_. Inl (JSONSyntaxError [])),
     dc_rating_body = (\<lambda>_. Inl (JSONSyntaxError [])),
     dc_rating_post = (\<lambda>_. (\<lparr>rt_Rule = [], rt_Rating = 0\<rparr>, Some (JSONSyntaxError []))),
     dc_rating_get = (\<lambda>_. Inl (JSONSyntaxError [])),
     dc_recommendations = (\<lambda>_. Inl (JSONSyntaxError [])),
     dc_cluster_recommendations = (\<lambda>_. Inl (JSONSyntaxError [])),
     dc_hitting = (\<lambda>_. Inl (JSONSyntaxError [])),
     dc_disabled_clusters = (\<lambda>_. Inl (JSONSyntaxError [])),
     dc_request_ids = (\<lambda>_. Inl (JSONSyntaxError [])),
     dc_cluster_list = (\<lambda>_. Inl (JSONSyntaxError [])),
     dc_data_eng = (\<lambda>_. Inl (JSONSyntaxError [])),
     dc_predictions = (\<lambda>_. Inl (JSONSyntaxError [])),
     dc_info = (\<lambda>_. Inl (JSONSyntaxError [])),
     dc_token = (\<lambda>_. Inl (JSONSyntaxError [])),
     dc_rbac = (\<lambda>_. (rbac_page_of 0 [] [], Some (JSONSyntaxError []))),
     dc_groups = (\<lambda>_. Inl (JSONSyntaxError [])),
     dc_content = (\<lambda>_. Inl (JSONSyntaxError []))\<rparr>"

definition sample_env :: env where
  "sample_env = \<lparr>
     net = (\<lambda>_ _. Inl (UrlError ''unreachable'')), send_err = (\<lambda>_ _. None),
     ev_content = \<lparr>ce_GenerateCompositeRuleID = (\<lambda>r k. (r @ ''|'' @ k, None)),
       ce_StringInSlice = (\<lambda>x xs. x \<in> set xs), ce_TimeParse = (\<lambda>layout v. Inl (ErrorString ''unparsable'')),
       ce_FormatRFC3339 = (\<lambda>t. ''time''), ce_severity_order = (\<lambda>xs. xs), ce_rules_order = (\<lambda>xs. xs)\<rparr>,
     ev_dec = sample_dec,
     ev_GetRouterParam = (\<lambda>r n. case map_of (rq_Vars r) n of None \<Rightarrow> Inl (OtherError n) | Some v \<Rightarrow> Inr v),
     ev_ReadClusterName = (\<lambda>r. case map_of (rq_Vars r) ''cluster'' of
       None \<Rightarrow> Inl [SendBadRequest ''cluster''] | Some v \<Rightarrow> Inr v),
     ev_ReadRuleID = (\<lambda>r. case map_of (rq_Vars r) ''rule_id'' of
       None \<Rightarrow> Inl [SendBadRequest ''rule_id''] | Some v \<Rightarrow> Inr v),
     ev_ReadOrganizationID = (\<lambda>r auth. Inr 1),
     ev_ReadRuleSelector = (\<lambda>r. case map_of (rq_Vars r) ''rule_selector'' of
       None \<Rightarrow> Inl [SendBadRequest ''rule_selector''] | Some v \<Rightarrow> Inr v),
     ev_ReadClusterListFromPath = (\<lambda>r. Inl [SendBadRequest ''cluster_list'']),
     ev_ParseRuleSelector = RuleIDWithErrorKeyFromCompositeRuleID,
     ev_item_not_found_text = (\<lambda>i. ''Item not found''), ev_base64 = Inr, ev_fmt_user = (\<lambda>i. []),
     ev_url_ok = (\<lambda>u. None)\<rparr>"

definition sample_request :: http_request where
  "sample_request = \<lparr>rq_Method = ''GET'', rq_RequestURI = ''/api/v2/rule'', rq_Path = ''/api/v2/rule'', rq_Query = [],
     rq_Header = [], rq_ContentLength = 0, rq_Body = Inr [], rq_Vars = [], rq_User = NoValue\<rparr>"

definition sample_identity :: Identity where
  "sample_identity = \<lparr>id_AccountNumber = ''1'', id_OrgID = 1, id_UserID = ''u'', id_Type = ''ServiceAccount'',
     id_ClientID = ''c'', id_Other = Opaque []\<rparr>"

lemma sample_sends_ok [simp]: "sends_ok (sample_env\<lparr>net := n, ev_dec := d\<rparr>)" "sends_ok sample_env"
  by (simp_all add: sends_ok_def sample_env_def)

end
