(* ===== verification/Server.thy ===== *)
theory Server
  imports World
begin

text \<open>
  The server object: \<open>server/configuration.go\<close>, \<open>services/configuration.go\<close>, the struct
  \<open>HTTPServer\<close> and its constructor, and the interfaces through which it reaches the account
  management service, Redis and the access control service, each a record of the
  functions of the Go interface. The three channels that the goroutine \<open>updateGroupInfo\<close>
  serves appear as what a receive on them yields at the moment of the request
  (\<open>RuleGroups\<close> models the goroutine), and the package variables of \<open>content\<close> as the state a
  request sees.
\<close>

record Configuration =
  cf_Address :: string
  cf_APIdbgPrefix :: string
  cf_APIv1Prefix :: string
  cf_APIv2Prefix :: string
  cf_APIv1SpecFile :: string
  cf_APIv2SpecFile :: string
  cf_Debug :: bool
  cf_Auth :: bool
  cf_AuthType :: string
  cf_UseHTTPS :: bool
  cf_EnableCORS :: bool
  cf_EnableInternalRulesOrganizations :: bool
  cf_InternalRulesOrganizations :: "OrgID list"
  cf_LogAuthToken :: bool
  cf_UseOrgClustersFallback :: bool
  cf_UseRBAC :: bool

record ServicesConfiguration =
  sc_AggregatorBaseEndpoint :: string
  sc_ContentBaseEndpoint :: string
  sc_UpgradeRisksPredictionEndpoint :: string
  sc_GroupsPollingTime :: int
  sc_ContentDirectoryTimeout :: int

record AMSClient =
  ams_GetClustersForOrganization ::
    "OrgID \<Rightarrow> string list option \<Rightarrow> string list option \<Rightarrow> ClusterInfo list \<times> gerror option"
  ams_GetClusterDetailsFromExternalClusterID :: "ClusterName \<Rightarrow> ClusterInfo"
  ams_GetSingleClusterInfoForOrganization :: "OrgID \<Rightarrow> ClusterName \<Rightarrow> ClusterInfo res"

text \<open>A scan of the keys may go on for ever: that is \<open>None\<close>.\<close>

record RedisInterface =
  redis_GetRequestIDsForClusterID :: "OrgID \<Rightarrow> ClusterName \<Rightarrow> RequestID list res option"
  redis_GetTimestampsForRequestIDs ::
    "OrgID \<Rightarrow> ClusterName \<Rightarrow> RequestID list \<Rightarrow> bool \<Rightarrow> RequestStatus list res"
  redis_GetRuleHitsForRequest :: "OrgID \<Rightarrow> ClusterName \<Rightarrow> RequestID \<Rightarrow> RuleID list res"
  redis_GetRequestStatus :: "OrgID \<Rightarrow> ClusterName \<Rightarrow> RequestID \<Rightarrow> gerror option"

text \<open>A call of \<open>IsAuthorized\<close> may follow links for ever: that is \<open>None\<close>.\<close>

record RBACClient =
  rbac_IsAuthorized :: "string \<Rightarrow> world \<Rightarrow> (bool \<times> world) option"
  rbac_IsEnforcing :: bool

datatype 'a recv = Received 'a | ClosedChannel | EmptyChannel

record HTTPServer =
  sv_Config :: Configuration
  sv_InfoParams :: "(string \<rightharpoonup> string) option"
  sv_ServicesConfig :: ServicesConfiguration
  sv_amsClient :: "AMSClient option"
  sv_ErrorFoundChannel :: "bool recv"
  sv_ErrorChannel :: "gerror option"
  sv_GroupsChannel :: "opaque list option"
  sv_redis :: "RedisInterface option"
  sv_rbacClient :: RBACClient
  sv_content :: content_state

text \<open>
  The constructor \<open>New\<close>; the views of the channels and of the content are those of the
  request.
\<close>

definition New ::
  "Configuration \<Rightarrow> ServicesConfiguration \<Rightarrow> AMSClient option \<Rightarrow> RedisInterface option \<Rightarrow> opaque list option
    \<Rightarrow> bool recv \<Rightarrow> gerror option \<Rightarrow> RBACClient \<Rightarrow> content_state \<Rightarrow> HTTPServer" where
  "New config servicesConfig amsClient redis groupsChannel errorFoundChannel errorChannel rbacClient cs =
     \<lparr>sv_Config = config, sv_InfoParams = Some Map.empty, sv_ServicesConfig = servicesConfig,
      sv_amsClient = amsClient, sv_ErrorFoundChannel = errorFoundChannel, sv_ErrorChannel = errorChannel,
      sv_GroupsChannel = groupsChannel, sv_redis = redis, sv_rbacClient = rbacClient, sv_content = cs\<rparr>"

type_synonym handler = "http_request \<Rightarrow> (world, unit) state"

definition aggregator :: "HTTPServer \<Rightarrow> string \<Rightarrow> url_arg list \<Rightarrow> url" where
  "aggregator sv endpoint args = Endpoint (sc_AggregatorBaseEndpoint (sv_ServicesConfig sv)) endpoint args"

definition mainEndpoint :: "env \<Rightarrow> HTTPServer \<Rightarrow> handler" where
  "mainEndpoint ev sv request = send_log ev (SendOK POk)"

subsection \<open>Identity of the requester\<close>

definition GetAuthToken :: "http_request \<Rightarrow> Identity res" where
  "GetAuthToken request = (case rq_User request of
      NoValue \<Rightarrow> Inl (AuthenticationError ''token is not provided'')
    | OtherValue \<Rightarrow> Inl (AuthenticationError ''contextKeyUser has wrong type'')
    | IdentityValue identity \<Rightarrow> Inr identity)"

definition GetCurrentUserID :: "http_request \<Rightarrow> UserID res" where
  "GetCurrentUserID request = map_sum id id_UserID (GetAuthToken request)"

definition GetCurrentOrgID :: "http_request \<Rightarrow> OrgID res" where
  "GetCurrentOrgID request = map_sum id id_OrgID (GetAuthToken request)"

definition GetCurrentOrgIDUserIDFromToken :: "http_request \<Rightarrow> (OrgID \<times> UserID) res" where
  "GetCurrentOrgIDUserIDFromToken request =
     map_sum id (\<lambda>identity. (id_OrgID identity, id_UserID identity)) (GetAuthToken request)"

lemma GetCurrentOrgID_cases:
  obtains (error) e where "GetCurrentOrgID request = Inl e" "GetCurrentOrgIDUserIDFromToken request = Inl e"
  | (ok) i where "rq_User request = IdentityValue i" "GetCurrentOrgID request = Inr (id_OrgID i)"
      "GetCurrentOrgIDUserIDFromToken request = Inr (id_OrgID i, id_UserID i)"
proof (cases "GetAuthToken request")
  case (Inl e)
  then show ?thesis
    by (intro error) (simp_all add: GetCurrentOrgID_def GetCurrentOrgIDUserIDFromToken_def)
next
  case (Inr i)
  then show ?thesis
    by (intro ok [of i])
       (simp_all add: GetCurrentOrgID_def GetCurrentOrgIDUserIDFromToken_def GetAuthToken_def
         split: ctx_value.splits)
qed

subsection \<open>Access to internal rules\<close>

definition checkInternalRulePermissions :: "HTTPServer \<Rightarrow> http_request \<Rightarrow> gerror option" where
  "checkInternalRulePermissions sv request =
     (if \<not> cf_EnableInternalRulesOrganizations (sv_Config sv) \<or> \<not> cf_Auth (sv_Config sv) then None
      else case GetCurrentOrgID request of
          Inl err \<Rightarrow> Some err
        | Inr requestOrgID \<Rightarrow>
            if list_ex (\<lambda>allowedID. requestOrgID = allowedID) (cf_InternalRulesOrganizations (sv_Config sv))
            then None
            else Some (AuthenticationError ''This organization is not allowed to access this recommendation''))"

definition may_see_internal :: "HTTPServer \<Rightarrow> http_request \<Rightarrow> bool" where
  "may_see_internal sv request \<longleftrightarrow>
     (cf_EnableInternalRulesOrganizations (sv_Config sv) \<and> cf_Auth (sv_Config sv) \<longrightarrow>
       (\<exists>i. rq_User request = IdentityValue i \<and> id_OrgID i \<in> set (cf_InternalRulesOrganizations (sv_Config sv))))"

lemma checkInternalRulePermissions_iff:
  "checkInternalRulePermissions sv request = None \<longleftrightarrow> may_see_internal sv request"
proof (cases request rule: GetCurrentOrgID_cases)
  case (error e)
  then have "\<nexists>i. rq_User request = IdentityValue i"
    by (auto simp: GetCurrentOrgID_def GetAuthToken_def)
  with error show ?thesis
    by (auto simp: checkInternalRulePermissions_def may_see_internal_def)
next
  case (ok i)
  then show ?thesis
    by (auto simp: checkInternalRulePermissions_def may_see_internal_def list_ex_iff)
qed

lemma checkInternalRulePermissions_error:
  assumes "checkInternalRulePermissions sv request = Some e"
  shows "\<exists>s. e = AuthenticationError s"
  using assms
  by (auto simp: checkInternalRulePermissions_def GetCurrentOrgID_def GetAuthToken_def
      split: if_splits sum.splits ctx_value.splits)

subsection \<open>A sample server\<close>

definition sample_config :: Configuration where
  "sample_config = \<lparr>cf_Address = [], cf_APIdbgPrefix = ''/api/dbg/'', cf_APIv1Prefix = ''/api/v1/'',
     cf_APIv2Prefix = ''/api/v2/'', cf_APIv1SpecFile = ''openapi.json'', cf_APIv2SpecFile = ''openapi.json'',
     cf_Debug = False, cf_Auth = True, cf_AuthType = ''xrh'', cf_UseHTTPS = False, cf_EnableCORS = False, cf_EnableInternalRulesOrganizations = True,
     cf_InternalRulesOrganizations = [7], cf_LogAuthToken = False, cf_UseOrgClustersFallback = True, cf_UseRBAC = True\<rparr>"

definition sample_server :: HTTPServer where
  "sample_server = New sample_config
     \<lparr>sc_AggregatorBaseEndpoint = ''agg'', sc_ContentBaseEndpoint = ''content'', sc_UpgradeRisksPredictionEndpoint = ''urp'',
      sc_GroupsPollingTime = 60, sc_ContentDirectoryTimeout = 5\<rparr>
     None None (Some []) (Received False) None
     \<lparr>rbac_IsAuthorized = (\<lambda>t w. Some (False, w)), rbac_IsEnforcing = True\<rparr>
     \<lparr>cs_ruleContentDirectory = Some [], cs_storage = getEmptyRulesWithContentMap\<rparr>"

end
