(* ===== verification/Auth.thy ===== *)
theory Auth
  imports Server
begin

text \<open>
  The package \<open>auth\<close> and \<open>server/auth_middleware.go\<close>: decoding of the identity token, the
  access control client, which follows the pages of the access control service, and the
  two middlewares. A page walk that never ends is \<open>None\<close> (\<open>requestAccess\<close> is a partial
  function).
\<close>

subsection \<open>Headers\<close>

text \<open>\<open>CanonicalHeaderKey\<close> on ASCII keys, and \<open>Header.Get\<close>.\<close>

fun canonical :: "bool \<Rightarrow> string \<Rightarrow> string" where
  "canonical up [] = []"
| "canonical up (c # cs) =
     (if up then upper_char c else lower_char c) # canonical (c = CHR ''-'') cs"

definition header_get :: "(string \<times> string list) list \<Rightarrow> string \<Rightarrow> string" where
  "header_get h k = (case map_of h (canonical True k) of Some (v # vs) \<Rightarrow> v | _ \<Rightarrow> [])"

subsection \<open>\<open>auth/auth.go\<close>\<close>

abbreviation XRHAuthTokenHeader :: string where
  "XRHAuthTokenHeader \<equiv> ''x-rh-identity''"

definition GetAuthTokenHeader :: "http_request \<Rightarrow> string" where
  "GetAuthTokenHeader r = header_get (rq_Header r) XRHAuthTokenHeader"

definition DecodeTokenFromHeader :: "env \<Rightarrow> http_request \<Rightarrow> string \<Rightarrow> Identity res" where
  "DecodeTokenFromHeader ev r authType =
     (let token = GetAuthTokenHeader r in
      if token = [] then Inl (AuthenticationError ''Missing auth token'')
      else case ev_base64 ev token of
          Inl err \<Rightarrow> Inl (AuthenticationError ''Malformed authentication token'')
        | Inr decoded \<Rightarrow>
            if authType = ''xrh'' then
              (case dc_token (ev_dec ev) decoded of
                 Inl err \<Rightarrow> Inl (AuthenticationError ''Malformed authentication token'')
               | Inr tk \<Rightarrow> Inr tk)
            else Inl (ErrorString ''unknown auth type''))"

subsection \<open>\<open>auth/configuration.go\<close> and \<open>auth/rbac.go\<close>\<close>

record RBACConfig =
  rbc_URL :: string
  rbc_EnforceAuth :: bool

text \<open>
  What the client uses of a parsed URL: its host, its path, and what \<open>String\<close> prints before the
  path (scheme, user and host) and after it.
\<close>

record parsed_url =
  pu_Before :: string
  pu_Host :: string
  pu_Path :: string
  pu_After :: string

definition url_string :: "parsed_url \<Rightarrow> string" where
  "url_string u = pu_Before u @ pu_Path u @ pu_After u"

definition constructRBACURL ::
  "env \<Rightarrow> (string \<Rightarrow> parsed_url res) \<Rightarrow> RBACConfig \<Rightarrow> (string \<times> string) res" where
  "constructRBACURL ev parse config =
     (let url = (if \<not> HasPrefix (rbc_URL config) ''http://'' \<and> \<not> HasPrefix (rbc_URL config) ''https://''
                 then ''https://'' @ rbc_URL config else rbc_URL config)
      in case parse url of
           Inl err \<Rightarrow> Inl (ErrorString (''invalid host format: '' @ Error ev err))
         | Inr baseURL \<Rightarrow>
             (let baseURL = baseURL\<lparr>pu_Path := pu_Path baseURL @ ''/access/''\<rparr>
              in Inr (url_string baseURL @ ''?'' @ ''application=ocp-advisor&limit=100'', pu_Host baseURL)))"

record rbacClientImpl =
  ri_uri :: string
  ri_host :: string
  ri_enforceAuth :: bool

definition NewRBACClient :: "env \<Rightarrow> (string \<Rightarrow> parsed_url res) \<Rightarrow> RBACConfig \<Rightarrow> rbacClientImpl res" where
  "NewRBACClient ev parse conf =
     map_sum id (\<lambda>(url, host). \<lparr>ri_uri = url, ri_host = host, ri_enforceAuth = rbc_EnforceAuth conf\<rparr>)
       (constructRBACURL ev parse conf)"

definition rbac_call :: "string \<Rightarrow> string \<Rightarrow> http_call" where
  "rbac_call url identityToken =
     \<lparr>ca_Method = ''GET'', ca_URL = RawURL url,
      ca_Header = [(canonical True XRHAuthTokenHeader, [identityToken])], ca_Body = NoBody\<rparr>"

text \<open>
  One page: \<open>None\<close> is the early return of the nil slice (request refused, transport error,
  status other than 200, or a count of zero). A body that does not decode leaves the zero
  value or what was decoded so far, which \<open>dc_rbac\<close> returns next to its error.
\<close>

definition rbac_page ::
  "env \<Rightarrow> string \<Rightarrow> http_response res \<Rightarrow> RbacResponse option" where
  "rbac_page ev url resp = (case resp of
      Inl err \<Rightarrow> None
    | Inr r \<Rightarrow>
        if hr_StatusCode r \<noteq> StatusOK then None
        else let body = (case hr_Body r of Inl err \<Rightarrow> [] | Inr b \<Rightarrow> b);
                 response = fst (dc_rbac (ev_dec ev) body)
             in if rbm_Count (rb_Meta response) = 0 then None else Some response)"

partial_function (option) requestAccess ::
  "env \<Rightarrow> rbacClientImpl \<Rightarrow> string \<Rightarrow> string \<Rightarrow> world \<Rightarrow> (RbacData list \<times> world) option" where
  "requestAccess ev rc url identityToken w =
     (if ev_url_ok ev (RawURL url) \<noteq> None then Some ([], w)
      else
        let call = rbac_call url identityToken;
            resp = net ev (w_calls w) call;
            w1 = add_call call w
        in case rbac_page ev url resp of
             None \<Rightarrow> Some ([], w1)
           | Some response \<Rightarrow>
               if rbl_Next (rb_Links response) \<noteq> [] then
                 Option.bind (requestAccess ev rc (ri_host rc @ rbl_Next (rb_Links response)) identityToken w1)
                   (\<lambda>(rest, w2). Some (rb_Data response @ rest, w2))
               else Some (rb_Data response, w1))"

text \<open>The map of permissions: resource type to verbs.\<close>

definition aggregate_acl :: "(string \<rightharpoonup> string list) \<Rightarrow> RbacData \<Rightarrow> (string \<rightharpoonup> string list)" where
  "aggregate_acl permissions acl =
     (let splits = Split (CHR '':'') (rd_Permission acl) in
      if length splits < 3 then permissions
      else if splits ! 0 \<noteq> ''ocp-advisor'' then permissions
      else let resourceType = splits ! 1; verb = splits ! 2 in
        if Contains resourceType ''recommendation-results'' then
          permissions(resourceType \<mapsto>
            (case permissions resourceType of None \<Rightarrow> [] | Some vs \<Rightarrow> vs) @ [verb])
        else if resourceType = ''*'' then permissions(''*'' \<mapsto> [])
        else permissions)"

definition aggregatePermissions :: "RbacData list \<Rightarrow> (string \<rightharpoonup> string list)" where
  "aggregatePermissions acls = foldl aggregate_acl Map.empty acls"

definition getPermissions ::
  "env \<Rightarrow> rbacClientImpl \<Rightarrow> string \<Rightarrow> world \<Rightarrow> ((string \<rightharpoonup> string list) option \<times> world) option" where
  "getPermissions ev rc identityToken w =
     map_option (\<lambda>(acls, w').
       (if length acls > 0 then
          let permissions = aggregatePermissions acls
          in if permissions \<noteq> Map.empty then Some permissions else None
        else None, w'))
     (requestAccess ev rc (ri_uri rc) identityToken w)"

definition IsAuthorized :: "env \<Rightarrow> rbacClientImpl \<Rightarrow> string \<Rightarrow> world \<Rightarrow> (bool \<times> world) option" where
  "IsAuthorized ev rc token w =
     map_option (\<lambda>(permissions, w'). (permissions \<noteq> None, w')) (getPermissions ev rc token w)"

definition rbac_client :: "env \<Rightarrow> rbacClientImpl \<Rightarrow> RBACClient" where
  "rbac_client ev rc = \<lparr>rbac_IsAuthorized = IsAuthorized ev rc, rbac_IsEnforcing = ri_enforceAuth rc\<rparr>"

subsection \<open>\<open>server/auth_middleware.go\<close>\<close>

text \<open>\<open>filepath.Base\<close>: the last component of a path.\<close>

definition path_base :: "string \<Rightarrow> string" where
  "path_base p =
     (if p = [] then ''.''
      else let q = rev (dropWhile (\<lambda>c. c = CHR ''/'') (rev p))
           in if q = [] then ''/'' else last (Split (CHR ''/'') q))"

definition noAuthURLs :: "HTTPServer \<Rightarrow> string list" where
  "noAuthURLs sv =
     (let apiPrefix = cf_APIv1Prefix (sv_Config sv);
          metricsURL = apiPrefix @ ''metrics'';
          openAPIv1URL = apiPrefix @ path_base (cf_APIv1SpecFile (sv_Config sv));
          openAPIv2URL = cf_APIv2Prefix (sv_Config sv) @ path_base (cf_APIv2SpecFile (sv_Config sv));
          infoV1URL = apiPrefix @ ''info'';
          infoV2URL = cf_APIv2Prefix (sv_Config sv) @ ''info''
      in [metricsURL, openAPIv1URL, openAPIv2URL, infoV1URL, infoV2URL,
          metricsURL @ ''?'', openAPIv1URL @ ''?'', openAPIv2URL @ ''?''])"

definition auth_exempt :: "env \<Rightarrow> string list \<Rightarrow> http_request \<Rightarrow> bool" where
  "auth_exempt ev urls r \<longleftrightarrow>
     ce_StringInSlice (ev_content ev) (rq_RequestURI r) urls \<or> rq_Method r = ''OPTIONS''"

text \<open>
  The middlewares wrap a handler. The next handler may itself be the other middleware, so
  a handler here returns \<open>None\<close> when it does not come back.
\<close>

type_synonym phandler = "http_request \<Rightarrow> world \<Rightarrow> world option"

definition plain :: "handler \<Rightarrow> phandler" where
  "plain h r w = Some (snd (run_state (h r) w))"

definition no_org_message :: "env \<Rightarrow> Identity \<Rightarrow> string" where
  "no_org_message ev i =
     ''error retrieving requester org_id from token. account_number ['' @ id_AccountNumber i
       @ ''], user data ['' @ ev_fmt_user ev i @ '']''"

definition Authentication :: "env \<Rightarrow> HTTPServer \<Rightarrow> phandler \<Rightarrow> string list \<Rightarrow> phandler" where
  "Authentication ev sv next urls r w =
     (if auth_exempt ev urls r then next r w
      else case DecodeTokenFromHeader ev r (cf_AuthType (sv_Config sv)) of
          Inl err \<Rightarrow> plain (\<lambda>_. handleServerError ev (Some err)) r w
        | Inr tk \<Rightarrow>
            if id_OrgID tk = 0 then
              plain (\<lambda>_. handleServerError ev (Some (AuthenticationError (no_org_message ev tk)))) r w
            else
              let tk = (if id_UserID tk = [] then tk\<lparr>id_UserID := ''0''\<rparr> else tk)
              in next (r\<lparr>rq_User := IdentityValue tk\<rparr>) w)"

definition Authorization :: "env \<Rightarrow> HTTPServer \<Rightarrow> phandler \<Rightarrow> string list \<Rightarrow> phandler" where
  "Authorization ev sv next urls r w =
     (if auth_exempt ev urls r then next r w
      else case DecodeTokenFromHeader ev r (cf_AuthType (sv_Config sv)) of
          Inl err \<Rightarrow> plain (\<lambda>_. handleServerError ev (Some err)) r w
        | Inr token \<Rightarrow>
            (let w = Inc (RBACIdentityType (id_Type token)) w in
             if id_Type token = ''ServiceAccount'' then
               Option.bind (rbac_IsAuthorized (sv_rbacClient sv) (GetAuthTokenHeader r) w)
                 (\<lambda>(authorized, w).
                   if \<not> authorized then
                     (let w = Inc RBACServiceAccountRejected w in
                      if rbac_IsEnforcing (sv_rbacClient sv) then
                        plain (\<lambda>_. handleServerError ev (Some (AuthorizationError
                          ''Account does not have the required permissions''))) r w
                      else next r w)
                   else next r w)
             else next r w))"

text \<open>\<open>setupAuthMiddleware\<close>: the wrapped handler; the middleware added first runs first.\<close>

definition setupAuthMiddleware :: "env \<Rightarrow> HTTPServer \<Rightarrow> phandler \<Rightarrow> phandler" where
  "setupAuthMiddleware ev sv next =
     (let h1 = (if cf_UseRBAC (sv_Config sv) then Authorization ev sv next (noAuthURLs sv) else next)
      in if cf_Auth (sv_Config sv) then Authentication ev sv h1 (noAuthURLs sv) else h1)"

definition SetRBACClient :: "HTTPServer \<Rightarrow> RBACClient \<Rightarrow> HTTPServer" where
  "SetRBACClient sv client = sv\<lparr>sv_rbacClient := client\<rparr>"

subsection \<open>The walk over the pages\<close>

text \<open>
  The pages a walk sees, given the calls made before it, and the calls after it. There is
  no such list exactly when the links go on for ever.
\<close>

inductive rbac_chain ::
  "env \<Rightarrow> rbacClientImpl \<Rightarrow> string \<Rightarrow> string \<Rightarrow> http_call list \<Rightarrow> RbacResponse list \<Rightarrow> http_call list \<Rightarrow> bool"
  for ev rc tok where
  refused: "ev_url_ok ev (RawURL url) \<noteq> None \<Longrightarrow> rbac_chain ev rc tok url cs [] cs"
| empty: "ev_url_ok ev (RawURL url) = None \<Longrightarrow>
    rbac_page ev url (net ev cs (rbac_call url tok)) = None \<Longrightarrow>
    rbac_chain ev rc tok url cs [] (cs @ [rbac_call url tok])"
| last: "ev_url_ok ev (RawURL url) = None \<Longrightarrow>
    rbac_page ev url (net ev cs (rbac_call url tok)) = Some p \<Longrightarrow> rbl_Next (rb_Links p) = [] \<Longrightarrow>
    rbac_chain ev rc tok url cs [p] (cs @ [rbac_call url tok])"
| more: "ev_url_ok ev (RawURL url) = None \<Longrightarrow>
    rbac_page ev url (net ev cs (rbac_call url tok)) = Some p \<Longrightarrow> rbl_Next (rb_Links p) \<noteq> [] \<Longrightarrow>
    rbac_chain ev rc tok (ri_host rc @ rbl_Next (rb_Links p)) (cs @ [rbac_call url tok]) ps cs' \<Longrightarrow>
    rbac_chain ev rc tok url cs (p # ps) cs'"

lemma requestAccess_complete:
  assumes "rbac_chain ev rc tok url cs ps cs'" and "w_calls w = cs"
  shows "requestAccess ev rc url tok w = Some (concat (map rb_Data ps), w\<lparr>w_calls := cs'\<rparr>)"
  using assms
proof (induction arbitrary: w rule: rbac_chain.induct)
  case (more url cs p ps cs')
  have "w_calls (add_call (rbac_call url tok) w) = cs @ [rbac_call url tok]"
    using more.prems by simp
  from more.IH [OF this] more.hyps more.prems show ?case
    by (subst requestAccess.simps) (simp add: Let_def add_call_def)
qed (subst requestAccess.simps; simp add: Let_def add_call_def)+

lemma requestAccess_sound:
  assumes "requestAccess ev rc url tok w = Some r"
  shows "\<exists>ps cs'. rbac_chain ev rc tok url (w_calls w) ps cs' \<and>
    r = (concat (map rb_Data ps), w\<lparr>w_calls := cs'\<rparr>)"
proof (rule requestAccess.raw_induct [of "\<lambda>ev rc url tok w r. \<exists>ps cs'. rbac_chain ev rc tok url (w_calls w) ps cs' \<and>
    r = (concat (map rb_Data ps), w\<lparr>w_calls := cs'\<rparr>)", OF _ assms], goal_cases)
  case (1 ra ev rc url tok w r)
  let ?c = "rbac_call url tok"
  consider (refuse) "ev_url_ok ev (RawURL url) \<noteq> None"
    | (none) "ev_url_ok ev (RawURL url) = None" "rbac_page ev url (net ev (w_calls w) ?c) = None"
    | (final) p where "ev_url_ok ev (RawURL url) = None" "rbac_page ev url (net ev (w_calls w) ?c) = Some p" "rbl_Next (rb_Links p) = []"
    | (link) p where "ev_url_ok ev (RawURL url) = None" "rbac_page ev url (net ev (w_calls w) ?c) = Some p" "rbl_Next (rb_Links p) \<noteq> []"
    by blast
  then show ?case
  proof cases
    case refuse
    with 1(2) show ?thesis using refused [OF refuse] by (intro exI [of _ "[]"] exI [of _ "w_calls w"]) auto
  next
    case none
    with 1(2) show ?thesis using empty [OF none]
      by (intro exI [of _ "[]"] exI [of _ "w_calls w @ [?c]"]) (auto simp: Let_def add_call_def)
  next
    case (final p)
    with 1(2) show ?thesis using last [OF final]
      by (intro exI [of _ "[p]"] exI [of _ "w_calls w @ [?c]"]) (auto simp: Let_def add_call_def)
  next
    case (link p)
    with 1(2) obtain r2 where r2: "ra ev rc (ri_host rc @ rbl_Next (rb_Links p)) tok (add_call ?c w) = Some r2"
      and r: "r = (rb_Data p @ fst r2, snd r2)"
      by (auto simp: Let_def bind_eq_Some_conv)
    from 1(1) [OF r2] obtain ps cs' where
      "rbac_chain ev rc tok (ri_host rc @ rbl_Next (rb_Links p)) (w_calls w @ [?c]) ps cs'"
      "r2 = (concat (map rb_Data ps), w\<lparr>w_calls := cs'\<rparr>)"
      by (auto simp: add_call_def)
    with more [OF link] r show ?thesis
      by (intro exI [of _ "p # ps"] exI [of _ cs']) simp
  qed
qed

subsection \<open>Permissions\<close>

definition grants :: "RbacData \<Rightarrow> bool" where
  "grants acl \<longleftrightarrow> (case Split (CHR '':'') (rd_Permission acl) of
      app # resource # verb # rest \<Rightarrow>
        app = ''ocp-advisor'' \<and> (Contains resource ''recommendation-results'' \<or> resource = ''*'')
    | _ \<Rightarrow> False)"

lemma aggregate_acl_cases:
  "\<not> grants acl \<Longrightarrow> aggregate_acl m acl = m"
  "grants acl \<Longrightarrow> dom (aggregate_acl m acl) =
     insert (Split (CHR '':'') (rd_Permission acl) ! 1) (dom m)"
proof -
  consider "length (Split (CHR '':'') (rd_Permission acl)) < 3"
    | a r v rest where "Split (CHR '':'') (rd_Permission acl) = a # r # v # rest"
    by (metis One_nat_def Suc_lessI list.exhaust list.size(3) list.size(4) add.right_neutral
        add_Suc_right less_Suc_eq numeral_2_eq_2 numeral_3_eq_3 zero_less_Suc)
  then show "\<not> grants acl \<Longrightarrow> aggregate_acl m acl = m"
    "grants acl \<Longrightarrow> dom (aggregate_acl m acl) = insert (Split (CHR '':'') (rd_Permission acl) ! 1) (dom m)"
    by (cases; auto simp: grants_def aggregate_acl_def Let_def split: list.splits)+
qed

lemma aggregatePermissions_empty:
  "aggregatePermissions acls = Map.empty \<longleftrightarrow> (\<forall>acl \<in> set acls. \<not> grants acl)"
proof -
  have "dom (foldl aggregate_acl m acls) =
    dom m \<union> (\<lambda>acl. Split (CHR '':'') (rd_Permission acl) ! 1) ` {acl \<in> set acls. grants acl}" for m
  proof (induction acls arbitrary: m)
    case (Cons acl acls)
    show ?case
    proof (cases "grants acl")
      case True
      then show ?thesis by (auto simp: Cons.IH aggregate_acl_cases(2))
    next
      case False
      then have "{a \<in> set (acl # acls). grants a} = {a \<in> set acls. grants a}" by auto
      with False show ?thesis by (simp add: Cons.IH aggregate_acl_cases(1) del: set_simps)
    qed
  qed simp
  from this [of Map.empty] show ?thesis
    unfolding aggregatePermissions_def by (auto simp flip: dom_eq_empty_conv)
qed

lemma IsAuthorized_chain:
  assumes "rbac_chain ev rc tok (ri_uri rc) (w_calls w) ps cs'"
  shows "IsAuthorized ev rc tok w =
    Some (\<exists>p \<in> set ps. \<exists>acl \<in> set (rb_Data p). grants acl, w\<lparr>w_calls := cs'\<rparr>)"
proof -
  have "getPermissions ev rc tok w = Some (let acls = concat (map rb_Data ps) in
      if aggregatePermissions acls = Map.empty then None else Some (aggregatePermissions acls), w\<lparr>w_calls := cs'\<rparr>)"
    using requestAccess_complete [OF assms refl]
    by (auto simp: getPermissions_def Let_def aggregatePermissions_empty)
  then show ?thesis
    by (auto simp: IsAuthorized_def Let_def aggregatePermissions_empty)
qed

text \<open>
  Claim C17: the access control client returns exactly when the chain of pages it follows is
  finite, and then it authorizes the account if and only if some page of the chain holds
  an entry \<open>ocp-advisor:resource:verb\<close> whose resource names the recommendation results or is
  the wildcard; it only adds the calls of the chain to what the request has done.
\<close>

theorem IsAuthorized_spec:
  "IsAuthorized ev rc tok w = Some (b, w') \<longleftrightarrow>
     (\<exists>ps cs'. rbac_chain ev rc tok (ri_uri rc) (w_calls w) ps cs' \<and>
        b = (\<exists>p \<in> set ps. \<exists>acl \<in> set (rb_Data p). grants acl) \<and> w' = w\<lparr>w_calls := cs'\<rparr>)"
proof
  assume a: "IsAuthorized ev rc tok w = Some (b, w')"
  then obtain r where "requestAccess ev rc (ri_uri rc) tok w = Some r"
    by (auto simp: IsAuthorized_def getPermissions_def)
  from requestAccess_sound [OF this] obtain ps cs' where
    "rbac_chain ev rc tok (ri_uri rc) (w_calls w) ps cs'" by blast
  with IsAuthorized_chain [OF this] a show "\<exists>ps cs'. rbac_chain ev rc tok (ri_uri rc) (w_calls w) ps cs' \<and>
    b = (\<exists>p \<in> set ps. \<exists>acl \<in> set (rb_Data p). grants acl) \<and> w' = w\<lparr>w_calls := cs'\<rparr>" by auto
qed (auto simp: IsAuthorized_chain)

subsection \<open>The middlewares as gates\<close>

text \<open>
  A gate lets a request through only in certain forms: whatever happens behind it depends
  on what the next handler does on the requests the gate can forward, and on nothing else.
\<close>

locale gate =
  fixes mw :: "phandler \<Rightarrow> phandler" and forwards :: "http_request \<Rightarrow> http_request \<Rightarrow> bool"
  assumes gate: "(\<And>r' w'. forwards r r' \<Longrightarrow> h1 r' w' = h2 r' w') \<Longrightarrow> mw h1 r w = mw h2 r w"
begin

lemma blocked: "(\<And>r'. \<not> forwards r r') \<Longrightarrow> mw h1 r w = mw h2 r w"
  by (rule gate) blast

end

locale gate_pair = outer: gate mw1 f1 + inner: gate mw2 f2 for mw1 f1 mw2 f2

sublocale gate_pair \<subseteq> both: gate "\<lambda>h. mw1 (mw2 h)" "f1 OO f2"
proof
  fix r w and h1 h2 :: phandler
  assume "\<And>r' w'. (f1 OO f2) r r' \<Longrightarrow> h1 r' w' = h2 r' w'"
  then have "mw2 h1 r' w' = mw2 h2 r' w'" if "f1 r r'" for r' w'
    using that by (intro inner.gate) auto
  then show "mw1 (mw2 h1) r w = mw1 (mw2 h2) r w" by (rule outer.gate)
qed

text \<open>
  The identity a request is forwarded with: the one of its token, with the user \<open>0\<close> when the
  token names none.
\<close>

definition forwarded_identity :: "Identity \<Rightarrow> Identity" where
  "forwarded_identity tk = (if id_UserID tk = [] then tk\<lparr>id_UserID := ''0''\<rparr> else tk)"

definition authn_forwards :: "env \<Rightarrow> HTTPServer \<Rightarrow> string list \<Rightarrow> http_request \<Rightarrow> http_request \<Rightarrow> bool" where
  "authn_forwards ev sv urls r r' \<longleftrightarrow> (auth_exempt ev urls r \<and> r' = r) \<or>
     (\<exists>tk. DecodeTokenFromHeader ev r (cf_AuthType (sv_Config sv)) = Inr tk \<and> id_OrgID tk \<noteq> 0 \<and>
        r' = r\<lparr>rq_User := IdentityValue (forwarded_identity tk)\<rparr>)"

definition authz_forwards :: "env \<Rightarrow> HTTPServer \<Rightarrow> string list \<Rightarrow> http_request \<Rightarrow> http_request \<Rightarrow> bool" where
  "authz_forwards ev sv urls r r' \<longleftrightarrow> r' = r \<and>
     (auth_exempt ev urls r \<or>
      (\<exists>tk. DecodeTokenFromHeader ev r (cf_AuthType (sv_Config sv)) = Inr tk \<and>
        (id_Type tk = ''ServiceAccount'' \<and> rbac_IsEnforcing (sv_rbacClient sv) \<longrightarrow>
          (\<exists>w w'. rbac_IsAuthorized (sv_rbacClient sv) (GetAuthTokenHeader r) w = Some (True, w')))))"

interpretation authn: gate "\<lambda>h. Authentication ev sv h urls" "authn_forwards ev sv urls" for ev sv urls
  by unfold_locales (auto simp: Authentication_def authn_forwards_def forwarded_identity_def Let_def split: sum.splits)

interpretation authz: gate "\<lambda>h. Authorization ev sv h urls" "authz_forwards ev sv urls" for ev sv urls
proof
  fix r w and h1 h2 :: phandler
  assume h: "\<And>r' w'. authz_forwards ev sv urls r r' \<Longrightarrow> h1 r' w' = h2 r' w'"
  show "Authorization ev sv h1 urls r w = Authorization ev sv h2 urls r w"
  proof (cases "auth_exempt ev urls r \<or> (\<exists>e. DecodeTokenFromHeader ev r (cf_AuthType (sv_Config sv)) = Inl e)")
    case True
    then show ?thesis using h [of r] by (auto simp: Authorization_def authz_forwards_def)
  next
    case False
    then obtain tk where tk: "DecodeTokenFromHeader ev r (cf_AuthType (sv_Config sv)) = Inr tk"
      by (cases "DecodeTokenFromHeader ev r (cf_AuthType (sv_Config sv))") auto
    show ?thesis
    proof (cases "id_Type tk = ''ServiceAccount''")
      case True
      let ?w = "Inc (RBACIdentityType (id_Type tk)) w"
      have "h1 r w' = h2 r w'"
        if "rbac_IsAuthorized (sv_rbacClient sv) (GetAuthTokenHeader r) ?w = Some (a, b)"
          "a \<or> \<not> rbac_IsEnforcing (sv_rbacClient sv)" for a b w'
        using that tk by (intro h) (auto simp: authz_forwards_def)
      with True False tk show ?thesis
        by (cases "rbac_IsAuthorized (sv_rbacClient sv) (GetAuthTokenHeader r) ?w")
           (auto simp: Authorization_def Let_def)
    next
      case other: False
      then show ?thesis using False tk h [of r] by (auto simp: Authorization_def authz_forwards_def Let_def)
    qed
  qed
qed

interpretation authn_authz: gate_pair
  "\<lambda>h. Authentication ev sv h urls" "authn_forwards ev sv urls"
  "\<lambda>h. Authorization ev sv h urls" "authz_forwards ev sv urls" for ev sv urls
  by unfold_locales

text \<open>
  Claim C15: with authentication enabled, the handlers behind the middlewares see a request
  that is not exempt in one form only: unchanged but for the identity attached to it, which
  is the identity of its token, with a non-zero organization, in every field but that an
  empty user is replaced by \<open>0\<close>. Two routers that treat this one request alike cannot be
  told apart, with access control enabled or not; if the token does not decode or names no
  organization, no two routers can.
\<close>

theorem only_authenticated_requests:
  assumes "cf_Auth (sv_Config sv)" and "\<not> auth_exempt ev (noAuthURLs sv) r"
    and "\<And>tk w'. DecodeTokenFromHeader ev r (cf_AuthType (sv_Config sv)) = Inr tk \<Longrightarrow> id_OrgID tk \<noteq> 0 \<Longrightarrow>
      h1 (r\<lparr>rq_User := IdentityValue (if id_UserID tk = [] then tk\<lparr>id_UserID := ''0''\<rparr> else tk)\<rparr>) w' =
      h2 (r\<lparr>rq_User := IdentityValue (if id_UserID tk = [] then tk\<lparr>id_UserID := ''0''\<rparr> else tk)\<rparr>) w'"
  shows "setupAuthMiddleware ev sv h1 r w = setupAuthMiddleware ev sv h2 r w"
proof -
  have a: "h1 r' w' = h2 r' w'" if "authn_forwards ev sv (noAuthURLs sv) r r'" for r' w'
    using that assms(2,3) by (auto simp: authn_forwards_def forwarded_identity_def)
  then have b: "h1 r' w' = h2 r' w'"
    if "(authn_forwards ev sv (noAuthURLs sv) OO authz_forwards ev sv (noAuthURLs sv)) r r'" for r' w'
    using that by (auto simp: authz_forwards_def)
  show ?thesis
    using authn.gate [OF a] authn_authz.both.gate [OF b] assms(1)
    by (simp add: setupAuthMiddleware_def Let_def)
qed

text \<open>
  A request with a token without a user: the identity of the token with the user \<open>0\<close> reaches
  the handler, and a handler that refuses every other identity is not told apart from one
  that accepts all.
\<close>

definition nameless_env :: env where
  "nameless_env = sample_env\<lparr>ev_dec := sample_dec\<lparr>dc_token := (\<lambda>_. Inr (sample_identity\<lparr>id_Type := ''User'', id_UserID := []\<rparr>))\<rparr>\<rparr>"

definition token_request :: http_request where
  "token_request = sample_request\<lparr>rq_Header := [(''X-Rh-Identity'', [''token''])]\<rparr>"

lemma nameless_token:
  "DecodeTokenFromHeader nameless_env token_request (cf_AuthType (sv_Config sample_server)) =
     Inr (sample_identity\<lparr>id_Type := ''User'', id_UserID := []\<rparr>)"
proof -
  have "header_get [(''X-Rh-Identity'', [''token''])] XRHAuthTokenHeader = ''token''" by code_simp
  then show ?thesis
    by (simp add: DecodeTokenFromHeader_def GetAuthTokenHeader_def token_request_def nameless_env_def sample_env_def
        sample_server_def New_def sample_config_def)
qed

theorem only_authenticated_requests_witness:
  "DecodeTokenFromHeader nameless_env token_request (cf_AuthType (sv_Config sample_server)) =
     Inr (sample_identity\<lparr>id_Type := ''User'', id_UserID := []\<rparr>) \<and>
   setupAuthMiddleware nameless_env sample_server (\<lambda>r w. Some w) token_request empty_world =
   setupAuthMiddleware nameless_env sample_server
     (\<lambda>r w. if rq_User r = IdentityValue (sample_identity\<lparr>id_Type := ''User'', id_UserID := ''0''\<rparr>) then Some w else None)
     token_request empty_world"
proof (rule conjI [OF nameless_token only_authenticated_requests])
  show "cf_Auth (sv_Config sample_server)" by (simp add: sample_server_def New_def sample_config_def)
  show "\<not> auth_exempt nameless_env (noAuthURLs sample_server) token_request"
    by (simp add: auth_exempt_def noAuthURLs_def sample_server_def New_def sample_config_def sample_env_def nameless_env_def
        sample_request_def token_request_def path_base_def Let_def)
qed (auto simp: nameless_token)

text \<open>
  Claim C16: when access control is enforced, a service account whose pages hold no granting
  entry is answered with exactly one refusal, after the calls of the page walk, is counted
  once as a service account and once as rejected, and no handler behind the middlewares
  runs.
\<close>

theorem unauthorized_service_account:
  assumes "cf_UseRBAC (sv_Config sv)" and "\<not> auth_exempt ev (noAuthURLs sv) r"
    and "DecodeTokenFromHeader ev r (cf_AuthType (sv_Config sv)) = Inr tk"
    and "id_Type tk = ''ServiceAccount''" and "id_OrgID tk \<noteq> 0"
    and "sv_rbacClient sv = rbac_client ev rc" and "ri_enforceAuth rc"
    and "rbac_chain ev rc (GetAuthTokenHeader r) (ri_uri rc) (w_calls w) ps cs'"
    and "\<forall>p \<in> set ps. \<forall>acl \<in> set (rb_Data p). \<not> grants acl"
  shows "setupAuthMiddleware ev sv next r w =
    Some (w\<lparr>w_calls := cs', w_replies := w_replies w @ [SendForbidden ''Account does not have the required permissions''],
      w_counted := w_counted w @ [RBACIdentityType ''ServiceAccount'', RBACServiceAccountRejected]\<rparr>)"
proof -
  let ?w = "Inc (RBACIdentityType ''ServiceAccount'') w"
  have "rbac_chain ev rc (GetAuthTokenHeader r) (ri_uri rc) (w_calls ?w) ps cs'" using assms(8) by simp
  from IsAuthorized_chain [OF this] assms(9)
  have auth: "IsAuthorized ev rc (GetAuthTokenHeader r) ?w = Some (False, ?w\<lparr>w_calls := cs'\<rparr>)" by auto
  have keep: "auth_exempt ev urls (r\<lparr>rq_User := u\<rparr>) = auth_exempt ev urls r"
    "DecodeTokenFromHeader ev (r\<lparr>rq_User := u\<rparr>) t = DecodeTokenFromHeader ev r t"
    "GetAuthTokenHeader (r\<lparr>rq_User := u\<rparr>) = GetAuthTokenHeader r" for urls u t
    by (simp_all add: auth_exempt_def DecodeTokenFromHeader_def GetAuthTokenHeader_def)
  have "Authorization ev sv next (noAuthURLs sv) (r\<lparr>rq_User := u\<rparr>) w =
    Some (w\<lparr>w_calls := cs', w_replies := w_replies w @ [SendForbidden ''Account does not have the required permissions''],
      w_counted := w_counted w @ [RBACIdentityType ''ServiceAccount'', RBACServiceAccountRejected]\<rparr>)" for u
    using assms auth by (simp add: Authorization_def keep rbac_client_def plain_def add_reply_def Let_def)
  from this this [of "rq_User r"] show ?thesis
    using assms(1-5) by (simp add: setupAuthMiddleware_def Let_def Authentication_def)
qed

definition sample_page :: RbacResponse where
  "sample_page = rbac_page_of 1 [] [\<lparr>rd_ResourceDefinitions = [], rd_Permission = ''cost:*:read''\<rparr>]"

definition sample_authz_env :: env where
  "sample_authz_env = sample_env\<lparr>net := (\<lambda>_ _. Inr \<lparr>hr_StatusCode = 200, hr_Header = [], hr_Body = Inr []\<rparr>),
     ev_dec := sample_dec\<lparr>dc_token := (\<lambda>_. Inr sample_identity),
       dc_rbac := (\<lambda>_. (sample_page, None))\<rparr>\<rparr>"

definition sample_rc :: rbacClientImpl where
  "sample_rc = \<lparr>ri_uri = ''https://rbac/access/'', ri_host = ''rbac'', ri_enforceAuth = True\<rparr>"

theorem unauthorized_service_account_witness:
  "setupAuthMiddleware sample_authz_env (SetRBACClient sample_server (rbac_client sample_authz_env sample_rc))
     (\<lambda>r w. None) (sample_request\<lparr>rq_Header := [(''X-Rh-Identity'', [''token''])]\<rparr>) empty_world =
   Some (empty_world\<lparr>w_calls := [rbac_call ''https://rbac/access/'' ''token''], w_replies :=
     [SendForbidden ''Account does not have the required permissions''],
     w_counted := [RBACIdentityType ''ServiceAccount'', RBACServiceAccountRejected]\<rparr>)"
proof -
  let ?sv = "SetRBACClient sample_server (rbac_client sample_authz_env sample_rc)"
  let ?r = "sample_request\<lparr>rq_Header := [(''X-Rh-Identity'', [''token''])]\<rparr>"
  note defs = sample_server_def New_def sample_config_def sample_authz_env_def sample_env_def sample_dec_def
    sample_request_def SetRBACClient_def
  have "header_get [(''X-Rh-Identity'', [''token''])] XRHAuthTokenHeader = ''token''" by code_simp
  then have tok: "GetAuthTokenHeader ?r = ''token''" by (simp add: GetAuthTokenHeader_def)
  have page: "rbac_page sample_authz_env u (net sample_authz_env cs c) = Some sample_page" for u cs c
    by (simp add: rbac_page_def sample_page_def rbac_page_of_def defs)
  have ok: "ev_url_ok sample_authz_env u = None" for u by (simp add: defs)
  have "rbac_chain sample_authz_env sample_rc (GetAuthTokenHeader ?r) (ri_uri sample_rc) (w_calls empty_world)
    [sample_page]
    (w_calls empty_world @ [rbac_call (ri_uri sample_rc) (GetAuthTokenHeader ?r)])"
    by (rule last) (simp_all add: page ok sample_page_def rbac_page_of_def)
  then have "setupAuthMiddleware sample_authz_env ?sv (\<lambda>r w. None) ?r empty_world =
    Some (empty_world\<lparr>w_calls := w_calls empty_world @ [rbac_call (ri_uri sample_rc) (GetAuthTokenHeader ?r)],
      w_replies := w_replies empty_world @ [SendForbidden ''Account does not have the required permissions''],
      w_counted := w_counted empty_world @ [RBACIdentityType ''ServiceAccount'', RBACServiceAccountRejected]\<rparr>)"
  proof (rule unauthorized_service_account [where tk = sample_identity, rotated 7])
    show "cf_UseRBAC (sv_Config ?sv)" by (simp add: defs)
    show "\<not> auth_exempt sample_authz_env (noAuthURLs ?sv) ?r"
      by (simp add: auth_exempt_def noAuthURLs_def path_base_def Let_def defs)
    show "DecodeTokenFromHeader sample_authz_env ?r (cf_AuthType (sv_Config ?sv)) = Inr sample_identity"
      by (simp add: DecodeTokenFromHeader_def tok) (simp add: defs)
  qed (simp_all add: sample_identity_def SetRBACClient_def sample_rc_def grants_def sample_page_def rbac_page_of_def)
  then show ?thesis by (simp add: tok sample_rc_def empty_world_def)
qed

end
