(* ===== verification/Params.thy ===== *)
theory Params
  imports Auth
begin

text \<open>
  \<open>server/router_utils.go\<close> and the helpers of \<open>server/utils.go\<close> that compute something: reading
  and validation of path, query, header and body parameters. A reader that takes the
  writer answers the client itself when it fails.
\<close>

datatype ImpactingFlag = OnlyImpacting | IncludingImpacting | ExcludingImpacting

definition query_get :: "http_request \<Rightarrow> string \<Rightarrow> string" where
  "query_get request name = (case map_of (rq_Query request) name of None \<Rightarrow> [] | Some v \<Rightarrow> v)"

text \<open>\<open>strconv.ParseBool\<close>.\<close>

definition ParseBool :: "string \<Rightarrow> bool res" where
  "ParseBool s =
     (if s \<in> {''1'', ''t'', ''T'', ''TRUE'', ''true'', ''True''} then Inr True
      else if s \<in> {''0'', ''f'', ''F'', ''FALSE'', ''false'', ''False''} then Inr False
      else Inl (OtherError (''strconv.ParseBool: parsing '' @ s @ '': invalid syntax'')))"

definition readRuleIDWithErrorKey :: "env \<Rightarrow> http_request \<Rightarrow> (world, (RuleID \<times> ErrorKey) res) state" where
  "readRuleIDWithErrorKey ev request =
     (case ev_GetRouterParam ev request ''rule_id'' of
        Inl err \<Rightarrow> do { handleServerError ev (Some err); ret (Inl err) }
      | Inr ruleIDWithErrorKey \<Rightarrow>
          (case RuleIDWithErrorKeyFromCompositeRuleID ruleIDWithErrorKey of
             Inl err \<Rightarrow> do {
               send_log ev (SendBadRequest (Error ev (RouterParsingError ''rule_id'' ruleIDWithErrorKey (Error ev err))));
               ret (Inl err)
             }
           | Inr (ruleID, errorKey) \<Rightarrow> ret (Inr (ruleID, errorKey))))"

definition readCompositeRuleID :: "env \<Rightarrow> http_request \<Rightarrow> RuleID res" where
  "readCompositeRuleID ev request =
     (case ev_GetRouterParam ev request ''rule_id'' of
        Inl err \<Rightarrow> Inl err
      | Inr ruleIDParam \<Rightarrow>
          if \<not> match_composite ruleIDParam then
            Inl (RouterParsingError ''rule_id'' ruleIDParam
              (''invalid composite rule ID. Must be in the format '' @ [CHR 0x27] @ ''rule.plugin.module|ERROR_KEY'' @ [CHR 0x27]))
          else Inr ruleIDParam)"

definition readQueryBoolParam :: "string \<Rightarrow> bool \<Rightarrow> http_request \<Rightarrow> bool res" where
  "readQueryBoolParam name defaultValue request =
     (let value = query_get request name in if value = [] then Inr defaultValue else ParseBool value)"

definition readGetDisabledParam :: "http_request \<Rightarrow> bool res" where
  "readGetDisabledParam request = readQueryBoolParam ''get_disabled'' False request"

definition readOSDEligible :: "http_request \<Rightarrow> bool res" where
  "readOSDEligible request = readQueryBoolParam ''osd_eligible'' False request"

definition readImpactingParam :: "http_request \<Rightarrow> bool res" where
  "readImpactingParam request = readQueryBoolParam ''impacting'' True request"

text \<open>A parameter error without a value prints the nil interface.\<close>

definition readParamsGetRecommendations ::
  "env \<Rightarrow> http_request \<Rightarrow> (world, (UserID \<times> OrgID \<times> ImpactingFlag) res) state" where
  "readParamsGetRecommendations ev request =
     (case GetCurrentOrgIDUserIDFromToken request of
        Inl err \<Rightarrow> do { handleServerError ev (Some err); ret (Inl err) }
      | Inr (orgID, userID) \<Rightarrow>
          if query_get request ''impacting'' = [] then ret (Inr (userID, orgID, IncludingImpacting))
          else (case readImpactingParam request of
              Inl err \<Rightarrow> do {
                handleServerError ev (Some (RouterParsingError ''impacting'' ''<nil>'' ''Unparsable boolean value''));
                ret (Inl err)
              }
            | Inr impactingParamBool \<Rightarrow>
                ret (Inr (userID, orgID, if impactingParamBool then OnlyImpacting else ExcludingImpacting))))"

definition readUserAgentHeaderProduct :: "http_request \<Rightarrow> string" where
  "readUserAgentHeaderProduct request =
     (let userAgent = header_get (rq_Header request) ''User-Agent'' in
      if userAgent = [] then [] else Split (CHR ''/'') userAgent ! 0)"

text \<open>The switch of \<open>getKnownUserAgentProduct\<close> only chooses a log message.\<close>

definition getKnownUserAgentProduct :: "http_request \<Rightarrow> string" where
  "getKnownUserAgentProduct request = readUserAgentHeaderProduct request"

definition ValidateRequestID :: "string \<Rightarrow> RequestID res" where
  "ValidateRequestID requestID =
     (if \<not> match_alnum requestID
      then Inl (ErrorString (''invalid request ID: '' @ [CHR 0x27] @ requestID @ [CHR 0x27]))
      else Inr requestID)"

definition readRequestID :: "env \<Rightarrow> http_request \<Rightarrow> (world, RequestID res) state" where
  "readRequestID ev request =
     (case ev_GetRouterParam ev request ''request_id'' of
        Inl err \<Rightarrow> do { handleServerError ev (Some err); ret (Inl err) }
      | Inr requestID \<Rightarrow>
          (case ValidateRequestID requestID of
             Inl err \<Rightarrow>
               (let err = RouterParsingError ''request_id'' requestID (Error ev err)
                in do { handleServerError ev (Some err); ret (Inl err) })
           | Inr validatedRequestID \<Rightarrow> ret (Inr validatedRequestID)))"

text \<open>The validation loop of \<open>readRequestIDList\<close>: it stops at the first malformed id.\<close>

fun validate_ids :: "env \<Rightarrow> string list \<Rightarrow> RequestID list res" where
  "validate_ids ev [] = Inr []"
| "validate_ids ev (requestID # rest) =
     (case ValidateRequestID requestID of
        Inl err \<Rightarrow> Inl (RouterParsingError ''request_id'' requestID (Error ev err))
      | Inr validatedRequestID \<Rightarrow> map_sum id (\<lambda>ids. validatedRequestID # ids) (validate_ids ev rest))"

definition readRequestIDList :: "env \<Rightarrow> http_request \<Rightarrow> (world, RequestID list res) state" where
  "readRequestIDList ev request =
     (if rq_ContentLength request \<le> 0 then do { handleServerError ev (Some NoBodyError); ret (Inl NoBodyError) }
      else case dc_request_ids (ev_dec ev) (rq_Body request) of
          Inl err \<Rightarrow> do { handleServerError ev (Some BadBodyContent); ret (Inl BadBodyContent) }
        | Inr requestList \<Rightarrow>
            (case validate_ids ev requestList of
               Inl err \<Rightarrow> do { handleServerError ev (Some err); ret (Inl err) }
             | Inr ids \<Rightarrow> ret (Inr ids)))"

text \<open>
  \<open>^.{1,256}$\<close> matches code points other than the line feed; a byte that starts no valid
  UTF-8 sequence counts as one code point. \<open>rune_len\<close> is the length of the first one.
\<close>

definition cont_byte :: "nat \<Rightarrow> nat \<Rightarrow> char \<Rightarrow> bool" where
  "cont_byte lo hi c \<longleftrightarrow> lo \<le> (of_char c :: nat) \<and> (of_char c :: nat) \<le> hi"

fun rune_len :: "string \<Rightarrow> nat" where
  "rune_len [] = 0"
| "rune_len (c0 # cs) =
     (let b0 = (of_char c0 :: nat);
          lo = (if b0 = 0xE0 then 0xA0 else if b0 = 0xF0 then 0x90 else 0x80);
          hi = (if b0 = 0xED then 0x9F else if b0 = 0xF4 then 0x8F else 0xBF)
      in if 0xC2 \<le> b0 \<and> b0 \<le> 0xDF then
           (case cs of c1 # _ \<Rightarrow> if cont_byte 0x80 0xBF c1 then 2 else 1 | _ \<Rightarrow> 1)
         else if 0xE0 \<le> b0 \<and> b0 \<le> 0xEF then
           (case cs of c1 # c2 # _ \<Rightarrow> if cont_byte lo hi c1 \<and> cont_byte 0x80 0xBF c2 then 3 else 1 | _ \<Rightarrow> 1)
         else if 0xF0 \<le> b0 \<and> b0 \<le> 0xF4 then
           (case cs of c1 # c2 # c3 # _ \<Rightarrow>
              if cont_byte lo hi c1 \<and> cont_byte 0x80 0xBF c2 \<and> cont_byte 0x80 0xBF c3 then 4 else 1 | _ \<Rightarrow> 1)
         else 1)"

lemma rune_len_pos: "0 < rune_len (c # cs)"
  by (auto simp: Let_def split: list.splits)

function rune_count :: "string \<Rightarrow> nat" where
  "rune_count [] = 0"
| "rune_count (c # cs) = Suc (rune_count (drop (rune_len (c # cs)) (c # cs)))"
  by pat_completeness auto
termination
proof (relation "measure length")
  fix c cs
  have "0 < rune_len (c # cs)" by (rule rune_len_pos)
  then show "(drop (rune_len (c # cs)) (c # cs), c # cs) \<in> measure length"
    by (simp del: rune_len.simps)
qed simp

definition validateNamespaceID :: "string \<Rightarrow> string res" where
  "validateNamespaceID namespace =
     (if 1 \<le> rune_count namespace \<and> rune_count namespace \<le> 256 \<and> CHR 0x0A \<notin> set namespace then Inr namespace
      else Inl (ErrorString (''invalid namespace ID: '' @ [CHR 0x27] @ namespace @ [CHR 0x27])))"

definition readNamespace :: "env \<Rightarrow> http_request \<Rightarrow> (world, Namespace res) state" where
  "readNamespace ev request =
     (case ev_GetRouterParam ev request ''namespace'' of
        Inl err \<Rightarrow> do { handleServerError ev (Some err); ret (Inl err) }
      | Inr namespaceID \<Rightarrow>
          (case validateNamespaceID namespaceID of
             Inl err \<Rightarrow>
               (let err = RouterParsingError ''namespace'' namespaceID (Error ev err)
                in do { handleServerError ev (Some err); ret (Inl err) })
           | Inr validatedNamespaceID \<Rightarrow> ret (Inr \<lparr>ns_UUID = validatedNamespaceID, ns_FullName = ''''\<rparr>)))"

text \<open>\<open>generateCompositeRuleIDFromDisabled\<close> of \<open>server/utils.go\<close>.\<close>

definition generateCompositeRuleIDFromDisabled :: "env \<Rightarrow> DisabledRule \<Rightarrow> RuleID \<times> gerror option" where
  "generateCompositeRuleIDFromDisabled ev disabledRule =
     ce_GenerateCompositeRuleID (ev_content ev) (TrimSuffix (dr_RuleID disabledRule) dotReport) (dr_ErrorKey disabledRule)"

subsection \<open>The contract of the readers\<close>

text \<open>
  A reader that takes the writer leaves the client unanswered and the world unchanged when
  it succeeds, and has answered the client exactly once when it fails.
\<close>

definition answers_once :: "(world, 'a res) state \<Rightarrow> bool" where
  "answers_once m \<longleftrightarrow> (\<forall>w. case run_state m w of
      (Inr v, w') \<Rightarrow> w' = w
    | (Inl e, w') \<Rightarrow> (\<exists>r. w' = add_reply r w))"

locale reader =
  fixes read :: "http_request \<Rightarrow> (world, 'a res) state"
  assumes answers_once: "answers_once (read request)"
begin

lemma ok_world: "run_state (read request) w = (Inr v, w') \<Longrightarrow> w' = w"
  using answers_once [of request] unfolding answers_once_def by (auto dest!: spec [of _ w])

lemma error_one_reply:
  "run_state (read request) w = (Inl e, w') \<Longrightarrow> \<exists>r. w_replies w' = w_replies w @ [r]"
  using answers_once [of request] unfolding answers_once_def by (auto dest!: spec [of _ w])

lemma no_calls: "w_calls (snd (run_state (read request) w)) = w_calls w"
proof (cases "run_state (read request) w")
  case (Pair v w')
  with answers_once [of request] show ?thesis
    unfolding answers_once_def by (cases v) (auto dest!: spec [of _ w])
qed

end

interpretation read_rule: reader "readRuleIDWithErrorKey ev" for ev
  by unfold_locales (auto simp: answers_once_def readRuleIDWithErrorKey_def split: sum.splits)

interpretation read_request_id: reader "readRequestID ev" for ev
  by unfold_locales (auto simp: answers_once_def readRequestID_def Let_def split: sum.splits)

interpretation read_request_list: reader "readRequestIDList ev" for ev
  by unfold_locales (auto simp: answers_once_def readRequestIDList_def split: sum.splits)

interpretation read_namespace: reader "readNamespace ev" for ev
  by unfold_locales (auto simp: answers_once_def readNamespace_def Let_def split: sum.splits)

interpretation read_recommendation_params: reader "readParamsGetRecommendations ev" for ev
  by unfold_locales (auto simp: answers_once_def readParamsGetRecommendations_def split: sum.splits)

subsection \<open>What the readers accept\<close>

lemma validate_ids_ok:
  "validate_ids ev ids = Inr ids' \<longleftrightarrow> ids' = ids \<and> (\<forall>i \<in> set ids. match_alnum i)"
proof (induction ids arbitrary: ids')
  case (Cons i ids)
  show ?case
  proof (cases "validate_ids ev ids")
    case (Inl e)
    then have "\<not> (\<forall>i \<in> set ids. match_alnum i)" using Cons.IH [of ids] by simp
    with Inl show ?thesis by (auto simp: ValidateRequestID_def)
  next
    case (Inr js)
    then have "js = ids \<and> (\<forall>i \<in> set ids. match_alnum i)" using Cons.IH [of js] by simp
    with Inr show ?thesis by (auto simp: ValidateRequestID_def)
  qed
qed auto

lemma validate_ids_error:
  "validate_ids ev ids = Inl e \<Longrightarrow> \<exists>p v t. e = RouterParsingError p v t"
  by (induction ids arbitrary: e) (auto split: sum.splits if_splits simp: map_sum_def)

text \<open>
  The composite rule id accepted by \<open>readCompositeRuleID\<close> is always one that
  \<open>RuleIDWithErrorKeyFromCompositeRuleID\<close> splits, into the parts around its only bar.
\<close>

lemma composite_id_splits:
  assumes "readCompositeRuleID ev request = Inr s"
  shows "\<exists>r k. RuleIDWithErrorKeyFromCompositeRuleID s = Inr (r, k) \<and> s = r @ ''|'' @ k"
  using assms composite_ok_iff composite_valid_iff [of s]
  by (auto simp: readCompositeRuleID_def split: sum.splits if_splits)

lemma composite_id_splits_instance:
  "readCompositeRuleID sample_env (sample_request\<lparr>rq_Vars := [(''rule_id'', ''a.b|K'')]\<rparr>) = Inr ''a.b|K'' \<and>
   (\<exists>r k. RuleIDWithErrorKeyFromCompositeRuleID ''a.b|K'' = Inr (r, k))"
proof -
  have "readCompositeRuleID sample_env (sample_request\<lparr>rq_Vars := [(''rule_id'', ''a.b|K'')]\<rparr>) = Inr ''a.b|K''"
    by (simp add: readCompositeRuleID_def sample_env_def sample_request_def match_composite_def match_id_def is_alnum_def)
  with composite_id_splits [OF this] show ?thesis by blast
qed

text \<open>
  Claim C39: \<open>readRequestIDList\<close> returns the ids of the body unchanged, and only when there is a
  body and every id is a non-empty alphanumeric string; otherwise the client gets exactly
  one reply, a bad request.
\<close>

theorem request_list_validated:
  "(case run_state (readRequestIDList ev request) w of
      (Inr ids, w') \<Rightarrow> w' = w \<and> rq_ContentLength request > 0 \<and>
        dc_request_ids (ev_dec ev) (rq_Body request) = Inr ids \<and> list_all match_alnum ids
    | (Inl e, w') \<Rightarrow> (\<exists>msg. w' = add_reply (SendBadRequest msg) w))"
  by (auto simp: readRequestIDList_def validate_ids_ok list_all_iff dest!: validate_ids_error split: sum.splits)

end
