(* ===== verification/Acks_Props.thy ===== *)
theory Acks_Props
  imports Acks
begin

text \<open>
  The acknowledgement handlers against a table of acknowledgements: create unless present,
  change when present, delete when present, with the replies the client gets; and the
  set of acknowledged rules that the other handlers filter by.
\<close>

type_synonym ack_table = "RuleID \<times> ErrorKey \<times> OrgID \<rightharpoonup> SystemWideRuleDisable"

text \<open>
  The aggregator's side: \<open>tab cs\<close> is its table after the calls \<open>cs\<close>. It answers a read with 200
  and the row, or with 404 and some payload; disabling adds a row with the justification,
  updating changes the justification of a row that is there, enabling removes the row,
  and reading changes nothing.
\<close>

definition row_for :: "SystemWideRuleDisable \<Rightarrow> RuleID \<Rightarrow> ErrorKey \<Rightarrow> string \<Rightarrow> bool" where
  "row_for d r k j \<longleftrightarrow> sw_RuleID d = r \<and> sw_ErrorKey d = k \<and> sw_Justification d = j"

definition reads_table :: "env \<Rightarrow> HTTPServer \<Rightarrow> (http_call list \<Rightarrow> ack_table) \<Rightarrow> bool" where
  "reads_table ev sv tab \<longleftrightarrow> (\<forall>cs r k g.
     tab (cs @ [read_call sv r k g]) = tab cs \<and>
     (\<exists>resp d. net ev cs (read_call sv r k g) = Inr resp \<and> dc_ack (ev_dec ev) (hr_Body resp) = Inr d \<and>
        (case tab cs (r, k, g) of
           Some d' \<Rightarrow> hr_StatusCode resp = 200 \<and> d = d' | None \<Rightarrow> hr_StatusCode resp = 404)))"

definition ack_aggregator :: "env \<Rightarrow> HTTPServer \<Rightarrow> (http_call list \<Rightarrow> ack_table) \<Rightarrow> bool" where
  "ack_aggregator ev sv tab \<longleftrightarrow> reads_table ev sv tab \<and> (\<forall>u. ev_url_ok ev u = None) \<and>
     (\<forall>cs r k g j. \<exists>resp d. net ev cs (disable_call sv r k g j) = Inr resp \<and> hr_StatusCode resp = 200 \<and>
        tab (cs @ [disable_call sv r k g j]) = (tab cs)((r, k, g) \<mapsto> d) \<and> row_for d r k j) \<and>
     (\<forall>cs r k g j. tab cs (r, k, g) \<noteq> None \<longrightarrow>
        (\<exists>resp d. net ev cs (update_call sv r k g j) = Inr resp \<and> hr_StatusCode resp = 200 \<and>
          tab (cs @ [update_call sv r k g j]) = (tab cs)((r, k, g) \<mapsto> d) \<and> row_for d r k j)) \<and>
     (\<forall>cs r k g. \<exists>resp. net ev cs (enable_call sv r k g) = Inr resp \<and> hr_StatusCode resp = 200 \<and>
        tab (cs @ [enable_call sv r k g]) = (tab cs)((r, k, g) := None))"

lemma reads_tableD:
  assumes "reads_table ev sv tab"
  obtains resp d where "net ev cs (read_call sv r k g) = Inr resp" and "dc_ack (ev_dec ev) (hr_Body resp) = Inr d"
    and "case tab cs (r, k, g) of
      Some d' \<Rightarrow> hr_StatusCode resp = 200 \<and> d = d' | None \<Rightarrow> hr_StatusCode resp = 404"
  using assms unfolding reads_table_def by blast

lemma status_present:
  assumes "reads_table ev sv tab" and "tab (w_calls w) (r, k, g) = Some d"
  shows "run_state (readRuleDisableStatus ev sv r k g) w =
    (Inr (ack_of ev d, True), add_call (read_call sv r k g) w)"
proof -
  obtain resp d' where "net ev (w_calls w) (read_call sv r k g) = Inr resp"
    "dc_ack (ev_dec ev) (hr_Body resp) = Inr d'" "case tab (w_calls w) (r, k, g) of
      Some d'' \<Rightarrow> hr_StatusCode resp = 200 \<and> d' = d'' | None \<Rightarrow> hr_StatusCode resp = 404"
    using reads_tableD [OF assms(1)] .
  with assms(2) show ?thesis by (simp add: readRuleDisableStatus_def)
qed

lemma status_absent:
  assumes "reads_table ev sv tab" and "tab (w_calls w) (r, k, g) = None"
  shows "\<exists>a. run_state (readRuleDisableStatus ev sv r k g) w =
    (Inr (a, False), add_call (read_call sv r k g) w)"
proof -
  obtain resp d where "net ev (w_calls w) (read_call sv r k g) = Inr resp"
    "dc_ack (ev_dec ev) (hr_Body resp) = Inr d" "case tab (w_calls w) (r, k, g) of
      Some d' \<Rightarrow> hr_StatusCode resp = 200 \<and> d = d' | None \<Rightarrow> hr_StatusCode resp = 404"
    using reads_tableD [OF assms(1)] .
  with assms(2) show ?thesis by (simp add: readRuleDisableStatus_def)
qed

lemma read_keeps_table: "reads_table ev sv tab \<Longrightarrow> tab (cs @ [read_call sv r k g]) = tab cs"
  by (simp add: reads_table_def)

lemma ack_creates:
  assumes "ack_aggregator ev sv tab"
  obtains d where "run_state (ackRuleSystemWide ev sv r k g j) w = (None, add_call (disable_call sv r k g j) w)"
    and "tab (w_calls w @ [disable_call sv r k g j]) = (tab (w_calls w))((r, k, g) \<mapsto> d)" and "row_for d r k j"
proof -
  from assms obtain resp d where "net ev (w_calls w) (disable_call sv r k g j) = Inr resp" "hr_StatusCode resp = 200"
    "tab (w_calls w @ [disable_call sv r k g j]) = (tab (w_calls w))((r, k, g) \<mapsto> d)" "row_for d r k j"
    unfolding ack_aggregator_def by blast
  moreover have "ev_url_ok ev u = None" for u using assms unfolding ack_aggregator_def by blast
  ultimately show thesis
    by (intro that [of d]) (simp_all add: ackRuleSystemWide_def check_ok_def)
qed

lemma ack_updates:
  assumes "ack_aggregator ev sv tab" and "tab (w_calls w) (r, k, g) \<noteq> None"
  obtains d where "run_state (updateAckRuleSystemWide ev sv r k g j) w = (None, add_call (update_call sv r k g j) w)"
    and "tab (w_calls w @ [update_call sv r k g j]) = (tab (w_calls w))((r, k, g) \<mapsto> d)" and "row_for d r k j"
proof -
  from assms obtain resp d where "net ev (w_calls w) (update_call sv r k g j) = Inr resp" "hr_StatusCode resp = 200"
    "tab (w_calls w @ [update_call sv r k g j]) = (tab (w_calls w))((r, k, g) \<mapsto> d)" "row_for d r k j"
    unfolding ack_aggregator_def by blast
  then show thesis
    by (intro that [of d]) (simp_all add: updateAckRuleSystemWide_def check_ok_def)
qed

lemma ack_deletes:
  assumes "ack_aggregator ev sv tab"
  shows "run_state (deleteAckRuleSystemWide ev sv r k g) w = (None, add_call (enable_call sv r k g) w) \<and>
    tab (w_calls w @ [enable_call sv r k g]) = (tab (w_calls w))((r, k, g) := None)"
proof -
  from assms obtain resp where "net ev (w_calls w) (enable_call sv r k g) = Inr resp" "hr_StatusCode resp = 200"
    "tab (w_calls w @ [enable_call sv r k g]) = (tab (w_calls w))((r, k, g) := None)"
    unfolding ack_aggregator_def by blast
  moreover have "ev_url_ok ev u = None" for u using assms unfolding ack_aggregator_def by blast
  ultimately show ?thesis by (simp add: deleteAckRuleSystemWide_def check_ok_def)
qed

lemma ack_aggregator_reads: "ack_aggregator ev sv tab \<Longrightarrow> reads_table ev sv tab"
  by (simp add: ack_aggregator_def)

lemma acknowledgePost_absent:
  assumes agg: "ack_aggregator ev sv tab"
    and org: "GetCurrentOrgID request = Inr g"
    and body: "dc_selector_justification (ev_dec ev) (rq_Body request) = Inr (sel, v)"
    and sel: "ev_ParseRuleSelector ev sel = Inr (r, k)"
    and absent: "tab (w_calls w) (r, k, g) = None"
  shows "\<exists>d. row_for d r k v \<and>
    tab (w_calls (snd (run_state (acknowledgePost ev sv request) w))) = (tab (w_calls w))((r, k, g) \<mapsto> d) \<and>
    w_replies (snd (run_state (acknowledgePost ev sv request) w)) =
      w_replies w @ [WriteHeader 201, WriteBody (PAck (ack_of ev d))]"
proof -
  note reads = ack_aggregator_reads [OF agg]
  let ?w0 = "w\<lparr>w_headers := w_headers w @ [(contentTypeHeader, JSONContentType)]\<rparr>"
  let ?w1 = "add_call (read_call sv r k g) ?w0" and ?call = "disable_call sv r k g v"
  let ?w2 = "add_call ?call ?w1"
  obtain a where s1: "run_state (readRuleDisableStatus ev sv r k g) ?w0 = (Inr (a, False), ?w1)"
    using status_absent [OF reads, of ?w0 r k g] absent by auto
  obtain d where ack: "run_state (ackRuleSystemWide ev sv r k g v) ?w1 = (None, ?w2)"
    and t2: "tab (w_calls ?w1 @ [?call]) = (tab (w_calls ?w1))((r, k, g) \<mapsto> d)"
    and d: "row_for d r k v" by (rule ack_creates [OF agg])
  have t2': "tab (w_calls ?w2) = (tab (w_calls w))((r, k, g) \<mapsto> d)" using t2 by (simp add: read_keeps_table [OF reads])
  then have s2: "run_state (readRuleDisableStatus ev sv r k g) ?w2 = (Inr (ack_of ev d, True), add_call (read_call sv r k g) ?w2)"
    by (intro status_present [OF reads]) simp
  have "run_state (acknowledgePost ev sv request) w = ((), add_reply (WriteBody (PAck (ack_of ev d)))
      (add_reply (WriteHeader 201) (add_call (read_call sv r k g) ?w2)))"
    by (simp add: acknowledgePost_def org readRuleSelectorAndJustificationFromBody_def body sel s1 ack s2
        returnRuleAckToClient_def)
  with d t2' show ?thesis by (auto simp: read_keeps_table [OF reads, of "w_calls ?w2", simplified])
qed

lemma acknowledgePost_present:
  assumes agg: "ack_aggregator ev sv tab"
    and org: "GetCurrentOrgID request = Inr g"
    and body: "dc_selector_justification (ev_dec ev) (rq_Body request) = Inr (sel, v)"
    and sel: "ev_ParseRuleSelector ev sel = Inr (r, k)"
    and present: "tab (w_calls w) (r, k, g) = Some d"
  shows "tab (w_calls (snd (run_state (acknowledgePost ev sv request) w))) = tab (w_calls w) \<and>
    w_replies (snd (run_state (acknowledgePost ev sv request) w)) = w_replies w @ [WriteBody (PAck (ack_of ev d))]"
proof -
  note reads = ack_aggregator_reads [OF agg]
  let ?w0 = "w\<lparr>w_headers := w_headers w @ [(contentTypeHeader, JSONContentType)]\<rparr>"
  let ?w1 = "add_call (read_call sv r k g) ?w0"
  have t1: "tab (w_calls ?w1) = tab (w_calls w)" by (simp add: read_keeps_table [OF reads])
  have s1: "run_state (readRuleDisableStatus ev sv r k g) ?w0 = (Inr (ack_of ev d, True), ?w1)"
    using present by (intro status_present [OF reads]) simp
  have s2: "run_state (readRuleDisableStatus ev sv r k g) ?w1 = (Inr (ack_of ev d, True), add_call (read_call sv r k g) ?w1)"
    using present t1 by (intro status_present [OF reads]) simp
  have "run_state (acknowledgePost ev sv request) w =
      ((), add_reply (WriteBody (PAck (ack_of ev d))) (add_call (read_call sv r k g) ?w1))"
    by (simp add: acknowledgePost_def org readRuleSelectorAndJustificationFromBody_def body sel s1 s2
        returnRuleAckToClient_def)
  with t1 show ?thesis by (auto simp: read_keeps_table [OF reads, of "w_calls ?w1", simplified])
qed

text \<open>
  Claim C7: posting an acknowledgement creates it exactly when the organization has none for
  the rule: then the table gets a row with the posted justification and the client gets
  201 and that row; when there is one, nothing changes and the client gets the row as it
  was.
\<close>

theorem acknowledgePost_refines:
  assumes agg: "ack_aggregator ev sv tab"
    and org: "GetCurrentOrgID request = Inr g"
    and body: "dc_selector_justification (ev_dec ev) (rq_Body request) = Inr (sel, v)"
    and sel: "ev_ParseRuleSelector ev sel = Inr (r, k)"
  shows "(case tab (w_calls w) (r, k, g) of
      None \<Rightarrow> \<exists>d. row_for d r k v \<and>
        tab (w_calls (snd (run_state (acknowledgePost ev sv request) w))) = (tab (w_calls w))((r, k, g) \<mapsto> d) \<and>
        w_replies (snd (run_state (acknowledgePost ev sv request) w)) =
          w_replies w @ [WriteHeader 201, WriteBody (PAck (ack_of ev d))]
    | Some d \<Rightarrow>
        tab (w_calls (snd (run_state (acknowledgePost ev sv request) w))) = tab (w_calls w) \<and>
        w_replies (snd (run_state (acknowledgePost ev sv request) w)) = w_replies w @ [WriteBody (PAck (ack_of ev d))])"
  using acknowledgePost_absent [OF assms] acknowledgePost_present [OF assms] by (simp split: option.split)

text \<open>
  Claim C8: updating an acknowledgement changes the justification of a row that is there and
  returns the changed row; without a row the table is unchanged and the client gets the
  not-found reply for the rule.
\<close>

theorem updateAcknowledge_refines:
  assumes agg: "ack_aggregator ev sv tab"
    and org: "GetCurrentOrgID request = Inr g"
    and rule: "run_state (readRuleIDWithErrorKey ev request) w = (Inr (r, k), w)"
    and body: "readJustificationFromBody ev request = Inr v"
  shows "(case tab (w_calls w) (r, k, g) of
      None \<Rightarrow>
        tab (w_calls (snd (run_state (updateAcknowledge ev sv request) w))) = tab (w_calls w) \<and>
        w_replies (snd (run_state (updateAcknowledge ev sv request) w)) =
          w_replies w @ [SendNotFound (ev_item_not_found_text ev (ItemStr (r @ ''|'' @ k)))]
    | Some _ \<Rightarrow> \<exists>d. row_for d r k v \<and>
        tab (w_calls (snd (run_state (updateAcknowledge ev sv request) w))) = (tab (w_calls w))((r, k, g) \<mapsto> d) \<and>
        w_replies (snd (run_state (updateAcknowledge ev sv request) w)) = w_replies w @ [WriteBody (PAck (ack_of ev d))])"
proof -
  note reads = ack_aggregator_reads [OF agg]
  let ?w1 = "add_call (read_call sv r k g) w"
  have t1: "tab (w_calls ?w1) = tab (w_calls w)" by (simp add: read_keeps_table [OF reads])
  show ?thesis
  proof (cases "tab (w_calls w) (r, k, g)")
    case None
    then obtain a where s1: "run_state (readRuleDisableStatus ev sv r k g) w = (Inr (a, False), ?w1)"
      using status_absent [OF reads, of w r k g] by auto
    with None t1 show ?thesis by (simp add: updateAcknowledge_def org rule body)
  next
    case (Some d0)
    have s1: "run_state (readRuleDisableStatus ev sv r k g) w = (Inr (ack_of ev d0, True), ?w1)"
      by (rule status_present [OF reads Some])
    obtain d where
      upd: "run_state (updateAckRuleSystemWide ev sv r k g v) ?w1 = (None, add_call (update_call sv r k g v) ?w1)"
      and t2: "tab (w_calls ?w1 @ [update_call sv r k g v]) = (tab (w_calls ?w1))((r, k, g) \<mapsto> d)"
      and d: "row_for d r k v"
      by (rule ack_updates [OF agg, of ?w1 r k g v]) (use Some t1 in auto)
    let ?w2 = "add_call (update_call sv r k g v) ?w1"
    have t2': "tab (w_calls ?w2) = (tab (w_calls w))((r, k, g) \<mapsto> d)" using t2 t1 by simp
    then have s2: "run_state (readRuleDisableStatus ev sv r k g) ?w2 =
        (Inr (ack_of ev d, True), add_call (read_call sv r k g) ?w2)"
      by (intro status_present [OF reads]) simp
    have "run_state (updateAcknowledge ev sv request) w =
        ((), add_reply (WriteBody (PAck (ack_of ev d))) (add_call (read_call sv r k g) ?w2))"
      by (simp add: updateAcknowledge_def org rule body s1 upd s2 returnRuleAckToClient_def)
    with Some d t2' show ?thesis
      by (auto simp: read_keeps_table [OF reads, of "w_calls ?w2", simplified])
  qed
qed

lemma deleteAcknowledge_present:
  assumes agg: "ack_aggregator ev sv tab"
    and org: "GetCurrentOrgID request = Inr g"
    and rule: "run_state (readRuleIDWithErrorKey ev request) w = (Inr (r, k), w)"
    and present: "tab (w_calls w) (r, k, g) = Some d"
  shows "tab (w_calls (snd (run_state (deleteAcknowledge ev sv request) w))) = (tab (w_calls w))((r, k, g) := None) \<and>
    w_replies (snd (run_state (deleteAcknowledge ev sv request) w)) = w_replies w @ [WriteHeader 204]"
proof -
  note reads = ack_aggregator_reads [OF agg]
  let ?w1 = "add_call (read_call sv r k g) w"
  have "run_state (readRuleDisableStatus ev sv r k g) w = (Inr (ack_of ev d, True), ?w1)"
    by (rule status_present [OF reads present])
  with read_keeps_table [OF reads, of "w_calls w" r k g] ack_deletes [OF agg, of r k g ?w1] show ?thesis
    by (simp add: deleteAcknowledge_def org rule)
qed

text \<open>
  Claim C9: deleting an acknowledgement removes the row and answers 204; without a row
  nothing is changed and the answer is 404.
\<close>

theorem deleteAcknowledge_refines:
  assumes agg: "ack_aggregator ev sv tab"
    and org: "GetCurrentOrgID request = Inr g"
    and rule: "run_state (readRuleIDWithErrorKey ev request) w = (Inr (r, k), w)"
  shows "tab (w_calls (snd (run_state (deleteAcknowledge ev sv request) w))) = (tab (w_calls w))((r, k, g) := None) \<and>
    w_replies (snd (run_state (deleteAcknowledge ev sv request) w)) =
      w_replies w @ [WriteHeader (if tab (w_calls w) (r, k, g) = None then 404 else 204)]"
proof (cases "tab (w_calls w) (r, k, g)")
  case None
  note reads = ack_aggregator_reads [OF agg]
  from None obtain a where "run_state (readRuleDisableStatus ev sv r k g) w = (Inr (a, False), add_call (read_call sv r k g) w)"
    using status_absent [OF reads, of w r k g] by auto
  with None show ?thesis by (auto simp: deleteAcknowledge_def org rule read_keeps_table [OF reads])
qed (use deleteAcknowledge_present [OF assms] in simp)

subsection \<open>An aggregator that keeps the table\<close>

text \<open>
  The contract can be met: an aggregator that folds the calls it received into a table and
  sends rows as self-delimiting strings.
\<close>

definition enc :: "string \<Rightarrow> string" where
  "enc s = concat (map (\<lambda>c. [CHR ''c'', c]) s) @ ''.''"

fun dec :: "string \<Rightarrow> string \<times> string" where
  "dec (x # c # rest) = (if x = CHR ''c'' then (c # fst (dec rest), snd (dec rest)) else ([], c # rest))"
| "dec _ = ([], [])"

lemma dec_enc: "dec (enc s @ t) = (s, t)"
proof (induction s)
  case Nil
  then show ?case by (cases t) (auto simp: enc_def)
qed (simp add: enc_def)

definition sample_row :: "RuleID \<Rightarrow> ErrorKey \<Rightarrow> string \<Rightarrow> SystemWideRuleDisable" where
  "sample_row r k j = \<lparr>sw_RuleID = r, sw_ErrorKey = k, sw_Justification = j, sw_UserID = ''u'',
     sw_CreatedAt = \<lparr>nt_Time = zero_time, nt_Valid = False\<rparr>, sw_UpdatedAT = \<lparr>nt_Time = zero_time, nt_Valid = False\<rparr>\<rparr>"

fun sample_step :: "(RuleID \<times> ErrorKey \<times> OrgID \<rightharpoonup> string) \<Rightarrow> http_call \<Rightarrow> (RuleID \<times> ErrorKey \<times> OrgID \<rightharpoonup> string)" where
  "sample_step m c = (case (ca_URL c, ca_Body c) of
      (Endpoint b name [ArgStr r, ArgStr k, ArgOrg g], BodyJustification j) \<Rightarrow> m((r, k, g) \<mapsto> j)
    | (Endpoint b name [ArgStr r, ArgStr k, ArgOrg g], NoBody) \<Rightarrow>
        if name = ''EnableRuleSystemWide'' then m((r, k, g) := None) else m
    | _ \<Rightarrow> m)"

definition sample_tab :: "http_call list \<Rightarrow> ack_table" where
  "sample_tab cs = (\<lambda>(r, k, g). map_option (sample_row r k) (foldl sample_step Map.empty cs (r, k, g)))"

definition sample_net :: "http_call list \<Rightarrow> http_call \<Rightarrow> http_response res" where
  "sample_net cs c = (case ca_URL c of
      Endpoint b name [ArgStr r, ArgStr k, ArgOrg g] \<Rightarrow>
        if name = ''ReadRuleSystemWide'' then
          (case foldl sample_step Map.empty cs (r, k, g) of
             None \<Rightarrow> Inr \<lparr>hr_StatusCode = 404, hr_Header = [], hr_Body = Inr []\<rparr>
           | Some j \<Rightarrow> Inr \<lparr>hr_StatusCode = 200, hr_Header = [], hr_Body = Inr (enc r @ enc k @ enc j)\<rparr>)
        else Inr \<lparr>hr_StatusCode = 200, hr_Header = [], hr_Body = Inr []\<rparr>
    | _ \<Rightarrow> Inl (UrlError []))"

definition sample_ack_env :: env where
  "sample_ack_env = sample_env\<lparr>net := sample_net, ev_dec := sample_dec\<lparr>
     dc_ack := (\<lambda>b. case b of Inl e \<Rightarrow> Inl e | Inr s \<Rightarrow> (let (r, s1) = dec s; (k, s2) = dec s1; (j, s3) = dec s2
       in Inr (sample_row r k j))),
     dc_selector_justification := (\<lambda>b. Inr (''a.b|K'', ''why'')), dc_justification := (\<lambda>b. Inr ''why'')\<rparr>\<rparr>"

lemma dec_enc3:
  "dec (enc r @ enc k @ enc j) = (r, enc k @ enc j)" "dec (enc k @ enc j) = (k, enc j)" "dec (enc j) = (j, [])"
  using dec_enc [of j "[]"] by (simp_all add: dec_enc)

lemma sample_ack_env_simps:
  "net sample_ack_env = sample_net" "ev_url_ok sample_ack_env u = None"
  "dc_ack (ev_dec sample_ack_env) (Inr (enc r @ enc k @ enc j)) = Inr (sample_row r k j)"
  "\<exists>d. dc_ack (ev_dec sample_ack_env) (Inr s) = Inr d"
  "dc_selector_justification (ev_dec sample_ack_env) b = Inr (''a.b|K'', ''why'')"
  "dc_justification (ev_dec sample_ack_env) b = Inr ''why''"
  by (simp_all add: sample_ack_env_def sample_env_def sample_dec_def dec_enc3 split_beta)

lemma sample_reads_table: "reads_table sample_ack_env sv sample_tab"
  unfolding reads_table_def
proof (intro allI conjI)
  fix cs r k g
  show "sample_tab (cs @ [read_call sv r k g]) = sample_tab cs"
    by (simp add: sample_tab_def read_call_def get_call_def aggregator_def)
  have net: "net sample_ack_env cs (read_call sv r k g) =
    (case foldl sample_step Map.empty cs (r, k, g) of
       None \<Rightarrow> Inr \<lparr>hr_StatusCode = 404, hr_Header = [], hr_Body = Inr []\<rparr>
     | Some j \<Rightarrow> Inr \<lparr>hr_StatusCode = 200, hr_Header = [], hr_Body = Inr (enc r @ enc k @ enc j)\<rparr>)"
    by (simp add: sample_ack_env_simps sample_net_def read_call_def get_call_def aggregator_def)
  show "\<exists>resp d. net sample_ack_env cs (read_call sv r k g) = Inr resp \<and>
      dc_ack (ev_dec sample_ack_env) (hr_Body resp) = Inr d \<and>
      (case sample_tab cs (r, k, g) of
         Some d' \<Rightarrow> hr_StatusCode resp = 200 \<and> d = d' | None \<Rightarrow> hr_StatusCode resp = 404)"
    unfolding net by (cases "foldl sample_step Map.empty cs (r, k, g)")
      (auto simp: sample_tab_def sample_ack_env_simps)
qed

lemma sample_ack_aggregator: "ack_aggregator sample_ack_env sv sample_tab"
proof -
  note defs = disable_call_def update_call_def enable_call_def put_call_def post_call_def aggregator_def
  have row: "row_for (sample_row r k j) r k j" for r k j by (simp add: row_for_def sample_row_def)
  have tab: "sample_tab (cs @ [disable_call sv r k g j]) = (sample_tab cs)((r, k, g) \<mapsto> sample_row r k j)"
    "sample_tab (cs @ [update_call sv r k g j]) = (sample_tab cs)((r, k, g) \<mapsto> sample_row r k j)"
    "sample_tab (cs @ [enable_call sv r k g]) = (sample_tab cs)((r, k, g) := None)" for cs r k g j
    by (auto simp: sample_tab_def defs)
  have net: "net sample_ack_env cs (disable_call sv r k g j) = Inr \<lparr>hr_StatusCode = 200, hr_Header = [], hr_Body = Inr []\<rparr>"
    "net sample_ack_env cs (update_call sv r k g j) = Inr \<lparr>hr_StatusCode = 200, hr_Header = [], hr_Body = Inr []\<rparr>"
    "net sample_ack_env cs (enable_call sv r k g) = Inr \<lparr>hr_StatusCode = 200, hr_Header = [], hr_Body = Inr []\<rparr>"
    for cs r k g j
    by (auto simp: sample_ack_env_simps sample_net_def defs)
  show ?thesis
    unfolding ack_aggregator_def net tab
    by (intro conjI allI impI sample_reads_table sample_ack_env_simps(2)) (auto intro: row)
qed

definition sample_ack_request :: http_request where
  "sample_ack_request = sample_request\<lparr>rq_User := IdentityValue sample_identity, rq_Vars := [(''rule_id'', ''a.b|K'')]\<rparr>"

lemma sample_ack_request_facts:
  "GetCurrentOrgID sample_ack_request = Inr 1"
  "ev_ParseRuleSelector sample_ack_env ''a.b|K'' = Inr (''a.b'', ''K'')"
  "run_state (readRuleIDWithErrorKey sample_ack_env sample_ack_request) w = (Inr (''a.b'', ''K''), w)"
proof -
  have c: "RuleIDWithErrorKeyFromCompositeRuleID ''a.b|K'' = Inr (''a.b'', ''K'')"
    using composite_ok_iff [of "''a.b|K''" "''a.b''" "''K''"] by (simp add: match_id_def is_alnum_def)
  show "GetCurrentOrgID sample_ack_request = Inr 1"
    by (simp add: GetCurrentOrgID_def GetAuthToken_def sample_ack_request_def sample_request_def sample_identity_def)
  show "ev_ParseRuleSelector sample_ack_env ''a.b|K'' = Inr (''a.b'', ''K'')"
    by (simp add: sample_ack_env_def sample_env_def c)
  have "ev_GetRouterParam sample_ack_env sample_ack_request ''rule_id'' = Inr ''a.b|K''"
    by (simp add: sample_ack_env_def sample_env_def sample_ack_request_def sample_request_def)
  then show "run_state (readRuleIDWithErrorKey sample_ack_env sample_ack_request) w = (Inr (''a.b'', ''K''), w)"
    by (simp add: readRuleIDWithErrorKey_def c)
qed

theorem acknowledgePost_refines_witness:
  "\<exists>d. w_replies (snd (run_state (acknowledgePost sample_ack_env sample_server sample_ack_request) empty_world)) =
     [WriteHeader 201, WriteBody (PAck (ack_of sample_ack_env d))] \<and> sw_Justification d = ''why''"
  using acknowledgePost_refines [OF sample_ack_aggregator sample_ack_request_facts(1)
      sample_ack_env_simps(5) sample_ack_request_facts(2), of sample_server empty_world]
  by (auto simp: empty_world_def sample_tab_def row_for_def)

theorem updateAcknowledge_refines_witness:
  "w_replies (snd (run_state (updateAcknowledge sample_ack_env sample_server sample_ack_request) empty_world)) =
     [SendNotFound (ev_item_not_found_text sample_ack_env (ItemStr ''a.b|K''))]"
  using updateAcknowledge_refines [OF sample_ack_aggregator sample_ack_request_facts(1,3), of "''why''" sample_server empty_world]
  by (simp add: empty_world_def sample_tab_def readJustificationFromBody_def sample_ack_env_simps)

theorem deleteAcknowledge_refines_witness:
  "w_replies (snd (run_state (deleteAcknowledge sample_ack_env sample_server sample_ack_request) empty_world)) =
     [WriteHeader 404]"
  using deleteAcknowledge_refines [OF sample_ack_aggregator sample_ack_request_facts(1,3), of sample_server empty_world]
  by (simp add: empty_world_def sample_tab_def)

end
