(* ===== verification/Aggregator.thy ===== *)
theory Aggregator
  imports Acks
begin

text \<open>
  The functions of \<open>server/server.go\<close> and \<open>server/rating.go\<close> that read from the aggregator and
  answer the client themselves when they fail, and the \<open>fetch...\<close> functions that read the
  parameters of the request first.

  A nil pointer that the code dereferences makes the result \<open>None\<close> at the outer level: the
  handler panics. \<open>service_reader\<close> is the contract the readers share.
\<close>

subsection \<open>Responses\<close>

definition handleAggregatorError :: "env \<Rightarrow> gerror \<Rightarrow> (world, unit) state" where
  "handleAggregatorError ev err =
     (if is_url_error err then handleServerError ev (Some AggregatorServiceUnavailableError)
      else handleServerError ev (Some err))"

text \<open>
  The tail the readers share: read the body, pass on any status but 200 with its body,
  decode. \<open>None\<close> means the client has been answered.
\<close>

definition read_ok_body :: "env \<Rightarrow> http_response \<Rightarrow> (string \<Rightarrow> 'a res) \<Rightarrow> (world, 'a option) state" where
  "read_ok_body ev resp decode =
     (case hr_Body resp of
        Inl err \<Rightarrow> do { handleServerError ev (Some err); ret None }
      | Inr responseBytes \<Rightarrow>
          if hr_StatusCode resp \<noteq> StatusOK then do {
            send_log ev (Send (hr_StatusCode resp) (PBytes responseBytes));
            ret None
          }
          else case decode responseBytes of
              Inl err \<Rightarrow> do { handleServerError ev (Some err); ret None }
            | Inr v \<Rightarrow> ret (Some v))"

definition handleReportsResponse :: "env \<Rightarrow> http_response \<Rightarrow> (world, ClusterReports option) state" where
  "handleReportsResponse ev response = read_ok_body ev response (dc_cluster_reports (ev_dec ev))"

definition read_service ::
  "env \<Rightarrow> (world, http_response res) state \<Rightarrow> (string \<Rightarrow> 'a res) \<Rightarrow> (world, 'a option) state" where
  "read_service ev call decode = do {
     resp \<leftarrow> call;
     (case resp of
        Inl err \<Rightarrow> do { handleAggregatorError ev err; ret None }
      | Inr r \<Rightarrow> read_ok_body ev r decode)
   }"

subsection \<open>Cluster lists\<close>

definition getClusterDetailsFromAggregator ::
  "env \<Rightarrow> HTTPServer \<Rightarrow> OrgID \<Rightarrow> (world, ClusterName list res) state" where
  "getClusterDetailsFromAggregator ev sv orgID = do {
     response \<leftarrow> http_get ev (aggregator sv ''ClustersForOrganizationEndpoint'' [ArgOrg orgID]);
     ret (case response of
         Inl err \<Rightarrow> if is_url_error err then Inl AggregatorServiceUnavailableError else Inl err
       | Inr r \<Rightarrow> (case dc_clusters (ev_dec ev) (hr_Body r) of
             (clusters, Some err) \<Rightarrow> Inl err
           | (clusters, None) \<Rightarrow> Inr clusters))
   }"

definition getClusterInfoFromAMS :: "AMSClient \<Rightarrow> OrgID \<Rightarrow> ClusterInfo list \<times> gerror option" where
  "getClusterInfoFromAMS ams orgID = ams_GetClustersForOrganization ams orgID None None"

text \<open>The list next to an error is what the account management client had collected.\<close>

definition readClusterInfoForOrgID ::
  "env \<Rightarrow> HTTPServer \<Rightarrow> OrgID \<Rightarrow> (world, ClusterInfo list \<times> gerror option) state" where
  "readClusterInfoForOrgID ev sv orgID =
     (case sv_amsClient sv of
        Some ams \<Rightarrow> ret (getClusterInfoFromAMS ams orgID)
      | None \<Rightarrow>
          if \<not> cf_UseOrgClustersFallback (sv_Config sv) then
            ret ([], Some (ErrorString ''amsclient not initialized''))
          else do {
            clusterIDs \<leftarrow> getClusterDetailsFromAggregator ev sv orgID;
            ret (case clusterIDs of
                Inl err \<Rightarrow> ([], Some err)
              | Inr ids \<Rightarrow> (map (\<lambda>clusterID. empty_ClusterInfo\<lparr>ci_ID := clusterID, ci_DisplayName := clusterID\<rparr>) ids, None))
          })"

subsection \<open>Reports\<close>

definition readAggregatorReportForClusterID ::
  "env \<Rightarrow> HTTPServer \<Rightarrow> OrgID \<Rightarrow> ClusterName \<Rightarrow> UserID \<Rightarrow> (world, (ReportResponse option \<times> bool) option) state" where
  "readAggregatorReportForClusterID ev sv orgID clusterID userID = do {
     r \<leftarrow> read_service ev
       (http_get ev (aggregator sv ''ReportEndpoint'' [ArgOrg orgID, ArgStr clusterID, ArgStr userID]))
       (dc_report (ev_dec ev));
     ret (case r of None \<Rightarrow> Some (None, False) | Some None \<Rightarrow> None | Some (Some report) \<Rightarrow> Some (Some report, True))
   }"

definition readAggregatorReportMetainfoForClusterID ::
  "env \<Rightarrow> HTTPServer \<Rightarrow> OrgID \<Rightarrow> ClusterName \<Rightarrow> UserID \<Rightarrow> (world, opaque option option) state" where
  "readAggregatorReportMetainfoForClusterID ev sv orgID clusterID userID =
     read_service ev
       (http_get ev (aggregator sv ''ReportMetainfoEndpoint'' [ArgOrg orgID, ArgStr clusterID, ArgStr userID]))
       (dc_metainfo (ev_dec ev))"

definition readAggregatorReportForClusterList ::
  "env \<Rightarrow> HTTPServer \<Rightarrow> OrgID \<Rightarrow> string list \<Rightarrow> (world, ClusterReports option) state" where
  "readAggregatorReportForClusterList ev sv orgID clusterList =
     (let clist = Join clusterList '','' in
      read_service ev
        (http_get ev (aggregator sv ''ReportForListOfClustersEndpoint'' [ArgOrg orgID, ArgStr clist]))
        (dc_cluster_reports (ev_dec ev)))"

definition readAggregatorReportForClusterListFromBody ::
  "env \<Rightarrow> HTTPServer \<Rightarrow> OrgID \<Rightarrow> http_request \<Rightarrow> (world, ClusterReports option) state" where
  "readAggregatorReportForClusterListFromBody ev sv orgID request =
     (case rq_Body request of
        Inl err \<Rightarrow> do { handleServerError ev (Some err); ret None }
      | Inr body \<Rightarrow> do {
          resp \<leftarrow> http_post ev (aggregator sv ''ReportForListOfClustersPayloadEndpoint'' [ArgOrg orgID]) (BodyBytes body);
          (case resp of
             Inl err \<Rightarrow> do { handleAggregatorError ev err; ret None }
           | Inr r \<Rightarrow> handleReportsResponse ev r)
        })"

definition readAggregatorRuleForClusterID ::
  "env \<Rightarrow> HTTPServer \<Rightarrow> OrgID \<Rightarrow> ClusterName \<Rightarrow> UserID \<Rightarrow> RuleID \<Rightarrow> ErrorKey
    \<Rightarrow> (world, RuleOnReport option option) state" where
  "readAggregatorRuleForClusterID ev sv orgID clusterID userID ruleID errorKey = do {
     r \<leftarrow> read_service ev
       (http_get ev (aggregator sv ''RuleEndpoint''
         [ArgOrg orgID, ArgStr clusterID, ArgStr userID, ArgStr (ruleID @ ''|'' @ errorKey)]))
       (dc_rule (ev_dec ev));
     ret (case r of None \<Rightarrow> Some None | Some None \<Rightarrow> None | Some (Some rule) \<Rightarrow> Some (Some rule))
   }"

text \<open>
  \<open>fetchAggregatorReport\<close>: the report (nil or not), \<open>successful\<close>, and the cluster. When the
  token is not usable, the error is sent and \<open>successful\<close> keeps the value \<open>true\<close> it got
  from \<open>ReadClusterName\<close>.
\<close>

definition fetchAggregatorReport ::
  "env \<Rightarrow> HTTPServer \<Rightarrow> http_request \<Rightarrow> (world, (ReportResponse option \<times> bool \<times> ClusterName) option) state" where
  "fetchAggregatorReport ev sv request = do {
     cluster \<leftarrow> ext_read (ev_ReadClusterName ev request);
     (case cluster of
        None \<Rightarrow> ret (Some (None, False, []))
      | Some clusterID \<Rightarrow>
          (case GetCurrentOrgIDUserIDFromToken request of
             Inl err \<Rightarrow> do { handleServerError ev (Some err); ret (Some (None, True, clusterID)) }
           | Inr (orgID, userID) \<Rightarrow> do {
               r \<leftarrow> readAggregatorReportForClusterID ev sv orgID clusterID userID;
               ret (map_option (\<lambda>(report, successful). (report, successful, clusterID)) r)
             }))
   }"

definition fetchAggregatorReportMetainfo ::
  "env \<Rightarrow> HTTPServer \<Rightarrow> http_request \<Rightarrow> (world, opaque option \<times> bool \<times> ClusterName) state" where
  "fetchAggregatorReportMetainfo ev sv request = do {
     cluster \<leftarrow> ext_read (ev_ReadClusterName ev request);
     (case cluster of
        None \<Rightarrow> ret (None, False, [])
      | Some clusterID \<Rightarrow>
          (case GetCurrentOrgIDUserIDFromToken request of
             Inl err \<Rightarrow> do { handleServerError ev (Some err); ret (None, True, clusterID) }
           | Inr (orgID, userID) \<Rightarrow> do {
               r \<leftarrow> readAggregatorReportMetainfoForClusterID ev sv orgID clusterID userID;
               ret (case r of None \<Rightarrow> (None, False, clusterID) | Some metainfo \<Rightarrow> (metainfo, True, clusterID))
             }))
   }"

definition fetchAggregatorReports ::
  "env \<Rightarrow> HTTPServer \<Rightarrow> http_request \<Rightarrow> (world, ClusterReports option) state" where
  "fetchAggregatorReports ev sv request = do {
     clusterList \<leftarrow> ext_read (ev_ReadClusterListFromPath ev request);
     (case clusterList of
        None \<Rightarrow> ret None
      | Some clusterList \<Rightarrow>
          (case GetCurrentOrgID request of
             Inl err \<Rightarrow> do { handleServerError ev (Some err); ret None }
           | Inr orgID \<Rightarrow> readAggregatorReportForClusterList ev sv orgID clusterList))
   }"

definition fetchAggregatorReportsUsingRequestBodyClusterList ::
  "env \<Rightarrow> HTTPServer \<Rightarrow> http_request \<Rightarrow> (world, ClusterReports option) state" where
  "fetchAggregatorReportsUsingRequestBodyClusterList ev sv request =
     (case GetCurrentOrgID request of
        Inl err \<Rightarrow> do { handleServerError ev (Some err); ret None }
      | Inr orgID \<Rightarrow> readAggregatorReportForClusterListFromBody ev sv orgID request)"

definition fetchAggregatorReportRule ::
  "env \<Rightarrow> HTTPServer \<Rightarrow> http_request \<Rightarrow> (world, RuleOnReport option option) state" where
  "fetchAggregatorReportRule ev sv request = do {
     cluster \<leftarrow> ext_read (ev_ReadClusterName ev request);
     (case cluster of
        None \<Rightarrow> ret (Some None)
      | Some clusterID \<Rightarrow> do {
          rule \<leftarrow> readRuleIDWithErrorKey ev request;
          (case rule of
             Inl err \<Rightarrow> ret (Some None)
           | Inr (ruleID, errorKey) \<Rightarrow>
               (case GetCurrentOrgIDUserIDFromToken request of
                  Inl err \<Rightarrow> do { handleServerError ev (Some err); ret (Some None) }
                | Inr (orgID, userID) \<Rightarrow> readAggregatorRuleForClusterID ev sv orgID clusterID userID ruleID errorKey))
        })
   }"

subsection \<open>User data\<close>

definition readListOfClusterDisabledRules ::
  "env \<Rightarrow> HTTPServer \<Rightarrow> OrgID \<Rightarrow> (world, DisabledRule list res) state" where
  "readListOfClusterDisabledRules ev sv orgID = do {
     resp \<leftarrow> http_get ev (aggregator sv ''ListOfDisabledRules'' [ArgOrg orgID]);
     ret (case resp of
         Inl err \<Rightarrow> Inl err
       | Inr r \<Rightarrow>
           if hr_StatusCode r \<noteq> StatusOK \<and> hr_StatusCode r \<noteq> StatusNotFound then
             Inl (ErrorString (''error reading disabled rules from aggregator: '' @ show_int (hr_StatusCode r)))
           else dc_disabled_rules (ev_dec ev) (hr_Body r))
   }"

text \<open>
  The result is the pair of the list and the error. On status 500 the error variable is
  still nil, so \<open>handleServerError\<close> gets nil and the caller sees an empty list and no error.
\<close>

definition readListOfDisabledRulesForClusters ::
  "env \<Rightarrow> HTTPServer \<Rightarrow> OrgID \<Rightarrow> ClusterName list \<Rightarrow> (world, DisabledRule list \<times> gerror option) state" where
  "readListOfDisabledRulesForClusters ev sv orgID clusterList = do {
     resp \<leftarrow> http_post ev (aggregator sv ''ListOfDisabledRulesForClusters'' [ArgOrg orgID]) (BodyStrings clusterList);
     (case resp of
        Inl err \<Rightarrow> do { handleAggregatorError ev err; ret ([], Some err) }
      | Inr r \<Rightarrow>
          if hr_StatusCode r = StatusInternalServerError then do {
            handleServerError ev None;
            ret ([], None)
          }
          else if hr_StatusCode r \<noteq> StatusOK \<and> hr_StatusCode r \<noteq> StatusNotFound then
            ret ([], Some (ErrorString (''error reading disabled rules from aggregator: '' @ show_int (hr_StatusCode r))))
          else ret (case dc_disabled_rules (ev_dec ev) (hr_Body r) of
              Inl err \<Rightarrow> ([], Some err)
            | Inr rules \<Rightarrow> (rules, None)))
   }"

definition getWorkloadsForCluster ::
  "env \<Rightarrow> HTTPServer \<Rightarrow> OrgID \<Rightarrow> ClusterName \<Rightarrow> Namespace \<Rightarrow> (world, WorkloadsForCluster res) state" where
  "getWorkloadsForCluster ev sv orgID clusterID namespace = do {
     resp \<leftarrow> http_get ev (aggregator sv ''DVOWorkloadRecommendationsSingleNamespace''
       [ArgOrg orgID, ArgStr (ns_UUID namespace), ArgStr clusterID]);
     ret (case resp of
         Inl err \<Rightarrow> Inl err
       | Inr r \<Rightarrow>
           if hr_StatusCode r = StatusNotFound then
             Inl (ItemNotFoundError (ItemStr (''cluster='' @ clusterID @ '';namespace='' @ ns_UUID namespace)))
           else if hr_StatusCode r \<noteq> StatusOK then
             Inl (ErrorString (''error reading workloads from aggregator: '' @ show_int (hr_StatusCode r)))
           else dc_workloads_cluster (ev_dec ev) (hr_Body r))
   }"

definition getWorkloadsForOrganization ::
  "env \<Rightarrow> HTTPServer \<Rightarrow> OrgID \<Rightarrow> ClusterInfo list \<Rightarrow> (world, WorkloadsForNamespace list res) state" where
  "getWorkloadsForOrganization ev sv orgID clusterInfo = do {
     resp \<leftarrow> http_post ev (aggregator sv ''DVOWorkloadRecommendations'' [ArgOrg orgID]) (BodyStrings (map ci_ID clusterInfo));
     (case resp of
        Inl err \<Rightarrow> do { handleAggregatorError ev err; ret (Inr []) }
      | Inr r \<Rightarrow>
          if hr_StatusCode r = StatusNotFound then ret (Inr [])
          else if hr_StatusCode r \<noteq> StatusOK then
            ret (Inl (ErrorString (''error reading workloads from aggregator: '' @ show_int (hr_StatusCode r))))
          else ret (dc_workloads_org (ev_dec ev) (hr_Body r)))
   }"

subsection \<open>\<open>server/rating.go\<close>\<close>

definition postRatingToAggregator ::
  "env \<Rightarrow> HTTPServer \<Rightarrow> OrgID \<Rightarrow> http_request \<Rightarrow> (world, RuleRating option) state" where
  "postRatingToAggregator ev sv orgID request =
     (case rq_Body request of
        Inl err \<Rightarrow> do { handleServerError ev (Some err); ret None }
      | Inr body \<Rightarrow>
          (case dc_rating_body (ev_dec ev) body of
             Inl err \<Rightarrow> do { handleServerError ev (Some BadBodyContent); ret None }
           | Inr bodyCheck \<Rightarrow> do {
               resp \<leftarrow> http_post ev (aggregator sv ''Rating'' [ArgOrg orgID]) (BodyBytes body);
               (case resp of
                  Inl err \<Rightarrow> do { handleServerError ev (Some err); ret None }
                | Inr r \<Rightarrow>
                    if hr_StatusCode r \<noteq> StatusOK then
                      (case hr_Body r of
                         Inl err \<Rightarrow> do { handleServerError ev (Some err); ret None }
                       | Inr responseBytes \<Rightarrow> do {
                           send_handle ev (Send (hr_StatusCode r) (PBytes responseBytes));
                           ret None
                         })
                    else
                      (case dc_rating_post (ev_dec ev) (hr_Body r) of
                         (rating, Some err) \<Rightarrow> do { handleServerError ev (Some err); ret (Some rating) }
                       | (rating, None) \<Rightarrow> ret (Some rating)))
             }))"

definition postRating :: "env \<Rightarrow> HTTPServer \<Rightarrow> handler" where
  "postRating ev sv request =
     (case GetCurrentOrgID request of
        Inl err \<Rightarrow> handleServerError ev (Some err)
      | Inr orgID \<Rightarrow> do {
          rating \<leftarrow> postRatingToAggregator ev sv orgID request;
          (case rating of
             None \<Rightarrow> ret ()
           | Some rating \<Rightarrow> send_log ev (Send StatusOK (PRating rating)))
        })"

text \<open>The rating and the error as Go returns them; the default rating is 0.\<close>

definition getRatingForRecommendation ::
  "env \<Rightarrow> HTTPServer \<Rightarrow> OrgID \<Rightarrow> RuleID \<Rightarrow> (world, RuleRating \<times> gerror option) state" where
  "getRatingForRecommendation ev sv orgID ruleID =
     (let ruleRating = \<lparr>rt_Rule = ruleID, rt_Rating = 0\<rparr> in do {
        resp \<leftarrow> http_get ev (aggregator sv ''GetRating'' [ArgStr ruleID, ArgOrg orgID]);
        ret (case resp of
            Inl err \<Rightarrow> (ruleRating, Some err)
          | Inr r \<Rightarrow>
              (case hr_Body r of
                 Inl err \<Rightarrow> (ruleRating, Some err)
               | Inr responseBytes \<Rightarrow>
                   if hr_StatusCode r = StatusNotFound then (ruleRating, Some (ItemNotFoundError ItemNone))
                   else if hr_StatusCode r \<noteq> StatusOK then
                     (ruleRating, Some (ErrorString (''problem retrieving rating from aggregator for rule '' @ ruleID
                        @ ''. Status code: '' @ show_int (hr_StatusCode r))))
                   else (case dc_rating_get (ev_dec ev) responseBytes of
                       Inl err \<Rightarrow> (ruleRating, Some err)
                     | Inr rating \<Rightarrow> (rating, None))))
      })"

subsection \<open>The contract of the readers\<close>

definition adds_replies :: "nat \<Rightarrow> world \<Rightarrow> world \<Rightarrow> bool" where
  "adds_replies n w w' \<longleftrightarrow> (\<exists>rs. w_replies w' = w_replies w @ rs \<and> length rs = n)"

lemma adds_replies_simps [simp]:
  "adds_replies 0 w w" "adds_replies 0 w (add_call c w)" "adds_replies (Suc 0) w (add_reply r w)"
  "adds_replies (Suc 0) w (add_reply r (add_call c w))"
  by (simp_all add: adds_replies_def)

lemma adds_replies_trans: "adds_replies m w w' \<Longrightarrow> adds_replies n w' w'' \<Longrightarrow> adds_replies (m + n) w w''"
  by (auto simp: adds_replies_def)

locale service_reader =
  fixes read :: "'x \<Rightarrow> (world, 'b) state" and ok :: "'b \<Rightarrow> bool"
  assumes silent_or_once: "adds_replies (if ok (fst (run_state (read x) w)) then 0 else 1) w (snd (run_state (read x) w))"
begin

lemma success_silent:
  "run_state (read x) w = (v, w') \<Longrightarrow> ok v \<Longrightarrow> w_replies w' = w_replies w"
  using silent_or_once [of x w] by (simp add: adds_replies_def)

lemma failure_once:
  "run_state (read x) w = (v, w') \<Longrightarrow> \<not> ok v \<Longrightarrow> \<exists>r. w_replies w' = w_replies w @ [r]"
  using silent_or_once [of x w] by (auto simp: adds_replies_def length_Suc_conv)

end

sublocale reader \<subseteq> as_service: service_reader read "\<lambda>v. \<not> isl v"
proof
  fix x w
  from answers_once [of x] show "adds_replies (if \<not> isl (fst (run_state (read x) w)) then 0 else 1) w
    (snd (run_state (read x) w))"
    unfolding answers_once_def
    by (cases "run_state (read x) w"; cases "fst (run_state (read x) w)") (auto dest!: spec [of _ w])
qed

lemma read_service_adds:
  assumes "\<And>w. adds_replies 0 w (snd (run_state call w))"
  shows "adds_replies (if fst (run_state (read_service ev call decode) w) \<noteq> None then 0 else 1) w
    (snd (run_state (read_service ev call decode) w))"
proof -
  obtain resp w1 where c: "run_state call w = (resp, w1)" by (cases "run_state call w")
  with assms [of w] have "w_replies w1 = w_replies w" by (simp add: adds_replies_def)
  then show ?thesis
    by (cases resp) (auto simp: read_service_def c handleAggregatorError_def read_ok_body_def adds_replies_def
        split: sum.splits)
qed

lemma get_post_silent:
  "adds_replies 0 w (snd (run_state (http_get ev url) w))" "adds_replies 0 w (snd (run_state (http_post ev url b) w))"
  by (simp_all add: http_get_def http_post_def)

lemma read_get_adds:
  assumes "run_state (read_service ev (http_get ev url) decode) w = (v, w')"
  shows "adds_replies (if v \<noteq> None then 0 else 1) w w'"
  using read_service_adds [of "http_get ev url" ev decode w] assms by (simp add: get_post_silent)

interpretation metainfo_reader: service_reader
  "\<lambda>x. readAggregatorReportMetainfoForClusterID ev sv (fst x) (fst (snd x)) (snd (snd x))"
  "\<lambda>r. r \<noteq> None" for ev sv
  by unfold_locales
     (simp only: readAggregatorReportMetainfoForClusterID_def read_service_adds get_post_silent)

interpretation cluster_list_reader: service_reader
  "\<lambda>x. readAggregatorReportForClusterList ev sv (fst x) (snd x)" "\<lambda>r. r \<noteq> None" for ev sv
  by unfold_locales
     (simp only: readAggregatorReportForClusterList_def Let_def read_service_adds get_post_silent)

interpretation cluster_body_reader: service_reader
  "\<lambda>x. readAggregatorReportForClusterListFromBody ev sv (fst x) (snd x)" "\<lambda>r. r \<noteq> None" for ev sv
proof
  fix x :: "OrgID \<times> http_request" and w
  have "readAggregatorReportForClusterListFromBody ev sv (fst x) (snd x) =
    (case rq_Body (snd x) of
       Inl err \<Rightarrow> do { handleServerError ev (Some err); ret None }
     | Inr body \<Rightarrow> read_service ev (http_post ev (aggregator sv ''ReportForListOfClustersPayloadEndpoint''
         [ArgOrg (fst x)]) (BodyBytes body)) (dc_cluster_reports (ev_dec ev)))"
    unfolding readAggregatorReportForClusterListFromBody_def read_service_def handleReportsResponse_def ..
  then show "adds_replies (if fst (run_state (readAggregatorReportForClusterListFromBody ev sv (fst x) (snd x)) w) \<noteq> None
      then 0 else 1) w (snd (run_state (readAggregatorReportForClusterListFromBody ev sv (fst x) (snd x)) w))"
  proof (cases "rq_Body (snd x)")
    case (Inr body)
    with \<open>readAggregatorReportForClusterListFromBody ev sv (fst x) (snd x) = _\<close> show ?thesis
      by (simp only: sum.case read_service_adds get_post_silent)
  qed simp
qed

interpretation report_reader: service_reader
  "\<lambda>x. readAggregatorReportForClusterID ev sv (fst x) (fst (snd x)) (snd (snd x))"
  "\<lambda>r. r \<noteq> Some (None, False)" for ev sv
proof
  fix x :: "OrgID \<times> ClusterName \<times> UserID" and w
  let ?rd = "read_service ev (http_get ev (aggregator sv ''ReportEndpoint''
    [ArgOrg (fst x), ArgStr (fst (snd x)), ArgStr (snd (snd x))])) (dc_report (ev_dec ev))"
  obtain v w' where rd: "run_state ?rd w = (v, w')" by (cases "run_state ?rd w")
  have "adds_replies (if v \<noteq> None then 0 else 1) w w'"
    using rd by (rule read_get_adds)
  with rd show "adds_replies (if fst (run_state (readAggregatorReportForClusterID ev sv (fst x) (fst (snd x)) (snd (snd x))) w)
      \<noteq> Some (None, False) then 0 else 1) w
      (snd (run_state (readAggregatorReportForClusterID ev sv (fst x) (fst (snd x)) (snd (snd x))) w))"
    by (auto simp: readAggregatorReportForClusterID_def split: option.splits)
qed

interpretation rule_reader: service_reader
  "\<lambda>(g, c, u, r, k). readAggregatorRuleForClusterID ev sv g c u r k" "\<lambda>r. r \<noteq> Some None" for ev sv
proof (unfold_locales, clarify)
  fix g c u r k w
  let ?rd = "read_service ev (http_get ev (aggregator sv ''RuleEndpoint''
    [ArgOrg g, ArgStr c, ArgStr u, ArgStr (r @ ''|'' @ k)])) (dc_rule (ev_dec ev))"
  obtain v w' where rd: "run_state ?rd w = (v, w')" by (cases "run_state ?rd w")
  have "adds_replies (if v \<noteq> None then 0 else 1) w w'"
    using rd by (rule read_get_adds)
  then show "adds_replies (if fst (run_state (readAggregatorRuleForClusterID ev sv g c u r k) w) \<noteq> Some None then 0 else 1) w
      (snd (run_state (readAggregatorRuleForClusterID ev sv g c u r k) w))"
    using rd by (auto simp: readAggregatorRuleForClusterID_def split: option.splits)
qed

end
