(* ===== verification/Reports.thy ===== *)
theory Reports
  imports Aggregator
begin

text \<open>
  The report endpoints of \<open>server/server.go\<close>: filtering of the rules of a report by their
  disabled state, the existence of content and the managed-cluster filter, the counts,
  the metadata, and the handlers. \<open>Panic\<close> is a nil dereference,
  \<open>Hang\<close> a loop that does not end.
\<close>

datatype outcome = Done | Panic | Hang

abbreviation RFC3339 :: string where
  "RFC3339 \<equiv> ''2006-01-02T15:04:05Z07:00''"

subsection \<open>Disabled rules\<close>

definition org_selector :: "RuleOnReport \<Rightarrow> RuleID" where
  "org_selector rule = TrimSuffix (ror_Module rule) dotReport @ ''|'' @ ror_ErrorKey rule"

definition isDisabledForOrgRule :: "RuleOnReport \<Rightarrow> (RuleID \<rightharpoonup> bool) \<Rightarrow> bool" where
  "isDisabledForOrgRule aggregatorRule systemWideDisabledRules =
     (if systemWideDisabledRules \<noteq> Map.empty then getbool systemWideDisabledRules (org_selector aggregatorRule)
      else False)"

lemma isDisabledForOrgRule_code [code]: "isDisabledForOrgRule rule m = getbool m (org_selector rule)"
  by (auto simp: isDisabledForOrgRule_def getbool_def)

definition isDisabledRule :: "RuleOnReport \<Rightarrow> (RuleID \<rightharpoonup> bool) \<Rightarrow> bool" where
  "isDisabledRule aggregatorRule systemWideDisabledRules =
     (if ror_Disabled aggregatorRule then True
      else isDisabledForOrgRule aggregatorRule systemWideDisabledRules)"

subsection \<open>Filtering\<close>

record filter_result =
  fr_okRules :: "RuleWithContentResponse list"
  fr_noContentRulesCnt :: int
  fr_disabledRulesCnt :: int
  fr_contentError :: "gerror option"

fun filter_rules_loop ::
  "env \<Rightarrow> content_state \<Rightarrow> bool \<Rightarrow> bool \<Rightarrow> (RuleID \<rightharpoonup> bool) \<Rightarrow> filter_result \<Rightarrow> RuleOnReport list \<Rightarrow> filter_result" where
  "filter_rules_loop ev cs filterOSD getDisabled acks res [] = res"
| "filter_rules_loop ev cs filterOSD getDisabled acks res (aggregatorRule # rest) =
     (if \<not> getDisabled \<and> isDisabledRule aggregatorRule acks then
        filter_rules_loop ev cs filterOSD getDisabled acks
          (res\<lparr>fr_disabledRulesCnt := fr_disabledRulesCnt res + 1\<rparr>) rest
      else case FetchRuleContent (ev_content ev) cs aggregatorRule filterOSD of
          (rule, filtered, Some err) \<Rightarrow>
            (let res = (if \<not> filtered then res\<lparr>fr_noContentRulesCnt := fr_noContentRulesCnt res + 1\<rparr> else res)
             in if is_timeout err then res\<lparr>fr_contentError := Some err\<rparr>
                else filter_rules_loop ev cs filterOSD getDisabled acks res rest)
        | (rule, filtered, None) \<Rightarrow>
            if filtered then filter_rules_loop ev cs filterOSD getDisabled acks res rest
            else (case rule of
                None \<Rightarrow> res
              | Some rule \<Rightarrow> filter_rules_loop ev cs filterOSD getDisabled acks
                  (res\<lparr>fr_okRules := fr_okRules res @ [rule]\<rparr>) rest))"

definition filterRulesInResponse ::
  "env \<Rightarrow> content_state \<Rightarrow> RuleOnReport list \<Rightarrow> bool \<Rightarrow> bool \<Rightarrow> (RuleID \<rightharpoonup> bool) \<Rightarrow> filter_result" where
  "filterRulesInResponse ev cs aggregatorReport filterOSD getDisabled systemWideDisabledRules =
     filter_rules_loop ev cs filterOSD getDisabled systemWideDisabledRules
       \<lparr>fr_okRules = [], fr_noContentRulesCnt = 0, fr_disabledRulesCnt = 0, fr_contentError = None\<rparr>
       aggregatorReport"

definition getRuleCount :: "RuleWithContentResponse list \<Rightarrow> int \<Rightarrow> int \<Rightarrow> int" where
  "getRuleCount visibleRules noContentRulesCnt disabledRulesCnt =
     (let totalRuleCnt = int (length visibleRules) + noContentRulesCnt in
      if length visibleRules = 0 \<and> noContentRulesCnt > 0 \<and> disabledRulesCnt = 0 then 0 else totalRuleCnt)"

subsection \<open>The report\<close>

definition SetAMSInfoInReport :: "HTTPServer \<Rightarrow> ClusterName \<Rightarrow> ReportResponseMetaV2 \<Rightarrow> ReportResponseMetaV2" where
  "SetAMSInfoInReport sv clusterID meta =
     (case sv_amsClient sv of
        None \<Rightarrow> meta\<lparr>mv2_DisplayName := clusterID\<rparr>
      | Some ams \<Rightarrow>
          (let clusterInfo = ams_GetClusterDetailsFromExternalClusterID ams clusterID;
               meta = meta\<lparr>mv2_Managed := ci_Managed clusterInfo\<rparr>
           in if ci_DisplayName clusterInfo \<noteq> [] then meta\<lparr>mv2_DisplayName := ci_DisplayName clusterInfo\<rparr>
              else meta\<lparr>mv2_DisplayName := clusterID\<rparr>))"

text \<open>
  The result is \<open>None\<close> for a panic (a nil report), and otherwise the visible rules, their count
  and the error. A list of acknowledged rules that cannot be read ends the function with
  the error and without a reply.
\<close>

definition buildReportEndpointResponse ::
  "env \<Rightarrow> HTTPServer \<Rightarrow> http_request \<Rightarrow> ReportResponse option \<Rightarrow> bool
    \<Rightarrow> (world, (RuleWithContentResponse list \<times> int \<times> gerror option) option) state" where
  "buildReportEndpointResponse ev sv request aggregatorResponse osdFlag =
     (case readGetDisabledParam request of
        Inl err \<Rightarrow> do { handleServerError ev (Some err); ret (Some ([], 0, Some err)) }
      | Inr includeDisabled \<Rightarrow>
          (case GetCurrentOrgID request of
             Inl err \<Rightarrow> do { handleServerError ev (Some err); ret (Some ([], 0, Some err)) }
           | Inr orgID \<Rightarrow> do {
               acks \<leftarrow> readListOfAckedRules ev sv orgID;
               (case acks of
                  Inl err \<Rightarrow> ret (Some ([], 0, Some err))
                | Inr acks \<Rightarrow>
                    (case aggregatorResponse of
                       None \<Rightarrow> ret None
                     | Some report \<Rightarrow>
                         (let res = filterRulesInResponse ev (sv_content sv) (rr_Report report) osdFlag includeDisabled
                                (generateRuleAckMap ev acks)
                          in case fr_contentError res of
                               Some err \<Rightarrow> do { handleServerError ev (Some err); ret (Some ([], 0, Some err)) }
                             | None \<Rightarrow> ret (Some (fr_okRules res, getRuleCount (fr_okRules res)
                                 (fr_noContentRulesCnt res) (fr_disabledRulesCnt res), None)))))
             }))"

definition sendReportReponse :: "env \<Rightarrow> payload \<Rightarrow> (world, unit) state" where
  "sendReportReponse ev report = send_log ev (SendOK report)"

fun id_report_loop :: "(string \<rightharpoonup> RuleOnReport) \<Rightarrow> RuleOnReport list \<Rightarrow> (string \<rightharpoonup> RuleOnReport)" where
  "id_report_loop idReport [] = idReport"
| "id_report_loop idReport (v # rest) = id_report_loop (idReport(ror_ErrorKey v @ ror_Module v \<mapsto> v)) rest"

definition fill_impacted :: "env \<Rightarrow> (string \<rightharpoonup> RuleOnReport) \<Rightarrow> RuleWithContentResponse \<Rightarrow> RuleWithContentResponse" where
  "fill_impacted ev idReport rule =
     (case idReport (rwr_ErrorKey rule @ rwr_RuleID rule) of
        None \<Rightarrow> rule
      | Some report \<Rightarrow>
          (case ce_TimeParse (ev_content ev) RFC3339 (ror_CreatedAt report) of
             Inl err \<Rightarrow> rule
           | Inr createdAt \<Rightarrow> if \<not> IsZero createdAt then rule\<lparr>rwr_Impacted := ror_CreatedAt report\<rparr> else rule))"

text \<open>A rule that is not in the map has the zero report, whose \<open>CreatedAt\<close> does not parse.\<close>

definition fillImpacted ::
  "env \<Rightarrow> RuleWithContentResponse list \<Rightarrow> RuleOnReport list \<Rightarrow> RuleWithContentResponse list" where
  "fillImpacted ev rulesWithContent aggregatorReports =
     map (fill_impacted ev (id_report_loop Map.empty aggregatorReports)) rulesWithContent"

definition reportEndpointV1 :: "env \<Rightarrow> HTTPServer \<Rightarrow> http_request \<Rightarrow> (world, outcome) state" where
  "reportEndpointV1 ev sv request =
     (case GetCurrentOrgID request of
        Inl err \<Rightarrow> do { handleServerError ev (Some err); ret Done }
      | Inr orgID \<Rightarrow> do {
          fetched \<leftarrow> fetchAggregatorReport ev sv request;
          (case fetched of
             None \<Rightarrow> ret Panic
           | Some (_, False, _) \<Rightarrow> ret Done
           | Some (None, True, clusterID) \<Rightarrow> ret Panic
           | Some (Some aggregatorResponse, True, clusterID) \<Rightarrow>
               (case (if getKnownUserAgentProduct request = ''insights-operator'' then
                        (case sv_amsClient sv of
                           None \<Rightarrow> Inr False
                         | Some ams \<Rightarrow> map_sum id ci_Managed (ams_GetSingleClusterInfoForOrganization ams orgID clusterID))
                      else (case readOSDEligible request of Inl err \<Rightarrow> Inr False | Inr b \<Rightarrow> Inr b)) of
                  Inl err \<Rightarrow> do { handleServerError ev (Some err); ret Done }
                | Inr managedCluster \<Rightarrow> do {
                    built \<leftarrow> buildReportEndpointResponse ev sv request (Some aggregatorResponse) managedCluster;
                    (case built of
                       None \<Rightarrow> ret Panic
                     | Some (_, _, Some err) \<Rightarrow> ret Done
                     | Some (data, rulesCount, None) \<Rightarrow> do {
                         sendReportReponse ev (PReportV1 \<lparr>rp1_Meta = \<lparr>mv1_Count = rulesCount,
                           mv1_LastCheckedAt = rm_LastCheckedAt (rr_Meta aggregatorResponse)\<rparr>, rp1_Data = data\<rparr>);
                         ret Done
                       })
                  }))
        })"

definition reportEndpointV2 :: "env \<Rightarrow> HTTPServer \<Rightarrow> http_request \<Rightarrow> (world, outcome) state" where
  "reportEndpointV2 ev sv request = do {
     fetched \<leftarrow> fetchAggregatorReport ev sv request;
     (case fetched of
        None \<Rightarrow> ret Panic
      | Some (_, False, _) \<Rightarrow> ret Done
      | Some (aggregatorResponse, True, clusterID) \<Rightarrow>
          (let meta = SetAMSInfoInReport sv clusterID \<lparr>mv2_DisplayName = [], mv2_Managed = False, mv2_Count = 0,
                 mv2_LastCheckedAt = [], mv2_GatheredAt = []\<rparr>
           in do {
             built \<leftarrow> buildReportEndpointResponse ev sv request aggregatorResponse (mv2_Managed meta);
             (case (built, aggregatorResponse) of
                (None, _) \<Rightarrow> ret Panic
              | (Some (_, _, Some err), _) \<Rightarrow> ret Done
              | (Some (_, _, None), None) \<Rightarrow> ret Panic
              | (Some (data, rulesCount, None), Some report) \<Rightarrow> do {
                  sendReportReponse ev (PReportV2 \<lparr>rp2_Meta = meta\<lparr>mv2_Count := rulesCount,
                      mv2_LastCheckedAt := rm_LastCheckedAt (rr_Meta report),
                      mv2_GatheredAt := rm_GatheredAt (rr_Meta report)\<rparr>,
                    rp2_Data = fillImpacted ev data (rr_Report report)\<rparr>);
                  ret Done
                })
           }))
   }"

subsection \<open>Other report endpoints\<close>

definition reportMetainfoEndpoint :: "env \<Rightarrow> HTTPServer \<Rightarrow> handler" where
  "reportMetainfoEndpoint ev sv request = do {
     fetched \<leftarrow> fetchAggregatorReportMetainfo ev sv request;
     (case fetched of
        (_, False, _) \<Rightarrow> ret ()
      | (aggregatorResponse, True, clusterID) \<Rightarrow> send_log ev (SendOK (PMetainfo aggregatorResponse)))
   }"

definition reportForListOfClustersEndpoint :: "env \<Rightarrow> HTTPServer \<Rightarrow> handler" where
  "reportForListOfClustersEndpoint ev sv request = do {
     fetched \<leftarrow> fetchAggregatorReports ev sv request;
     (case fetched of
        None \<Rightarrow> ret ()
      | Some aggregatorResponse \<Rightarrow> send_log ev (Send StatusOK (PClusterReports aggregatorResponse)))
   }"

definition reportForListOfClustersPayloadEndpoint :: "env \<Rightarrow> HTTPServer \<Rightarrow> handler" where
  "reportForListOfClustersPayloadEndpoint ev sv request = do {
     fetched \<leftarrow> fetchAggregatorReportsUsingRequestBodyClusterList ev sv request;
     (case fetched of
        None \<Rightarrow> ret ()
      | Some aggregatorResponse \<Rightarrow> send_log ev (Send StatusOK (PClusterReports aggregatorResponse)))
   }"

definition handleFetchRuleContentError :: "env \<Rightarrow> gerror option \<Rightarrow> (world, unit) state" where
  "handleFetchRuleContentError ev err =
     (case err of
        Some e \<Rightarrow> if is_timeout e then handleServerError ev (Some e) else send_handle ev (SendNotFound ''Rule was not found'')
      | None \<Rightarrow> send_handle ev (SendNotFound ''Rule was not found''))"

definition singleRuleEndpoint :: "env \<Rightarrow> HTTPServer \<Rightarrow> http_request \<Rightarrow> (world, outcome) state" where
  "singleRuleEndpoint ev sv request = do {
     fetched \<leftarrow> fetchAggregatorReportRule ev sv request;
     (case fetched of
        None \<Rightarrow> ret Panic
      | Some None \<Rightarrow> ret Done
      | Some (Some aggregatorResponse) \<Rightarrow>
          (let osdFlag = (case readOSDEligible request of Inl err \<Rightarrow> False | Inr b \<Rightarrow> b)
           in case FetchRuleContent (ev_content ev) (sv_content sv) aggregatorResponse osdFlag of
                (rule, filtered, err) \<Rightarrow>
                  if err \<noteq> None \<or> filtered then do { handleFetchRuleContentError ev err; ret Done }
                  else (case rule of
                      None \<Rightarrow> ret Panic
                    | Some rule \<Rightarrow>
                        (case (if rwr_Internal rule then checkInternalRulePermissions sv request else None) of
                           Some err \<Rightarrow> do { handleServerError ev (Some err); ret Done }
                         | None \<Rightarrow> do { send_log ev (SendOK (PRule rule)); ret Done }))))
   }"

end
