(* ===== verification/Reports_Props.thy ===== *)
theory Reports_Props
  imports Reports Acks_Props
begin

text \<open>
  Correctness of the report endpoints: what the filter keeps and counts, what the response
  holds, and the replies a client gets, also where a failure leaves it without one.
\<close>

subsection \<open>What the filter keeps\<close>

text \<open>The four kinds of rules of a report, given that content is available at all.\<close>

definition rule_content :: "content_state \<Rightarrow> RuleOnReport \<Rightarrow> RuleWithContent option" where
  "rule_content cs rule =
     storage_GetRuleWithErrorKeyContent (cs_storage cs) (TrimSuffix (ror_Module rule) dotReport) (ror_ErrorKey rule)"

definition dropped :: "bool \<Rightarrow> (RuleID \<rightharpoonup> bool) \<Rightarrow> RuleOnReport \<Rightarrow> bool" where
  "dropped getDisabled acks rule \<longleftrightarrow> \<not> getDisabled \<and> (ror_Disabled rule \<or> getbool acks (org_selector rule))"

definition lacks_content :: "content_state \<Rightarrow> bool \<Rightarrow> (RuleID \<rightharpoonup> bool) \<Rightarrow> RuleOnReport \<Rightarrow> bool" where
  "lacks_content cs getDisabled acks rule \<longleftrightarrow> \<not> dropped getDisabled acks rule \<and> rule_content cs rule = None"

definition visible ::
  "env \<Rightarrow> content_state \<Rightarrow> bool \<Rightarrow> bool \<Rightarrow> (RuleID \<rightharpoonup> bool) \<Rightarrow> RuleOnReport \<Rightarrow> RuleWithContentResponse option" where
  "visible ev cs filterOSD getDisabled acks rule =
     (if dropped getDisabled acks rule then None
      else case rule_content cs rule of
          None \<Rightarrow> None
        | Some c \<Rightarrow> if filterOSD \<and> \<not> rwc_OSDCustomer c then None
                    else fst (FetchRuleContent (ev_content ev) cs rule filterOSD))"

lemma isDisabledRule_iff: "isDisabledRule rule acks \<longleftrightarrow> ror_Disabled rule \<or> getbool acks (org_selector rule)"
  by (auto simp: isDisabledRule_def isDisabledForOrgRule_code)

lemma FetchRuleContent_ready:
  assumes "WaitForContentDirectoryToBeReady cs = None"
  shows "FetchRuleContent ce cs rule osd = (case rule_content cs rule of
      None \<Rightarrow> (None, False, Some (ItemNotFoundError (ItemStr (TrimSuffix (ror_Module rule) dotReport @ ''/'' @ ror_ErrorKey rule))))
    | Some c \<Rightarrow> if osd \<and> \<not> rwc_OSDCustomer c then (None, True, None)
        else (fst (FetchRuleContent ce cs rule osd), False, None))"
  using assms
  by (auto simp: FetchRuleContent_def rule_content_def GetRuleWithErrorKeyContent_def when_ready_def Let_def
      split: option.splits)

lemma FetchRuleContent_Some:
  assumes "WaitForContentDirectoryToBeReady cs = None" and "rule_content cs rule = Some c" and "osd \<longrightarrow> rwc_OSDCustomer c"
  shows "\<exists>r. fst (FetchRuleContent ce cs rule osd) = Some r \<and> rwr_RuleID r = ror_Module rule \<and>
    rwr_ErrorKey r = ror_ErrorKey rule \<and> rwr_TotalRisk r = rwc_TotalRisk c \<and> rwr_Impacted r = []"
  using assms
  by (auto simp: FetchRuleContent_def rule_content_def GetRuleWithErrorKeyContent_def when_ready_def Let_def
      split: option.splits)

lemma dropped_iff: "dropped gd acks rule \<longleftrightarrow> \<not> gd \<and> isDisabledRule rule acks"
  by (simp add: dropped_def isDisabledRule_iff)

lemma loop_dropped:
  assumes "dropped gd acks rule"
  shows "filter_rules_loop ev cs osd gd acks res (rule # rules) =
    filter_rules_loop ev cs osd gd acks (res\<lparr>fr_disabledRulesCnt := fr_disabledRulesCnt res + 1\<rparr>) rules"
  using assms unfolding dropped_iff filter_rules_loop.simps(2) by (rule if_P)

lemma loop_step:
  assumes "\<not> dropped gd acks rule" and "FetchRuleContent (ev_content ev) cs rule osd = (r, filtered, err)"
  shows "err = Some RuleContentDirectoryTimeoutError \<Longrightarrow>
      fr_contentError (filter_rules_loop ev cs osd gd acks res (rule # rules)) = Some RuleContentDirectoryTimeoutError"
    and "err = Some (ItemNotFoundError i) \<Longrightarrow> \<not> filtered \<Longrightarrow> filter_rules_loop ev cs osd gd acks res (rule # rules) =
      filter_rules_loop ev cs osd gd acks (res\<lparr>fr_noContentRulesCnt := fr_noContentRulesCnt res + 1\<rparr>) rules"
    and "err = None \<Longrightarrow> filtered \<Longrightarrow> filter_rules_loop ev cs osd gd acks res (rule # rules) =
      filter_rules_loop ev cs osd gd acks res rules"
    and "err = None \<Longrightarrow> \<not> filtered \<Longrightarrow> r = Some c \<Longrightarrow> filter_rules_loop ev cs osd gd acks res (rule # rules) =
      filter_rules_loop ev cs osd gd acks (res\<lparr>fr_okRules := fr_okRules res @ [c]\<rparr>) rules"
  using assms(2) unfolding filter_rules_loop.simps(2) if_not_P [OF assms(1) [unfolded dropped_iff]]
  by (simp_all add: is_timeout_def Let_def)

lemma filter_rules_step:
  assumes ready: "WaitForContentDirectoryToBeReady cs = None"
  shows "filter_rules_loop ev cs osd gd acks res (rule # rules) = filter_rules_loop ev cs osd gd acks
    (res\<lparr>fr_okRules := fr_okRules res @ (case visible ev cs osd gd acks rule of None \<Rightarrow> [] | Some r \<Rightarrow> [r]),
         fr_noContentRulesCnt := fr_noContentRulesCnt res + of_bool (lacks_content cs gd acks rule),
         fr_disabledRulesCnt := fr_disabledRulesCnt res + of_bool (dropped gd acks rule)\<rparr>) rules"
proof -
  note defs = visible_def lacks_content_def
  consider (drop) "dropped gd acks rule" | (missing) "\<not> dropped gd acks rule" "rule_content cs rule = None"
    | (osd) c where "\<not> dropped gd acks rule" "rule_content cs rule = Some c" "osd \<and> \<not> rwc_OSDCustomer c"
    | (keep) c where "\<not> dropped gd acks rule" "rule_content cs rule = Some c" "osd \<longrightarrow> rwc_OSDCustomer c"
    by blast
  then show ?thesis
  proof cases
    case drop
    then show ?thesis by (simp add: loop_dropped defs del: filter_rules_loop.simps)
  next
    case missing
    have f: "FetchRuleContent (ev_content ev) cs rule osd = (None, False, Some (ItemNotFoundError
        (ItemStr (TrimSuffix (ror_Module rule) dotReport @ ''/'' @ ror_ErrorKey rule))))"
      using missing(2) by (subst FetchRuleContent_ready [OF ready]) simp
    from missing show ?thesis by (simp add: loop_step(2) [OF missing(1) f] defs del: filter_rules_loop.simps)
  next
    case (osd c)
    then have f: "FetchRuleContent (ev_content ev) cs rule osd = (None, True, None)"
      by (subst FetchRuleContent_ready [OF ready]) simp
    show ?thesis
      unfolding loop_step(3) [OF osd(1) f refl TrueI] using osd by (simp add: defs del: filter_rules_loop.simps)
  next
    case (keep c)
    then obtain r where r: "fst (FetchRuleContent (ev_content ev) cs rule osd) = Some r"
      using FetchRuleContent_Some [OF ready keep(2,3)] by blast
    with keep have f: "FetchRuleContent (ev_content ev) cs rule osd = (Some r, False, None)"
      by (subst FetchRuleContent_ready [OF ready]) simp
    from r keep have "visible ev cs osd gd acks rule = Some r" "\<not> lacks_content cs gd acks rule" by (simp_all add: defs)
    with keep(1) show ?thesis by (simp add: loop_step(4) [OF keep(1) f] del: filter_rules_loop.simps)
  qed
qed

lemma filter_rules_loop_spec:
  assumes ready: "WaitForContentDirectoryToBeReady cs = None"
  shows "filter_rules_loop ev cs osd gd acks res rules =
    res\<lparr>fr_okRules := fr_okRules res @ List.map_filter (visible ev cs osd gd acks) rules,
        fr_noContentRulesCnt := fr_noContentRulesCnt res + int (length (filter (lacks_content cs gd acks) rules)),
        fr_disabledRulesCnt := fr_disabledRulesCnt res + int (length (filter (dropped gd acks) rules))\<rparr>"
proof (induction rules arbitrary: res)
  case (Cons rule rules)
  show ?case
    by (simp add: filter_rules_step [OF ready] Cons.IH map_filter_simps del: filter_rules_loop.simps split: option.split)
qed (simp add: map_filter_simps)

text \<open>
  Claim C11: with the content loaded, the filter keeps, in the order of the report, exactly
  the rules that are not disabled (unless disabled rules are asked for), have content and
  pass the managed-cluster filter; it counts exactly the disabled rules it dropped and the
  remaining rules without content, and reports no error.
\<close>

theorem filterRulesInResponse_spec:
  assumes "WaitForContentDirectoryToBeReady cs = None"
  shows "filterRulesInResponse ev cs report osd gd acks =
    \<lparr>fr_okRules = List.map_filter (visible ev cs osd gd acks) report,
     fr_noContentRulesCnt = int (length (filter (lacks_content cs gd acks) report)),
     fr_disabledRulesCnt = int (length (filter (dropped gd acks) report)),
     fr_contentError = None\<rparr>"
  by (simp add: filterRulesInResponse_def filter_rules_loop_spec [OF assms])

lemma filter_timeout_loop:
  assumes "WaitForContentDirectoryToBeReady cs \<noteq> None" and "\<exists>rule \<in> set rules. \<not> dropped gd acks rule"
  shows "fr_contentError (filter_rules_loop ev cs osd gd acks res rules) = Some RuleContentDirectoryTimeoutError"
  using assms(2)
proof (induction rules arbitrary: res)
  case (Cons rule rules)
  have f: "FetchRuleContent (ev_content ev) cs rule osd = (None, False, Some RuleContentDirectoryTimeoutError)"
    using assms(1) by (auto simp: FetchRuleContent_def GetRuleWithErrorKeyContent_def when_ready_def
        WaitForContentDirectoryToBeReady_def split: if_splits)
  show ?case
  proof (cases "dropped gd acks rule")
    case True
    with Cons show ?thesis by (simp add: loop_dropped del: filter_rules_loop.simps)
  next
    case False
    show ?thesis by (rule loop_step(1) [OF False f refl])
  qed
qed simp

text \<open>A rule that has content, but not for the managed cluster that asks.\<close>

definition managed_only :: "content_state \<Rightarrow> bool \<Rightarrow> RuleOnReport \<Rightarrow> bool" where
  "managed_only cs osd rule \<longleftrightarrow> osd \<and> (case rule_content cs rule of None \<Rightarrow> False | Some c \<Rightarrow> \<not> rwc_OSDCustomer c)"

lemma visible_None_iff:
  assumes "WaitForContentDirectoryToBeReady cs = None"
  shows "visible ev cs osd gd acks rule = None \<longleftrightarrow>
    dropped gd acks rule \<or> rule_content cs rule = None \<or> managed_only cs osd rule"
proof (cases "rule_content cs rule")
  case (Some c)
  then have "osd \<longrightarrow> rwc_OSDCustomer c \<Longrightarrow> \<exists>r. fst (FetchRuleContent (ev_content ev) cs rule osd) = Some r"
    using FetchRuleContent_Some [OF assms] by blast
  with Some show ?thesis by (auto simp: visible_def managed_only_def)
qed (simp add: visible_def)

lemma visible_none_iff:
  "List.map_filter (visible ev cs osd gd acks) report = [] \<longleftrightarrow> (\<forall>rule \<in> set report. visible ev cs osd gd acks rule = None)"
  by (induction report) (auto simp: map_filter_simps split: option.split)

lemma countable_rules:
  assumes "WaitForContentDirectoryToBeReady cs = None"
  shows "length (List.map_filter (visible ev cs osd gd acks) report) + length (filter (lacks_content cs gd acks) report) =
    length (filter (\<lambda>rule. \<not> dropped gd acks rule \<and> \<not> managed_only cs osd rule) report)"
proof (induction report)
  case (Cons rule report)
  have "managed_only cs osd rule \<Longrightarrow> rule_content cs rule \<noteq> None" by (auto simp: managed_only_def split: option.splits)
  then show ?case
    using Cons.IH visible_None_iff [OF assms, of ev osd gd acks rule]
    by (cases "visible ev cs osd gd acks rule") (auto simp: map_filter_simps lacks_content_def)
qed (simp add: map_filter_simps)

text \<open>
  Claim C37: the count in the metadata, in terms of the report. It counts the reported rules
  that are neither dropped as disabled nor filtered out for a managed cluster, those without
  content included; but when no rule is dropped and none has content to show, it is zero.
\<close>

theorem rule_count_spec:
  assumes "WaitForContentDirectoryToBeReady cs = None"
  shows "(let res = filterRulesInResponse ev cs report osd gd acks
          in getRuleCount (fr_okRules res) (fr_noContentRulesCnt res) (fr_disabledRulesCnt res)) =
    (if \<forall>rule \<in> set report. \<not> dropped gd acks rule \<and> (rule_content cs rule = None \<or> managed_only cs osd rule) then 0
     else int (length (filter (\<lambda>rule. \<not> dropped gd acks rule \<and> \<not> managed_only cs osd rule) report)))"
proof -
  let ?vis = "List.map_filter (visible ev cs osd gd acks) report"
  have empty: "?vis = [] \<and> filter (dropped gd acks) report = [] \<longleftrightarrow>
      (\<forall>rule \<in> set report. \<not> dropped gd acks rule \<and> (rule_content cs rule = None \<or> managed_only cs osd rule))"
    by (auto simp: visible_none_iff filter_empty_conv visible_None_iff [OF assms])
  show ?thesis
    unfolding empty [symmetric] countable_rules [OF assms, of ev osd gd acks report, symmetric]
    by (auto simp: filterRulesInResponse_def filter_rules_loop_spec [OF assms] Let_def getRuleCount_def)
qed

theorem filterRulesInResponse_spec_witness:
  "fr_disabledRulesCnt (filterRulesInResponse sample_env (sv_content sample_server)
     [\<lparr>ror_Module = ''m.report'', ror_ErrorKey = ''K'', ror_UserVote = 0, ror_Disabled = False, ror_DisableFeedback = [],
       ror_DisabledAt = [], ror_TemplateData = Opaque [], ror_CreatedAt = []\<rparr>] False False [''m|K'' \<mapsto> True]) = 1"
proof -
  have ready: "WaitForContentDirectoryToBeReady (sv_content sample_server) = None"
    by (simp add: WaitForContentDirectoryToBeReady_def sample_server_def New_def)
  show ?thesis
    by (simp add: filterRulesInResponse_spec [OF ready] dropped_def org_selector_def getbool_def TrimSuffix_def suffix_def)
qed

theorem rule_count_spec_witness:
  "(let res = filterRulesInResponse sample_env (sv_content sample_server)
      [\<lparr>ror_Module = ''m.report'', ror_ErrorKey = ''K'', ror_UserVote = 0, ror_Disabled = False, ror_DisableFeedback = [],
        ror_DisabledAt = [], ror_TemplateData = Opaque [], ror_CreatedAt = []\<rparr>,
       \<lparr>ror_Module = ''n.report'', ror_ErrorKey = ''K'', ror_UserVote = 0, ror_Disabled = False, ror_DisableFeedback = [],
        ror_DisabledAt = [], ror_TemplateData = Opaque [], ror_CreatedAt = []\<rparr>] False False [''m|K'' \<mapsto> True]
    in getRuleCount (fr_okRules res) (fr_noContentRulesCnt res) (fr_disabledRulesCnt res)) = 1"
proof -
  have ready: "WaitForContentDirectoryToBeReady (sv_content sample_server) = None"
    by (simp add: WaitForContentDirectoryToBeReady_def sample_server_def New_def)
  show ?thesis
    unfolding rule_count_spec [OF ready]
    by (simp add: dropped_def org_selector_def getbool_def TrimSuffix_def suffix_def managed_only_def)
qed

subsection \<open>The time of impact\<close>

lemma id_report_loop_lookup:
  "id_report_loop m rules i =
     (case find (\<lambda>v. ror_ErrorKey v @ ror_Module v = i) (rev rules) of None \<Rightarrow> m i | Some v \<Rightarrow> Some v)"
  by (induction rules arbitrary: m) (auto simp: find_append_case split: option.splits)

lemma fill_impacted_other:
  "fill_impacted ev m rule = rule\<lparr>rwr_Impacted := rwr_Impacted (fill_impacted ev m rule)\<rparr>"
  by (auto simp: fill_impacted_def split: option.splits sum.splits)

text \<open>
  Filling in the time of impact changes no other field and no position; a rule that
  stems from an entry of the report whose creation time parses and is not zero gets that
  time, provided no other entry has the same concatenation of error key and module.
\<close>

lemma fillImpacted_spec:
  assumes "i < length data" and "e \<in> set report"
    and "rwr_RuleID (data ! i) = ror_Module e" and "rwr_ErrorKey (data ! i) = ror_ErrorKey e"
    and "\<forall>e' \<in> set report. ror_ErrorKey e' @ ror_Module e' = ror_ErrorKey e @ ror_Module e \<longrightarrow> e' = e"
    and "ce_TimeParse (ev_content ev) RFC3339 (ror_CreatedAt e) = Inr t" and "\<not> IsZero t"
  shows "length (fillImpacted ev data report) = length data \<and>
    fillImpacted ev data report ! i = (data ! i)\<lparr>rwr_Impacted := ror_CreatedAt e\<rparr>"
proof -
  let ?P = "\<lambda>v. ror_ErrorKey v @ ror_Module v = ror_ErrorKey e @ ror_Module e"
  have "find ?P (rev report) \<noteq> None" using assms(2) by (auto simp: find_None_iff)
  then obtain e' where e': "find ?P (rev report) = Some e'" by blast
  then have "e' \<in> set report" "?P e'" by (auto simp: find_Some_iff) (metis nth_mem set_rev length_rev)
  with assms(5) have "e' = e" by blast
  with e' have "id_report_loop Map.empty report (ror_ErrorKey e @ ror_Module e) = Some e"
    by (simp add: id_report_loop_lookup)
  with assms show ?thesis by (simp add: fillImpacted_def fill_impacted_def)
qed

definition sample_hit :: "string \<Rightarrow> string \<Rightarrow> RuleOnReport" where
  "sample_hit m k = \<lparr>ror_Module = m, ror_ErrorKey = k, ror_UserVote = 0, ror_Disabled = False, ror_DisableFeedback = [],
     ror_DisabledAt = [], ror_TemplateData = Opaque [], ror_CreatedAt = ''2024''\<rparr>"

definition sample_response :: "string \<Rightarrow> string \<Rightarrow> RuleWithContentResponse" where
  "sample_response m k = \<lparr>rwr_RuleID = m, rwr_ErrorKey = k, rwr_CreatedAt = [], rwr_Description = [], rwr_Generic = [],
     rwr_Reason = [], rwr_Resolution = [], rwr_MoreInfo = [], rwr_TotalRisk = 1, rwr_Disabled = False,
     rwr_DisableFeedback = [], rwr_DisabledAt = [], rwr_Internal = False, rwr_UserVote = 0, rwr_TemplateData = Opaque [],
     rwr_Tags = [], rwr_Impacted = []\<rparr>"

definition sample_time_env :: env where
  "sample_time_env = sample_env\<lparr>ev_content := (ev_content sample_env)\<lparr>ce_TimeParse := (\<lambda>l v. Inr \<lparr>instant = 5, zone = 0\<rparr>)\<rparr>\<rparr>"

lemma fillImpacted_spec_instance:
  "rwr_Impacted (fillImpacted sample_time_env [sample_response ''m'' ''K''] [sample_hit ''m'' ''K'', sample_hit ''n'' ''L''] ! 0) = ''2024''"
  using fillImpacted_spec [of 0 "[sample_response ''m'' ''K'']" "sample_hit ''m'' ''K''"
      "[sample_hit ''m'' ''K'', sample_hit ''n'' ''L'']" sample_time_env "\<lparr>instant = 5, zone = 0\<rparr>"]
  by (simp add: sample_response_def sample_hit_def sample_time_env_def IsZero_def)

lemma fillImpacted_collision:
  "rwr_Impacted (fillImpacted sample_time_env [sample_response ''m'' ''Ka'']
     [sample_hit ''m'' ''Ka'', (sample_hit ''am'' ''K'')\<lparr>ror_CreatedAt := ''2020''\<rparr>] ! 0) = ''2020''"
  by (simp add: fillImpacted_def fill_impacted_def sample_response_def sample_hit_def sample_time_env_def IsZero_def)

subsection \<open>The report endpoint, version 2\<close>

definition report_call :: "HTTPServer \<Rightarrow> Identity \<Rightarrow> ClusterName \<Rightarrow> http_call" where
  "report_call sv i c =
     get_call (aggregator sv ''ReportEndpoint'' [ArgOrg (id_OrgID i), ArgStr c, ArgStr (id_UserID i)])"

definition acked_call :: "HTTPServer \<Rightarrow> OrgID \<Rightarrow> http_call" where
  "acked_call sv orgID = get_call (aggregator sv ''ListOfDisabledRulesSystemWide'' [ArgOrg orgID])"

lemma http_get_call: "http_get ev url = http_do ev (get_call url)"
  by (simp add: http_get_def get_call_def)

lemma token_of_identity:
  assumes "rq_User request = IdentityValue i"
  shows "GetCurrentOrgID request = Inr (id_OrgID i)"
    and "GetCurrentOrgIDUserIDFromToken request = Inr (id_OrgID i, id_UserID i)"
  using assms by (simp_all add: GetCurrentOrgID_def GetCurrentOrgIDUserIDFromToken_def GetAuthToken_def)

lemma fetch_report_ok:
  assumes "ev_ReadClusterName ev request = Inr c" and "rq_User request = IdentityValue i"
    and "net ev (w_calls w) (report_call sv i c) = Inr resp" and "hr_StatusCode resp = 200"
    and "hr_Body resp = Inr b" and "dc_report (ev_dec ev) b = Inr report"
  shows "run_state (fetchAggregatorReport ev sv request) w =
    (map_option (\<lambda>r. (Some r, True, c)) report, add_call (report_call sv i c) w)"
  using assms
  by (cases report)
     (simp_all add: fetchAggregatorReport_def token_of_identity readAggregatorReportForClusterID_def read_service_def
       http_get_call report_call_def read_ok_body_def)

lemma read_acks_ok:
  assumes "net ev (w_calls w) (acked_call sv g) = Inr resp" and "hr_StatusCode resp = 200"
    and "dc_acked (ev_dec ev) (hr_Body resp) = Inr acks"
  shows "run_state (readListOfAckedRules ev sv g) w = (Inr acks, add_call (acked_call sv g) w)"
  using assms by (simp add: readListOfAckedRules_def acked_call_def)

text \<open>The data and the count a report endpoint sends for a report and a list of acknowledgements.\<close>

definition report_data ::
  "env \<Rightarrow> HTTPServer \<Rightarrow> bool \<Rightarrow> bool \<Rightarrow> SystemWideRuleDisable list \<Rightarrow> RuleOnReport list \<Rightarrow> RuleWithContentResponse list" where
  "report_data ev sv osd gd acks rules =
     List.map_filter (visible ev (sv_content sv) osd gd (generateRuleAckMap ev acks)) rules"

definition report_count ::
  "env \<Rightarrow> HTTPServer \<Rightarrow> bool \<Rightarrow> bool \<Rightarrow> SystemWideRuleDisable list \<Rightarrow> RuleOnReport list \<Rightarrow> int" where
  "report_count ev sv osd gd acks rules =
     getRuleCount (report_data ev sv osd gd acks rules)
       (int (length (filter (lacks_content (sv_content sv) gd (generateRuleAckMap ev acks)) rules)))
       (int (length (filter (dropped gd (generateRuleAckMap ev acks)) rules)))"

lemma build_report_ok:
  assumes "readGetDisabledParam request = Inr gd" and "GetCurrentOrgID request = Inr g"
    and "run_state (readListOfAckedRules ev sv g) w = (Inr acks, w')"
    and "WaitForContentDirectoryToBeReady (sv_content sv) = None"
  shows "run_state (buildReportEndpointResponse ev sv request (Some report) osd) w =
    (Some (report_data ev sv osd gd acks (rr_Report report), report_count ev sv osd gd acks (rr_Report report), None), w')"
  using assms
  by (simp add: buildReportEndpointResponse_def filter_rules_loop_spec filterRulesInResponse_def
      report_data_def report_count_def)

text \<open>
  Claim C14: for an authenticated request on a cluster whose report and whose organization's
  acknowledgements the aggregator delivers, the endpoint answers exactly once, with the
  visible rules of the report, the count, the time stamps of the report and the name and
  the managed flag of the cluster, which also selects the managed-cluster filter.
\<close>

theorem reportEndpointV2_ok:
  assumes "ev_ReadClusterName ev request = Inr c" and "rq_User request = IdentityValue i"
    and "net ev (w_calls w) (report_call sv i c) = Inr resp" and "hr_StatusCode resp = 200"
    and "hr_Body resp = Inr b" and "dc_report (ev_dec ev) b = Inr (Some report)"
    and "net ev (w_calls w @ [report_call sv i c]) (acked_call sv (id_OrgID i)) = Inr resp'" and "hr_StatusCode resp' = 200"
    and "dc_acked (ev_dec ev) (hr_Body resp') = Inr acks"
    and "readGetDisabledParam request = Inr gd"
    and "WaitForContentDirectoryToBeReady (sv_content sv) = None"
  shows "\<exists>meta. meta = SetAMSInfoInReport sv c \<lparr>mv2_DisplayName = [], mv2_Managed = False, mv2_Count = 0,
      mv2_LastCheckedAt = [], mv2_GatheredAt = []\<rparr> \<and>
    run_state (reportEndpointV2 ev sv request) w =
      (Done, add_reply (SendOK (PReportV2 \<lparr>rp2_Meta = meta\<lparr>
            mv2_Count := report_count ev sv (mv2_Managed meta) gd acks (rr_Report report),
            mv2_LastCheckedAt := rm_LastCheckedAt (rr_Meta report), mv2_GatheredAt := rm_GatheredAt (rr_Meta report)\<rparr>,
          rp2_Data = fillImpacted ev (report_data ev sv (mv2_Managed meta) gd acks (rr_Report report)) (rr_Report report)\<rparr>))
        (add_call (acked_call sv (id_OrgID i)) (add_call (report_call sv i c) w)))"
proof -
  let ?w1 = "add_call (report_call sv i c) w"
  note fetch = fetch_report_ok [OF assms(1-6)]
  have acks: "run_state (readListOfAckedRules ev sv (id_OrgID i)) ?w1 =
      (Inr acks, add_call (acked_call sv (id_OrgID i)) ?w1)"
    using assms(7-9) by (intro read_acks_ok) simp_all
  note build = build_report_ok [OF assms(10) token_of_identity(1) [OF assms(2)] acks assms(11)]
  show ?thesis
    by (simp add: reportEndpointV2_def fetch build Let_def sendReportReponse_def)
qed

text \<open>
  The three ways in which the list of acknowledged rules cannot be read: the aggregator is
  not reached, it answers with a status other than 200, or its body does not decode.
\<close>

definition acks_unreadable :: "env \<Rightarrow> http_response res \<Rightarrow> bool" where
  "acks_unreadable ev resp \<longleftrightarrow> (case resp of
      Inl err \<Rightarrow> True
    | Inr r \<Rightarrow> hr_StatusCode r \<noteq> 200 \<or> (case dc_acked (ev_dec ev) (hr_Body r) of Inl err \<Rightarrow> True | Inr acks \<Rightarrow> False))"

lemma readListOfAckedRules_error:
  "(\<exists>e. run_state (readListOfAckedRules ev sv g) w = (Inl e, add_call (acked_call sv g) w)) \<longleftrightarrow>
     acks_unreadable ev (net ev (w_calls w) (acked_call sv g))"
  by (auto simp: readListOfAckedRules_def acked_call_def acks_unreadable_def split: sum.splits)

text \<open>
  Claim C38: when the list of acknowledged rules cannot be read, because the aggregator is not
  reached, answers with a status other than 200 or sends a body that does not decode, the
  endpoint returns without having answered the client at all, after the calls for the
  report and for the acknowledgements.
\<close>

theorem reportEndpointV2_unanswered:
  assumes "ev_ReadClusterName ev request = Inr c" and "rq_User request = IdentityValue i"
    and "net ev (w_calls w) (report_call sv i c) = Inr resp" and "hr_StatusCode resp = 200"
    and "hr_Body resp = Inr b" and "dc_report (ev_dec ev) b = Inr (Some report)"
    and "acks_unreadable ev (net ev (w_calls w @ [report_call sv i c]) (acked_call sv (id_OrgID i)))"
    and "readGetDisabledParam request = Inr gd"
  shows "run_state (reportEndpointV2 ev sv request) w =
    (Done, add_call (acked_call sv (id_OrgID i)) (add_call (report_call sv i c) w))"
proof -
  note fetch = fetch_report_ok [OF assms(1-6)]
  have "acks_unreadable ev (net ev (w_calls (add_call (report_call sv i c) w)) (acked_call sv (id_OrgID i)))"
    using assms(7) by simp
  then obtain e where "run_state (readListOfAckedRules ev sv (id_OrgID i)) (add_call (report_call sv i c) w) =
      (Inl e, add_call (acked_call sv (id_OrgID i)) (add_call (report_call sv i c) w))"
    unfolding readListOfAckedRules_error [symmetric] by blast
  then show ?thesis
    by (simp add: reportEndpointV2_def fetch Let_def buildReportEndpointResponse_def assms(8) token_of_identity [OF assms(2)])
qed

text \<open>
  A request without a usable identity is answered twice, both times with the
  refusal for the identity, because the first failure is reported as a success.
\<close>

lemma reportEndpointV2_answered_twice:
  assumes "ev_ReadClusterName ev request = Inr c" and "GetCurrentOrgID request = Inl e"
    and "readGetDisabledParam request = Inr gd"
  shows "run_state (reportEndpointV2 ev sv request) w =
    (Done, add_reply (error_reply ev (Some e)) (add_reply (error_reply ev (Some e)) w))"
proof -
  have "GetCurrentOrgIDUserIDFromToken request = Inl e"
    using assms(2) by (cases request rule: GetCurrentOrgID_cases) auto
  with assms show ?thesis
    by (simp add: reportEndpointV2_def fetchAggregatorReport_def buildReportEndpointResponse_def Let_def)
qed

text \<open>
  An aggregator that answers 200 with a null report makes the endpoint panic, before
  anything is sent.
\<close>

lemma reportEndpointV2_null_report:
  assumes "ev_ReadClusterName ev request = Inr c" and "rq_User request = IdentityValue i"
    and "net ev (w_calls w) (report_call sv i c) = Inr resp" and "hr_StatusCode resp = 200"
    and "hr_Body resp = Inr b" and "dc_report (ev_dec ev) b = Inr None"
  shows "\<exists>w'. run_state (reportEndpointV2 ev sv request) w = (Panic, w') \<and> w_replies w' = w_replies w"
  using fetch_report_ok [OF assms] by (simp add: reportEndpointV2_def)

subsection \<open>Sample requests\<close>

definition sample_report :: ReportResponse where
  "sample_report = \<lparr>rr_Meta = \<lparr>rm_LastCheckedAt = ''t1'', rm_GatheredAt = ''t2''\<rparr>, rr_Report = [sample_hit ''m.report'' ''K'']\<rparr>"

definition sample_report_env :: "ReportResponse option \<Rightarrow> bool \<Rightarrow> env" where
  "sample_report_env report acks_ok = sample_env\<lparr>
     net := (\<lambda>cs c. case ca_URL c of
         Endpoint b name args \<Rightarrow>
           if name = ''ReportEndpoint'' \<or> acks_ok then Inr \<lparr>hr_StatusCode = 200, hr_Header = [], hr_Body = Inr []\<rparr>
           else Inl (UrlError [])
       | _ \<Rightarrow> Inl (UrlError [])),
     ev_dec := sample_dec\<lparr>dc_report := (\<lambda>b. Inr report), dc_acked := (\<lambda>b. Inr [sample_row ''m'' ''K'' ''why''])\<rparr>\<rparr>"

definition sample_report_request :: http_request where
  "sample_report_request = sample_request\<lparr>rq_User := IdentityValue sample_identity, rq_Vars := [(''cluster'', ''c1'')]\<rparr>"

lemma sample_report_facts:
  "ev_ReadClusterName (sample_report_env rep ok) sample_report_request = Inr ''c1''"
  "rq_User sample_report_request = IdentityValue sample_identity"
  "net (sample_report_env rep ok) cs (report_call sv i c) = Inr \<lparr>hr_StatusCode = 200, hr_Header = [], hr_Body = Inr []\<rparr>"
  "net (sample_report_env rep True) cs (acked_call sv g) = Inr \<lparr>hr_StatusCode = 200, hr_Header = [], hr_Body = Inr []\<rparr>"
  "net (sample_report_env rep False) cs (acked_call sv g) = Inl (UrlError [])"
  "dc_report (ev_dec (sample_report_env rep ok)) b = Inr rep"
  "dc_acked (ev_dec (sample_report_env rep ok)) x = Inr [sample_row ''m'' ''K'' ''why'']"
  "readGetDisabledParam sample_report_request = Inr False"
  "WaitForContentDirectoryToBeReady (sv_content sample_server) = None"
  by (simp_all add: sample_report_env_def sample_env_def sample_dec_def sample_report_request_def sample_request_def
      report_call_def acked_call_def get_call_def aggregator_def readGetDisabledParam_def readQueryBoolParam_def
      query_get_def WaitForContentDirectoryToBeReady_def sample_server_def New_def)

theorem reportEndpointV2_ok_witness:
  "\<exists>rp w'. run_state (reportEndpointV2 (sample_report_env (Some sample_report) True) sample_server sample_report_request) empty_world =
     (Done, w') \<and> w_replies w' = [SendOK (PReportV2 rp)] \<and> mv2_LastCheckedAt (rp2_Meta rp) = ''t1'' \<and> mv2_Count (rp2_Meta rp) = 0"
proof -
  let ?ev = "sample_report_env (Some sample_report) True"
  have gen: "generateRuleAckMap ?ev [sample_row ''m'' ''K'' ''why''] = [''m|K'' \<mapsto> True]"
    by (simp add: generateRuleAckMap_def sample_report_env_def sample_env_def sample_row_def)
  have "report_count ?ev sample_server osd False [sample_row ''m'' ''K'' ''why''] (rr_Report sample_report) = 0" for osd
    unfolding report_count_def report_data_def gen
    by (simp add: sample_report_def sample_hit_def getRuleCount_def lacks_content_def
        visible_def map_filter_simps dropped_def org_selector_def getbool_def TrimSuffix_def suffix_def)
  with reportEndpointV2_ok [of ?ev sample_report_request "''c1''" sample_identity empty_world sample_server
      "\<lparr>hr_StatusCode = 200, hr_Header = [], hr_Body = Inr []\<rparr>" "[]" sample_report
      "\<lparr>hr_StatusCode = 200, hr_Header = [], hr_Body = Inr []\<rparr>" "[sample_row ''m'' ''K'' ''why'']" False]
  show ?thesis
    by (auto simp: sample_report_facts empty_world_def sample_report_def)
qed

definition undecodable_acks_env :: env where
  "undecodable_acks_env = (sample_report_env (Some sample_report) True)\<lparr>ev_dec := sample_dec\<lparr>
     dc_report := (\<lambda>b. Inr (Some sample_report))\<rparr>\<rparr>"

theorem reportEndpointV2_unanswered_witness:
  "(\<exists>w'. run_state (reportEndpointV2 (sample_report_env (Some sample_report) False) sample_server sample_report_request) empty_world =
     (Done, w') \<and> w_replies w' = []) \<and>
   (\<exists>w'. run_state (reportEndpointV2 undecodable_acks_env sample_server sample_report_request) empty_world =
     (Done, w') \<and> w_replies w' = [])"
proof
  show "\<exists>w'. run_state (reportEndpointV2 (sample_report_env (Some sample_report) False) sample_server sample_report_request) empty_world =
     (Done, w') \<and> w_replies w' = []"
    using reportEndpointV2_unanswered [of "sample_report_env (Some sample_report) False" sample_report_request "''c1''" sample_identity
      empty_world sample_server "\<lparr>hr_StatusCode = 200, hr_Header = [], hr_Body = Inr []\<rparr>" "[]" sample_report False]
    by (simp add: sample_report_facts acks_unreadable_def) (simp add: empty_world_def)
  have facts: "ev_ReadClusterName undecodable_acks_env sample_report_request = Inr ''c1''"
    "net undecodable_acks_env cs (report_call sample_server i c) = Inr \<lparr>hr_StatusCode = 200, hr_Header = [], hr_Body = Inr []\<rparr>"
    "net undecodable_acks_env cs (acked_call sample_server g) = Inr \<lparr>hr_StatusCode = 200, hr_Header = [], hr_Body = Inr []\<rparr>"
    "dc_report (ev_dec undecodable_acks_env) b = Inr (Some sample_report)"
    "dc_acked (ev_dec undecodable_acks_env) x = Inl (JSONSyntaxError [])" for cs i c g b x
    using sample_report_facts by (simp_all add: undecodable_acks_env_def) (simp add: sample_dec_def)
  show "\<exists>w'. run_state (reportEndpointV2 undecodable_acks_env sample_server sample_report_request) empty_world =
     (Done, w') \<and> w_replies w' = []"
    using reportEndpointV2_unanswered [of undecodable_acks_env sample_report_request "''c1''" sample_identity
      empty_world sample_server "\<lparr>hr_StatusCode = 200, hr_Header = [], hr_Body = Inr []\<rparr>" "[]" sample_report False]
    by (simp add: sample_report_facts facts acks_unreadable_def) (simp add: empty_world_def)
qed

lemma reportEndpointV2_answered_twice_instance:
  "length (w_replies (snd (run_state (reportEndpointV2 (sample_report_env None True) sample_server
     (sample_report_request\<lparr>rq_User := NoValue\<rparr>)) empty_world))) = 2"
proof -
  let ?r = "sample_report_request\<lparr>rq_User := NoValue\<rparr>"
  have "ev_ReadClusterName (sample_report_env None True) ?r = Inr ''c1''" "readGetDisabledParam ?r = Inr False"
    "GetCurrentOrgID ?r = Inl (AuthenticationError ''token is not provided'')"
    by (simp_all add: sample_report_env_def sample_env_def sample_report_request_def sample_request_def
        readGetDisabledParam_def readQueryBoolParam_def query_get_def GetCurrentOrgID_def GetAuthToken_def)
  from reportEndpointV2_answered_twice [OF this(1,3,2), of sample_server empty_world] show ?thesis
    by (simp add: empty_world_def)
qed

lemma reportEndpointV2_null_report_instance:
  "\<exists>w'. run_state (reportEndpointV2 (sample_report_env None True) sample_server sample_report_request) empty_world = (Panic, w')"
  using reportEndpointV2_null_report [of "sample_report_env None True" sample_report_request "''c1''" sample_identity
      empty_world sample_server "\<lparr>hr_StatusCode = 200, hr_Header = [], hr_Body = Inr []\<rparr>" "[]"]
  by (auto simp: sample_report_facts)

end
