(* ===== verification/Recommendations.thy ===== *)
theory Recommendations
  imports Reports
begin

text \<open>
  The recommendation and cluster views of \<open>server/handlers_v2.go\<close>: conversion of risks to
  bytes, filtering of acknowledged and disabled rules, the list of recommendations with
  the number of impacted clusters, and the list of clusters with their hits by risk.

  The map of impacting recommendations is ranged over, so it is an association list.
  Counters of type \<open>uint32\<close> are words of 32 bits.
\<close>

type_synonym RecommendationImpactedClusters = "(RuleID \<times> ClusterName list) list"
type_synonym ClusterRecommendationMap = "ClusterName \<rightharpoonup> ClusterRecommendationList"

subsection \<open>Conversions\<close>

definition safeUint8 :: "int \<Rightarrow> 8 word res" where
  "safeUint8 value =
     (if value < 0 then Inl (ErrorString (''cannot convert negative number to uint8: '' @ show_int value))
      else if value > 255 then Inl (ErrorString (''value '' @ show_int value @ '' is greater than the maximum uint8 value''))
      else Inr (word_of_int value))"

definition safeUint32 :: "int \<Rightarrow> 32 word res" where
  "safeUint32 value =
     (if value < 0 then Inl (ErrorString (''cannot convert negative number to uint32: '' @ show_int value))
      else if value > 4294967295 then Inl (ErrorString (''value '' @ show_int value @ '' is greater than the maximum uint32 value''))
      else Inr (word_of_int value))"

subsection \<open>Disabled rules and clusters\<close>

definition getRuleAcksMap :: "env \<Rightarrow> HTTPServer \<Rightarrow> OrgID \<Rightarrow> (world, (RuleID \<rightharpoonup> bool) res) state" where
  "getRuleAcksMap ev sv orgID = do {
     ackedRules \<leftarrow> readListOfAckedRules ev sv orgID;
     ret (case ackedRules of Inl err \<Rightarrow> Inl err | Inr acks \<Rightarrow> Inr (generateRuleAckMap ev acks))
   }"

fun disabled_clusters_loop ::
  "env \<Rightarrow> (RuleID \<rightharpoonup> ClusterName list) \<Rightarrow> DisabledRule list \<Rightarrow> (RuleID \<rightharpoonup> ClusterName list)" where
  "disabled_clusters_loop ev m [] = m"
| "disabled_clusters_loop ev m (disabledRule # rest) =
     (case generateCompositeRuleIDFromDisabled ev disabledRule of
        (compositeRuleID, Some err) \<Rightarrow> disabled_clusters_loop ev m rest
      | (compositeRuleID, None) \<Rightarrow>
          disabled_clusters_loop ev (m(compositeRuleID \<mapsto>
            (case m compositeRuleID of None \<Rightarrow> [] | Some cs \<Rightarrow> cs) @ [dr_ClusterID disabledRule])) rest)"

definition getRuleDisabledClusters ::
  "env \<Rightarrow> HTTPServer \<Rightarrow> OrgID \<Rightarrow> ClusterName list \<Rightarrow> (world, RuleID \<rightharpoonup> ClusterName list) state" where
  "getRuleDisabledClusters ev sv orgID clusterList = do {
     (listOfDisabledRules, err) \<leftarrow> readListOfDisabledRulesForClusters ev sv orgID clusterList;
     ret (if err \<noteq> None then Map.empty else disabled_clusters_loop ev Map.empty listOfDisabledRules)
   }"

fun filterOutDisabledRules ::
  "RuleID list \<Rightarrow> ClusterName \<Rightarrow> (RuleID \<rightharpoonup> bool) \<Rightarrow> (ClusterName \<rightharpoonup> RuleID list) \<Rightarrow> RuleID list" where
  "filterOutDisabledRules [] clusterID systemWideDisabledRules disabledRulesPerCluster = []"
| "filterOutDisabledRules (hittingRuleID # rest) clusterID systemWideDisabledRules disabledRulesPerCluster =
     (if getbool systemWideDisabledRules hittingRuleID then
        filterOutDisabledRules rest clusterID systemWideDisabledRules disabledRulesPerCluster
      else
        let ruleDisabled = (case disabledRulesPerCluster clusterID of
              None \<Rightarrow> False
            | Some disabledRulesList \<Rightarrow> list_ex (\<lambda>disabledRuleID. disabledRuleID = hittingRuleID) disabledRulesList)
        in if \<not> ruleDisabled
           then hittingRuleID # filterOutDisabledRules rest clusterID systemWideDisabledRules disabledRulesPerCluster
           else filterOutDisabledRules rest clusterID systemWideDisabledRules disabledRulesPerCluster)"

fun user_disabled_loop ::
  "env \<Rightarrow> (ClusterName \<rightharpoonup> RuleID list) \<Rightarrow> DisabledRule list \<Rightarrow> (ClusterName \<rightharpoonup> RuleID list)" where
  "user_disabled_loop ev m [] = m"
| "user_disabled_loop ev m (disabledRule # rest) =
     (case generateCompositeRuleIDFromDisabled ev disabledRule of
        (compositeRuleID, Some err) \<Rightarrow> user_disabled_loop ev m rest
      | (compositeRuleID, None) \<Rightarrow>
          (case m (dr_ClusterID disabledRule) of
             Some ruleList \<Rightarrow> user_disabled_loop ev (m(dr_ClusterID disabledRule \<mapsto> ruleList @ [compositeRuleID])) rest
           | None \<Rightarrow> user_disabled_loop ev (m(dr_ClusterID disabledRule \<mapsto> [compositeRuleID])) rest))"

definition getUserDisabledRulesPerCluster ::
  "env \<Rightarrow> HTTPServer \<Rightarrow> OrgID \<Rightarrow> (world, ClusterName \<rightharpoonup> RuleID list) state" where
  "getUserDisabledRulesPerCluster ev sv orgID = do {
     listOfDisabledRules \<leftarrow> readListOfClusterDisabledRules ev sv orgID;
     ret (case listOfDisabledRules of Inl err \<Rightarrow> Map.empty | Inr rules \<Rightarrow> user_disabled_loop ev Map.empty rules)
   }"

definition generateImpactingRuleIDList :: "RecommendationImpactedClusters \<Rightarrow> RuleID list" where
  "generateImpactingRuleIDList impactingRecommendations = map fst impactingRecommendations"

fun excludeDisabledClusters :: "ClusterName list \<Rightarrow> ClusterName list \<Rightarrow> ClusterName list" where
  "excludeDisabledClusters [] disabledClusters = []"
| "excludeDisabledClusters (impactingID # rest) disabledClusters =
     (let disabled = list_ex (\<lambda>disabledID. impactingID = disabledID) disabledClusters
      in if \<not> disabled then impactingID # excludeDisabledClusters rest disabledClusters
         else excludeDisabledClusters rest disabledClusters)"

subsection \<open>The list of recommendations\<close>

definition parseRecommendationListView ::
  "RuleID \<Rightarrow> RuleWithContent \<Rightarrow> bool \<Rightarrow> 32 word \<Rightarrow> RecommendationListView res" where
  "parseRecommendationListView ruleID ruleContent ruleDisabled impactedClustersCnt =
     (case safeUint8 (rwc_TotalRisk ruleContent) of
        Inl err \<Rightarrow> Inl err
      | Inr totalRisk \<Rightarrow>
          (case safeUint8 (rwc_ResolutionRisk ruleContent) of
             Inl err \<Rightarrow> Inl err
           | Inr resolutionRisk \<Rightarrow>
               (case safeUint8 (rwc_Impact ruleContent) of
                  Inl err \<Rightarrow> Inl err
                | Inr impact \<Rightarrow>
                    (case safeUint8 (rwc_Likelihood ruleContent) of
                       Inl err \<Rightarrow> Inl err
                     | Inr likelihood \<Rightarrow>
                         Inr \<lparr>rlv_RuleID = ruleID, rlv_Description = rwc_Description ruleContent,
                           rlv_Generic = rwc_Generic ruleContent, rlv_PublishDate = rwc_PublishDate ruleContent,
                           rlv_TotalRisk = totalRisk, rlv_ResolutionRisk = resolutionRisk, rlv_Impact = impact,
                           rlv_Likelihood = likelihood, rlv_Tags = rwc_Tags ruleContent,
                           rlv_Disabled = ruleDisabled, rlv_ImpactedClustersCnt = impactedClustersCnt\<rparr>))))"

text \<open>The counting loop over the clusters that are not managed; the counter wraps.\<close>

fun count_unmanaged :: "(ClusterName \<rightharpoonup> ClusterInfo) \<Rightarrow> 32 word \<Rightarrow> ClusterName list \<Rightarrow> 32 word" where
  "count_unmanaged clusterInfoMap cnt [] = cnt"
| "count_unmanaged clusterInfoMap cnt (clusterID # rest) =
     (if \<not> (case clusterInfoMap clusterID of None \<Rightarrow> False | Some i \<Rightarrow> ci_Managed i)
      then count_unmanaged clusterInfoMap (cnt + 1) rest
      else count_unmanaged clusterInfoMap cnt rest)"

text \<open>
  The loop with its accumulated list and the named result \<open>err\<close>, which keeps the error of
  the last content lookup until the next one.
\<close>

fun recommendations_loop ::
  "content_state \<Rightarrow> (ClusterName \<rightharpoonup> ClusterInfo) \<Rightarrow> RecommendationImpactedClusters \<Rightarrow> ImpactingFlag
    \<Rightarrow> (RuleID \<rightharpoonup> bool) \<Rightarrow> (RuleID \<rightharpoonup> ClusterName list) \<Rightarrow> RecommendationListView list \<Rightarrow> gerror option \<Rightarrow> RuleID list
    \<Rightarrow> RecommendationListView list \<times> gerror option" where
  "recommendations_loop cs infos imp flag acks disabled acc err [] = (acc, err)"
| "recommendations_loop cs infos imp flag acks disabled acc err (ruleID # rest) =
     (let ruleDisabled = (acks ruleID \<noteq> None);
          found = (map_of imp ruleID \<noteq> None);
          impacting = (case map_of imp ruleID of None \<Rightarrow> [] | Some cls \<Rightarrow> cls)
      in if found \<and> flag = ExcludingImpacting then recommendations_loop cs infos imp flag acks disabled acc err rest
         else
           let impacting = (case disabled ruleID of None \<Rightarrow> impacting | Some ds \<Rightarrow> excludeDisabledClusters impacting ds)
           in case GetContentForRecommendation cs ruleID of
                Inl e \<Rightarrow>
                  if is_timeout e then (acc, Some e)
                  else recommendations_loop cs infos imp flag acks disabled acc (Some e) rest
              | Inr ruleContent \<Rightarrow>
                  (case (if \<not> rwc_OSDCustomer ruleContent then Inr (count_unmanaged infos 0 impacting)
                         else safeUint32 (int (length impacting))) of
                     Inl e \<Rightarrow> (acc, Some e)
                   | Inr impactedClustersCnt \<Rightarrow>
                       (case parseRecommendationListView ruleID ruleContent ruleDisabled impactedClustersCnt of
                          Inl e \<Rightarrow> (acc, Some e)
                        | Inr view \<Rightarrow> recommendations_loop cs infos imp flag acks disabled (acc @ [view]) None rest)))"

definition getFilteredRecommendationsList ::
  "content_state \<Rightarrow> ClusterInfo list \<Rightarrow> RecommendationImpactedClusters \<Rightarrow> ImpactingFlag
    \<Rightarrow> (RuleID \<rightharpoonup> bool) \<Rightarrow> (RuleID \<rightharpoonup> ClusterName list) \<Rightarrow> RecommendationListView list \<times> gerror option" where
  "getFilteredRecommendationsList cs activeClustersInfo imp flag acks disabled =
     (let clusterInfoMap = ClusterInfoArrayToMap activeClustersInfo in
      case (if flag = OnlyImpacting then Inr (generateImpactingRuleIDList imp) else GetExternalRuleIDs cs) of
        Inl err \<Rightarrow> ([], Some err)
      | Inr ruleIDList \<Rightarrow> recommendations_loop cs clusterInfoMap imp flag acks disabled [] None ruleIDList)"

text \<open>
  \<open>getImpactingRecommendations\<close> and \<open>getClustersAndRecommendations\<close>: a status other than 200 is
  passed on, and the error that is returned is that of sending it, nil when it was sent.
\<close>

definition getImpactingRecommendations ::
  "env \<Rightarrow> HTTPServer \<Rightarrow> OrgID \<Rightarrow> UserID \<Rightarrow> ClusterName list
    \<Rightarrow> (world, RecommendationImpactedClusters \<times> gerror option) state" where
  "getImpactingRecommendations ev sv orgID userID clusterList = do {
     resp \<leftarrow> http_post ev (aggregator sv ''RecommendationsListEndpoint'' [ArgOrg orgID, ArgStr userID]) (BodyStrings clusterList);
     (case resp of
        Inl err \<Rightarrow> do { handleServerError ev (Some err); ret ([], Some err) }
      | Inr r \<Rightarrow>
          (case hr_Body r of
             Inl err \<Rightarrow> do { handleServerError ev (Some err); ret ([], Some err) }
           | Inr responseBytes \<Rightarrow>
               if hr_StatusCode r \<noteq> StatusOK then do {
                 err \<leftarrow> send ev (Send (hr_StatusCode r) (PBytes responseBytes));
                 (case err of None \<Rightarrow> ret () | Some e \<Rightarrow> handleServerError ev (Some e));
                 ret ([], err)
               }
               else (case dc_recommendations (ev_dec ev) responseBytes of
                   Inl err \<Rightarrow> do { handleServerError ev (Some err); ret ([], Some err) }
                 | Inr recommendations \<Rightarrow> ret (recommendations, None))))
   }"

definition getClustersAndRecommendations ::
  "env \<Rightarrow> HTTPServer \<Rightarrow> OrgID \<Rightarrow> UserID \<Rightarrow> ClusterName list
    \<Rightarrow> (world, ClusterRecommendationMap \<times> gerror option) state" where
  "getClustersAndRecommendations ev sv orgID userID clusterList = do {
     resp \<leftarrow> http_post ev (aggregator sv ''ClustersRecommendationsListEndpoint'' [ArgOrg orgID, ArgStr userID]) (BodyStrings clusterList);
     (case resp of
        Inl err \<Rightarrow> do { handleAggregatorError ev err; ret (Map.empty, Some err) }
      | Inr r \<Rightarrow>
          (case hr_Body r of
             Inl err \<Rightarrow> do { handleServerError ev (Some err); ret (Map.empty, Some err) }
           | Inr responseBytes \<Rightarrow>
               if hr_StatusCode r \<noteq> StatusOK then do {
                 err \<leftarrow> send ev (Send (hr_StatusCode r) (PBytes responseBytes));
                 (case err of None \<Rightarrow> ret () | Some e \<Rightarrow> handleServerError ev (Some e));
                 ret (Map.empty, err)
               }
               else (case dc_cluster_recommendations (ev_dec ev) responseBytes of
                   Inl err \<Rightarrow> do { handleServerError ev (Some err); ret (Map.empty, Some err) }
                 | Inr clusters \<Rightarrow> ret (clusters, None))))
   }"

definition getRecommendations :: "env \<Rightarrow> HTTPServer \<Rightarrow> handler" where
  "getRecommendations ev sv request = do {
     params \<leftarrow> readParamsGetRecommendations ev request;
     (case params of
        Inl err \<Rightarrow> ret ()
      | Inr (userID, orgID, impactingFlag) \<Rightarrow> do {
          (activeClustersInfo, err) \<leftarrow> readClusterInfoForOrgID ev sv orgID;
          (case err of
             Some err \<Rightarrow> handleServerError ev (Some err)
           | None \<Rightarrow>
               (let clusterIDList = GetClusterNames activeClustersInfo in do {
                  (impactingRecommendations, err) \<leftarrow> getImpactingRecommendations ev sv orgID userID clusterIDList;
                  (case err of
                     Some err \<Rightarrow> ret ()
                   | None \<Rightarrow> do {
                       acks \<leftarrow> getRuleAcksMap ev sv orgID;
                       (case acks of
                          Inl err \<Rightarrow> handleServerError ev (Some err)
                        | Inr ackedRulesMap \<Rightarrow> do {
                            disabledClustersForRules \<leftarrow> getRuleDisabledClusters ev sv orgID clusterIDList;
                            (case getFilteredRecommendationsList (sv_content sv) activeClustersInfo impactingRecommendations
                                    impactingFlag ackedRulesMap disabledClustersForRules of
                               (recommendationList, Some err) \<Rightarrow> handleServerError ev (Some err)
                             | (recommendationList, None) \<Rightarrow>
                                 send_handle ev (SendOK (PRecommendations recommendationList)))
                          })
                     })
                }))
        })
   }"

subsection \<open>The list of clusters\<close>

fun zero_severities :: "int list \<Rightarrow> (int \<rightharpoonup> int) \<Rightarrow> (int \<rightharpoonup> int)" where
  "zero_severities [] m = m"
| "zero_severities (severity # rest) m = zero_severities rest (m(severity \<mapsto> 0))"

fun hits_loop ::
  "bool \<Rightarrow> (RuleID \<rightharpoonup> bool) \<Rightarrow> (RuleID \<rightharpoonup> int) \<Rightarrow> ClusterListView \<Rightarrow> RuleID list \<Rightarrow> ClusterListView" where
  "hits_loop managed rulesManagedInfo severities item [] = item"
| "hits_loop managed rulesManagedInfo severities item (ruleID # rest) =
     (if managed \<and> \<not> getbool rulesManagedInfo ruleID then hits_loop managed rulesManagedInfo severities item rest
      else case severities ruleID of
          Some ruleSeverity \<Rightarrow>
            hits_loop managed rulesManagedInfo severities
              (item\<lparr>clv_HitsByTotalRisk := bump (clv_HitsByTotalRisk item) ruleSeverity 1,
                    clv_TotalHitCount := clv_TotalHitCount item + 1\<rparr>) rest
        | None \<Rightarrow> hits_loop managed rulesManagedInfo severities item rest)"

definition cluster_view_item ::
  "env \<Rightarrow> ClusterRecommendationMap \<Rightarrow> (RuleID \<rightharpoonup> bool) \<Rightarrow> (ClusterName \<rightharpoonup> RuleID list)
    \<Rightarrow> (RuleID \<rightharpoonup> int) \<Rightarrow> int list \<Rightarrow> (RuleID \<rightharpoonup> bool) \<Rightarrow> ClusterInfo \<Rightarrow> ClusterListView" where
  "cluster_view_item ev recs acks disabled severities uniqueSeverities rulesManagedInfo info =
     (let item = \<lparr>clv_ClusterID = ci_ID info, clv_ClusterName = ci_DisplayName info, clv_Managed = ci_Managed info,
            clv_LastCheckedAt = [], clv_TotalHitCount = 0,
            clv_HitsByTotalRisk = zero_severities uniqueSeverities Map.empty, clv_Version = []\<rparr>
      in case recs (ci_ID info) of
           None \<Rightarrow> item
         | Some hitting \<Rightarrow>
             hits_loop (ci_Managed info) rulesManagedInfo severities
               (item\<lparr>clv_LastCheckedAt := ce_FormatRFC3339 (ev_content ev) (UTC (crl_CreatedAt hitting)),
                     clv_Version := crl_Version hitting\<rparr>)
               (filterOutDisabledRules (crl_Recommendations hitting) (ci_ID info) acks disabled))"

text \<open>\<open>None\<close> is the panic of the severity or managed table.\<close>

definition matchClusterInfoAndUserData ::
  "env \<Rightarrow> content_state \<Rightarrow> ClusterInfo list \<Rightarrow> ClusterRecommendationMap \<Rightarrow> (RuleID \<rightharpoonup> bool) \<Rightarrow> (ClusterName \<rightharpoonup> RuleID list)
    \<Rightarrow> ClusterListView list res option" where
  "matchClusterInfoAndUserData ev cs clusterInfoList recs acks disabled =
     (case GetExternalRuleSeverities (ev_content ev) cs of
        None \<Rightarrow> None
      | Some (Inl err) \<Rightarrow> Some (Inl err)
      | Some (Inr (severities, uniqueSeverities)) \<Rightarrow>
          (case GetExternalRulesManagedInfo cs of
             None \<Rightarrow> None
           | Some (Inl err) \<Rightarrow> Some (Inl err)
           | Some (Inr rulesManagedInfo) \<Rightarrow>
               Some (Inr (map (cluster_view_item ev recs acks disabled severities uniqueSeverities rulesManagedInfo) clusterInfoList))))"

definition getClusterListAndUserData ::
  "env \<Rightarrow> HTTPServer \<Rightarrow> OrgID \<Rightarrow> UserID
    \<Rightarrow> (world, ClusterInfo list \<times> ClusterRecommendationMap \<times> (RuleID \<rightharpoonup> bool) \<times> (ClusterName \<rightharpoonup> RuleID list)) state" where
  "getClusterListAndUserData ev sv orgID userID = do {
     (clusterInfoList, err) \<leftarrow> readClusterInfoForOrgID ev sv orgID;
     (case err of
        Some err \<Rightarrow> do { handleServerError ev (Some err); ret (clusterInfoList, Map.empty, Map.empty, Map.empty) }
      | None \<Rightarrow> do {
          (recs, err) \<leftarrow> getClustersAndRecommendations ev sv orgID userID (GetClusterNames clusterInfoList);
          (case err of
             Some err \<Rightarrow> ret (clusterInfoList, recs, Map.empty, Map.empty)
           | None \<Rightarrow> do {
               acks \<leftarrow> getRuleAcksMap ev sv orgID;
               (case acks of
                  Inl err \<Rightarrow> do { handleServerError ev (Some err); ret (clusterInfoList, recs, Map.empty, Map.empty) }
                | Inr ackedRulesMap \<Rightarrow> do {
                    disabled \<leftarrow> getUserDisabledRulesPerCluster ev sv orgID;
                    ret (clusterInfoList, recs, ackedRulesMap, disabled)
                  })
             })
        })
   }"

text \<open>An error of \<open>matchClusterInfoAndUserData\<close> is handled and the list, then empty, is still sent.\<close>

definition getClustersView :: "env \<Rightarrow> HTTPServer \<Rightarrow> http_request \<Rightarrow> (world, outcome) state" where
  "getClustersView ev sv request =
     (case GetCurrentOrgIDUserIDFromToken request of
        Inl err \<Rightarrow> do { handleServerError ev (Some err); ret Done }
      | Inr (orgID, userID) \<Rightarrow> do {
          (clusterList, clusterRuleHits, ackedRulesMap, disabledRules) \<leftarrow> getClusterListAndUserData ev sv orgID userID;
          (case matchClusterInfoAndUserData ev (sv_content sv) clusterList clusterRuleHits ackedRulesMap disabledRules of
             None \<Rightarrow> ret Panic
           | Some (Inl err) \<Rightarrow> do {
               handleServerError ev (Some err);
               send_handle ev (SendOK (PClustersView 0 []));
               ret Done
             }
           | Some (Inr clusterViewResponse) \<Rightarrow> do {
               send_handle ev (SendOK (PClustersView (int (length clusterViewResponse)) clusterViewResponse));
               ret Done
             })
        })"

definition getSingleClusterInfo :: "env \<Rightarrow> HTTPServer \<Rightarrow> handler" where
  "getSingleClusterInfo ev sv request =
     (case sv_amsClient sv of
        None \<Rightarrow> handleServerError ev (Some AMSAPIUnavailableError)
      | Some ams \<Rightarrow>
          (case GetCurrentOrgID request of
             Inl err \<Rightarrow> handleServerError ev (Some err)
           | Inr orgID \<Rightarrow> do {
               cluster \<leftarrow> ext_read (ev_ReadClusterName ev request);
               (case cluster of
                  None \<Rightarrow> ret ()
                | Some clusterID \<Rightarrow>
                    (case ams_GetSingleClusterInfoForOrganization ams orgID clusterID of
                       Inl err \<Rightarrow> handleServerError ev (Some err)
                     | Inr clusterInfo \<Rightarrow>
                         if ci_ID clusterInfo = [] then
                           handleServerError ev (Some (ItemNotFoundError (ItemStr clusterID)))
                         else send_handle ev (SendOK (PClusterInfo clusterInfo))))
             }))"

end
