(* ===== verification/Recommendations_Props.thy ===== *)
theory Recommendations_Props
  imports Recommendations Acks_Props Content_Props
begin

text \<open>
  Correctness of the recommendation and cluster views: the filters as filters, the list of
  recommendations with its counts and its stale error, and the hits of a cluster by risk.
\<close>

subsection \<open>The filters\<close>

definition enabled_rule :: "ClusterName \<Rightarrow> (RuleID \<rightharpoonup> bool) \<Rightarrow> (ClusterName \<rightharpoonup> RuleID list) \<Rightarrow> RuleID \<Rightarrow> bool" where
  "enabled_rule c acks disabled r \<longleftrightarrow>
     \<not> getbool acks r \<and> (case disabled c of None \<Rightarrow> True | Some rs \<Rightarrow> r \<notin> set rs)"

interpretation enabled_rules: filter_loop
  "\<lambda>rs. filterOutDisabledRules rs c acks disabled" "enabled_rule c acks disabled" for c acks disabled
  by unfold_locales (auto simp: enabled_rule_def list_ex_iff split: option.splits)

interpretation enabled_clusters: filter_loop
  "\<lambda>cs. excludeDisabledClusters cs ds" "\<lambda>c. c \<notin> set ds" for ds
  by unfold_locales (auto simp: list_ex_iff)

lemma safeUint8_eq: "safeUint8 v = Inr b \<longleftrightarrow> 0 \<le> v \<and> v \<le> 255 \<and> b = word_of_int v"
  by (auto simp: safeUint8_def)

text \<open>
  The conversion of a risk to a byte succeeds exactly on 0 to 255, and then the
  byte has the value of the risk; the same holds for the conversion of counts to 32 bits.
\<close>

lemma safe_conversions:
  "(\<exists>b. safeUint8 v = Inr b \<and> uint b = v) = (0 \<le> v \<and> v < 2 ^ 8) \<and>
   (\<exists>e. safeUint8 v = Inl e) = (v < 0 \<or> 2 ^ 8 \<le> v) \<and>
   (\<exists>b. safeUint32 v = Inr b \<and> uint b = v) = (0 \<le> v \<and> v < 2 ^ 32) \<and>
   (\<exists>e. safeUint32 v = Inl e) = (v < 0 \<or> 2 ^ 32 \<le> v)"
proof -
  have "uint (word_of_int v :: 8 word) = v" if "0 \<le> v" "v < 2 ^ 8"
    using that by (simp add: unsigned_of_int take_bit_int_eq_self)
  moreover have "uint (word_of_int v :: 32 word) = v" if "0 \<le> v" "v < 2 ^ 32"
    using that by (simp add: unsigned_of_int take_bit_int_eq_self)
  ultimately show ?thesis by (auto simp: safeUint8_def safeUint32_def)
qed

subsection \<open>The list of recommendations\<close>

definition unmanaged :: "(ClusterName \<rightharpoonup> ClusterInfo) \<Rightarrow> ClusterName \<Rightarrow> bool" where
  "unmanaged infos c \<longleftrightarrow> (case infos c of None \<Rightarrow> True | Some i \<Rightarrow> \<not> ci_Managed i)"

text \<open>The clusters a recommendation is counted for.\<close>

definition impacted ::
  "(ClusterName \<rightharpoonup> ClusterInfo) \<Rightarrow> RecommendationImpactedClusters \<Rightarrow> (RuleID \<rightharpoonup> ClusterName list) \<Rightarrow> RuleWithContent \<Rightarrow> RuleID
    \<Rightarrow> ClusterName list" where
  "impacted infos imp disabled c r =
     filter (\<lambda>cl. (case disabled r of None \<Rightarrow> True | Some ds \<Rightarrow> cl \<notin> set ds) \<and> (rwc_OSDCustomer c \<or> unmanaged infos cl))
       (case map_of imp r of None \<Rightarrow> [] | Some cls \<Rightarrow> cls)"

definition list_view :: "RuleID \<Rightarrow> RuleWithContent \<Rightarrow> bool \<Rightarrow> nat \<Rightarrow> RecommendationListView" where
  "list_view r c dis n =
     \<lparr>rlv_RuleID = r, rlv_Description = rwc_Description c, rlv_Generic = rwc_Generic c,
      rlv_PublishDate = rwc_PublishDate c, rlv_TotalRisk = word_of_int (rwc_TotalRisk c),
      rlv_ResolutionRisk = word_of_int (rwc_ResolutionRisk c), rlv_Impact = word_of_int (rwc_Impact c),
      rlv_Likelihood = word_of_int (rwc_Likelihood c), rlv_Tags = rwc_Tags c, rlv_Disabled = dis,
      rlv_ImpactedClustersCnt = of_nat n\<rparr>"

definition bytes_ok :: "RuleWithContent \<Rightarrow> bool" where
  "bytes_ok c \<longleftrightarrow> rwc_TotalRisk c \<in> {0..255} \<and> rwc_ResolutionRisk c \<in> {0..255} \<and> rwc_Impact c \<in> {0..255} \<and>
     rwc_Likelihood c \<in> {0..255}"

definition skipped :: "RecommendationImpactedClusters \<Rightarrow> ImpactingFlag \<Rightarrow> RuleID \<Rightarrow> bool" where
  "skipped imp flag r \<longleftrightarrow> map_of imp r \<noteq> None \<and> flag = ExcludingImpacting"

definition rec_pick ::
  "content_state \<Rightarrow> (ClusterName \<rightharpoonup> ClusterInfo) \<Rightarrow> RecommendationImpactedClusters \<Rightarrow> ImpactingFlag
    \<Rightarrow> (RuleID \<rightharpoonup> bool) \<Rightarrow> (RuleID \<rightharpoonup> ClusterName list) \<Rightarrow> RuleID \<Rightarrow> RecommendationListView option" where
  "rec_pick cs infos imp flag acks disabled r =
     (if skipped imp flag r then None
      else map_option (\<lambda>c. list_view r c (acks r \<noteq> None) (length (impacted infos imp disabled c r)))
             (st_recommendationsWithContent (cs_storage cs) r))"

text \<open>The error the loop ends with: that of its last content lookup.\<close>

fun last_error :: "content_state \<Rightarrow> RecommendationImpactedClusters \<Rightarrow> ImpactingFlag \<Rightarrow> gerror option \<Rightarrow> RuleID list \<Rightarrow> gerror option" where
  "last_error cs imp flag err [] = err"
| "last_error cs imp flag err (r # rs) =
     last_error cs imp flag (if skipped imp flag r then err
       else if st_recommendationsWithContent (cs_storage cs) r = None then Some (ItemNotFoundError (ItemStr r)) else None) rs"

lemma count_unmanaged_eq:
  "count_unmanaged infos n cls = n + of_nat (length (filter (unmanaged infos) cls))"
  by (induction cls arbitrary: n) (auto simp: unmanaged_def split: option.splits)

lemma safeUint32_length: "length xs < 2 ^ 32 \<Longrightarrow> safeUint32 (int (length xs)) = Inr (of_nat (length xs))"
  by (simp add: safeUint32_def)

lemma parse_view:
  "bytes_ok c \<Longrightarrow> parseRecommendationListView r c dis (of_nat n) = Inr (list_view r c dis n)"
  by (simp add: parseRecommendationListView_def safeUint8_def bytes_ok_def list_view_def)

lemma rec_content:
  assumes "WaitForContentDirectoryToBeReady cs = None"
  shows "GetContentForRecommendation cs r = (case st_recommendationsWithContent (cs_storage cs) r of
      None \<Rightarrow> Inl (ItemNotFoundError (ItemStr r)) | Some c \<Rightarrow> Inr c)"
  using assms by (simp add: GetContentForRecommendation_def storage_GetContentForRecommendation_def)

abbreviation hitting :: "RecommendationImpactedClusters \<Rightarrow> RuleID \<Rightarrow> ClusterName list" where
  "hitting imp r \<equiv> (case map_of imp r of None \<Rightarrow> [] | Some cls \<Rightarrow> cls)"

lemma rec_count:
  fixes disabled :: "RuleID \<rightharpoonup> ClusterName list"
  assumes "length (hitting imp r) < 2 ^ 32"
    and cls_def: "cls = (case disabled r of None \<Rightarrow> hitting imp r | Some ds \<Rightarrow> excludeDisabledClusters (hitting imp r) ds)"
  shows "(if \<not> rwc_OSDCustomer c then Inr (count_unmanaged infos 0 cls) else safeUint32 (int (length cls))) =
    Inr (of_nat (length (impacted infos imp disabled c r)))"
proof -
  let ?all = "hitting imp r"
  have cls: "cls = filter (\<lambda>cl. case disabled r of None \<Rightarrow> True | Some ds \<Rightarrow> cl \<notin> set ds) ?all"
    unfolding cls_def by (cases "disabled r") (simp_all add: enabled_clusters.floop_eq)
  have "length cls \<le> length ?all" unfolding cls by (rule length_filter_le)
  with assms(1) have len: "length cls < 2 ^ 32" by linarith
  show ?thesis
  proof (cases "rwc_OSDCustomer c")
    case True
    then have "impacted infos imp disabled c r = cls" by (simp add: impacted_def cls)
    with True show ?thesis by (simp add: safeUint32_length [OF len])
  next
    case False
    then have "impacted infos imp disabled c r = filter (unmanaged infos) cls"
      by (simp add: impacted_def cls conj_commute)
    with False show ?thesis by (simp add: count_unmanaged_eq)
  qed
qed

text \<open>One round of the loop, by what becomes of the rule.\<close>

lemma recommendations_step:
  assumes ready: "WaitForContentDirectoryToBeReady cs = None"
    and bytes: "\<And>c. st_recommendationsWithContent (cs_storage cs) r = Some c \<Longrightarrow> bytes_ok c"
    and count: "length (hitting imp r) < 2 ^ 32"
  shows "recommendations_loop cs infos imp flag acks disabled acc err (r # rs) =
    recommendations_loop cs infos imp flag acks disabled
      (acc @ (case rec_pick cs infos imp flag acks disabled r of None \<Rightarrow> [] | Some v \<Rightarrow> [v]))
      (if skipped imp flag r then err
       else if st_recommendationsWithContent (cs_storage cs) r = None then Some (ItemNotFoundError (ItemStr r)) else None) rs"
proof (cases "skipped imp flag r")
  case True
  then have g: "map_of imp r \<noteq> None \<and> flag = ExcludingImpacting" by (simp add: skipped_def)
  show ?thesis by (simp only: recommendations_loop.simps Let_def if_P [OF g]) (simp add: rec_pick_def True)
next
  case False
  then have g: "\<not> (map_of imp r \<noteq> None \<and> flag = ExcludingImpacting)" by (simp add: skipped_def)
  note unfold = recommendations_loop.simps Let_def if_not_P [OF g] rec_content [OF ready] option.case sum.case
  show ?thesis
  proof (cases "st_recommendationsWithContent (cs_storage cs) r")
    case None
    have nt: "\<not> is_timeout (ItemNotFoundError i)" for i by (simp add: is_timeout_def)
    show ?thesis using False None by (simp only: unfold nt if_False) (simp add: rec_pick_def)
  next
    case (Some c)
    note cnt = rec_count [OF count refl, where disabled = disabled and c = c and infos = infos]
    show ?thesis using False Some by (simp only: unfold cnt parse_view [OF bytes [OF Some]]) (simp add: rec_pick_def)
  qed
qed

lemma recommendations_loop_spec:
  assumes ready: "WaitForContentDirectoryToBeReady cs = None"
    and "\<forall>r \<in> set rs. \<forall>c. st_recommendationsWithContent (cs_storage cs) r = Some c \<longrightarrow> bytes_ok c"
    and "\<forall>r \<in> set rs. length (hitting imp r) < 2 ^ 32"
  shows "recommendations_loop cs infos imp flag acks disabled acc err rs =
    (acc @ List.map_filter (rec_pick cs infos imp flag acks disabled) rs, last_error cs imp flag err rs)"
  using assms(2,3)
proof (induction rs arbitrary: acc err)
  case (Cons r rs)
  then show ?case
    by (simp add: recommendations_step [OF ready] map_filter_simps split: option.split del: recommendations_loop.simps)
qed (simp add: map_filter_simps)

definition listed_rules :: "content_state \<Rightarrow> RecommendationImpactedClusters \<Rightarrow> ImpactingFlag \<Rightarrow> RuleID list" where
  "listed_rules cs imp flag =
     (if flag = OnlyImpacting then map fst imp else st_externalRuleIDs (cs_storage cs))"

lemma getFilteredRecommendationsList_loop:
  assumes "WaitForContentDirectoryToBeReady cs = None"
  shows "getFilteredRecommendationsList cs infos imp flag acks disabled =
    recommendations_loop cs (ClusterInfoArrayToMap infos) imp flag acks disabled [] None (listed_rules cs imp flag)"
  using assms
  by (simp add: getFilteredRecommendationsList_def listed_rules_def generateImpactingRuleIDList_def
      GetExternalRuleIDs_def when_ready_def)

lemma last_error_last:
  "last_error cs imp flag err rs =
     (let considered = filter (\<lambda>r. \<not> skipped imp flag r) rs in
      if considered = [] then err
      else if st_recommendationsWithContent (cs_storage cs) (last considered) = None
        then Some (ItemNotFoundError (ItemStr (last considered))) else None)"
  by (induction rs arbitrary: err) (simp_all add: Let_def)

text \<open>
  Claim C12: with the content loaded, risks that fit a byte and fewer than \<open>2 ^ 32\<close> clusters, the
  list holds one entry per listed rule with content, in order, without the impacting ones
  when those are excluded; each entry carries the risks, whether the rule is acknowledged,
  and the exact number of impacting clusters that have not disabled the rule and that the
  rule applies to: all of them for a rule marked for managed clusters, the ones that are not
  managed for any other (the comment in the loop speaks of leaving out those that are not
  managed). Next to the list an error is returned, for which the caller discards the list,
  exactly when the last rule considered has no content.
\<close>

theorem recommendations_list_spec:
  assumes "WaitForContentDirectoryToBeReady cs = None"
    and "\<forall>r \<in> set (listed_rules cs imp flag). \<forall>c. st_recommendationsWithContent (cs_storage cs) r = Some c \<longrightarrow> bytes_ok c"
    and "\<forall>r \<in> set (listed_rules cs imp flag). length (hitting imp r) < 2 ^ 32"
  shows "getFilteredRecommendationsList cs infos imp flag acks disabled =
      (List.map_filter (rec_pick cs (ClusterInfoArrayToMap infos) imp flag acks disabled) (listed_rules cs imp flag),
       let considered = filter (\<lambda>r. \<not> skipped imp flag r) (listed_rules cs imp flag) in
       if considered \<noteq> [] \<and> st_recommendationsWithContent (cs_storage cs) (last considered) = None
       then Some (ItemNotFoundError (ItemStr (last considered))) else None)"
  by (simp add: getFilteredRecommendationsList_loop [OF assms(1)] recommendations_loop_spec [OF assms] last_error_last Let_def)

text \<open>
  Whether the list is delivered or refused when some impacting rule has no content
  depends on the order in which the runtime iterates over the map of impacting rules: with
  the rule without content last the function returns its not-found error, with it first the
  error is forgotten; the list of recommendations is the same both times.
\<close>

lemma recommendations_error_order:
  assumes "WaitForContentDirectoryToBeReady cs = None"
    and "st_recommendationsWithContent (cs_storage cs) a = Some c" and "bytes_ok c"
    and "st_recommendationsWithContent (cs_storage cs) b = None"
    and "length x < 2 ^ 32" and "length y < 2 ^ 32"
  shows "fst (getFilteredRecommendationsList cs infos [(a, x), (b, y)] OnlyImpacting acks disabled) =
      fst (getFilteredRecommendationsList cs infos [(b, y), (a, x)] OnlyImpacting acks disabled) \<and>
    snd (getFilteredRecommendationsList cs infos [(a, x), (b, y)] OnlyImpacting acks disabled) =
      Some (ItemNotFoundError (ItemStr b)) \<and>
    snd (getFilteredRecommendationsList cs infos [(b, y), (a, x)] OnlyImpacting acks disabled) = None"
proof -
  have ab: "a \<noteq> b" using assms(2,4) by auto
  let ?infos = "ClusterInfoArrayToMap infos"
  have loop: "recommendations_loop cs ?infos imp OnlyImpacting acks disabled [] None rs =
      (List.map_filter (rec_pick cs ?infos imp OnlyImpacting acks disabled) rs, last_error cs imp OnlyImpacting None rs)"
    if "imp \<in> {[(a, x), (b, y)], [(b, y), (a, x)]}" "set rs \<subseteq> {a, b}" for imp rs
    using that assms ab recommendations_loop_spec [OF assms(1), of rs imp ?infos OnlyImpacting acks disabled "[]" None]
    by (fastforce split: option.splits)
  have pick: "rec_pick cs ?infos imp OnlyImpacting acks disabled b = None" for imp
    using assms(4) by (simp add: rec_pick_def)
  have "impacted ?infos [(a, x), (b, y)] disabled c a = impacted ?infos [(b, y), (a, x)] disabled c a"
    using ab by (simp add: impacted_def)
  then have "rec_pick cs ?infos [(a, x), (b, y)] OnlyImpacting acks disabled a =
      rec_pick cs ?infos [(b, y), (a, x)] OnlyImpacting acks disabled a"
    using assms(2) by (simp add: rec_pick_def skipped_def)
  with pick assms(2,4) show ?thesis
    by (simp add: getFilteredRecommendationsList_loop [OF assms(1)] listed_rules_def loop map_filter_simps skipped_def
        split: option.splits del: recommendations_loop.simps)
qed

subsection \<open>The hits of a cluster\<close>

definition counted :: "bool \<Rightarrow> (RuleID \<rightharpoonup> bool) \<Rightarrow> (RuleID \<rightharpoonup> int) \<Rightarrow> RuleID \<Rightarrow> bool" where
  "counted managed mi sev r \<longleftrightarrow> (managed \<longrightarrow> getbool mi r) \<and> sev r \<noteq> None"

lemma hits_loop_spec:
  "hits_loop managed mi sev item rs =
     item\<lparr>clv_HitsByTotalRisk := fold (\<lambda>r m. bump m (the (sev r)) 1) (filter (counted managed mi sev) rs) (clv_HitsByTotalRisk item),
          clv_TotalHitCount := clv_TotalHitCount item + of_nat (length (filter (counted managed mi sev) rs))\<rparr>"
proof (induction rs arbitrary: item)
  case (Cons r rs)
  show ?case
  proof (cases "counted managed mi sev r")
    case True
    then obtain s where "sev r = Some s" "\<not> (managed \<and> \<not> getbool mi r)" by (auto simp: counted_def)
    with True show ?thesis by (simp only: hits_loop.simps if_not_P option.case Cons.IH) simp
  next
    case False
    then have "hits_loop managed mi sev item (r # rs) = hits_loop managed mi sev item rs"
      by (cases "sev r") (auto simp: counted_def)
    with False show ?thesis by (simp only: Cons.IH) simp
  qed
qed simp

lemma getint_fold_bump:
  "getint (fold (\<lambda>r m. bump m (f r) 1) rs m) s = getint m s + int (length (filter (\<lambda>r. f r = s) rs))"
  by (induction rs arbitrary: m) auto

lemma dom_fold_bump: "dom (fold (\<lambda>r m. bump m (f r) 1) rs m) = dom m \<union> f ` set rs"
  by (induction rs arbitrary: m) auto

lemma sum_hits:
  "finite S \<Longrightarrow> f ` set rs \<subseteq> S \<Longrightarrow> (\<Sum>s \<in> S. int (length (filter (\<lambda>r. f r = s) rs))) = int (length rs)"
proof (induction rs)
  case (Cons r rs)
  have "(\<Sum>s \<in> S. int (length (filter (\<lambda>x. f x = s) (r # rs)))) =
      (\<Sum>s \<in> S. (if f r = s then 1 else 0) + int (length (filter (\<lambda>x. f x = s) rs)))"
    by (intro sum.cong) auto
  also have "\<dots> = 1 + int (length rs)" using Cons by (simp add: sum.distrib)
  finally show ?case by simp
qed simp

lemma zero_severities_eq: "zero_severities us m = (\<lambda>s. if s \<in> set us then Some 0 else m s)"
  by (induction us arbitrary: m) auto

lemma zero_severities_facts:
  "dom (zero_severities us Map.empty) = set us" "getint (zero_severities us Map.empty) s = 0"
  by (auto simp: zero_severities_eq getint_def split: if_splits)

text \<open>
  Claim C29: in the list of clusters every cluster of the organization has one entry, in order.
  For a cluster with hits, the hits of each risk are exactly the rules of that risk that are
  neither acknowledged nor disabled on the cluster, have content, and, on a managed cluster,
  apply to managed clusters; the hits over all risks add up to the number of those rules,
  and the total is that number modulo \<open>2 ^ 32\<close>.
\<close>

theorem cluster_hits_by_risk:
  assumes "GetExternalRuleSeverities (ev_content ev) cs = Some (Inr (sev, us))"
    and "GetExternalRulesManagedInfo cs = Some (Inr mi)"
    and "i < length infos" and "recs (ci_ID (infos ! i)) = Some h"
  shows "\<exists>views rules. matchClusterInfoAndUserData ev cs infos recs acks disabled = Some (Inr views) \<and>
    length views = length infos \<and> clv_ClusterID (views ! i) = ci_ID (infos ! i) \<and>
    rules = filter (counted (ci_Managed (infos ! i)) mi sev)
      (filter (enabled_rule (ci_ID (infos ! i)) acks disabled) (crl_Recommendations h)) \<and>
    (\<forall>s. getint (clv_HitsByTotalRisk (views ! i)) s = int (length (filter (\<lambda>r. sev r = Some s) rules))) \<and>
    (\<Sum>s \<in> dom (clv_HitsByTotalRisk (views ! i)). getint (clv_HitsByTotalRisk (views ! i)) s) = int (length rules) \<and>
    clv_TotalHitCount (views ! i) = of_nat (length rules)"
proof -
  let ?info = "infos ! i"
  let ?view = "cluster_view_item ev recs acks disabled sev us mi ?info"
  define rules where "rules = filter (counted (ci_Managed ?info) mi sev)
    (filter (enabled_rule (ci_ID ?info) acks disabled) (crl_Recommendations h))"
  let ?m = "fold (\<lambda>r m. bump m (the (sev r)) 1) rules (zero_severities us Map.empty)"
  have v: "clv_HitsByTotalRisk ?view = ?m" "clv_TotalHitCount ?view = of_nat (length rules)"
    "clv_ClusterID ?view = ci_ID ?info"
    using assms(4)
    by (simp_all add: cluster_view_item_def hits_loop_spec enabled_rules.floop_eq rules_def)
  have the: "filter (\<lambda>r. the (sev r) = s) rules = filter (\<lambda>r. sev r = Some s) rules" for s
    by (rule filter_cong) (auto simp: rules_def counted_def)
  have g: "getint ?m s = int (length (filter (\<lambda>r. sev r = Some s) rules))" for s
    by (simp add: getint_fold_bump zero_severities_facts the)
  have "(\<Sum>s \<in> dom ?m. getint ?m s) = int (length rules)"
    unfolding getint_fold_bump zero_severities_facts(2) dom_fold_bump zero_severities_facts(1)
    by (simp add: sum_hits)
  then show ?thesis
    using assms v g
    by (intro exI [of _ "map (cluster_view_item ev recs acks disabled sev us mi) infos"] exI [of _ rules])
       (simp add: matchClusterInfoAndUserData_def rules_def)
qed

subsection \<open>A sample content state\<close>

definition sample_content :: RuleWithContent where
  "sample_content = \<lparr>rwc_Module = ''a'', rwc_Name = [], rwc_Summary = [], rwc_Reason = [], rwc_Resolution = [],
     rwc_MoreInfo = [], rwc_ErrorKey = ''K'', rwc_Description = ''d'', rwc_TotalRisk = 3, rwc_ResolutionRisk = 1,
     rwc_Impact = 3, rwc_Likelihood = 4, rwc_PublishDate = zero_time, rwc_Active = True, rwc_Internal = False,
     rwc_Generic = [], rwc_Tags = [''security''], rwc_OSDCustomer = False\<rparr>"

definition sample_cs :: content_state where
  "sample_cs = \<lparr>cs_ruleContentDirectory = Some [], cs_storage = getEmptyRulesWithContentMap
     \<lparr>st_recommendationsWithContent := [''a|K'' \<mapsto> sample_content], st_externalRuleIDs := [''a|K'']\<rparr>\<rparr>"

lemma sample_cs_facts:
  "WaitForContentDirectoryToBeReady sample_cs = None"
  "st_recommendationsWithContent (cs_storage sample_cs) = [''a|K'' \<mapsto> sample_content]"
  "st_externalRuleIDs (cs_storage sample_cs) = [''a|K'']"
  "bytes_ok sample_content"
  "GetExternalRuleSeverities (ev_content sample_env) sample_cs = Some (Inr ([''a|K'' \<mapsto> 3], [3]))"
  "GetExternalRulesManagedInfo sample_cs = Some (Inr [''a|K'' \<mapsto> False])"
  by (simp_all add: WaitForContentDirectoryToBeReady_def sample_cs_def bytes_ok_def sample_content_def
      getEmptyRulesWithContentMap_def GetExternalRuleSeverities_def GetExternalRulesManagedInfo_def
      storage_GetExternalRuleSeverities_def storage_GetExternalRulesManagedInfo_def sample_env_def)

definition sample_info :: "ClusterName \<Rightarrow> bool \<Rightarrow> ClusterInfo" where
  "sample_info c m = empty_ClusterInfo\<lparr>ci_ID := c, ci_Managed := m\<rparr>"

theorem recommendations_list_spec_witness:
  "\<exists>v. getFilteredRecommendationsList sample_cs [sample_info ''c1'' False, sample_info ''c2'' True]
     [(''a|K'', [''c1'', ''c2'']), (''b|K'', [''c1''])] OnlyImpacting Map.empty Map.empty =
     ([v], Some (ItemNotFoundError (ItemStr ''b|K''))) \<and> rlv_RuleID v = ''a|K'' \<and> rlv_ImpactedClustersCnt v = 1"
  using recommendations_list_spec [of sample_cs "[(''a|K'', [''c1'', ''c2'']), (''b|K'', [''c1''])]" OnlyImpacting
      "[sample_info ''c1'' False, sample_info ''c2'' True]" Map.empty Map.empty]
  by (simp add: sample_cs_facts listed_rules_def rec_pick_def skipped_def list_view_def impacted_def unmanaged_def
      map_filter_simps ClusterInfoArrayToMap_def sample_info_def sample_content_def bytes_ok_def)

lemma recommendations_error_order_instance:
  "snd (getFilteredRecommendationsList sample_cs [] [(''a|K'', []), (''b|K'', [])] OnlyImpacting Map.empty Map.empty) =
     Some (ItemNotFoundError (ItemStr ''b|K'')) \<and>
   snd (getFilteredRecommendationsList sample_cs [] [(''b|K'', []), (''a|K'', [])] OnlyImpacting Map.empty Map.empty) = None"
  using recommendations_error_order [of sample_cs "''a|K''" sample_content "''b|K''" "[]" "[]" "[]" Map.empty Map.empty]
  by (simp add: sample_cs_facts)

theorem cluster_hits_by_risk_witness:
  "\<exists>views. matchClusterInfoAndUserData sample_env sample_cs [sample_info ''c1'' False]
       [''c1'' \<mapsto> \<lparr>crl_CreatedAt = zero_time, crl_Version = ''4'', crl_Recommendations = [''a|K'', ''b|K'']\<rparr>] Map.empty Map.empty =
     Some (Inr views) \<and> getint (clv_HitsByTotalRisk (views ! 0)) 3 = 1"
proof -
  let ?h = "\<lparr>crl_CreatedAt = zero_time, crl_Version = ''4'', crl_Recommendations = [''a|K'', ''b|K'']\<rparr>"
  have rules: "filter (counted (ci_Managed ([sample_info ''c1'' False] ! 0)) [''a|K'' \<mapsto> False] [''a|K'' \<mapsto> 3])
      (filter (enabled_rule (ci_ID ([sample_info ''c1'' False] ! 0)) Map.empty Map.empty) (crl_Recommendations ?h)) = [''a|K'']"
    by (simp add: counted_def enabled_rule_def getbool_def sample_info_def)
  have "[''c1'' \<mapsto> ?h] (ci_ID ([sample_info ''c1'' False] ! 0)) = Some ?h" by (simp add: sample_info_def)
  from cluster_hits_by_risk [where i = 0 and infos = "[sample_info ''c1'' False]" and recs = "[''c1'' \<mapsto> ?h]"
      and acks = Map.empty and disabled = Map.empty and h = ?h, OF sample_cs_facts(5,6) _ this]
  obtain views where "matchClusterInfoAndUserData sample_env sample_cs [sample_info ''c1'' False] [''c1'' \<mapsto> ?h] Map.empty Map.empty =
      Some (Inr views)" "\<forall>s. getint (clv_HitsByTotalRisk (views ! 0)) s = int (length (filter (\<lambda>r. [''a|K'' \<mapsto> 3] r = Some s) [''a|K'']))"
    unfolding rules by auto
  then show ?thesis by auto
qed

end
