(* ===== verification/ContentHandlers.thy ===== *)
theory ContentHandlers
  imports Recommendations
begin

text \<open>
  The handlers that serve static content: \<open>getGroups\<close>, \<open>getContentForRuleV1\<close>,
  \<open>getContentV1\<close>, \<open>getClustersForOrg\<close> and \<open>getRuleIDs\<close> of \<open>server/handlers_v1.go\<close>,
  \<open>getContentCheckInternal\<close> to \<open>getRecommendationContentWithUserData\<close> and
  \<open>getContentWithGroups\<close> of \<open>server/handlers_v2.go\<close>, and \<open>getGroupsConfig\<close> of
  \<open>server/server.go\<close>. Internal rules are shown only to the organizations that may see them.
\<close>

subsection \<open>Groups\<close>

text \<open>The groups (\<open>None\<close> is nil) and the error, as Go returns them.\<close>

definition getGroupsConfig :: "HTTPServer \<Rightarrow> opaque list option \<times> gerror option" where
  "getGroupsConfig sv =
     (case sv_ErrorFoundChannel sv of
        ClosedChannel \<Rightarrow> (Some [], None)
      | EmptyChannel \<Rightarrow> (Some [], None)
      | Received errorFound \<Rightarrow>
          if errorFound then (None, sv_ErrorChannel sv)
          else (case sv_GroupsChannel sv of
              None \<Rightarrow> (None, Some (ErrorString ''no groups retrieved''))
            | Some groupsConfig \<Rightarrow> (Some groupsConfig, None)))"

definition getGroups :: "env \<Rightarrow> HTTPServer \<Rightarrow> handler" where
  "getGroups ev sv request =
     (case getGroupsConfig sv of
        (groupsConfig, Some err) \<Rightarrow> handleServerError ev (Some err)
      | (groupsConfig, None) \<Rightarrow> send_handle ev (SendOK (PGroups groupsConfig)))"

subsection \<open>Content by rule, version 1\<close>

definition getContentForRuleV1 :: "env \<Rightarrow> HTTPServer \<Rightarrow> handler" where
  "getContentForRuleV1 ev sv request = do {
     rule \<leftarrow> ext_read (ev_ReadRuleID ev request);
     (case rule of
        None \<Rightarrow> ret ()
      | Some ruleID \<Rightarrow>
          (case GetRuleContentV1 (sv_content sv) ruleID of
             Inl err \<Rightarrow> handleServerError ev (Some err)
           | Inr ruleContent \<Rightarrow>
               (case (if IsRuleInternal ruleID then checkInternalRulePermissions sv request else None) of
                  Some err \<Rightarrow> handleServerError ev (Some err)
                | None \<Rightarrow> send_handle ev (SendOK (PContentV1 ruleContent)))))
   }"

fun external_only :: "('a \<Rightarrow> RuleID) \<Rightarrow> 'a list \<Rightarrow> 'a list" where
  "external_only module [] = []"
| "external_only module (rule # rest) =
     (if \<not> IsRuleInternal (module rule) then rule # external_only module rest else external_only module rest)"

definition visible_rules :: "HTTPServer \<Rightarrow> http_request \<Rightarrow> ('a \<Rightarrow> RuleID) \<Rightarrow> 'a list \<Rightarrow> 'a list" where
  "visible_rules sv request module allRules =
     (if checkInternalRulePermissions sv request \<noteq> None then external_only module allRules else allRules)"

definition getContentV1 :: "env \<Rightarrow> HTTPServer \<Rightarrow> handler" where
  "getContentV1 ev sv request =
     (case GetAllContentV1 (ev_content ev) (sv_content sv) of
        Inl err \<Rightarrow> handleServerError ev (Some err)
      | Inr allRules \<Rightarrow>
          (let rules = visible_rules sv request (\<lambda>rule. pl_PythonModule (co_Plugin rule)) allRules
           in send_handle ev (SendOK (PContentsV1 rules))))"

definition getClustersForOrg :: "env \<Rightarrow> HTTPServer \<Rightarrow> handler" where
  "getClustersForOrg ev sv request = do {
     org \<leftarrow> ext_read (ev_ReadOrganizationID ev request (cf_Auth (sv_Config sv)));
     (case org of
        None \<Rightarrow> ret ()
      | Some orgID \<Rightarrow> do {
          (activeClustersInfo, err) \<leftarrow> readClusterInfoForOrgID ev sv orgID;
          (case err of
             Some err \<Rightarrow> handleServerError ev (Some err)
           | None \<Rightarrow> send_log ev (SendOK (PClusters (GetClusterNames activeClustersInfo))))
        })
   }"

definition getRuleIDs :: "env \<Rightarrow> HTTPServer \<Rightarrow> handler" where
  "getRuleIDs ev sv request =
     (case GetRuleIDs (ev_content ev) (sv_content sv) of
        Inl err \<Rightarrow> handleServerError ev (Some err)
      | Inr allRuleIDs \<Rightarrow> send_handle ev (SendOK (PRuleIDs (visible_rules sv request (\<lambda>rule. rule) allRuleIDs))))"

subsection \<open>Content by recommendation, version 2\<close>

text \<open>After a failed permission check Go returns the content next to the error.\<close>

definition getContentCheckInternal ::
  "HTTPServer \<Rightarrow> RuleID \<Rightarrow> http_request \<Rightarrow> RuleWithContent option \<times> gerror option" where
  "getContentCheckInternal sv ruleID request =
     (case GetContentForRecommendation (sv_content sv) ruleID of
        Inl err \<Rightarrow> (None, Some err)
      | Inr ruleContent \<Rightarrow>
          (Some ruleContent, if IsRuleInternal ruleID then checkInternalRulePermissions sv request else None))"

definition getRuleWithGroups ::
  "HTTPServer \<Rightarrow> http_request \<Rightarrow> RuleID \<Rightarrow> RuleWithContent option \<times> opaque list option \<times> gerror option" where
  "getRuleWithGroups sv request ruleID =
     (case getContentCheckInternal sv ruleID request of
        (ruleContent, Some err) \<Rightarrow> (ruleContent, None, Some err)
      | (ruleContent, None) \<Rightarrow>
          (case getGroupsConfig sv of (ruleGroups, err) \<Rightarrow> (ruleContent, ruleGroups, err)))"

definition getRecommendationContent :: "env \<Rightarrow> HTTPServer \<Rightarrow> http_request \<Rightarrow> (world, outcome) state" where
  "getRecommendationContent ev sv request =
     (case readCompositeRuleID ev request of
        Inl err \<Rightarrow> do { handleServerError ev (Some err); ret Done }
      | Inr ruleID \<Rightarrow>
          (case getRuleWithGroups sv request ruleID of
             (content, ruleGroups, Some err) \<Rightarrow> do { handleServerError ev (Some err); ret Done }
           | (None, ruleGroups, None) \<Rightarrow> ret Panic
           | (Some ruleContent, ruleGroups, None) \<Rightarrow>
               (case safeUint8 (rwc_TotalRisk ruleContent) of
                  Inl err \<Rightarrow> do { handleServerError ev (Some err); ret Done }
                | Inr totalRisk \<Rightarrow>
                    (case safeUint8 (rwc_Impact ruleContent) of
                       Inl err \<Rightarrow> do { handleServerError ev (Some err); ret Done }
                     | Inr impact \<Rightarrow>
                         (case safeUint8 (rwc_Likelihood ruleContent) of
                            Inl err \<Rightarrow> do { handleServerError ev (Some err); ret Done }
                          | Inr likelihood \<Rightarrow>
                              (let contentResponse = \<lparr>rcn_RuleSelector = ruleID,
                                     rcn_Description = rwc_Description ruleContent, rcn_Generic = rwc_Generic ruleContent,
                                     rcn_Reason = rwc_Reason ruleContent, rcn_Resolution = rwc_Resolution ruleContent,
                                     rcn_MoreInfo = rwc_MoreInfo ruleContent, rcn_TotalRisk = totalRisk,
                                     rcn_Impact = impact, rcn_Likelihood = likelihood,
                                     rcn_PublishDate = rwc_PublishDate ruleContent, rcn_Tags = rwc_Tags ruleContent\<rparr>
                               in do {
                                 send_handle ev (SendOK (PRecommendation contentResponse ruleGroups));
                                 ret Done
                               }))))))"

text \<open>
  A rating that is not found leaves the default; the acknowledgement only sets the
  \<open>disabled\<close> flag, and an error of its lookup is ignored.
\<close>

definition getRecommendationContentWithUserData ::
  "env \<Rightarrow> HTTPServer \<Rightarrow> http_request \<Rightarrow> (world, outcome) state" where
  "getRecommendationContentWithUserData ev sv request =
     (let handle = (\<lambda>err. do { handleServerError ev (Some err); ret Done }) in
      case GetCurrentOrgID request of
        Inl err \<Rightarrow> handle err
      | Inr orgID \<Rightarrow>
          (case readCompositeRuleID ev request of
             Inl err \<Rightarrow> handle err
           | Inr ruleID \<Rightarrow>
               (case getRuleWithGroups sv request ruleID of
                  (content, ruleGroups, Some err) \<Rightarrow> handle err
                | (content, ruleGroups, None) \<Rightarrow> do {
                    (rating, err) \<leftarrow> getRatingForRecommendation ev sv orgID ruleID;
                    (case (case err of
                             None \<Rightarrow> None
                           | Some (ItemNotFoundError i) \<Rightarrow> None
                           | Some (UrlError s) \<Rightarrow> Some AggregatorServiceUnavailableError
                           | Some e \<Rightarrow> Some e) of
                       Some err \<Rightarrow> handle err
                     | None \<Rightarrow>
                         (case RuleIDWithErrorKeyFromCompositeRuleID ruleID of
                            Inl err \<Rightarrow> handle err
                          | Inr (ruleModule, errorKey) \<Rightarrow> do {
                              status \<leftarrow> readRuleDisableStatus ev sv ruleModule errorKey orgID;
                              (case content of
                                 None \<Rightarrow> ret Panic
                               | Some ruleContent \<Rightarrow>
                                   (let ackFound = (case status of Inl err \<Rightarrow> False | Inr (ack, found) \<Rightarrow> found) in
                                    case safeUint8 (rwc_TotalRisk ruleContent) of
                                      Inl err \<Rightarrow> handle err
                                    | Inr totalRisk \<Rightarrow>
                                        (case safeUint8 (rwc_ResolutionRisk ruleContent) of
                                           Inl err \<Rightarrow> handle err
                                         | Inr resolutionRisk \<Rightarrow>
                                             (case safeUint8 (rwc_Impact ruleContent) of
                                                Inl err \<Rightarrow> handle err
                                              | Inr impact \<Rightarrow>
                                                  (case safeUint8 (rwc_Likelihood ruleContent) of
                                                     Inl err \<Rightarrow> handle err
                                                   | Inr likelihood \<Rightarrow>
                                                       (let contentResponse = \<lparr>rcn_RuleSelector = ruleID,
                                                              rcn_Description = rwc_Description ruleContent,
                                                              rcn_Generic = rwc_Generic ruleContent,
                                                              rcn_Reason = rwc_Reason ruleContent,
                                                              rcn_Resolution = rwc_Resolution ruleContent,
                                                              rcn_MoreInfo = rwc_MoreInfo ruleContent,
                                                              rcn_TotalRisk = totalRisk, rcn_Impact = impact,
                                                              rcn_Likelihood = likelihood,
                                                              rcn_PublishDate = rwc_PublishDate ruleContent,
                                                              rcn_Tags = rwc_Tags ruleContent,
                                                              rcu_Rating = rt_Rating rating, rcu_AckedCount = 0,
                                                              rcu_Disabled = ackFound, rcu_ResolutionRisk = resolutionRisk\<rparr>
                                                        in do {
                                                          send_handle ev (SendOK (PRecommendationUserData contentResponse ruleGroups));
                                                          ret Done
                                                        }))))))
                            }))
                  })))"

definition getContentWithGroups :: "env \<Rightarrow> HTTPServer \<Rightarrow> handler" where
  "getContentWithGroups ev sv request =
     (case GetAllContentV2 (ev_content ev) (sv_content sv) of
        Inl err \<Rightarrow> handleServerError ev (Some err)
      | Inr allRules \<Rightarrow>
          (let rules = visible_rules sv request (\<lambda>rule. pl_PythonModule (co_Plugin rule)) allRules
           in case getGroupsConfig sv of
                (ruleGroups, Some err) \<Rightarrow> handleServerError ev (Some err)
              | (ruleGroups, None) \<Rightarrow> send_handle ev (SendOK (PContentsV2 rules ruleGroups))))"

end
