(* ===== verification/Effects.thy ===== *)
theory Effects
  imports ContentHandlers
begin

text \<open>
  Two small logics for the replies of a computation. \<open>writes P m\<close>: every reply that \<open>m\<close>
  writes satisfies \<open>P\<close>. \<open>once m\<close> and \<open>silent m\<close>: \<open>m\<close> writes exactly one reply, or none.
  The rules follow the shape of the handlers; the rules for the effects and for the
  functions that answer the client when they fail name the branch where nothing may be
  written any more.
\<close>

named_theorems writes_rules "rules for the replies a computation may write"
named_theorems once_rules "rules for computations that answer exactly once"

subsection \<open>What is written\<close>

definition writes :: "(reply \<Rightarrow> bool) \<Rightarrow> (world, 'a) state \<Rightarrow> bool" where
  "writes P m \<longleftrightarrow> (\<forall>w. \<exists>rs. w_replies (snd (run_state m w)) = w_replies w @ rs \<and> list_all P rs)"

lemma writes_empty_world:
  assumes "writes P m" and "r \<in> set (w_replies (snd (run_state m empty_world)))"
  shows "P r"
  using assms(1) [unfolded writes_def, THEN spec, of empty_world] assms(2)
  by (auto simp: empty_world_def list_all_iff)

lemma writes_ret [writes_rules]: "writes P (ret x)"
  by (simp add: writes_def)

lemma writes_bind [writes_rules]:
  assumes "writes P m" and "\<And>x. writes P (f x)"
  shows "writes P (m \<bind> f)"
  unfolding writes_def
proof
  fix w
  obtain x w1 where m: "run_state m w = (x, w1)" by (cases "run_state m w")
  obtain rs where rs: "w_replies w1 = w_replies w @ rs" "list_all P rs"
    using assms(1) [unfolded writes_def, THEN spec, of w] m by auto
  obtain rs' where "w_replies (snd (run_state (f x) w1)) = w_replies w1 @ rs'" "list_all P rs'"
    using assms(2) [unfolded writes_def, THEN spec, of x w1] by auto
  with m rs show "\<exists>rs. w_replies (snd (run_state (m \<bind> f) w)) = w_replies w @ rs \<and> list_all P rs"
    by (intro exI [of _ "rs @ rs'"]) simp
qed

lemma writes_send [writes_rules]: "P r \<Longrightarrow> writes P (send ev r)"
  by (simp add: writes_def)

lemma writes_send_log [writes_rules]: "P r \<Longrightarrow> writes P (send_log ev r)"
  by (simp add: writes_def)

lemma writes_handleServerError [writes_rules]: "P (error_reply ev e) \<Longrightarrow> writes P (handleServerError ev e)"
  by (simp add: writes_def)

lemma writes_send_handle [writes_rules]:
  "P r \<Longrightarrow> (\<And>e. P (error_reply ev (Some e))) \<Longrightarrow> writes P (send_handle ev r)"
  unfolding send_handle_def by (intro writes_rules) (auto intro: writes_rules split: option.split)

lemma writes_http_do [writes_rules]: "writes P (http_do ev c)"
  by (simp add: writes_def)

lemma writes_http_get [writes_rules]: "writes P (http_get ev u)"
  by (simp add: writes_def http_get_def)

lemma writes_http_post [writes_rules]: "writes P (http_post ev u b)"
  by (simp add: writes_def http_post_def)

lemma writes_ext_read [writes_rules]: "(\<And>rs. r = Inl rs \<Longrightarrow> list_all P rs) \<Longrightarrow> writes P (ext_read r)"
  by (cases r) (simp_all add: writes_def)

lemma writes_cases [writes_rules]:
  "(\<And>e. x = Inl e \<Longrightarrow> writes P (f e)) \<Longrightarrow> (\<And>v. x = Inr v \<Longrightarrow> writes P (g v)) \<Longrightarrow>
     writes P (case x of Inl e \<Rightarrow> f e | Inr v \<Rightarrow> g v)"
  "(z = None \<Longrightarrow> writes P a) \<Longrightarrow> (\<And>v. z = Some v \<Longrightarrow> writes P (h v)) \<Longrightarrow>
     writes P (case z of None \<Rightarrow> a | Some v \<Rightarrow> h v)"
  "(\<And>u v. p = (u, v) \<Longrightarrow> writes P (k u v)) \<Longrightarrow> writes P (case p of (u, v) \<Rightarrow> k u v)"
  "(b \<Longrightarrow> writes P m) \<Longrightarrow> (\<not> b \<Longrightarrow> writes P n) \<Longrightarrow> writes P (if b then m else n)"
  by (auto split: sum.split option.split prod.split)

subsection \<open>How often the client is answered\<close>

definition silent :: "(world, 'a) state \<Rightarrow> bool" where
  "silent m \<longleftrightarrow> (\<forall>w. w_replies (snd (run_state m w)) = w_replies w)"

definition once :: "(world, 'a) state \<Rightarrow> bool" where
  "once m \<longleftrightarrow> (\<forall>w. adds_replies 1 w (snd (run_state m w)))"

text \<open>A computation that answers exactly when its result is not accepted.\<close>

definition asks :: "('a \<Rightarrow> bool) \<Rightarrow> (world, 'a) state \<Rightarrow> bool" where
  "asks ok m \<longleftrightarrow> (\<forall>w. adds_replies (if ok (fst (run_state m w)) then 0 else 1) w (snd (run_state m w)))"

context service_reader
begin

lemma asks_read: "asks ok (read x)"
  using silent_or_once by (simp add: asks_def)

end

lemma silent_asks: "silent m \<Longrightarrow> asks (\<lambda>_. True) m"
  by (simp add: silent_def asks_def adds_replies_def)

lemma silent_bind:
  assumes "silent m" and "\<And>x. silent (f x)"
  shows "silent (m \<bind> f)"
  using assms by (simp add: silent_def split_beta)

lemma once_bind_asks:
  assumes "asks ok m" and "\<And>x. ok x \<Longrightarrow> once (f x)" and "\<And>x. \<not> ok x \<Longrightarrow> silent (f x)"
  shows "once (m \<bind> f)"
  unfolding once_def
proof
  fix w
  obtain x w1 where m: "run_state m w = (x, w1)" by (cases "run_state m w")
  then have a: "adds_replies (if ok x then 0 else 1) w w1"
    using assms(1) [unfolded asks_def, THEN spec, of w] by simp
  show "adds_replies 1 w (snd (run_state (m \<bind> f) w))"
  proof (cases "ok x")
    case True
    with a assms(2) [of x] have "adds_replies (0 + 1) w (snd (run_state (f x) w1))"
      by (intro adds_replies_trans [of 0 w w1 1]) (simp_all add: once_def)
    with m show ?thesis by simp
  next
    case False
    with a assms(3) [of x] m show ?thesis by (auto simp: silent_def adds_replies_def)
  qed
qed

lemma once_bind_silent: "silent m \<Longrightarrow> (\<And>x. once (f x)) \<Longrightarrow> once (m \<bind> f)"
  by (rule once_bind_asks [OF silent_asks]) auto

lemma once_bind_once:
  assumes "once m" and "\<And>x. silent (f x)"
  shows "once (m \<bind> f)"
proof (rule once_bind_asks [where ok = "\<lambda>_. False"])
  show "asks (\<lambda>_. False) m" using assms(1) by (simp add: asks_def once_def)
qed (use assms(2) in auto)

lemma silent_simps [simp]:
  "silent (ret x)" "silent (http_do ev c)" "silent (http_get ev u)" "silent (http_post ev u b)"
  by (simp_all add: silent_def http_get_def http_post_def)

lemma silent_cases:
  "(\<And>e. x = Inl e \<Longrightarrow> silent (f e)) \<Longrightarrow> (\<And>v. x = Inr v \<Longrightarrow> silent (g v)) \<Longrightarrow>
     silent (case x of Inl e \<Rightarrow> f e | Inr v \<Rightarrow> g v)"
  "(z = None \<Longrightarrow> silent a) \<Longrightarrow> (\<And>v. z = Some v \<Longrightarrow> silent (h v)) \<Longrightarrow>
     silent (case z of None \<Rightarrow> a | Some v \<Rightarrow> h v)"
  "(\<And>u v. p = (u, v) \<Longrightarrow> silent (k u v)) \<Longrightarrow> silent (case p of (u, v) \<Rightarrow> k u v)"
  "(b \<Longrightarrow> silent m) \<Longrightarrow> (\<not> b \<Longrightarrow> silent n) \<Longrightarrow> silent (if b then m else n)"
  by (auto split: sum.split option.split prod.split)

lemma once_cases [once_rules]:
  "(\<And>e. x = Inl e \<Longrightarrow> once (f e)) \<Longrightarrow> (\<And>v. x = Inr v \<Longrightarrow> once (g v)) \<Longrightarrow>
     once (case x of Inl e \<Rightarrow> f e | Inr v \<Rightarrow> g v)"
  "(z = None \<Longrightarrow> once a) \<Longrightarrow> (\<And>v. z = Some v \<Longrightarrow> once (h v)) \<Longrightarrow>
     once (case z of None \<Rightarrow> a | Some v \<Rightarrow> h v)"
  "(\<And>u v. p = (u, v) \<Longrightarrow> once (k u v)) \<Longrightarrow> once (case p of (u, v) \<Rightarrow> k u v)"
  "(b \<Longrightarrow> once m) \<Longrightarrow> (\<not> b \<Longrightarrow> once n) \<Longrightarrow> once (if b then m else n)"
  by (auto split: sum.split option.split prod.split)

lemma once_handleServerError [once_rules]: "once (handleServerError ev e)"
  by (simp add: once_def)

lemma once_send_log [once_rules]: "once (send_log ev r)"
  by (simp add: once_def)

lemma once_send_handle [once_rules]: "sends_ok ev \<Longrightarrow> once (send_handle ev r)"
  by (simp add: once_def)

lemma once_then_ret [once_rules]: "once m \<Longrightarrow> once (m \<bind> (\<lambda>_. ret x))"
  by (rule once_bind_once) simp_all

lemma once_bind_http [once_rules]:
  "(\<And>x. once (f x)) \<Longrightarrow> once (http_do ev c \<bind> f)"
  "(\<And>x. once (f x)) \<Longrightarrow> once (http_get ev u \<bind> f)"
  "(\<And>x. once (f x)) \<Longrightarrow> once (http_post ev u b \<bind> f)"
  by (simp_all add: once_bind_silent)

text \<open>The parameter readers of \<open>httputils\<close> answer once when they fail.\<close>

definition refuses_once :: "reply list + 'a \<Rightarrow> bool" where
  "refuses_once r \<longleftrightarrow> (case r of Inl rs \<Rightarrow> length rs = 1 | Inr v \<Rightarrow> True)"

definition readers_answer_once :: "env \<Rightarrow> bool" where
  "readers_answer_once ev \<longleftrightarrow> (\<forall>rq auth.
     refuses_once (ev_ReadClusterName ev rq) \<and> refuses_once (ev_ReadRuleID ev rq) \<and>
     refuses_once (ev_ReadOrganizationID ev rq auth) \<and> refuses_once (ev_ReadRuleSelector ev rq) \<and>
     refuses_once (ev_ReadClusterListFromPath ev rq))"

lemma once_ext_read [once_rules]:
  assumes "refuses_once r" and "\<And>v. r = Inr v \<Longrightarrow> once (f (Some v))" and "silent (f None)"
  shows "once (ext_read r \<bind> f)"
proof (cases r)
  case (Inl rs)
  with assms show ?thesis by (auto simp: once_def silent_def adds_replies_def refuses_once_def)
next
  case (Inr v)
  with assms(2) [of v] show ?thesis by (simp add: once_def)
qed

lemma sample_readers_answer_once [simp]: "readers_answer_once (sample_env\<lparr>net := n, ev_dec := d\<rparr>)" "readers_answer_once sample_env"
  by (auto simp: readers_answer_once_def refuses_once_def sample_env_def split: option.split)

end
