(* ===== verification/ContentHandlers_Props.thy ===== *)
theory ContentHandlers_Props
  imports Effects Content_Props
begin

text \<open>
  Internal rules: what the content handlers may send to a requester whose organization is
  not allowed to see them. The storage is the one the update loop builds, whose entries
  are filed under the module of their plugin.
\<close>

subsection \<open>The storage files rules under their module\<close>

definition keyed :: "RulesWithContentStorage \<Rightarrow> bool" where
  "keyed s \<longleftrightarrow> (\<forall>(k, rule) \<in> set (st_rules s). k = pl_PythonModule (rc_Plugin rule))"

lemma keyed_empty: "keyed getEmptyRulesWithContentMap"
  by (simp add: keyed_def getEmptyRulesWithContentMap_def)

lemma set_AList_update: "set (AList.update k v xs) \<subseteq> insert (k, v) (set xs)"
  by (induction xs) auto

lemma keyed_SetRule:
  assumes "keyed s" and "r = pl_PythonModule (rc_Plugin rule)"
  shows "keyed (SetRule r rule s)"
  using assms set_AList_update [of r rule "st_rules s"] by (fastforce simp: keyed_def SetRule_def)

lemma keyed_SetRuleWithContent: "keyed s \<Longrightarrow> keyed (SetRuleWithContent ce r k c s)"
  by (simp add: keyed_def SetRuleWithContent_def Let_def split: prod.split)

lemma keyed_load_error_key: "keyed (snd acc) \<Longrightarrow> keyed (snd (load_error_key ce rule acc e))"
  by (auto simp: load_error_key_def Let_def split: prod.split intro!: keyed_SetRuleWithContent keyed_SetRule)

lemma keyed_load_keys: "keyed (snd acc) \<Longrightarrow> keyed (snd (foldl (load_error_key ce rule) acc es))"
  by (induction es arbitrary: acc) (simp_all add: keyed_load_error_key)

lemma keyed_load_rule: "keyed (snd acc) \<Longrightarrow> keyed (snd (load_rule ce acc e))"
  using keyed_load_keys [of "(rc_ErrorKeys (snd e), snd acc)" ce "snd e" "rc_ErrorKeys (snd e)"]
  by (simp add: load_rule_def split_beta)

lemma keyed_load_rules: "keyed (snd acc) \<Longrightarrow> keyed (snd (foldl (load_rule ce) acc dir))"
  by (induction dir arbitrary: acc) (simp_all add: keyed_load_rule)

lemma keyed_UpdateContent: "keyed (cs_storage cs) \<Longrightarrow> keyed (cs_storage (UpdateContent ce cs fetched))"
  using keyed_load_rules [of "([], getEmptyRulesWithContentMap)" ce]
  by (cases fetched) (simp_all add: UpdateContent_def LoadRuleContent_def Let_def split_beta keyed_empty
      SetRuleContentDirectory_def split: option.split)

lemma keyed_loop: "keyed (cs_storage cs) \<Longrightarrow> keyed (cs_storage (RunUpdateContentLoop ce cs fetches))"
  unfolding RunUpdateContentLoop_def
  by (induction fetches arbitrary: cs) (simp_all add: keyed_UpdateContent)

subsection \<open>Names of internal rules\<close>

lemma Split_append: "Split c (s @ c # t) = Split c s @ Split c t"
proof (induction s)
  case (Cons x xs)
  obtain p ps where "Split c xs = p # ps" by (cases "Split c xs") auto
  with Cons show ?case by simp
qed simp

lemma internal_trim: "IsRuleInternal (TrimSuffix r dotReport) = IsRuleInternal r"
proof (cases "suffix dotReport r")
  case True
  then obtain m where r: "r = m @ dotReport" by (auto simp: suffix_def)
  have "Split (CHR ''.'') r = Split (CHR ''.'') m @ [''report'']"
    unfolding r by (simp add: Split_append Split_no_sep)
  moreover obtain p ps where "Split (CHR ''.'') m = p # ps" by (cases "Split (CHR ''.'') m") auto
  ultimately show ?thesis
    unfolding r by (cases ps) (simp_all add: IsRuleInternal_def Let_def r)
qed (simp add: TrimSuffix_id)

interpretation external: filter_loop "external_only module" "\<lambda>rule. \<not> IsRuleInternal (module rule)" for module
  by unfold_locales auto

subsection \<open>What the handlers disclose\<close>

text \<open>
  A recommendation is internal when the module in its selector, which is what stands before
  the bar, is.
\<close>

definition selector_module :: "string \<Rightarrow> string" where
  "selector_module s = hd (Split (CHR ''|'') s)"

definition internal_selector :: "string \<Rightarrow> bool" where
  "internal_selector s \<longleftrightarrow> IsRuleInternal (selector_module s)"

fun internal_payload :: "payload \<Rightarrow> bool" where
  "internal_payload (PContentV1 c) = IsRuleInternal (pl_PythonModule (co_Plugin c))"
| "internal_payload (PContentsV1 cs) = list_ex (\<lambda>c. IsRuleInternal (pl_PythonModule (co_Plugin c))) cs"
| "internal_payload (PContentsV2 cs g) = list_ex (\<lambda>c. IsRuleInternal (pl_PythonModule (co_Plugin c))) cs"
| "internal_payload (PRuleIDs ids) = list_ex IsRuleInternal ids"
| "internal_payload (PRecommendation c g) = internal_selector (rcn_RuleSelector c)"
| "internal_payload (PRecommendationUserData c g) = internal_selector (rcn_RuleSelector c)"
| "internal_payload (PRule r) = rwr_Internal r"
| "internal_payload _ = False"

fun discloses :: "reply \<Rightarrow> bool" where
  "discloses (SendOK p) = internal_payload p"
| "discloses (Send c p) = internal_payload p"
| "discloses (WriteBody p) = internal_payload p"
| "discloses _ = False"

text \<open>
  The selector of the recommendation in a reply, and the one kind of internal rules that is
  not hidden: a module of two components (\<open>ccx.internal\<close>) is followed by a bar in the selector,
  and \<open>IsRuleInternal\<close>, which is applied to the whole selector, does not see the component
  \<open>internal\<close> then.
\<close>

fun payload_selector :: "payload \<Rightarrow> string option" where
  "payload_selector (PRecommendation c g) = Some (rcn_RuleSelector c)"
| "payload_selector (PRecommendationUserData c g) = Some (rcn_RuleSelector c)"
| "payload_selector _ = None"

fun reply_selector :: "reply \<Rightarrow> string option" where
  "reply_selector (SendOK p) = payload_selector p"
| "reply_selector (Send c p) = payload_selector p"
| "reply_selector (WriteBody p) = payload_selector p"
| "reply_selector _ = None"

definition two_component_recommendation :: "reply \<Rightarrow> bool" where
  "two_component_recommendation r \<longleftrightarrow>
     (\<exists>s. reply_selector r = Some s \<and> CHR ''|'' \<in> set s \<and> count_list (selector_module s) (CHR ''.'') = 1)"

definition hides :: "reply \<Rightarrow> bool" where
  "hides r \<longleftrightarrow> \<not> discloses r \<or> two_component_recommendation r"

definition plain_readers :: "env \<Rightarrow> bool" where
  "plain_readers ev \<longleftrightarrow> (\<forall>rq rs. (ev_ReadRuleID ev rq = Inl rs \<or> ev_ReadClusterName ev rq = Inl rs) \<longrightarrow>
     list_all (\<lambda>r. \<not> discloses r) rs)"

lemma error_reply_plain [simp]: "\<not> discloses (error_reply ev e)"
  by (cases "(ev, e)" rule: error_reply.cases) auto

lemma selector_cases:
  "CHR ''|'' \<notin> set s \<Longrightarrow> selector_module s = s"
  "CHR ''|'' \<in> set s \<Longrightarrow> \<exists>k. s = selector_module s @ ''|'' @ k"
proof -
  assume "CHR ''|'' \<in> set s"
  then obtain m k where s: "s = m @ CHR ''|'' # k" "CHR ''|'' \<notin> set m" by (meson split_list_first)
  then have "selector_module s = m" by (simp add: selector_module_def Split_append_sep)
  with s(1) show "\<exists>k. s = selector_module s @ ''|'' @ k" by auto
qed (simp add: selector_module_def Split_no_sep)

lemma internal_selectorD:
  assumes "internal_selector s" and "\<not> (CHR ''|'' \<in> set s \<and> count_list (selector_module s) (CHR ''.'') = 1)"
  shows "IsRuleInternal s"
proof (cases "CHR ''|'' \<in> set s")
  case True
  then obtain k where s: "s = selector_module s @ ''|'' @ k" using selector_cases(2) by blast
  have "1 \<le> count_list (selector_module s) (CHR ''.'')"
    using assms(1) by (auto simp: internal_selector_def IsRuleInternal_def Let_def length_Split)
  with assms(2) True have "2 \<le> count_list (selector_module s) (CHR ''.'')" by simp
  from internal_composite [OF this, of k] assms(1) s show ?thesis by (simp add: internal_selector_def)
next
  case False
  then show ?thesis using assms(1) by (simp add: internal_selector_def selector_cases(1))
qed

text \<open>The handlers of the content, in the shape in which the routers register them.\<close>

definition content_endpoints :: "env \<Rightarrow> HTTPServer \<Rightarrow> http_request \<Rightarrow> (world, outcome) state list" where
  "content_endpoints ev sv request =
     [getContentForRuleV1 ev sv request \<bind> (\<lambda>_. ret Done), getContentV1 ev sv request \<bind> (\<lambda>_. ret Done),
      getRuleIDs ev sv request \<bind> (\<lambda>_. ret Done), getContentWithGroups ev sv request \<bind> (\<lambda>_. ret Done),
      getRecommendationContent ev sv request, getRecommendationContentWithUserData ev sv request,
      singleRuleEndpoint ev sv request]"

lemma rule_module:
  assumes "keyed (cs_storage cs)" and "GetRuleContentV1 cs r = Inr c"
  shows "pl_PythonModule (co_Plugin c) = TrimSuffix r dotReport"
proof -
  obtain rule where rule: "getRuleContent cs r = Inr rule" "c = RuleContentToV1 rule"
    using assms(2) by (cases "getRuleContent cs r") (auto simp: GetRuleContentV1_def)
  then have "map_of (st_rules (cs_storage cs)) (TrimSuffix r dotReport) = Some rule"
    by (auto simp: getRuleContent_def storage_getRuleContent_def when_ready_def Let_def split: option.splits)
  then have "(TrimSuffix r dotReport, rule) \<in> set (st_rules (cs_storage cs))" by (rule map_of_SomeD)
  with assms(1) rule(2) show ?thesis by (auto simp: keyed_def RuleContentToV1_def)
qed

lemma visible_plain:
  assumes "\<not> may_see_internal sv request"
  shows "\<not> list_ex (\<lambda>c. IsRuleInternal (module c)) (visible_rules sv request module cs)"
proof -
  have "checkInternalRulePermissions sv request \<noteq> None"
    using assms by (simp add: checkInternalRulePermissions_iff)
  then show ?thesis
    unfolding visible_rules_def by (simp add: external.floop_eq list_ex_iff)
qed

lemma writes_mono: "writes P m \<Longrightarrow> (\<And>r. P r \<Longrightarrow> Q r) \<Longrightarrow> writes Q m"
  by (fastforce simp: writes_def list_all_iff)

lemma contents_writes:
  assumes "\<not> may_see_internal sv request"
  shows "writes (\<lambda>r. \<not> discloses r) (getContentV1 ev sv request)"
    "writes (\<lambda>r. \<not> discloses r) (getRuleIDs ev sv request)"
    "writes (\<lambda>r. \<not> discloses r) (getContentWithGroups ev sv request)"
  unfolding getContentV1_def getRuleIDs_def getContentWithGroups_def Let_def
  by (intro writes_rules; simp add: visible_plain [OF assms])+

lemma rule_content_writes:
  assumes "\<not> may_see_internal sv request" and "keyed (cs_storage (sv_content sv))" and "plain_readers ev"
  shows "writes (\<lambda>r. \<not> discloses r) (getContentForRuleV1 ev sv request)"
  unfolding getContentForRuleV1_def
  using assms(1,3) rule_module [OF assms(2)]
  by (intro writes_rules)
     (auto simp: plain_readers_def internal_trim checkInternalRulePermissions_iff split: if_splits)

lemma rule_with_groups_plain:
  assumes "\<not> may_see_internal sv request" and "getRuleWithGroups sv request ruleID = (c, g, None)"
  shows "internal_selector ruleID \<Longrightarrow> CHR ''|'' \<in> set ruleID \<and> count_list (selector_module ruleID) (CHR ''.'') = 1"
  using assms internal_selectorD [of ruleID] checkInternalRulePermissions_iff [of sv request]
  by (auto simp: getRuleWithGroups_def getContentCheckInternal_def split: prod.splits option.splits sum.splits if_splits)

lemma writes_done:
  "\<not> discloses (error_reply ev e) \<Longrightarrow> writes (\<lambda>r. \<not> discloses r) (handleServerError ev e \<bind> (\<lambda>_. ret Done))"
  by (intro writes_rules)

lemma writes_readers [writes_rules]:
  "writes P (getRatingForRecommendation ev sv g r)" "writes P (readRuleDisableStatus ev sv m k g)"
  by (simp_all add: writes_def getRatingForRecommendation_def readRuleDisableStatus_def Let_def http_get_def)

lemma writes_hides: "writes (\<lambda>r. \<not> discloses r) m \<Longrightarrow> writes hides m"
  by (erule writes_mono) (simp add: hides_def)

lemma recommendation_writes:
  assumes "\<not> may_see_internal sv request"
  shows "writes hides (getRecommendationContent ev sv request)"
  unfolding getRecommendationContent_def Let_def
  by (intro writes_rules) (auto simp: hides_def two_component_recommendation_def dest: rule_with_groups_plain [OF assms])

lemma recommendation_user_writes:
  assumes "\<not> may_see_internal sv request"
  shows "writes hides (getRecommendationContentWithUserData ev sv request)"
  unfolding getRecommendationContentWithUserData_def Let_def
  by (intro writes_rules) (auto simp: hides_def two_component_recommendation_def dest: rule_with_groups_plain [OF assms])

lemma writes_read_service:
  assumes "writes (\<lambda>r. \<not> discloses r) call"
  shows "writes (\<lambda>r. \<not> discloses r) (read_service ev call decode)"
  unfolding read_service_def read_ok_body_def handleAggregatorError_def
  by (intro writes_rules assms) auto

lemma fetch_rule_writes:
  assumes "plain_readers ev"
  shows "writes (\<lambda>r. \<not> discloses r) (fetchAggregatorReportRule ev sv request)"
  unfolding fetchAggregatorReportRule_def readRuleIDWithErrorKey_def readAggregatorRuleForClusterID_def
  using assms by (intro writes_rules writes_read_service) (auto simp: plain_readers_def)

lemma single_rule_writes:
  assumes "\<not> may_see_internal sv request" and "plain_readers ev"
  shows "writes (\<lambda>r. \<not> discloses r) (singleRuleEndpoint ev sv request)"
  unfolding singleRuleEndpoint_def Let_def handleFetchRuleContentError_def
  using assms
  by (intro writes_rules fetch_rule_writes) (auto simp: checkInternalRulePermissions_iff split: if_splits)

text \<open>
  Claim C10: internal rules are hidden from a requester whose organization may not see them,
  with one exception. Whatever directories the update loop has loaded, and whatever the
  other services answer, no reply of the seven content endpoints (single rule, all rules and
  rule ids of version 1, all rules, recommendation and recommendation with user data of
  version 2, and a single rule of a report) carries an internal rule, except that the two
  endpoints that send a recommendation disclose one whose module has exactly two
  components, such as \<open>ccx.internal|KEY\<close> (\<open>two_components_disclosed\<close> shows that they do).
\<close>

theorem internal_rules_hidden:
  assumes "\<not> may_see_internal sv request" and "plain_readers ev"
    and "cs_storage cs = getEmptyRulesWithContentMap"
    and "sv_content sv = RunUpdateContentLoop ce cs fetches"
    and "endpoint \<in> set (content_endpoints ev sv request)"
    and "r \<in> set (w_replies (snd (run_state endpoint empty_world)))"
  shows "\<not> discloses r \<or>
    (\<exists>s. reply_selector r = Some s \<and> CHR ''|'' \<in> set s \<and> count_list (selector_module s) (CHR ''.'') = 1)"
proof -
  have "keyed (cs_storage (sv_content sv))"
    using keyed_loop [of cs ce fetches] assms(3,4) keyed_empty by simp
  then have "writes hides endpoint"
    using assms(1,2,5) unfolding content_endpoints_def
    by (auto intro!: writes_bind writes_ret simp: writes_hides contents_writes rule_content_writes recommendation_writes
        recommendation_user_writes single_rule_writes)
  from writes_empty_world [OF this assms(6)] show ?thesis by (simp only: hides_def two_component_recommendation_def)
qed

definition internal_fetches :: "RuleContentDirectory res list" where
  "internal_fetches = [Inr (sample_dir [(''K'', 3)] @ [(''second'', (snd (hd (sample_dir [(''K'', 3)])))
     \<lparr>rc_Plugin := \<lparr>pl_Name = [], pl_PythonModule = ''ccx.internal.rule''\<rparr>\<rparr>)])]"

definition internal_server :: HTTPServer where
  "internal_server = sample_server\<lparr>sv_content := RunUpdateContentLoop sample_ce sample_state internal_fetches\<rparr>"

lemma sample_plain_readers: "plain_readers sample_env"
  by (auto simp: plain_readers_def sample_env_def split: option.splits)

lemma internal_server_facts:
  "w_replies (snd (run_state (getRuleIDs sample_env internal_server sample_request \<bind> (\<lambda>_. ret Done)) empty_world)) =
     [SendOK (PRuleIDs [''ccx.rule''])]"
  "storage_GetRuleIDs sample_ce (cs_storage (sv_content internal_server)) = [''ccx.rule'', ''ccx.internal.rule'']"
  "cs_storage sample_state = getEmptyRulesWithContentMap"
  "sv_content internal_server = RunUpdateContentLoop sample_ce sample_state internal_fetches"
  "\<not> may_see_internal internal_server sample_request"
proof -
  show hidden: "\<not> may_see_internal internal_server sample_request"
    by (simp add: may_see_internal_def internal_server_def sample_server_def sample_config_def sample_request_def New_def)
  have "GetRuleIDs (ev_content sample_env) (sv_content internal_server) = Inr [''ccx.rule'', ''ccx.internal.rule'']"
    by code_simp
  with hidden [folded checkInternalRulePermissions_iff]
  show "w_replies (snd (run_state (getRuleIDs sample_env internal_server sample_request \<bind> (\<lambda>_. ret Done)) empty_world)) =
     [SendOK (PRuleIDs [''ccx.rule''])]"
    by (simp add: getRuleIDs_def visible_rules_def IsRuleInternal_def empty_world_def)
  show "cs_storage sample_state = getEmptyRulesWithContentMap" by (simp add: sample_state_def)
  show "sv_content internal_server = RunUpdateContentLoop sample_ce sample_state internal_fetches"
    by (simp add: internal_server_def)
qed code_simp

theorem internal_rules_hidden_witness:
  "storage_GetRuleIDs sample_ce (cs_storage (sv_content internal_server)) = [''ccx.rule'', ''ccx.internal.rule''] \<and>
   (\<exists>r. w_replies (snd (run_state (getRuleIDs sample_env internal_server sample_request \<bind> (\<lambda>_. ret Done)) empty_world)) = [r] \<and>
      \<not> discloses r)"
proof -
  have "getRuleIDs sample_env internal_server sample_request \<bind> (\<lambda>_. ret Done)
      \<in> set (content_endpoints sample_env internal_server sample_request)"
    by (simp add: content_endpoints_def)
  from internal_rules_hidden [OF internal_server_facts(5) sample_plain_readers internal_server_facts(3,4) this,
      of "SendOK (PRuleIDs [''ccx.rule''])"]
  show ?thesis using internal_server_facts(1,2) by simp
qed

text \<open>
  The exception is real: a recommendation of the module \<open>ccx.internal\<close> is sent to an
  organization that may not see internal rules.
\<close>

definition two_component_server :: HTTPServer where
  "two_component_server = sample_server\<lparr>sv_content := UpdateContent sample_ce sample_state
     (Inr [(''rule'', (snd (hd (sample_dir [(''KEY'', 3)])))\<lparr>rc_Plugin := \<lparr>pl_Name = [], pl_PythonModule = ''ccx.internal''\<rparr>\<rparr>)])\<rparr>"

lemma two_components_disclosed:
  "\<not> may_see_internal two_component_server sample_request"
  "case w_replies (snd (run_state (getRecommendationContent sample_env two_component_server
      (sample_request\<lparr>rq_Vars := [(''rule_id'', ''ccx.internal|KEY'')]\<rparr>)) empty_world)) of
     [r] \<Rightarrow> discloses r | _ \<Rightarrow> False"
proof -
  show "\<not> may_see_internal two_component_server sample_request"
    by (simp add: may_see_internal_def two_component_server_def sample_server_def sample_config_def sample_request_def New_def)
qed code_simp

end
