(* ===== verification/Overview.thy ===== *)
theory Overview
  imports Effects
begin

text \<open>
  The overview of an organization (\<open>getOrganizationOverview\<close>, \<open>overviewEndpoint\<close>,
  \<open>overviewEndpointWithClusterIDs\<close>, \<open>generateOrgOverview\<close> of \<open>server/handlers_v1.go\<close>) and the
  detail of the clusters a rule hits (\<open>getImpactedClustersFromAggregator\<close> to
  \<open>processClustersDetailResponse\<close> of \<open>server/handlers_v2.go\<close>).
\<close>

subsection \<open>The overview over the clusters of the organization\<close>

definition empty_overview :: OrgOverviewResponse where
  "empty_overview = \<lparr>oo_ClustersHit = 0, oo_ClustersHitByTotalRisk = Map.empty, oo_ClustersHitByTag = Map.empty\<rparr>"

fun bump_tags :: "(string \<rightharpoonup> int) \<Rightarrow> string list \<Rightarrow> (string \<rightharpoonup> int)" where
  "bump_tags m [] = m"
| "bump_tags m (tag # rest) = bump_tags (bump m tag 1) rest"

definition add_rule :: "OrgOverviewResponse \<Rightarrow> RuleWithContent \<Rightarrow> OrgOverviewResponse" where
  "add_rule overview c = overview
     \<lparr>oo_ClustersHitByTotalRisk := bump (oo_ClustersHitByTotalRisk overview) (rwc_TotalRisk c) 1,
      oo_ClustersHitByTag := bump_tags (oo_ClustersHitByTag overview) (rwc_Tags c)\<rparr>"

text \<open>The inner loop: the overview, the number of filtered rules and the timeout, if any.\<close>

fun overview_rules ::
  "content_state \<Rightarrow> bool \<Rightarrow> OrgOverviewResponse \<Rightarrow> int \<Rightarrow> RuleID list \<Rightarrow> OrgOverviewResponse \<times> int \<times> gerror option" where
  "overview_rules cs managed overview filtered [] = (overview, filtered, None)"
| "overview_rules cs managed overview filtered (ruleID # rest) =
     (case GetContentForRecommendation cs ruleID of
        Inl err \<Rightarrow>
          if is_timeout err then (overview, filtered, Some err)
          else overview_rules cs managed overview (filtered + 1) rest
      | Inr ruleContent \<Rightarrow>
          if managed \<and> \<not> rwc_OSDCustomer ruleContent then overview_rules cs managed overview (filtered + 1) rest
          else overview_rules cs managed (add_rule overview ruleContent) filtered rest)"

fun overview_clusters ::
  "content_state \<Rightarrow> ClusterRecommendationMap \<Rightarrow> (RuleID \<rightharpoonup> bool) \<Rightarrow> (ClusterName \<rightharpoonup> RuleID list)
    \<Rightarrow> OrgOverviewResponse \<Rightarrow> ClusterInfo list \<Rightarrow> OrgOverviewResponse \<times> gerror option" where
  "overview_clusters cs recs acks disabled overview [] = (overview, None)"
| "overview_clusters cs recs acks disabled overview (clusterInfo # rest) =
     (case recs (ci_ID clusterInfo) of
        None \<Rightarrow> overview_clusters cs recs acks disabled overview rest
      | Some hitting \<Rightarrow>
          (let enabledOnly = filterOutDisabledRules (crl_Recommendations hitting) (ci_ID clusterInfo) acks disabled in
           case overview_rules cs (ci_Managed clusterInfo) overview 0 enabledOnly of
             (overview, filtered, Some err) \<Rightarrow> (overview, Some err)
           | (overview, filtered, None) \<Rightarrow>
               overview_clusters cs recs acks disabled
                 (if int (length enabledOnly) - filtered > 0
                  then overview\<lparr>oo_ClustersHit := oo_ClustersHit overview + 1\<rparr> else overview) rest))"

definition getOrganizationOverview ::
  "content_state \<Rightarrow> ClusterInfo list \<Rightarrow> ClusterRecommendationMap \<Rightarrow> (RuleID \<rightharpoonup> bool) \<Rightarrow> (ClusterName \<rightharpoonup> RuleID list)
    \<Rightarrow> OrgOverviewResponse \<times> gerror option" where
  "getOrganizationOverview cs clusterInfoList recs acks disabled =
     overview_clusters cs recs acks disabled empty_overview clusterInfoList"

definition overviewEndpoint :: "env \<Rightarrow> HTTPServer \<Rightarrow> handler" where
  "overviewEndpoint ev sv request =
     (case GetCurrentOrgIDUserIDFromToken request of
        Inl err \<Rightarrow> handleServerError ev (Some err)
      | Inr (orgID, userID) \<Rightarrow> do {
          (clusterList, clusterRuleHits, ackedRulesMap, disabledRules) \<leftarrow> getClusterListAndUserData ev sv orgID userID;
          (case getOrganizationOverview (sv_content sv) clusterList clusterRuleHits ackedRulesMap disabledRules of
             (overview, Some err) \<Rightarrow> handleServerError ev (Some err)
           | (overview, None) \<Rightarrow> send_handle ev (SendOK (POverview overview)))
        })"

subsection \<open>The overview over a list of clusters\<close>

fun org_rules ::
  "content_state \<Rightarrow> (RuleID \<rightharpoonup> bool) \<Rightarrow> OrgOverviewResponse \<Rightarrow> RuleOnReport list \<Rightarrow> OrgOverviewResponse res" where
  "org_rules cs acks overview [] = Inr overview"
| "org_rules cs acks overview (rule # rest) =
     (if isDisabledRule rule acks then org_rules cs acks overview rest
      else case GetRuleWithErrorKeyContent cs (ror_Module rule) (ror_ErrorKey rule) of
          Inl err \<Rightarrow> if is_timeout err then Inl err else org_rules cs acks overview rest
        | Inr ruleWithContent \<Rightarrow> org_rules cs acks (add_rule overview ruleWithContent) rest)"

text \<open>A cluster whose report holds any rule counts as hit, even when all of them are disabled.\<close>

fun org_reports ::
  "env \<Rightarrow> content_state \<Rightarrow> (RuleID \<rightharpoonup> bool) \<Rightarrow> OrgOverviewResponse \<Rightarrow> (ClusterName \<times> string) list \<Rightarrow> OrgOverviewResponse res" where
  "org_reports ev cs acks overview [] = Inr overview"
| "org_reports ev cs acks overview ((cluster, singleReport) # rest) =
     (case dc_report_rules (ev_dec ev) singleReport of
        Inl err \<Rightarrow> org_reports ev cs acks overview rest
      | Inr hitRules \<Rightarrow>
          if hitRules = [] then org_reports ev cs acks overview rest
          else (case org_rules cs acks (overview\<lparr>oo_ClustersHit := oo_ClustersHit overview + 1\<rparr>) hitRules of
              Inl err \<Rightarrow> Inl err
            | Inr overview \<Rightarrow> org_reports ev cs acks overview rest))"

definition generateOrgOverview ::
  "env \<Rightarrow> content_state \<Rightarrow> ClusterReports \<Rightarrow> (RuleID \<rightharpoonup> bool) \<Rightarrow> OrgOverviewResponse res" where
  "generateOrgOverview ev cs aggregatorReport orgWideDisabledRules =
     org_reports ev cs orgWideDisabledRules empty_overview (cr_Reports aggregatorReport)"

text \<open>An error of the acknowledged rules is only logged: the client gets no reply.\<close>

definition overviewEndpointWithClusterIDs :: "env \<Rightarrow> HTTPServer \<Rightarrow> handler" where
  "overviewEndpointWithClusterIDs ev sv request =
     (case GetCurrentOrgID request of
        Inl err \<Rightarrow> handleServerError ev (Some err)
      | Inr orgID \<Rightarrow> do {
          fetched \<leftarrow> fetchAggregatorReportsUsingRequestBodyClusterList ev sv request;
          (case fetched of
             None \<Rightarrow> ret ()
           | Some aggregatorResponse \<Rightarrow> do {
               acks \<leftarrow> readListOfAckedRules ev sv orgID;
               (case acks of
                  Inl err \<Rightarrow> ret ()
                | Inr acks \<Rightarrow>
                    (case generateOrgOverview ev (sv_content sv) aggregatorResponse (generateRuleAckMap ev acks) of
                       Inl err \<Rightarrow> handleServerError ev (Some err)
                     | Inr r \<Rightarrow> send_handle ev (SendOK (POverview r))))
             })
        })"

subsection \<open>The clusters a rule hits\<close>

definition getImpactedClustersFromAggregator ::
  "env \<Rightarrow> url \<Rightarrow> ClusterName list \<Rightarrow> (world, http_response res) state" where
  "getImpactedClustersFromAggregator ev url activeClusters =
     (if length activeClusters < 1 then http_get ev url
      else case ev_url_ok ev url of
          Some err \<Rightarrow> ret (Inl err)
        | None \<Rightarrow> http_do ev \<lparr>ca_Method = ''GET'', ca_URL = url,
            ca_Header = [(contentTypeHeader, [JSONContentType])], ca_Body = BodyClusters activeClusters\<rparr>)"

definition getImpactedClusters ::
  "env \<Rightarrow> HTTPServer \<Rightarrow> OrgID \<Rightarrow> UserID \<Rightarrow> string \<Rightarrow> ClusterInfo list \<Rightarrow> bool
    \<Rightarrow> (world, HittingClustersData list \<times> gerror option) state" where
  "getImpactedClusters ev sv orgID userID selector activeClustersInfo useAggregatorFallback =
     (let activeClusters = GetClusterNames activeClustersInfo in
      if length activeClusters = 0 \<and> \<not> useAggregatorFallback then ret ([], None)
      else do {
        aggregatorResp \<leftarrow> getImpactedClustersFromAggregator ev
          (aggregator sv ''RuleClusterDetailEndpoint'' [ArgStr selector, ArgOrg orgID, ArgStr userID]) activeClusters;
        (case aggregatorResp of
           Inl err \<Rightarrow> do { handleServerError ev (Some err); ret ([], Some err) }
         | Inr r \<Rightarrow>
             ret (if hr_StatusCode r = StatusOK then
                    (case dc_hitting (ev_dec ev) (hr_Body r) of
                       Inl err \<Rightarrow> ([], Some err)
                     | Inr clusters \<Rightarrow> (clusters, None))
                  else ([], None)))
      })"

definition getListOfDisabledClusters ::
  "env \<Rightarrow> HTTPServer \<Rightarrow> OrgID \<Rightarrow> string \<Rightarrow> (world, DisabledClusterInfo list res) state" where
  "getListOfDisabledClusters ev sv orgID ruleSelector =
     (case RuleIDWithErrorKeyFromCompositeRuleID ruleSelector of
        Inl err \<Rightarrow> ret (Inl err)
      | Inr (ruleID, errorKey) \<Rightarrow> do {
          resp \<leftarrow> http_get ev (aggregator sv ''ListOfDisabledClusters'' [ArgStr (ruleID @ dotReport), ArgStr errorKey, ArgOrg orgID]);
          ret (case resp of
              Inl err \<Rightarrow> Inl err
            | Inr r \<Rightarrow>
                if hr_StatusCode r \<noteq> StatusOK \<and> hr_StatusCode r \<noteq> StatusNotFound then
                  Inl (ErrorString (''error reading disabled clusters from aggregator: '' @ show_int (hr_StatusCode r)))
                else dc_disabled_clusters (ev_dec ev) (hr_Body r))
        })"

definition getListOfDisabledClustersAndAck ::
  "env \<Rightarrow> HTTPServer \<Rightarrow> OrgID \<Rightarrow> string \<Rightarrow> (world, (DisabledClusterInfo list \<times> Acknowledgement \<times> bool) res) state" where
  "getListOfDisabledClustersAndAck ev sv orgID ruleSelector = do {
     disabled \<leftarrow> getListOfDisabledClusters ev sv orgID ruleSelector;
     (case disabled of
        Inl err \<Rightarrow> ret (Inl err)
      | Inr disabledClusters \<Rightarrow>
          (case RuleIDWithErrorKeyFromCompositeRuleID ruleSelector of
             Inl err \<Rightarrow> ret (Inl err)
           | Inr (ruleID, errorKey) \<Rightarrow> do {
               status \<leftarrow> readRuleDisableStatus ev sv ruleID errorKey orgID;
               ret (case status of
                   Inl err \<Rightarrow> Inl err
                 | Inr (acknowledge, ackFound) \<Rightarrow> Inr (disabledClusters, acknowledge, ackFound))
             }))
   }"

fun disabled_details ::
  "(ClusterName \<rightharpoonup> ClusterInfo) \<Rightarrow> (ClusterName \<rightharpoonup> DisabledClusterInfo) \<Rightarrow> DisabledClusterInfo list \<Rightarrow> DisabledClusterInfo list
    \<Rightarrow> (ClusterName \<rightharpoonup> DisabledClusterInfo) \<times> DisabledClusterInfo list" where
  "disabled_details clusterInfoMap disabledMap acc [] = (disabledMap, acc)"
| "disabled_details clusterInfoMap disabledMap acc (disabledC # rest) =
     (case clusterInfoMap (dc_ClusterID disabledC) of
        None \<Rightarrow> disabled_details clusterInfoMap disabledMap acc rest
      | Some cluster \<Rightarrow>
          (let disabledC = disabledC\<lparr>dc_ClusterName := ci_DisplayName cluster\<rparr> in
           disabled_details clusterInfoMap (disabledMap(dc_ClusterID disabledC \<mapsto> disabledC)) (acc @ [disabledC]) rest))"

fun impacted_details ::
  "env \<Rightarrow> (ClusterName \<rightharpoonup> ClusterInfo) \<Rightarrow> (ClusterName \<rightharpoonup> DisabledClusterInfo) \<Rightarrow> Acknowledgement \<Rightarrow> bool
    \<Rightarrow> ClustersDetailData \<Rightarrow> HittingClustersData list \<Rightarrow> ClustersDetailData" where
  "impacted_details ev clusterInfoMap disabledMap acknowledge ruleAcked data [] = data"
| "impacted_details ev clusterInfoMap disabledMap acknowledge ruleAcked data (impactedC # rest) =
     (if disabledMap (hc_Cluster impactedC) \<noteq> None
      then impacted_details ev clusterInfoMap disabledMap acknowledge ruleAcked data rest
      else
        let impactedC = impactedC\<lparr>hc_Name := (case clusterInfoMap (hc_Cluster impactedC) of None \<Rightarrow> [] | Some i \<Rightarrow> ci_DisplayName i)\<rparr>
        in if ruleAcked then
             let disabledAt = (case ce_TimeParse (ev_content ev) ''2006-01-02T15:04:05Z07:00'' (ack_CreatedAt acknowledge) of
                   Inl err \<Rightarrow> zero_time | Inr t \<Rightarrow> t);
                 disabledCluster = \<lparr>dc_ClusterID = hc_Cluster impactedC, dc_ClusterName = hc_Name impactedC,
                   dc_DisabledAt = disabledAt, dc_Justification = ack_Justification acknowledge\<rparr>
             in impacted_details ev clusterInfoMap disabledMap acknowledge ruleAcked
                  (data\<lparr>cd_DisabledClusters := cd_DisabledClusters data @ [disabledCluster]\<rparr>) rest
           else impacted_details ev clusterInfoMap disabledMap acknowledge ruleAcked
                  (data\<lparr>cd_EnabledClusters := cd_EnabledClusters data @ [impactedC]\<rparr>) rest)"

definition clusters_detail_data ::
  "env \<Rightarrow> HittingClustersData list \<Rightarrow> DisabledClusterInfo list \<Rightarrow> ClusterInfo list \<Rightarrow> Acknowledgement \<Rightarrow> bool \<Rightarrow> ClustersDetailData" where
  "clusters_detail_data ev impactedClusters disabledClusters clusterInfo acknowledge ruleAcked =
     (let clusterInfoMap = ClusterInfoArrayToMap clusterInfo;
          (disabledMap, disabled) = disabled_details clusterInfoMap Map.empty [] disabledClusters
      in impacted_details ev clusterInfoMap disabledMap acknowledge ruleAcked
           \<lparr>cd_EnabledClusters = [], cd_DisabledClusters = disabled\<rparr> impactedClusters)"

definition processClustersDetailResponse ::
  "env \<Rightarrow> HittingClustersData list \<Rightarrow> DisabledClusterInfo list \<Rightarrow> ClusterInfo list \<Rightarrow> Acknowledgement \<Rightarrow> bool
    \<Rightarrow> (world, gerror option) state" where
  "processClustersDetailResponse ev impactedClusters disabledClusters clusterInfo acknowledge ruleAcked =
     send ev (Send StatusOK (PClustersDetail
       (clusters_detail_data ev impactedClusters disabledClusters clusterInfo acknowledge ruleAcked)))"

fun unmanaged_clusters :: "ClusterInfo list \<Rightarrow> ClusterInfo list" where
  "unmanaged_clusters [] = []"
| "unmanaged_clusters (cluster # rest) =
     (if \<not> ci_Managed cluster then cluster # unmanaged_clusters rest else unmanaged_clusters rest)"

text \<open>
  When the list of clusters cannot be read, the list that came with the error is still the
  one that is used.
\<close>

definition getClustersDetailForRule :: "env \<Rightarrow> HTTPServer \<Rightarrow> handler" where
  "getClustersDetailForRule ev sv request = do {
     sel \<leftarrow> ext_read (ev_ReadRuleSelector ev request);
     (case sel of
        None \<Rightarrow> ret ()
      | Some selector \<Rightarrow>
          (case GetCurrentOrgIDUserIDFromToken request of
             Inl err \<Rightarrow> handleServerError ev (Some err)
           | Inr (orgID, userID) \<Rightarrow>
               (case GetContentForRecommendation (sv_content sv) selector of
                  Inl err \<Rightarrow> handleServerError ev (Some err)
                | Inr recommendation \<Rightarrow> do {
                    (infos, err) \<leftarrow> readClusterInfoForOrgID ev sv orgID;
                    (let useAggregatorFallback = (err \<noteq> None);
                         activeClustersInfo = (if \<not> rwc_OSDCustomer recommendation then unmanaged_clusters infos else infos)
                     in do {
                       (impactedClusters, err) \<leftarrow> getImpactedClusters ev sv orgID userID selector activeClustersInfo useAggregatorFallback;
                       (case err of
                          Some err \<Rightarrow> handleServerError ev (Some err)
                        | None \<Rightarrow> do {
                            r \<leftarrow> getListOfDisabledClustersAndAck ev sv orgID selector;
                            (case r of
                               Inl err \<Rightarrow> handleServerError ev (Some err)
                             | Inr (disabledClusters, acknowledge, ackFound) \<Rightarrow> do {
                                 err \<leftarrow> processClustersDetailResponse ev impactedClusters disabledClusters activeClustersInfo acknowledge ackFound;
                                 (case err of Some err \<Rightarrow> handleServerError ev (Some err) | None \<Rightarrow> ret ())
                               })
                          })
                     })
                  })))
   }"

end
