(* ===== verification/Overview_Props.thy ===== *)
theory Overview_Props
  imports Overview Reports_Props Recommendations_Props
begin

text \<open>
  What the overview counts, and how the impacted clusters of a rule are divided into
  enabled and disabled ones.
\<close>

subsection \<open>Counting rules\<close>

lemma getint_bump_tags: "getint (bump_tags m ts) t = getint m t + int (count_list ts t)"
  by (induction ts arbitrary: m) auto

lemma add_rules:
  "oo_ClustersHit (foldl add_rule ov cs) = oo_ClustersHit ov"
  "getint (oo_ClustersHitByTotalRisk (foldl add_rule ov cs)) s =
     getint (oo_ClustersHitByTotalRisk ov) s + int (length (filter (\<lambda>c. rwc_TotalRisk c = s) cs))"
  "getint (oo_ClustersHitByTag (foldl add_rule ov cs)) t =
     getint (oo_ClustersHitByTag ov) t + int (\<Sum>c\<leftarrow>cs. count_list (rwc_Tags c) t)"
  by (induction cs arbitrary: ov) (auto simp: add_rule_def getint_bump_tags)

definition shown_rule :: "content_state \<Rightarrow> bool \<Rightarrow> RuleID \<Rightarrow> RuleWithContent option" where
  "shown_rule cs managed r =
     (case st_recommendationsWithContent (cs_storage cs) r of
        None \<Rightarrow> None
      | Some c \<Rightarrow> if managed \<and> \<not> rwc_OSDCustomer c then None else Some c)"

lemma overview_rules_eq:
  assumes "WaitForContentDirectoryToBeReady cs = None"
  shows "overview_rules cs m ov f rules =
    (foldl add_rule ov (List.map_filter (shown_rule cs m) rules),
     f + int (length rules) - int (length (List.map_filter (shown_rule cs m) rules)), None)"
  using assms
  by (induction rules arbitrary: ov f)
     (auto simp: shown_rule_def GetContentForRecommendation_def storage_GetContentForRecommendation_def is_timeout_def
       map_filter_simps split: option.splits)

text \<open>The rules of a cluster that the overview counts.\<close>

definition cluster_rules ::
  "content_state \<Rightarrow> ClusterRecommendationMap \<Rightarrow> (RuleID \<rightharpoonup> bool) \<Rightarrow> (ClusterName \<rightharpoonup> RuleID list) \<Rightarrow> ClusterInfo \<Rightarrow> RuleWithContent list" where
  "cluster_rules cs recs acks disabled info =
     (case recs (ci_ID info) of
        None \<Rightarrow> []
      | Some h \<Rightarrow> List.map_filter (shown_rule cs (ci_Managed info))
          (filter (enabled_rule (ci_ID info) acks disabled) (crl_Recommendations h)))"

lemma overview_clusters_eq:
  assumes "WaitForContentDirectoryToBeReady cs = None"
  shows "\<exists>ov'. overview_clusters cs recs acks disabled ov infos = (ov', None) \<and>
    oo_ClustersHit ov' = oo_ClustersHit ov + int (length (filter (\<lambda>i. cluster_rules cs recs acks disabled i \<noteq> []) infos)) \<and>
    (\<forall>s. getint (oo_ClustersHitByTotalRisk ov') s = getint (oo_ClustersHitByTotalRisk ov) s +
       int (\<Sum>i\<leftarrow>infos. length (filter (\<lambda>c. rwc_TotalRisk c = s) (cluster_rules cs recs acks disabled i)))) \<and>
    (\<forall>t. getint (oo_ClustersHitByTag ov') t = getint (oo_ClustersHitByTag ov) t +
       int (\<Sum>i\<leftarrow>infos. \<Sum>c\<leftarrow>cluster_rules cs recs acks disabled i. count_list (rwc_Tags c) t))"
proof (induction infos arbitrary: ov)
  case (Cons info rest)
  show ?case
  proof (cases "recs (ci_ID info)")
    case None
    with Cons [of ov] show ?thesis by (simp add: cluster_rules_def)
  next
    case (Some h)
    let ?rules = "cluster_rules cs recs acks disabled info"
    let ?ov = "foldl add_rule ov ?rules"
    let ?ov' = "if ?rules \<noteq> [] then ?ov\<lparr>oo_ClustersHit := oo_ClustersHit ?ov + 1\<rparr> else ?ov"
    have "overview_clusters cs recs acks disabled ov (info # rest) = overview_clusters cs recs acks disabled ?ov' rest"
      using Some by (simp add: overview_rules_eq [OF assms] cluster_rules_def enabled_rules.floop_eq Let_def)
    with Cons [of ?ov'] show ?thesis
      by (auto simp: add_rules)
  qed
qed simp

text \<open>
  Claim C13: the overview of an organization counts what the clusters show. With the content
  loaded, it has no error; the number of clusters hit is the number of clusters with at
  least one rule that is neither acknowledged nor disabled, has content, and is meant for
  managed clusters when the cluster is managed; and per total risk and per tag it is the
  number of such rule hits summed over all clusters, so that a cluster hit by two rules of
  one risk counts twice there (the OpenAPI document speaks of numbers of clusters).
\<close>

theorem organization_overview_spec:
  assumes "WaitForContentDirectoryToBeReady cs = None"
  shows "\<exists>ov. getOrganizationOverview cs infos recs acks disabled = (ov, None) \<and>
    oo_ClustersHit ov = int (length (filter (\<lambda>i. cluster_rules cs recs acks disabled i \<noteq> []) infos)) \<and>
    (\<forall>s. getint (oo_ClustersHitByTotalRisk ov) s =
       int (\<Sum>i\<leftarrow>infos. length (filter (\<lambda>c. rwc_TotalRisk c = s) (cluster_rules cs recs acks disabled i)))) \<and>
    (\<forall>t. getint (oo_ClustersHitByTag ov) t =
       int (\<Sum>i\<leftarrow>infos. \<Sum>c\<leftarrow>cluster_rules cs recs acks disabled i. count_list (rwc_Tags c) t))"
  using overview_clusters_eq [OF assms, of recs acks disabled empty_overview infos]
  by (auto simp: getOrganizationOverview_def empty_overview_def getint_def)

theorem organization_overview_spec_witness:
  "\<exists>ov. getOrganizationOverview sample_cs [sample_info ''c1'' False, sample_info ''c2'' True]
      [''c1'' \<mapsto> \<lparr>crl_CreatedAt = zero_time, crl_Version = [], crl_Recommendations = [''a|K'', ''b|K'']\<rparr>,
       ''c2'' \<mapsto> \<lparr>crl_CreatedAt = zero_time, crl_Version = [], crl_Recommendations = [''a|K'']\<rparr>] Map.empty Map.empty = (ov, None) \<and>
    oo_ClustersHit ov = 1 \<and> getint (oo_ClustersHitByTotalRisk ov) 3 = 1 \<and> getint (oo_ClustersHitByTag ov) ''security'' = 1"
proof -
  let ?recs = "[''c1'' \<mapsto> \<lparr>crl_CreatedAt = zero_time, crl_Version = [], crl_Recommendations = [''a|K'', ''b|K'']\<rparr>,
       ''c2'' \<mapsto> \<lparr>crl_CreatedAt = zero_time, crl_Version = [], crl_Recommendations = [''a|K'']\<rparr>]"
  have "cluster_rules sample_cs ?recs Map.empty Map.empty (sample_info ''c1'' False) = [sample_content]"
    "cluster_rules sample_cs ?recs Map.empty Map.empty (sample_info ''c2'' True) = []"
    by (simp_all add: cluster_rules_def sample_info_def sample_content_def shown_rule_def sample_cs_facts enabled_rule_def
        getbool_def map_filter_simps)
  then show ?thesis
    using organization_overview_spec [OF sample_cs_facts(1), of "[sample_info ''c1'' False, sample_info ''c2'' True]"
      ?recs Map.empty Map.empty]
    by (auto simp: sample_content_def)
qed

text \<open>
  The overview endpoint answers twice when the list of clusters cannot be read from
  the account management service: \<open>getClusterListAndUserData\<close> reports the error to the client
  but not to its caller, which goes on and sends an empty overview with status 200.
\<close>

lemma overview_answered_twice:
  assumes "sends_ok ev" and "rq_User request = IdentityValue i" and "sv_amsClient sv = Some ams"
    and "ams_GetClustersForOrganization ams (id_OrgID i) None None = (infos, Some e)"
  shows "w_replies (snd (run_state (overviewEndpoint ev sv request) w)) =
    w_replies w @ [error_reply ev (Some e), SendOK (POverview empty_overview)]"
proof -
  have token: "GetCurrentOrgIDUserIDFromToken request = Inr (id_OrgID i, id_UserID i)"
    using assms(2) by (simp add: GetCurrentOrgIDUserIDFromToken_def GetAuthToken_def)
  have "overview_clusters cs Map.empty acks disabled ov infos = (ov, None)" for cs acks disabled ov
    by (induction infos) auto
  then have "getOrganizationOverview cs infos Map.empty acks disabled = (empty_overview, None)" for cs acks disabled
    by (simp add: getOrganizationOverview_def)
  with token assms show ?thesis
    by (simp add: overviewEndpoint_def getClusterListAndUserData_def readClusterInfoForOrgID_def getClusterInfoFromAMS_def)
qed

definition ams_down :: AMSClient where
  "ams_down = \<lparr>ams_GetClustersForOrganization = (\<lambda>_ _ _. ([], Some AMSAPIUnavailableError)),
     ams_GetClusterDetailsFromExternalClusterID = (\<lambda>_. empty_ClusterInfo),
     ams_GetSingleClusterInfoForOrganization = (\<lambda>_ _. Inl AMSAPIUnavailableError)\<rparr>"

lemma overview_answered_twice_instance:
  "w_replies (snd (run_state (overviewEndpoint sample_env (sample_server\<lparr>sv_amsClient := Some ams_down\<rparr>)
      (sample_request\<lparr>rq_User := IdentityValue sample_identity\<rparr>)) empty_world)) =
     [SendServiceUnavailable ''AMS API is unreachable'', SendOK (POverview empty_overview)]"
  by (subst overview_answered_twice [where ams = ams_down and infos = "[]" and e = AMSAPIUnavailableError])
     (simp_all add: empty_world_def ams_down_def)

subsection \<open>The clusters a rule hits\<close>

definition known_cluster :: "ClusterInfo list \<Rightarrow> ClusterName \<Rightarrow> bool" where
  "known_cluster infos c \<longleftrightarrow> c \<in> set (GetClusterNames infos)"

definition user_disabled :: "ClusterInfo list \<Rightarrow> DisabledClusterInfo list \<Rightarrow> ClusterName \<Rightarrow> bool" where
  "user_disabled infos ds c \<longleftrightarrow> known_cluster infos c \<and> c \<in> set (map dc_ClusterID ds)"

lemma known_cluster_iff: "known_cluster infos c \<longleftrightarrow> ClusterInfoArrayToMap infos c \<noteq> None"
  by (simp add: known_cluster_def ClusterInfoArrayToMap_dom)

lemma disabled_details_map:
  "disabled_details (ClusterInfoArrayToMap infos) m acc ds = (m', acc') \<Longrightarrow>
     m' c = None \<longleftrightarrow> m c = None \<and> \<not> user_disabled infos ds c"
  by (induction ds arbitrary: m acc)
     (auto simp: user_disabled_def known_cluster_iff Let_def split: option.splits if_splits)

lemma disabled_details_list:
  "disabled_details (ClusterInfoArrayToMap infos) m acc ds = (m', acc') \<Longrightarrow>
     map dc_ClusterID acc' = map dc_ClusterID acc @ filter (known_cluster infos) (map dc_ClusterID ds)"
  by (induction ds arbitrary: m acc)
     (auto simp: known_cluster_iff Let_def split: option.splits)

lemma impacted_details_eq:
  "map hc_Cluster (cd_EnabledClusters (impacted_details ev im dm ack acked d imps)) =
     map hc_Cluster (cd_EnabledClusters d) @ (if acked then [] else filter (\<lambda>c. dm c = None) (map hc_Cluster imps))"
  "map dc_ClusterID (cd_DisabledClusters (impacted_details ev im dm ack acked d imps)) =
     map dc_ClusterID (cd_DisabledClusters d) @ (if acked then filter (\<lambda>c. dm c = None) (map hc_Cluster imps) else [])"
  by (induction imps arbitrary: d) (auto simp: Let_def)

text \<open>
  Claim C30: the clusters that a rule impacts are divided correctly. The disabled clusters of
  the answer are the clusters the user disabled the rule for, as far as they are clusters
  of the organization, and, when the rule is acknowledged, every other impacted cluster;
  the enabled clusters are the other impacted clusters when it is not. So no cluster is in
  both lists and no impacted cluster is lost.
\<close>

theorem clusters_detail_partition:
  "map hc_Cluster (cd_EnabledClusters (clusters_detail_data ev imps ds infos ack acked)) =
     (if acked then [] else filter (\<lambda>c. \<not> user_disabled infos ds c) (map hc_Cluster imps)) \<and>
   map dc_ClusterID (cd_DisabledClusters (clusters_detail_data ev imps ds infos ack acked)) =
     filter (known_cluster infos) (map dc_ClusterID ds) @
     (if acked then filter (\<lambda>c. \<not> user_disabled infos ds c) (map hc_Cluster imps) else []) \<and>
   set (map hc_Cluster (cd_EnabledClusters (clusters_detail_data ev imps ds infos ack acked))) \<inter>
     set (map dc_ClusterID (cd_DisabledClusters (clusters_detail_data ev imps ds infos ack acked))) = {} \<and>
   set (map hc_Cluster imps) \<subseteq>
     set (map hc_Cluster (cd_EnabledClusters (clusters_detail_data ev imps ds infos ack acked))) \<union>
     set (map dc_ClusterID (cd_DisabledClusters (clusters_detail_data ev imps ds infos ack acked)))"
proof -
  let ?d = "clusters_detail_data ev imps ds infos ack acked"
  obtain m acc where dd: "disabled_details (ClusterInfoArrayToMap infos) Map.empty [] ds = (m, acc)"
    by (cases "disabled_details (ClusterInfoArrayToMap infos) Map.empty [] ds")
  have "m c = None \<longleftrightarrow> \<not> user_disabled infos ds c" for c
    using disabled_details_map [OF dd, of c] by simp
  then have "map hc_Cluster (cd_EnabledClusters ?d) =
      (if acked then [] else filter (\<lambda>c. \<not> user_disabled infos ds c) (map hc_Cluster imps))"
    and "map dc_ClusterID (cd_DisabledClusters ?d) = filter (known_cluster infos) (map dc_ClusterID ds) @
      (if acked then filter (\<lambda>c. \<not> user_disabled infos ds c) (map hc_Cluster imps) else [])"
    using disabled_details_list [OF dd]
    by (simp_all add: clusters_detail_data_def dd impacted_details_eq)
  then show ?thesis
    by (simp del: set_map) (auto simp: user_disabled_def)
qed

end
