(* ===== verification/Redis.thy ===== *)
theory Redis
  imports Reports
begin

text \<open>
  \<open>services/redis.go\<close>: the request identifiers, the timestamps and the rule hits that are kept
  in Redis, and the endpoints of \<open>server/handlers_v2.go\<close> that serve them.

  The connection is a parameter: the answers to \<open>SCAN\<close> (one per call, since the store may
  change between calls), to the queued \<open>HMGET\<close> commands of a pipeline, scanned into the
  struct, to a single \<open>HMGET\<close> and to \<open>EXISTS\<close>. The loop over \<open>SCAN\<close> ends when the cursor
  comes back as 0 and may go on for ever, so it is a partial function.
\<close>

record redis_conn =
  rd_Scan :: "nat \<Rightarrow> 64 word \<Rightarrow> string \<Rightarrow> int \<Rightarrow> (string list \<times> 64 word) res"
  rd_Pipelined :: "string list \<Rightarrow> gerror option"
  rd_HMGet :: "string \<Rightarrow> RequestStatus res"
  rd_HMGetReport :: "string \<Rightarrow> gerror option \<times> (string \<times> string) res"
  rd_Exists :: "string \<Rightarrow> int res"

definition ScanBatchCount :: int where
  "ScanBatchCount = 100"

definition cluster_key :: "OrgID \<Rightarrow> ClusterName \<Rightarrow> string" where
  "cluster_key orgID clusterID = ''organization:'' @ show_nat (unat orgID) @ '':cluster:'' @ clusterID @ '':request:''"

definition RequestIDsScanPattern :: "OrgID \<Rightarrow> ClusterName \<Rightarrow> string" where
  "RequestIDsScanPattern orgID clusterID = cluster_key orgID clusterID @ ''?*''"

definition RequestIDCheck :: "OrgID \<Rightarrow> ClusterName \<Rightarrow> RequestID \<Rightarrow> string" where
  "RequestIDCheck orgID clusterID requestID = cluster_key orgID clusterID @ requestID"

definition SimplifiedReportKey :: "OrgID \<Rightarrow> ClusterName \<Rightarrow> RequestID \<Rightarrow> string" where
  "SimplifiedReportKey orgID clusterID requestID = cluster_key orgID clusterID @ requestID @ '':reports''"

subsection \<open>Operations of the client\<close>

fun scan_keys :: "string list \<Rightarrow> RequestID list" where
  "scan_keys [] = []"
| "scan_keys (key # rest) =
     (if HasSuffix key '':reports'' then scan_keys rest
      else
        let keySliced = Split (CHR '':'') key;
            requestID = keySliced ! (length keySliced - 1)
        in requestID # scan_keys rest)"

partial_function (option) scan_loop ::
  "redis_conn \<Rightarrow> string \<Rightarrow> nat \<Rightarrow> 64 word \<Rightarrow> RequestID list \<Rightarrow> RequestID list res option" where
  "scan_loop conn scanKey n cursor requestIDs =
     (case rd_Scan conn n cursor scanKey ScanBatchCount of
        Inl err \<Rightarrow> Some (Inl err)
      | Inr (keys, cursor') \<Rightarrow>
          (let requestIDs' = requestIDs @ scan_keys keys in
           if cursor' = 0 then Some (Inr requestIDs')
           else scan_loop conn scanKey (Suc n) cursor' requestIDs'))"

definition GetRequestIDsForClusterID :: "redis_conn \<Rightarrow> OrgID \<Rightarrow> ClusterName \<Rightarrow> RequestID list res option" where
  "GetRequestIDsForClusterID conn orgID clusterID =
     (let scanKey = RequestIDsScanPattern orgID clusterID in scan_loop conn scanKey 0 0 [])"

text \<open>The results of the queued commands come in the order of the keys.\<close>

fun statuses_loop :: "bool \<Rightarrow> (RequestID \<times> RequestStatus res) list \<Rightarrow> RequestStatus list \<Rightarrow> RequestStatus list res" where
  "statuses_loop omitMissing [] acc = Inr acc"
| "statuses_loop omitMissing ((requestID, cmd) # rest) acc =
     (case cmd of
        Inl err \<Rightarrow> Inl err
      | Inr report \<Rightarrow>
          if rs_RequestID report = [] then
            (if omitMissing then statuses_loop omitMissing rest acc
             else statuses_loop omitMissing rest (acc @ [report\<lparr>rs_RequestID := requestID, rs_Valid := False\<rparr>]))
          else statuses_loop omitMissing rest (acc @ [report\<lparr>rs_Valid := True\<rparr>]))"

definition GetTimestampsForRequestIDs ::
  "redis_conn \<Rightarrow> OrgID \<Rightarrow> ClusterName \<Rightarrow> RequestID list \<Rightarrow> bool \<Rightarrow> RequestStatus list res" where
  "GetTimestampsForRequestIDs conn orgID clusterID requestIDs omitMissing =
     (let keys = map (SimplifiedReportKey orgID clusterID) requestIDs in
      case rd_Pipelined conn keys of
        Some err \<Rightarrow> Inl err
      | None \<Rightarrow> statuses_loop omitMissing (zip requestIDs (map (rd_HMGet conn) keys)) [])"

fun rule_hits_loop :: "string list \<Rightarrow> RuleID list" where
  "rule_hits_loop [] = []"
| "rule_hits_loop (ruleHit # rest) =
     (let isRuleIDValid = match_composite ruleHit in
      if ruleHit = [] then rule_hits_loop rest
      else if \<not> isRuleIDValid then rule_hits_loop rest
      else ruleHit # rule_hits_loop rest)"

definition GetRuleHitsForRequest :: "redis_conn \<Rightarrow> OrgID \<Rightarrow> ClusterName \<Rightarrow> RequestID \<Rightarrow> RuleID list res" where
  "GetRuleHitsForRequest conn orgID clusterID requestID =
     (case rd_HMGetReport conn (SimplifiedReportKey orgID clusterID requestID) of
        (Some err, scanned) \<Rightarrow> Inl err
      | (None, Inl err) \<Rightarrow> Inl err
      | (None, Inr (reportRequestID, ruleHitsCSV)) \<Rightarrow>
          if reportRequestID = [] then Inl (ItemNotFoundError (ItemStr requestID))
          else Inr (rule_hits_loop (Split (CHR '','') ruleHitsCSV)))"

definition GetRequestStatus :: "redis_conn \<Rightarrow> OrgID \<Rightarrow> ClusterName \<Rightarrow> RequestID \<Rightarrow> gerror option" where
  "GetRequestStatus conn orgID clusterID requestID =
     (case rd_Exists conn (RequestIDCheck orgID clusterID requestID) of
        Inl err \<Rightarrow> Some err
      | Inr exists \<Rightarrow> if exists = 0 then Some (ItemNotFoundError (ItemStr requestID)) else None)"

text \<open>
  \<open>NewRedisClient\<close>: the interface over an open connection, next to the connection itself,
  which the health check of the library uses, or the error of opening it.
\<close>

definition RedisClient :: "redis_conn \<Rightarrow> RedisInterface" where
  "RedisClient conn = \<lparr>redis_GetRequestIDsForClusterID = GetRequestIDsForClusterID conn,
     redis_GetTimestampsForRequestIDs = GetTimestampsForRequestIDs conn,
     redis_GetRuleHitsForRequest = GetRuleHitsForRequest conn, redis_GetRequestStatus = GetRequestStatus conn\<rparr>"

record RedisConfiguration =
  rcf_RedisEndpoint :: string
  rcf_RedisDatabase :: int
  rcf_RedisTimeoutSeconds :: int
  rcf_RedisPassword :: string
  rcf_RedisUsername :: string

definition NewRedisClient ::
  "(string \<Rightarrow> int \<Rightarrow> string \<Rightarrow> string \<Rightarrow> int \<Rightarrow> redis_conn res) \<Rightarrow> RedisConfiguration \<Rightarrow> (redis_conn \<times> RedisInterface) res" where
  "NewRedisClient CreateRedisClient conf =
     (case CreateRedisClient (rcf_RedisEndpoint conf) (rcf_RedisDatabase conf) (rcf_RedisUsername conf)
             (rcf_RedisPassword conf) (rcf_RedisTimeoutSeconds conf) of
        Inl err \<Rightarrow> Inl err
      | Inr client \<Rightarrow> Inr (client, RedisClient client))"

end
