(* ===== verification/Requests.thy ===== *)
theory Requests
  imports Redis Recommendations Effects
begin

text \<open>
  The endpoints of \<open>server/handlers_v2.go\<close> that serve the processing state of requests and
  the simplified report of a request, over the interface of the Redis client.
\<close>

abbreviation RequestIDNotFound :: string where
  "RequestIDNotFound \<equiv> ''Request ID not found for given org_id and cluster_id''"

abbreviation RequestsForClusterNotFound :: string where
  "RequestsForClusterNotFound \<equiv> ''Requests for cluster not found''"

abbreviation RedisNotInitializedErrorMessage :: string where
  "RedisNotInitializedErrorMessage \<equiv> ''redis is not initialized, request can not be finished correctly''"

text \<open>The client of a ready server; otherwise the client has been answered.\<close>

definition checkRedisClientReadiness :: "env \<Rightarrow> HTTPServer \<Rightarrow> (world, RedisInterface option) state" where
  "checkRedisClientReadiness ev sv =
     (case sv_redis sv of
        None \<Rightarrow> do { handleServerError ev (Some (ErrorString RedisNotInitializedErrorMessage)); ret None }
      | Some redis \<Rightarrow> ret (Some redis))"

definition getRequestStatusForCluster :: "env \<Rightarrow> HTTPServer \<Rightarrow> handler" where
  "getRequestStatusForCluster ev sv request =
     (case GetCurrentOrgID request of
        Inl err \<Rightarrow> handleServerError ev (Some err)
      | Inr orgID \<Rightarrow> do {
          cluster \<leftarrow> ext_read (ev_ReadClusterName ev request);
          (case cluster of
             None \<Rightarrow> ret ()
           | Some clusterID \<Rightarrow> do {
               rid \<leftarrow> readRequestID ev request;
               (case rid of
                  Inl err \<Rightarrow> ret ()
                | Inr requestID \<Rightarrow> do {
                    ready \<leftarrow> checkRedisClientReadiness ev sv;
                    (case ready of
                       None \<Rightarrow> ret ()
                     | Some redis \<Rightarrow>
                         (case redis_GetRequestStatus redis orgID clusterID requestID of
                            Some (ItemNotFoundError i) \<Rightarrow> send_log ev (SendNotFound RequestIDNotFound)
                          | Some err \<Rightarrow> handleServerError ev (Some err)
                          | None \<Rightarrow> send_handle ev (SendOK (PRequestStatus clusterID requestID))))
                  })
             })
        })"

definition getRequestsForCluster :: "env \<Rightarrow> HTTPServer \<Rightarrow> http_request \<Rightarrow> (world, outcome) state" where
  "getRequestsForCluster ev sv request =
     (case GetCurrentOrgID request of
        Inl err \<Rightarrow> do { handleServerError ev (Some err); ret Done }
      | Inr orgID \<Rightarrow> do {
          cluster \<leftarrow> ext_read (ev_ReadClusterName ev request);
          (case cluster of
             None \<Rightarrow> ret Done
           | Some clusterID \<Rightarrow> do {
               ready \<leftarrow> checkRedisClientReadiness ev sv;
               (case ready of
                  None \<Rightarrow> ret Done
                | Some redis \<Rightarrow>
                    (case redis_GetRequestIDsForClusterID redis orgID clusterID of
                       None \<Rightarrow> ret Hang
                     | Some (Inl err) \<Rightarrow> do { handleServerError ev (Some err); ret Done }
                     | Some (Inr requestIDsForCluster) \<Rightarrow>
                         if length requestIDsForCluster = 0 then do {
                           send_log ev (SendNotFound RequestsForClusterNotFound);
                           ret Done
                         }
                         else (case redis_GetTimestampsForRequestIDs redis orgID clusterID requestIDsForCluster True of
                             Inl err \<Rightarrow> do { handleServerError ev (Some err); ret Done }
                           | Inr requestIDsData \<Rightarrow> do {
                               send_handle ev (SendOK (PRequests clusterID requestIDsData));
                               ret Done
                             })))
             })
        })"

definition getRequestsForClusterPostVariant :: "env \<Rightarrow> HTTPServer \<Rightarrow> handler" where
  "getRequestsForClusterPostVariant ev sv request =
     (case GetCurrentOrgID request of
        Inl err \<Rightarrow> handleServerError ev (Some err)
      | Inr orgID \<Rightarrow> do {
          cluster \<leftarrow> ext_read (ev_ReadClusterName ev request);
          (case cluster of
             None \<Rightarrow> ret ()
           | Some clusterID \<Rightarrow> do {
               ids \<leftarrow> readRequestIDList ev request;
               (case ids of
                  Inl err \<Rightarrow> ret ()
                | Inr requestIDsForCluster \<Rightarrow> do {
                    ready \<leftarrow> checkRedisClientReadiness ev sv;
                    (case ready of
                       None \<Rightarrow> ret ()
                     | Some redis \<Rightarrow>
                         (case redis_GetTimestampsForRequestIDs redis orgID clusterID requestIDsForCluster False of
                            Inl err \<Rightarrow> handleServerError ev (Some err)
                          | Inr requestIDsData \<Rightarrow> send_handle ev (SendOK (PRequests clusterID requestIDsData))))
                  })
             })
        })"

subsection \<open>The simplified report of a request\<close>

fun filterRulesGetContent ::
  "content_state \<Rightarrow> RuleID list \<Rightarrow> (RuleID \<rightharpoonup> bool) \<Rightarrow> (RuleID \<rightharpoonup> bool) \<Rightarrow> SimplifiedRuleHit list" where
  "filterRulesGetContent cs [] ackedRules disabledRules = []"
| "filterRulesGetContent cs (ruleID # rest) ackedRules disabledRules =
     (if ackedRules ruleID \<noteq> None then filterRulesGetContent cs rest ackedRules disabledRules
      else if disabledRules ruleID \<noteq> None then filterRulesGetContent cs rest ackedRules disabledRules
      else case GetContentForRecommendation cs ruleID of
          Inl err \<Rightarrow> filterRulesGetContent cs rest ackedRules disabledRules
        | Inr ruleContent \<Rightarrow>
            (let (ruleID, errorKey) = (case RuleIDWithErrorKeyFromCompositeRuleID ruleID of
                   Inl err \<Rightarrow> ([], []) | Inr p \<Rightarrow> p)
             in \<lparr>srh_RuleFQDN = ruleID, srh_ErrorKey = errorKey, srh_Description = rwc_Generic ruleContent,
                 srh_TotalRisk = rwc_TotalRisk ruleContent\<rparr> # filterRulesGetContent cs rest ackedRules disabledRules))"

fun disabled_rules_loop :: "env \<Rightarrow> (RuleID \<rightharpoonup> bool) \<Rightarrow> DisabledRule list \<Rightarrow> (RuleID \<rightharpoonup> bool)" where
  "disabled_rules_loop ev m [] = m"
| "disabled_rules_loop ev m (disabledRule # rest) =
     (case generateCompositeRuleIDFromDisabled ev disabledRule of
        (compositeRuleID, Some err) \<Rightarrow> disabled_rules_loop ev m rest
      | (compositeRuleID, None) \<Rightarrow> disabled_rules_loop ev (m(compositeRuleID \<mapsto> True)) rest)"

text \<open>
  The map and the error. \<open>readListOfDisabledRulesForClusters\<close> has answered some of its errors
  already, and here they are answered again.
\<close>

definition getDisabledRulesForClusterMap ::
  "env \<Rightarrow> HTTPServer \<Rightarrow> OrgID \<Rightarrow> ClusterName \<Rightarrow> (world, (RuleID \<rightharpoonup> bool) \<times> gerror option) state" where
  "getDisabledRulesForClusterMap ev sv orgID clusterID = do {
     (listOfDisabledRules, err) \<leftarrow> readListOfDisabledRulesForClusters ev sv orgID [clusterID];
     (case err of
        Some err \<Rightarrow> do { handleServerError ev (Some err); ret (Map.empty, Some err) }
      | None \<Rightarrow> ret (disabled_rules_loop ev Map.empty listOfDisabledRules, None))
   }"

definition getReportForRequest :: "env \<Rightarrow> HTTPServer \<Rightarrow> handler" where
  "getReportForRequest ev sv request =
     (case GetCurrentOrgID request of
        Inl err \<Rightarrow> handleServerError ev (Some err)
      | Inr orgID \<Rightarrow> do {
          cluster \<leftarrow> ext_read (ev_ReadClusterName ev request);
          (case cluster of
             None \<Rightarrow> ret ()
           | Some clusterID \<Rightarrow> do {
               rid \<leftarrow> readRequestID ev request;
               (case rid of
                  Inl err \<Rightarrow> ret ()
                | Inr requestID \<Rightarrow> do {
                    ready \<leftarrow> checkRedisClientReadiness ev sv;
                    (case ready of
                       None \<Rightarrow> ret ()
                     | Some redis \<Rightarrow>
                         (case redis_GetRuleHitsForRequest redis orgID clusterID requestID of
                            Inl err \<Rightarrow> handleServerError ev (Some err)
                          | Inr ruleHits \<Rightarrow> do {
                              acks \<leftarrow> getRuleAcksMap ev sv orgID;
                              (case acks of
                                 Inl err \<Rightarrow> handleServerError ev (Some err)
                               | Inr ackedRulesMap \<Rightarrow> do {
                                   (disabledRules, err) \<leftarrow> getDisabledRulesForClusterMap ev sv orgID clusterID;
                                   (case err of
                                      Some err \<Rightarrow> ret ()
                                    | None \<Rightarrow> send_handle ev (SendOK (PReportForRequest clusterID requestID
                                        (filterRulesGetContent (sv_content sv) ruleHits ackedRulesMap disabledRules))))
                                 })
                            }))
                  })
             })
        })"

end
