(* ===== verification/Redis_Props.thy ===== *)
theory Redis_Props
  imports Redis Requests Acks_Props Reports_Props Recommendations_Props
begin

text \<open>
  The keys do not collide, the scan finds exactly the stored request identifiers, the
  statuses answer every identifier, the rule hits survive the round trip through the CSV
  field, and the simplified report shows the visible hits.
\<close>

subsection \<open>Keys\<close>

lemma last_Split: "c \<notin> set t \<Longrightarrow> last (Split c (s @ c # t)) = t"
proof (induction s)
  case (Cons x xs)
  obtain p ps where s: "Split c (xs @ c # t) = p # ps" by (cases "Split c (xs @ c # t)") auto
  show ?case
  proof (cases "x = c")
    case False
    have "ps \<noteq> []"
    proof
      assume "ps = []"
      with s have "Join (Split c (xs @ c # t)) [c] = p" by simp
      then have "c \<in> set p" by auto
      with s Split_pieces [of p c "xs @ c # t"] show False by simp
    qed
    with False s Cons show ?thesis by simp
  qed (use Cons s in simp)
qed (simp add: Split_no_sep)

lemma reports_suffix:
  assumes "CHR '':'' \<notin> set r"
  shows "HasSuffix (s @ '':'' @ r) '':reports'' \<longleftrightarrow> r = ''reports''"
proof
  assume "HasSuffix (s @ '':'' @ r) '':reports''"
  then obtain t where t: "s @ '':'' @ r = t @ '':'' @ ''reports''" by (auto simp: HasSuffix_def suffix_def)
  have "last (Split (CHR '':'') (s @ '':'' @ r)) = r" using last_Split [OF assms, of s] by simp
  moreover have "last (Split (CHR '':'') (t @ '':'' @ ''reports'')) = ''reports''"
    using last_Split [of "CHR '':''" "''reports''" t] by simp
  ultimately show "r = ''reports''" using t by simp
qed (simp add: HasSuffix_def suffix_def)

lemma Split_cluster_key:
  assumes "CHR '':'' \<notin> set c"
  shows "Split (CHR '':'') (cluster_key g c @ t) =
    [''organization'', show_nat (unat g), ''cluster'', c, ''request''] @ Split (CHR '':'') t"
proof -
  let ?S = "Split (CHR '':'')"
  have k: "cluster_key g c @ t = ''organization'' @ CHR '':'' # (show_nat (unat g) @ CHR '':'' # (''cluster'' @ CHR '':''
      # (c @ CHR '':'' # (''request'' @ CHR '':'' # t))))"
    by (simp add: cluster_key_def)
  show ?thesis unfolding k using assms by (subst Split_append_sep, simp)+ simp
qed

text \<open>
  The Redis keys do not collide. The keys of two requests are equal only for the
  same organization, cluster and request, and the key of a processed request is never the
  key of a report, whatever the identifiers, as long as they hold no colon.
\<close>

lemma redis_keys_distinct:
  assumes "CHR '':'' \<notin> set c" and "CHR '':'' \<notin> set c'" and "CHR '':'' \<notin> set r" and "CHR '':'' \<notin> set r'"
  shows "(SimplifiedReportKey g c r = SimplifiedReportKey g' c' r' \<longleftrightarrow> g = g' \<and> c = c' \<and> r = r') \<and>
    (RequestIDCheck g c r = RequestIDCheck g' c' r' \<longleftrightarrow> g = g' \<and> c = c' \<and> r = r') \<and>
    RequestIDCheck g c r \<noteq> SimplifiedReportKey g' c' r'"
proof -
  let ?S = "Split (CHR '':'')"
  have r: "?S (RequestIDCheck g c r) = [''organization'', show_nat (unat g), ''cluster'', c, ''request'', r]"
    if "CHR '':'' \<notin> set c" "CHR '':'' \<notin> set r" for g c r
    using that by (simp add: RequestIDCheck_def Split_cluster_key Split_no_sep)
  have s: "?S (SimplifiedReportKey g c r) = [''organization'', show_nat (unat g), ''cluster'', c, ''request'', r, ''reports'']"
    if "CHR '':'' \<notin> set c" "CHR '':'' \<notin> set r" for g c r
    using that by (simp add: SimplifiedReportKey_def Split_cluster_key Split_append_sep Split_no_sep)
  have "SimplifiedReportKey g c r = SimplifiedReportKey g' c' r' \<longrightarrow> g = g' \<and> c = c' \<and> r = r'"
    using s [OF assms(1,3), of g] s [OF assms(2,4), of g'] by (auto simp: word_unat_eq_iff)
  moreover have "RequestIDCheck g c r = RequestIDCheck g' c' r' \<longrightarrow> g = g' \<and> c = c' \<and> r = r'"
    using r [OF assms(1,3), of g] r [OF assms(2,4), of g'] by (auto simp: word_unat_eq_iff)
  moreover have "RequestIDCheck g c r \<noteq> SimplifiedReportKey g' c' r'"
    using r [OF assms(1,3), of g] s [OF assms(2,4), of g'] by auto
  ultimately show ?thesis by blast
qed

lemma redis_keys_distinct_instance:
  "SimplifiedReportKey 1 ''c'' ''r'' \<noteq> SimplifiedReportKey 12 ''c'' ''r'' \<and> RequestIDCheck 1 ''c'' ''r'' \<noteq> SimplifiedReportKey 1 ''c'' ''r''"
  using redis_keys_distinct [of "''c''" "''c''" "''r''" "''r''" 1 12] redis_keys_distinct [of "''c''" "''c''" "''r''" "''r''" 1 1] by simp

subsection \<open>Scanning\<close>

definition pick_key :: "string \<Rightarrow> RequestID option" where
  "pick_key key = (if HasSuffix key '':reports'' then None else Some (last (Split (CHR '':'') key)))"

interpretation scanned: select_loop scan_keys pick_key
  by unfold_locales (simp_all add: pick_key_def last_conv_nth Let_def)

text \<open>The answers to \<open>SCAN\<close> from a cursor until the cursor 0.\<close>

inductive scan_chain :: "redis_conn \<Rightarrow> string \<Rightarrow> nat \<Rightarrow> 64 word \<Rightarrow> string list list \<Rightarrow> bool" where
  scan_last: "rd_Scan conn n cursor key ScanBatchCount = Inr (keys, 0) \<Longrightarrow> scan_chain conn key n cursor [keys]"
| scan_more: "rd_Scan conn n cursor key ScanBatchCount = Inr (keys, cursor') \<Longrightarrow> cursor' \<noteq> 0 \<Longrightarrow>
    scan_chain conn key (Suc n) cursor' pages \<Longrightarrow> scan_chain conn key n cursor (keys # pages)"

lemma scan_loop_chain:
  "scan_chain conn key n cursor pages \<Longrightarrow> scan_loop conn key n cursor acc = Some (Inr (acc @ scan_keys (concat pages)))"
proof (induction arbitrary: acc rule: scan_chain.induct)
  case (scan_last conn n cursor key keys)
  then show ?case by (subst scan_loop.simps) simp
next
  case (scan_more conn n cursor key keys cursor' pages)
  then show ?case by (subst scan_loop.simps) (simp add: scanned.loop_append)
qed

lemma pick_request:
  assumes "CHR '':'' \<notin> set r"
  shows "pick_key (RequestIDCheck g c r) = (if r = ''reports'' then None else Some r)"
    and "pick_key (SimplifiedReportKey g c r) = None"
proof -
  let ?s = "''organization:'' @ show_nat (unat g) @ '':cluster:'' @ c @ '':request''"
  have "RequestIDCheck g c r = ?s @ '':'' @ r" by (simp add: RequestIDCheck_def cluster_key_def)
  then show "pick_key (RequestIDCheck g c r) = (if r = ''reports'' then None else Some r)"
    using last_Split [OF assms, of ?s] by (simp only: pick_key_def reports_suffix [OF assms]) simp
  have "HasSuffix (SimplifiedReportKey g c r) '':reports''"
    by (simp add: SimplifiedReportKey_def HasSuffix_def suffix_def)
  then show "pick_key (SimplifiedReportKey g c r) = None" by (simp add: pick_key_def)
qed

text \<open>
  Claim C19: when the scan comes to its end, the list of requests of a cluster is returned and
  holds exactly the request identifiers whose key was found, but for \<open>reports\<close>, which the test
  of the suffix hides. The keys of the simplified reports, which match the same pattern, add
  nothing. The keys found are taken to be of these two shapes, with an identifier without
  colons, as the service that writes them makes them.
\<close>

theorem request_ids_of_scan:
  assumes "scan_chain conn (RequestIDsScanPattern g c) 0 0 pages"
    and "\<And>k. k \<in> set (concat pages) \<Longrightarrow> \<exists>r. CHR '':'' \<notin> set r \<and> (k = RequestIDCheck g c r \<or> k = SimplifiedReportKey g c r)"
  shows "\<exists>ids. GetRequestIDsForClusterID conn g c = Some (Inr ids) \<and>
    (\<forall>r. r \<in> set ids \<longleftrightarrow> r \<noteq> ''reports'' \<and> CHR '':'' \<notin> set r \<and> RequestIDCheck g c r \<in> set (concat pages))"
proof (intro exI conjI allI)
  show "GetRequestIDsForClusterID conn g c = Some (Inr (scan_keys (concat pages)))"
    using scan_loop_chain [OF assms(1), of "[]"] by (simp add: GetRequestIDsForClusterID_def)
  fix r
  show "r \<in> set (scan_keys (concat pages)) \<longleftrightarrow>
      r \<noteq> ''reports'' \<and> CHR '':'' \<notin> set r \<and> RequestIDCheck g c r \<in> set (concat pages)"
    unfolding scanned.set_loop
  proof
    assume "\<exists>k \<in> set (concat pages). pick_key k = Some r"
    then obtain k where k: "k \<in> set (concat pages)" "pick_key k = Some r" by blast
    with assms(2) [OF k(1)] show "r \<noteq> ''reports'' \<and> CHR '':'' \<notin> set r \<and> RequestIDCheck g c r \<in> set (concat pages)"
      by (auto simp: pick_request split: if_splits)
  next
    assume "r \<noteq> ''reports'' \<and> CHR '':'' \<notin> set r \<and> RequestIDCheck g c r \<in> set (concat pages)"
    then show "\<exists>k \<in> set (concat pages). pick_key k = Some r"
      using pick_request(1) [of r g c] by (intro bexI [of _ "RequestIDCheck g c r"]) auto
  qed
qed

definition sample_conn :: redis_conn where
  "sample_conn = \<lparr>rd_Scan = (\<lambda>n cursor key count. if n = 0
        then Inr ([RequestIDCheck 1 ''c'' ''r1'', SimplifiedReportKey 1 ''c'' ''r1''], 7)
        else Inr ([RequestIDCheck 1 ''c'' ''r2''], 0)),
     rd_Pipelined = (\<lambda>keys. None),
     rd_HMGet = (\<lambda>key. Inr \<lparr>rs_RequestID = if key = SimplifiedReportKey 1 ''c'' ''r1'' then ''r1'' else [], rs_Valid = False,
        rs_Received = ''t1'', rs_Processed = ''t2''\<rparr>),
     rd_HMGetReport = (\<lambda>key. (None, Inr (''r1'', ''a.b|K,c|L''))),
     rd_Exists = (\<lambda>key. Inr 1)\<rparr>"

lemma sample_chain:
  "scan_chain sample_conn (RequestIDsScanPattern 1 ''c'') 0 0
     [[RequestIDCheck 1 ''c'' ''r1'', SimplifiedReportKey 1 ''c'' ''r1''], [RequestIDCheck 1 ''c'' ''r2'']]"
  by (rule scan_more [where cursor' = 7], simp add: sample_conn_def, simp) (rule scan_last, simp add: sample_conn_def)

theorem request_ids_of_scan_witness:
  "\<exists>ids. GetRequestIDsForClusterID sample_conn 1 ''c'' = Some (Inr ids) \<and> ''r1'' \<in> set ids \<and> ''r2'' \<in> set ids \<and> ''reports'' \<notin> set ids"
proof -
  have "\<exists>r. CHR '':'' \<notin> set r \<and> (k = RequestIDCheck 1 ''c'' r \<or> k = SimplifiedReportKey 1 ''c'' r)"
    if "k \<in> set (concat [[RequestIDCheck 1 ''c'' ''r1'', SimplifiedReportKey 1 ''c'' ''r1''], [RequestIDCheck 1 ''c'' ''r2'']])" for k
    using that by (intro exI [of _ "if k = RequestIDCheck 1 ''c'' ''r2'' then ''r2'' else ''r1''"]) auto
  from request_ids_of_scan [OF sample_chain this] obtain ids where
    "GetRequestIDsForClusterID sample_conn 1 ''c'' = Some (Inr ids)"
    "\<forall>r. r \<in> set ids \<longleftrightarrow> r \<noteq> ''reports'' \<and> CHR '':'' \<notin> set r \<and> RequestIDCheck 1 ''c'' r \<in> set (concat
       [[RequestIDCheck 1 ''c'' ''r1'', SimplifiedReportKey 1 ''c'' ''r1''], [RequestIDCheck 1 ''c'' ''r2'']])"
    by blast
  then show ?thesis by (intro exI [of _ ids]) simp
qed

subsection \<open>Statuses\<close>

definition status_of :: "bool \<Rightarrow> (RequestID \<Rightarrow> RequestStatus) \<Rightarrow> RequestID \<Rightarrow> RequestStatus option" where
  "status_of omit rep r =
     (if rs_RequestID (rep r) \<noteq> [] then Some ((rep r)\<lparr>rs_Valid := True\<rparr>)
      else if omit then None else Some ((rep r)\<lparr>rs_RequestID := r, rs_Valid := False\<rparr>))"

lemma statuses_loop_eq:
  "statuses_loop omit (zip ids (map (\<lambda>r. Inr (rep r)) ids)) acc = Inr (acc @ List.map_filter (status_of omit rep) ids)"
  by (induction ids arbitrary: acc) (auto simp: status_of_def map_filter_simps)

text \<open>
  The statuses of a list of requests. With the pipeline executed and \<open>rep r\<close> the
  stored fields of a request, requests that are stored are reported as valid; the others
  are left out when asked for, and otherwise reported as invalid under the identifier that
  was asked for, so that every identifier gets its status, in order.
\<close>

lemma request_statuses:
  assumes "rd_Pipelined conn (map (SimplifiedReportKey g c) ids) = None"
    and "\<And>r. r \<in> set ids \<Longrightarrow> rd_HMGet conn (SimplifiedReportKey g c r) = Inr (rep r)"
  shows "GetTimestampsForRequestIDs conn g c ids omit = Inr (List.map_filter (status_of omit rep) ids) \<and>
    map rs_Valid (List.map_filter (status_of False rep) ids) = map (\<lambda>r. rs_RequestID (rep r) \<noteq> []) ids \<and>
    length (List.map_filter (status_of False rep) ids) = length ids"
proof -
  have "map (rd_HMGet conn) (map (SimplifiedReportKey g c) ids) = map (\<lambda>r. Inr (rep r)) ids"
    using assms(2) by (simp add: map_eq_conv)
  then have "GetTimestampsForRequestIDs conn g c ids omit = Inr (List.map_filter (status_of omit rep) ids)"
    using assms(1) statuses_loop_eq [of omit ids rep "[]"]
    by (simp add: GetTimestampsForRequestIDs_def del: map_map)
  moreover have "map rs_Valid (List.map_filter (status_of False rep) ids) = map (\<lambda>r. rs_RequestID (rep r) \<noteq> []) ids"
    by (induction ids) (auto simp: map_filter_simps status_of_def)
  ultimately show ?thesis by (metis length_map)
qed

lemma request_statuses_instance:
  "GetTimestampsForRequestIDs sample_conn 1 ''c'' [''r1'', ''r2''] False =
     Inr [\<lparr>rs_RequestID = ''r1'', rs_Valid = True, rs_Received = ''t1'', rs_Processed = ''t2''\<rparr>,
          \<lparr>rs_RequestID = ''r2'', rs_Valid = False, rs_Received = ''t1'', rs_Processed = ''t2''\<rparr>]"
proof -
  let ?rep = "\<lambda>r. \<lparr>rs_RequestID = if r = ''r1'' then ''r1'' else [], rs_Valid = False, rs_Received = ''t1'', rs_Processed = ''t2''\<rparr>"
  have "rd_HMGet sample_conn (SimplifiedReportKey 1 ''c'' r) = Inr (?rep r)" for r
    by (simp add: sample_conn_def SimplifiedReportKey_def)
  with request_statuses [of sample_conn 1 "''c''" "[''r1'', ''r2'']" ?rep False]
  show ?thesis by (simp add: sample_conn_def map_filter_simps status_of_def)
qed

subsection \<open>Rule hits\<close>

interpretation hits: filter_loop rule_hits_loop match_composite
  by unfold_locales (auto simp: match_composite_def Let_def)

lemma match_id_no_comma: "match_id s \<Longrightarrow> CHR '','' \<notin> set s"
  by (auto simp: match_id_def list_all_iff is_alnum_def)

lemma match_composite_no_comma: "match_composite s \<Longrightarrow> CHR '','' \<notin> set s"
  using match_id_no_comma by (auto simp: match_composite_iff)

definition simplify :: "content_state \<Rightarrow> (RuleID \<rightharpoonup> bool) \<Rightarrow> (RuleID \<rightharpoonup> bool) \<Rightarrow> RuleID \<Rightarrow> SimplifiedRuleHit option" where
  "simplify cs acks disabled r =
     (if acks r \<noteq> None \<or> disabled r \<noteq> None then None
      else case GetContentForRecommendation cs r of
          Inl e \<Rightarrow> None
        | Inr c \<Rightarrow> (case RuleIDWithErrorKeyFromCompositeRuleID r of
              Inl e \<Rightarrow> Some \<lparr>srh_RuleFQDN = [], srh_ErrorKey = [], srh_Description = rwc_Generic c, srh_TotalRisk = rwc_TotalRisk c\<rparr>
            | Inr (m, k) \<Rightarrow> Some \<lparr>srh_RuleFQDN = m, srh_ErrorKey = k, srh_Description = rwc_Generic c, srh_TotalRisk = rwc_TotalRisk c\<rparr>))"

interpretation simplified: select_loop "\<lambda>hits. filterRulesGetContent cs hits acks disabled" "simplify cs acks disabled"
  for cs acks disabled
  by unfold_locales (auto simp: simplify_def split: sum.splits)

lemma simplify_names:
  "list_all match_composite rules \<Longrightarrow>
   map (\<lambda>h. srh_RuleFQDN h @ ''|'' @ srh_ErrorKey h) (List.map_filter (simplify cs acks disabled) rules) =
   filter (\<lambda>i. acks i = None \<and> disabled i = None \<and> (\<exists>x. GetContentForRecommendation cs i = Inr x)) rules"
proof (induction rules)
  case (Cons i rules)
  then obtain m k where "RuleIDWithErrorKeyFromCompositeRuleID i = Inr (m, k)" "i = m @ ''|'' @ k"
    using composite_valid_iff [of i] composite_ok_iff [of i] by auto
  then have "map_option (\<lambda>h. srh_RuleFQDN h @ ''|'' @ srh_ErrorKey h) (simplify cs acks disabled i) =
      (if acks i = None \<and> disabled i = None \<and> (\<exists>x. GetContentForRecommendation cs i = Inr x) then Some i else None)"
    by (auto simp: simplify_def split: sum.split)
  with Cons show ?case by (auto simp: map_filter_simps split: option.splits if_splits)
qed (simp add: map_filter_simps)

text \<open>
  Claim C20: rule hits survive the round trip through Redis. When the field of the report
  holds rule identifiers joined by commas, all of the form module, bar, error key, exactly
  these are returned, in order; and the simplified report made from them shows, under
  module and error key, exactly the hits that are neither acknowledged nor disabled and
  have content.
\<close>

theorem rule_hits_roundtrip:
  assumes "rd_HMGetReport conn (SimplifiedReportKey g c r) = (None, Inr (rid, Join rules '',''))"
    and "rid \<noteq> []" and "list_all match_composite rules"
  shows "GetRuleHitsForRequest conn g c r = Inr rules \<and>
    map (\<lambda>h. srh_RuleFQDN h @ ''|'' @ srh_ErrorKey h) (filterRulesGetContent cs rules acks disabled) =
    filter (\<lambda>i. acks i = None \<and> disabled i = None \<and> (\<exists>x. GetContentForRecommendation cs i = Inr x)) rules"
proof
  have "filter match_composite (Split (CHR '','') (Join rules '','')) = rules"
  proof (cases "rules = []")
    case False
    then have "Split (CHR '','') (Join rules '','') = rules"
      using assms(3) by (intro Split_Join) (auto simp: list_all_iff match_composite_no_comma)
    with assms(3) show ?thesis by (simp add: list_all_iff)
  qed (simp add: match_composite_def)
  with assms(1,2) show "GetRuleHitsForRequest conn g c r = Inr rules"
    by (simp add: GetRuleHitsForRequest_def hits.floop_eq)
  show "map (\<lambda>h. srh_RuleFQDN h @ ''|'' @ srh_ErrorKey h) (filterRulesGetContent cs rules acks disabled) =
    filter (\<lambda>i. acks i = None \<and> disabled i = None \<and> (\<exists>x. GetContentForRecommendation cs i = Inr x)) rules"
    using assms(3) unfolding simplified.loop_eq by (rule simplify_names)
qed

theorem rule_hits_roundtrip_witness:
  "GetRuleHitsForRequest sample_conn 1 ''c'' ''r1'' = Inr [''a.b|K'', ''c|L''] \<and>
   map (\<lambda>h. srh_RuleFQDN h @ ''|'' @ srh_ErrorKey h) (filterRulesGetContent sample_cs [''a.b|K'', ''c|L''] Map.empty Map.empty) = []"
proof -
  have "list_all match_composite [''a.b|K'', ''c|L'']" by code_simp
  with rule_hits_roundtrip [of sample_conn 1 "''c''" "''r1''" "''r1''" "[''a.b|K'', ''c|L'']" sample_cs Map.empty Map.empty]
  show ?thesis
    by (simp add: sample_conn_def GetContentForRecommendation_def storage_GetContentForRecommendation_def sample_cs_facts)
qed

end
