(* ===== verification/Dvo.thy ===== *)
theory Dvo
  imports Recommendations Effects
begin

text \<open>
  The workload recommendations of \<open>server/handlers_v2.go\<close>: the list of namespaces of an
  organization with the hits by severity, and the recommendations of one namespace of a
  cluster with their content. The map of hit counts is ranged over, so it is an
  association list; the counts come from the aggregator, so that adding them may wrap.
\<close>

subsection \<open>All namespaces\<close>

fun workload_hits :: "(RuleID \<rightharpoonup> int) \<Rightarrow> Metadata \<Rightarrow> (string \<times> int) list \<Rightarrow> Metadata" where
  "workload_hits severities meta [] = meta"
| "workload_hits severities meta ((recommendation, hitCount) # rest) =
     (case severities recommendation of
        None \<Rightarrow> workload_hits severities meta rest
      | Some severity \<Rightarrow>
          (let meta = meta\<lparr>mt_HitsBySeverity := bump64 (mt_HitsBySeverity meta) severity hitCount\<rparr>;
               meta = (if severity > mt_HighestSeverity meta then meta\<lparr>mt_HighestSeverity := severity\<rparr> else meta)
           in workload_hits severities meta rest))"

fun workloads_loop ::
  "(ClusterName \<rightharpoonup> ClusterInfo) \<Rightarrow> (RuleID \<rightharpoonup> int) \<Rightarrow> int list \<Rightarrow> WorkloadsForNamespace list \<Rightarrow> Workload list" where
  "workloads_loop clusterInfoMap severities uniqueSeverities [] = []"
| "workloads_loop clusterInfoMap severities uniqueSeverities (w # rest) =
     (case clusterInfoMap (cl_UUID (wn_Cluster w)) of
        None \<Rightarrow> workloads_loop clusterInfoMap severities uniqueSeverities rest
      | Some clusterInfo \<Rightarrow>
          (let cluster = (wn_Cluster w)\<lparr>cl_DisplayName := ci_DisplayName clusterInfo\<rparr>;
               hitsBySeverity = zero_severities uniqueSeverities Map.empty;
               meta = (wn_Metadata w)\<lparr>mt_HitsBySeverity := hitsBySeverity\<rparr>
           in \<lparr>wl_Cluster = cluster, wl_Namespace = wn_Namespace w,
               wl_Metadata = workload_hits severities meta (wn_RecommendationsHitCount w)\<rparr>
              # workloads_loop clusterInfoMap severities uniqueSeverities rest))"

text \<open>\<open>None\<close> is the panic of the severity table.\<close>

definition processWorkloadsRecommendations ::
  "env \<Rightarrow> content_state \<Rightarrow> (ClusterName \<rightharpoonup> ClusterInfo) \<Rightarrow> WorkloadsForNamespace list \<Rightarrow> Workload list res option" where
  "processWorkloadsRecommendations ev cs clusterInfoMap workloads =
     (case GetExternalRuleSeverities (ev_content ev) cs of
        None \<Rightarrow> None
      | Some (Inl err) \<Rightarrow> Some (Inl err)
      | Some (Inr (severities, uniqueSeverities)) \<Rightarrow>
          Some (Inr (workloads_loop clusterInfoMap severities uniqueSeverities workloads)))"

definition getDVONamespaceList :: "env \<Rightarrow> HTTPServer \<Rightarrow> http_request \<Rightarrow> (world, outcome) state" where
  "getDVONamespaceList ev sv request =
     (case GetCurrentOrgID request of
        Inl err \<Rightarrow> do { handleServerError ev (Some err); ret Done }
      | Inr orgID \<Rightarrow> do {
          (activeClustersInfo, err) \<leftarrow> readClusterInfoForOrgID ev sv orgID;
          (case err of
             Some err \<Rightarrow> do { handleServerError ev (Some err); ret Done }
           | None \<Rightarrow>
               (let clusterInfoMap = ClusterInfoArrayToMap activeClustersInfo in do {
                  workloads \<leftarrow> getWorkloadsForOrganization ev sv orgID activeClustersInfo;
                  (case workloads of
                     Inl err \<Rightarrow> do { handleServerError ev (Some err); ret Done }
                   | Inr workloads \<Rightarrow>
                       (case processWorkloadsRecommendations ev (sv_content sv) clusterInfoMap workloads of
                          None \<Rightarrow> ret Panic
                        | Some (Inl err) \<Rightarrow> do { handleServerError ev (Some err); ret Done }
                        | Some (Inr workloadsProcessed) \<Rightarrow> do {
                            send_handle ev (SendOK (PWorkloads workloadsProcessed));
                            ret Done
                          }))
                }))
        })"

subsection \<open>One namespace\<close>

definition fillDVORecommendationRuleContent ::
  "env \<Rightarrow> content_state \<Rightarrow> DVORecommendation \<Rightarrow> DVORecommendation res" where
  "fillDVORecommendationRuleContent ev cs recommendation =
     (case GetContentForRecommendation cs (dv_Check recommendation) of
        Inl err \<Rightarrow> Inl err
      | Inr ruleContent \<Rightarrow> Inr (recommendation
          \<lparr>dv_Details := rwc_Description ruleContent, dv_Resolution := rwc_Resolution ruleContent,
           dv_MoreInfo := rwc_MoreInfo ruleContent, dv_Reason := rwc_Reason ruleContent,
           dv_TotalRisk := rwc_TotalRisk ruleContent,
           dv_Modified := ce_FormatRFC3339 (ev_content ev) (UTC (rwc_PublishDate ruleContent))\<rparr>))"

fun fill_workloads_loop ::
  "env \<Rightarrow> content_state \<Rightarrow> (RuleID \<rightharpoonup> int) \<Rightarrow> Metadata \<Rightarrow> DVORecommendation list \<Rightarrow> DVORecommendation list
    \<Rightarrow> (Metadata \<times> DVORecommendation list) res" where
  "fill_workloads_loop ev cs severities meta acc [] = Inr (meta, acc)"
| "fill_workloads_loop ev cs severities meta acc (recommendation # rest) =
     (let meta = (case severities (dv_Check recommendation) of
            None \<Rightarrow> meta
          | Some severity \<Rightarrow>
              (let meta = meta\<lparr>mt_HitsBySeverity := bump (mt_HitsBySeverity meta) severity (int (length (dv_Objects recommendation)))\<rparr>
               in if severity > mt_HighestSeverity meta then meta\<lparr>mt_HighestSeverity := severity\<rparr> else meta))
      in case fillDVORecommendationRuleContent ev cs recommendation of
           Inl err \<Rightarrow> Inl err
         | Inr recommendation \<Rightarrow> fill_workloads_loop ev cs severities meta (acc @ [recommendation]) rest)"

definition fillInWorkloadsData ::
  "env \<Rightarrow> content_state \<Rightarrow> ClusterInfo \<Rightarrow> WorkloadsForCluster \<Rightarrow> WorkloadsForCluster res option" where
  "fillInWorkloadsData ev cs clusterInfo workloads =
     (case GetExternalRuleSeverities (ev_content ev) cs of
        None \<Rightarrow> None
      | Some (Inl err) \<Rightarrow> Some (Inl err)
      | Some (Inr (severities, uniqueSeverities)) \<Rightarrow>
          (let cluster = (wc_Cluster workloads)\<lparr>cl_DisplayName := ci_DisplayName clusterInfo\<rparr>;
               hitsBySeverity = zero_severities uniqueSeverities Map.empty;
               meta = (wc_Metadata workloads)\<lparr>mt_HitsBySeverity := hitsBySeverity\<rparr>
           in case fill_workloads_loop ev cs severities meta [] (wc_Recommendations workloads) of
                Inl err \<Rightarrow> Some (Inl err)
              | Inr (meta, recommendations) \<Rightarrow>
                  Some (Inr \<lparr>wc_Cluster = cluster, wc_Namespace = wc_Namespace workloads, wc_Metadata = meta,
                    wc_Recommendations = recommendations\<rparr>)))"

text \<open>
  The client of the account management service is used without a test when the fallback is
  switched on: a nil client is a panic.
\<close>

definition getDVONamespacesForCluster :: "env \<Rightarrow> HTTPServer \<Rightarrow> http_request \<Rightarrow> (world, outcome) state" where
  "getDVONamespacesForCluster ev sv request =
     (let handle = (\<lambda>err. do { handleServerError ev (Some err); ret Done }) in
      case GetCurrentOrgID request of
        Inl err \<Rightarrow> handle err
      | Inr orgID \<Rightarrow> do {
          cluster \<leftarrow> ext_read (ev_ReadClusterName ev request);
          (case cluster of
             None \<Rightarrow> ret Done
           | Some clusterID \<Rightarrow> do {
               ns \<leftarrow> readNamespace ev request;
               (case ns of
                  Inl err \<Rightarrow> ret Done
                | Inr namespace \<Rightarrow>
                    if sv_amsClient sv = None \<and> \<not> cf_UseOrgClustersFallback (sv_Config sv) then handle AMSAPIUnavailableError
                    else (case sv_amsClient sv of
                        None \<Rightarrow> ret Panic
                      | Some ams \<Rightarrow>
                          (case ams_GetSingleClusterInfoForOrganization ams orgID clusterID of
                             Inl err \<Rightarrow> handle err
                           | Inr clusterInfo \<Rightarrow> do {
                               workloads \<leftarrow> getWorkloadsForCluster ev sv orgID clusterID namespace;
                               (case workloads of
                                  Inl (JSONSyntaxError s) \<Rightarrow> handle (ErrorString ''aggregator provided a wrong response'')
                                | Inl (UrlError s) \<Rightarrow> handle AggregatorServiceUnavailableError
                                | Inl err \<Rightarrow> handle err
                                | Inr workloads \<Rightarrow>
                                    (case fillInWorkloadsData ev (sv_content sv) clusterInfo workloads of
                                       None \<Rightarrow> ret Panic
                                     | Some (Inl err) \<Rightarrow> handle (ErrorString ''unable to fill in data from content-service'')
                                     | Some (Inr workloadsProcessed) \<Rightarrow> do {
                                         send_handle ev (SendOK (PWorkload workloadsProcessed));
                                         ret Done
                                       }))
                             })))
             })
        })"

end
