(* ===== verification/Upgrade.thy ===== *)
theory Upgrade
  imports Effects
begin

text \<open>
  \<open>server/upgrade_risks_prediction.go\<close>: predictions of the data engineering service for one
  cluster of the organization and for a list of clusters.
\<close>

definition upgrade_service :: "HTTPServer \<Rightarrow> string \<Rightarrow> url_arg list \<Rightarrow> url" where
  "upgrade_service sv endpoint args = Endpoint (sc_UpgradeRisksPredictionEndpoint (sv_ServicesConfig sv)) endpoint args"

text \<open>
  \<open>None\<close>: an error, which has been answered, or the nil pointer a body \<open>null\<close> decodes to.
\<close>

definition fetchUpgradePrediction ::
  "env \<Rightarrow> HTTPServer \<Rightarrow> ClusterName \<Rightarrow> (world, DataEngResponse option) state" where
  "fetchUpgradePrediction ev sv cluster = do {
     response \<leftarrow> http_get ev (upgrade_service sv ''UpgradeRisksPredictionEndpoint'' [ArgStr cluster]);
     (case response of
        Inl err \<Rightarrow> do { handleServerError ev (Some UpgradesDataEngServiceUnavailableError); ret None }
      | Inr r \<Rightarrow> do {
          responseData \<leftarrow> read_ok_body ev r (dc_data_eng (ev_dec ev));
          ret (case responseData of None \<Rightarrow> None | Some d \<Rightarrow> d)
        })
   }"

definition fetchMulticlusterUpgradePrediction ::
  "env \<Rightarrow> HTTPServer \<Rightarrow> string list \<Rightarrow> (world, UpgradeRisksRecommendations option) state" where
  "fetchMulticlusterUpgradePrediction ev sv clusterList = do {
     response \<leftarrow> http_post ev (upgrade_service sv ''UpgradeRisksPredictionMultiClusterEndpoint'' []) (BodyClusters clusterList);
     (case response of
        Inl err \<Rightarrow> do { handleServerError ev (Some UpgradesDataEngServiceUnavailableError); ret None }
      | Inr r \<Rightarrow> do {
          responseData \<leftarrow> read_ok_body ev r (dc_predictions (ev_dec ev));
          ret (case responseData of None \<Rightarrow> None | Some d \<Rightarrow> d)
        })
   }"

definition upgradeRisksPrediction :: "env \<Rightarrow> HTTPServer \<Rightarrow> handler" where
  "upgradeRisksPrediction ev sv request =
     (case sv_amsClient sv of
        None \<Rightarrow> handleServerError ev (Some AMSAPIUnavailableError)
      | Some ams \<Rightarrow>
          (case GetCurrentOrgID request of
             Inl err \<Rightarrow> handleServerError ev (Some err)
           | Inr orgID \<Rightarrow> do {
               cluster \<leftarrow> ext_read (ev_ReadClusterName ev request);
               (case cluster of
                  None \<Rightarrow> ret ()
                | Some clusterID \<Rightarrow>
                    (case ams_GetSingleClusterInfoForOrganization ams orgID clusterID of
                       Inl err \<Rightarrow> handleServerError ev (Some err)
                     | Inr clusterInfo \<Rightarrow>
                         if ci_ID clusterInfo \<noteq> clusterID then
                           handleServerError ev (Some (ItemNotFoundError (ItemStr clusterID)))
                         else if ci_Managed clusterInfo then
                           handleServerError ev (Some (NoContentError
                             ''the upgrade failure prediction service is not available for managed clusters''))
                         else do {
                           prediction \<leftarrow> fetchUpgradePrediction ev sv clusterID;
                           (case prediction of
                              None \<Rightarrow> ret ()
                            | Some p \<Rightarrow> send_log ev (SendOK (PUpgrade
                                \<lparr>ur_Recommended = de_Recommended p, ur_RisksPredictors = de_RisksPredictors p\<rparr>
                                \<lparr>um_LastCheckedAt = de_LastCheckedAt p\<rparr>)))
                         }))
             }))"

definition upgradeRisksPredictionMultiCluster :: "env \<Rightarrow> HTTPServer \<Rightarrow> handler" where
  "upgradeRisksPredictionMultiCluster ev sv request =
     (if rq_ContentLength request \<le> 0 then handleServerError ev (Some NoBodyError)
      else case dc_cluster_list (ev_dec ev) (rq_Body request) of
          Inl err \<Rightarrow> handleServerError ev (Some err)
        | Inr clusterList \<Rightarrow>
            if length clusterList > MaxAllowedClusters then handleServerError ev (Some TooManyClustersError)
            else do {
              prediction \<leftarrow> fetchMulticlusterUpgradePrediction ev sv clusterList;
              (case prediction of
                 None \<Rightarrow> ret ()
               | Some p \<Rightarrow> send_log ev (SendOK (PPredictions (us_Predictions p))))
            })"

end
