(* ===== verification/Ams.thy ===== *)
theory Ams
  imports Server
begin

text \<open>
  \<open>amsclient/amsclient.go\<close> and \<open>amsclient/utils.go\<close>: the client of the account management
  service. The connection is a parameter: the answers to a search of organizations (the
  internal ids, \<open>None\<close> for an item without one) and to a page of a search of subscriptions.
  The loop over the pages ends at the first empty page and may go on for ever, so it is a
  partial function.
\<close>

record ams_subscription =
  su_ExternalClusterID :: "string option"
  su_DisplayName :: "string option"
  su_Managed :: "bool option"
  su_Status :: "string option"

record ams_page =
  pg_Size :: int
  pg_Items :: "ams_subscription list"

record ams_conn =
  am_Organizations :: "string \<Rightarrow> string option list res"
  am_Subscriptions :: "int \<Rightarrow> int \<Rightarrow> string \<Rightarrow> ams_page res"
  am_UUIDParse :: "string \<Rightarrow> bool"

record AmsConfiguration =
  ac_Token :: string
  ac_ClientID :: string
  ac_ClientSecret :: string
  ac_URL :: string
  ac_PageSize :: int
  ac_ClusterListCaching :: bool

record amsClientImpl =
  ai_connection :: ams_conn
  ai_pageSize :: int
  ai_clusterListCaching :: bool

definition defaultPageSize :: int where
  "defaultPageSize = 500"

definition DefaultStatusNegativeFilters :: "string list" where
  "DefaultStatusNegativeFilters = [''Archived'', ''Deprovisioned'', ''Reserved'']"

text \<open>
  The constructor. Building the connection from a URL and the credentials that were given
  is a parameter; the client id and its secret go before the token.
\<close>

datatype credentials = Client string string | Tokens string

definition NewAMSClientWithTransport ::
  "(string \<Rightarrow> credentials \<Rightarrow> ams_conn res) \<Rightarrow> AmsConfiguration \<Rightarrow> amsClientImpl res" where
  "NewAMSClientWithTransport build conf =
     (let built = (\<lambda>cred. case build (ac_URL conf) cred of
            Inl err \<Rightarrow> Inl err
          | Inr conn \<Rightarrow>
              Inr \<lparr>ai_connection = conn, ai_pageSize = (if ac_PageSize conf \<le> 0 then defaultPageSize else ac_PageSize conf),
                ai_clusterListCaching = ac_ClusterListCaching conf\<rparr>)
      in if ac_ClientID conf \<noteq> [] \<and> ac_ClientSecret conf \<noteq> [] then built (Client (ac_ClientID conf) (ac_ClientSecret conf))
         else if ac_Token conf \<noteq> [] then built (Tokens (ac_Token conf))
         else Inl (ErrorString ''cannot create api client: no credentials provided''))"

definition NewAMSClient :: "(string \<Rightarrow> credentials \<Rightarrow> ams_conn res) \<Rightarrow> AmsConfiguration \<Rightarrow> amsClientImpl res" where
  "NewAMSClient build conf = NewAMSClientWithTransport build conf"

subsection \<open>Searches\<close>

abbreviation quote :: string where
  "quote \<equiv> [CHR 0x27]"

definition quoted_list :: "string list \<Rightarrow> string" where
  "quoted_list xs = ''('' @ quote @ Join xs (quote @ '','' @ quote) @ quote @ '')''"

definition generateSingleClusterSearch :: "string list \<Rightarrow> string list \<Rightarrow> string list \<Rightarrow> string" where
  "generateSingleClusterSearch orgIDs allowedStatuses disallowedStatuses =
     (let searchQuery = ''organization_id in '' @ quoted_list orgIDs @ '' and cluster_id != '' @ quote @ quote;
          searchQuery = (if length allowedStatuses > 0 then searchQuery @ '' and status in '' @ quoted_list allowedStatuses else searchQuery);
          searchQuery = (if length disallowedStatuses > 0 then searchQuery @ '' and status not in '' @ quoted_list disallowedStatuses else searchQuery)
      in searchQuery)"

fun org_ids_loop :: "string option list \<Rightarrow> string list res" where
  "org_ids_loop [] = Inr []"
| "org_ids_loop (item # rest) =
     (case item of
        None \<Rightarrow> Inl (ErrorString ''request to get the organization info failed'')
      | Some internalID \<Rightarrow>
          (case org_ids_loop rest of Inl err \<Rightarrow> Inl err | Inr ids \<Rightarrow> Inr (internalID # ids)))"

definition GetInternalOrgIDFromExternal :: "amsClientImpl \<Rightarrow> OrgID \<Rightarrow> string list res" where
  "GetInternalOrgIDFromExternal c orgID =
     (case am_Organizations (ai_connection c) (''external_id = '' @ show_nat (unat orgID)) of
        Inl err \<Rightarrow> Inl err
      | Inr items \<Rightarrow>
          if length items = 0 then Inl (ItemNotFoundError (ItemOrg orgID))
          else org_ids_loop items)"

subsection \<open>Subscriptions\<close>

text \<open>The items of a page: the set of cluster ids seen so far and the list of clusters.\<close>

fun page_items ::
  "ams_conn \<Rightarrow> string set \<times> ClusterInfo list \<Rightarrow> ams_subscription list \<Rightarrow> string set \<times> ClusterInfo list" where
  "page_items conn acc [] = acc"
| "page_items conn (uniqueClusterMap, clusterInfoList) (item # rest) =
     (case su_ExternalClusterID item of
        None \<Rightarrow> page_items conn (uniqueClusterMap, clusterInfoList) rest
      | Some clusterID \<Rightarrow>
          if clusterID = [] then page_items conn (uniqueClusterMap, clusterInfoList) rest
          else if \<not> am_UUIDParse conn clusterID then page_items conn (uniqueClusterMap, clusterInfoList) rest
          else if clusterID \<in> uniqueClusterMap then page_items conn (uniqueClusterMap, clusterInfoList) rest
          else page_items conn (insert clusterID uniqueClusterMap,
            clusterInfoList @ [\<lparr>ci_ID = clusterID,
              ci_DisplayName = (case su_DisplayName item of None \<Rightarrow> clusterID | Some n \<Rightarrow> n),
              ci_Managed = (case su_Managed item of None \<Rightarrow> False | Some b \<Rightarrow> b),
              ci_Status = (case su_Status item of None \<Rightarrow> [] | Some s \<Rightarrow> s)\<rparr>]) rest)"

text \<open>The list next to an error holds the clusters of the pages before it.\<close>

partial_function (option) subscriptions_loop ::
  "amsClientImpl \<Rightarrow> string \<Rightarrow> int \<Rightarrow> string set \<times> ClusterInfo list \<Rightarrow> (ClusterInfo list \<times> gerror option) option" where
  "subscriptions_loop c searchQuery pageNum acc =
     (case am_Subscriptions (ai_connection c) (ai_pageSize c) pageNum searchQuery of
        Inl err \<Rightarrow> Some (snd acc, Some err)
      | Inr response \<Rightarrow>
          if pg_Size response = 0 then Some (snd acc, None)
          else subscriptions_loop c searchQuery (pageNum + 1) (page_items (ai_connection c) acc (pg_Items response)))"

definition executeSubscriptionListRequest ::
  "amsClientImpl \<Rightarrow> string \<Rightarrow> (ClusterInfo list \<times> gerror option) option" where
  "executeSubscriptionListRequest c searchQuery = subscriptions_loop c searchQuery 1 ({}, [])"

definition GetClustersForOrganization ::
  "amsClientImpl \<Rightarrow> OrgID \<Rightarrow> string list option \<Rightarrow> string list option \<Rightarrow> (ClusterInfo list \<times> gerror option) option" where
  "GetClustersForOrganization c orgID statusFilter statusNegativeFilter =
     (case GetInternalOrgIDFromExternal c orgID of
        Inl err \<Rightarrow> Some ([], Some err)
      | Inr internalOrgIDs \<Rightarrow>
          (let statusNegativeFilter = (case statusNegativeFilter of None \<Rightarrow> DefaultStatusNegativeFilters | Some f \<Rightarrow> f);
               statusFilter = (case statusFilter of None \<Rightarrow> [] | Some f \<Rightarrow> f)
           in executeSubscriptionListRequest c
                (generateSingleClusterSearch internalOrgIDs statusFilter statusNegativeFilter)))"

definition GetClusterDetailsFromExternalClusterID :: "amsClientImpl \<Rightarrow> ClusterName \<Rightarrow> ClusterInfo option" where
  "GetClusterDetailsFromExternalClusterID c externalID =
     map_option (\<lambda>r. case r of
         (clusterInfoList, Some err) \<Rightarrow> empty_ClusterInfo
       | ([], None) \<Rightarrow> empty_ClusterInfo
       | (clusterInfo # rest, None) \<Rightarrow> clusterInfo)
       (executeSubscriptionListRequest c (''external_cluster_id = '' @ quote @ externalID @ quote))"

definition GetSingleClusterInfoForOrganization :: "amsClientImpl \<Rightarrow> OrgID \<Rightarrow> ClusterName \<Rightarrow> ClusterInfo res option" where
  "GetSingleClusterInfoForOrganization c orgID clusterID =
     (case GetInternalOrgIDFromExternal c orgID of
        Inl err \<Rightarrow> Some (Inl err)
      | Inr internalOrgIDs \<Rightarrow>
          map_option (\<lambda>r. case r of
              (clusterInfoList, Some err) \<Rightarrow> Inl err
            | ([], None) \<Rightarrow> Inl (ItemNotFoundError (ItemStr clusterID))
            | (clusterInfo # rest, None) \<Rightarrow> Inr clusterInfo)
            (executeSubscriptionListRequest c
              (''organization_id in '' @ quoted_list internalOrgIDs @ '' and external_cluster_id = '' @ quote @ clusterID @ quote)))"

text \<open>
  The interface the server uses answers as the methods above do, which presupposes that
  the pages of every search come to an end.
\<close>

definition ams_implements :: "amsClientImpl \<Rightarrow> AMSClient \<Rightarrow> bool" where
  "ams_implements c ams \<longleftrightarrow>
     (\<forall>g s n. GetClustersForOrganization c g s n = Some (ams_GetClustersForOrganization ams g s n)) \<and>
     (\<forall>x. GetClusterDetailsFromExternalClusterID c x = Some (ams_GetClusterDetailsFromExternalClusterID ams x)) \<and>
     (\<forall>g x. GetSingleClusterInfoForOrganization c g x = Some (ams_GetSingleClusterInfoForOrganization ams g x))"

end
