(* ===== verification/Clients_Props.thy ===== *)
theory Clients_Props
  imports Dvo Upgrade Ams Reports_Props Recommendations_Props
begin

text \<open>
  The account management client collects each valid cluster once; the workloads are counted
  by severity; the prediction service is asked only about clusters it may be asked about.
\<close>

subsection \<open>Subscriptions\<close>

text \<open>The answers from a page on, until the first empty page.\<close>

inductive page_chain :: "amsClientImpl \<Rightarrow> string \<Rightarrow> int \<Rightarrow> ams_subscription list list \<Rightarrow> bool" where
  page_end: "am_Subscriptions (ai_connection c) (ai_pageSize c) n q = Inr p \<Longrightarrow> pg_Size p = 0 \<Longrightarrow> page_chain c q n []"
| page_next: "am_Subscriptions (ai_connection c) (ai_pageSize c) n q = Inr p \<Longrightarrow> pg_Size p \<noteq> 0 \<Longrightarrow>
    page_chain c q (n + 1) pages \<Longrightarrow> page_chain c q n (pg_Items p # pages)"

lemma page_items_append: "page_items conn acc (xs @ ys) = page_items conn (page_items conn acc xs) ys"
  by (induction conn acc xs rule: page_items.induct) (auto split: option.split)

lemma subscriptions_loop_chain:
  "page_chain c q n pages \<Longrightarrow>
     subscriptions_loop c q n acc = Some (snd (page_items (ai_connection c) acc (concat pages)), None)"
proof (induction arbitrary: acc rule: page_chain.induct)
  case (page_end c n q p)
  then show ?case by (subst subscriptions_loop.simps) simp
next
  case (page_next c n q p pages)
  then show ?case by (subst subscriptions_loop.simps) (simp add: page_items_append)
qed

definition good_cluster :: "ams_conn \<Rightarrow> ams_subscription list \<Rightarrow> ClusterName \<Rightarrow> bool" where
  "good_cluster conn items x \<longleftrightarrow> x \<noteq> [] \<and> am_UUIDParse conn x \<and> Some x \<in> set (map su_ExternalClusterID items)"

lemma page_items_spec:
  assumes "distinct (map ci_ID l)" and "u = set (map ci_ID l)"
  shows "distinct (map ci_ID (snd (page_items conn (u, l) items))) \<and>
    set (map ci_ID (snd (page_items conn (u, l) items))) = u \<union> {x. good_cluster conn items x}"
  using assms
proof (induction items arbitrary: u l)
  case (Cons item rest)
  have skip: "{x. good_cluster conn (item # rest) x} = {x. good_cluster conn rest x}"
    if "\<And>x. su_ExternalClusterID item = Some x \<Longrightarrow> x = [] \<or> \<not> am_UUIDParse conn x"
    using that by (cases "su_ExternalClusterID item") (auto simp: good_cluster_def)
  show ?case
  proof (cases "su_ExternalClusterID item")
    case None
    with Cons skip show ?thesis by simp
  next
    case (Some x)
    show ?thesis
    proof (cases "x = [] \<or> \<not> am_UUIDParse conn x")
      case True
      with Some Cons skip show ?thesis by auto
    next
      case False
      then have g: "{y. good_cluster conn (item # rest) y} = insert x {y. good_cluster conn rest y}"
        using Some by (auto simp: good_cluster_def)
      show ?thesis
      proof (cases "x \<in> u")
        case True
        with Some False g Cons.IH [OF Cons.prems] show ?thesis by auto
      next
        case new: False
        define info where "info = \<lparr>ci_ID = x, ci_DisplayName = (case su_DisplayName item of None \<Rightarrow> x | Some n \<Rightarrow> n),
          ci_Managed = (case su_Managed item of None \<Rightarrow> False | Some b \<Rightarrow> b),
          ci_Status = (case su_Status item of None \<Rightarrow> [] | Some s \<Rightarrow> s)\<rparr>"
        have "page_items conn (u, l) (item # rest) = page_items conn (insert x u, l @ [info]) rest"
          using Some False new by (simp add: info_def)
        with Cons.IH [of "l @ [info]" "insert x u"] Cons.prems new g show ?thesis by (auto simp: info_def)
      qed
    qed
  qed
qed (auto simp: good_cluster_def)

text \<open>
  Claim C18: when the pages of a search come to an end, the client returns, without an error,
  every cluster of the pages that has a valid external id, and each of them once, however
  the subscriptions are spread over the pages and however often a cluster appears.
\<close>

theorem subscriptions_complete:
  assumes "page_chain c q 1 pages"
  shows "\<exists>infos. executeSubscriptionListRequest c q = Some (infos, None) \<and> distinct (map ci_ID infos) \<and>
    set (map ci_ID infos) = {x. good_cluster (ai_connection c) (concat pages) x}"
  using subscriptions_loop_chain [OF assms, of "({}, [])"]
    page_items_spec [of "[]" "{}" "ai_connection c" "concat pages"]
  by (auto simp: executeSubscriptionListRequest_def)

definition sample_ams :: amsClientImpl where
  "sample_ams = \<lparr>ai_connection = \<lparr>am_Organizations = (\<lambda>q. Inr [Some ''o1'']),
     am_Subscriptions = (\<lambda>size n q. Inr (if n \<le> 2 then
         \<lparr>pg_Size = 1, pg_Items = [\<lparr>su_ExternalClusterID = Some ''u1'', su_DisplayName = None, su_Managed = None, su_Status = None\<rparr>]\<rparr>
       else \<lparr>pg_Size = 0, pg_Items = []\<rparr>)),
     am_UUIDParse = (\<lambda>s. s = ''u1'')\<rparr>, ai_pageSize = defaultPageSize, ai_clusterListCaching = False\<rparr>"

theorem subscriptions_complete_witness:
  "\<exists>infos. executeSubscriptionListRequest sample_ams ''q'' = Some (infos, None) \<and> distinct (map ci_ID infos) \<and> set (map ci_ID infos) = {''u1''}"
proof -
  let ?item = "\<lparr>su_ExternalClusterID = Some ''u1'', su_DisplayName = None, su_Managed = None, su_Status = None\<rparr>"
  let ?p = "\<lparr>pg_Size = 1, pg_Items = [?item]\<rparr>" and ?e = "\<lparr>pg_Size = 0, pg_Items = []\<rparr> :: ams_page"
  have "page_chain sample_ams ''q'' 3 []"
    by (rule page_end [of _ _ _ ?e]) (simp_all add: sample_ams_def)
  then have "page_chain sample_ams ''q'' 2 [[?item]]"
    using page_next [of sample_ams 2 "''q''" ?p "[]"] by (simp add: sample_ams_def)
  then have "page_chain sample_ams ''q'' 1 [[?item], [?item]]"
    using page_next [of sample_ams 1 "''q''" ?p "[[?item]]"] by (simp add: sample_ams_def)
  from subscriptions_complete [OF this] show ?thesis
    by (auto simp: good_cluster_def sample_ams_def)
qed

subsection \<open>Workloads\<close>

lemma workload_hits_by_severity:
  assumes "wrap64 (getint (mt_HitsBySeverity meta) s) = getint (mt_HitsBySeverity meta) s"
  shows "getint (mt_HitsBySeverity (workload_hits sev meta hits)) s =
     wrap64 (getint (mt_HitsBySeverity meta) s + (\<Sum>(r, n)\<leftarrow>hits. if sev r = Some s then n else 0))"
  using assms
proof (induction sev meta hits rule: workload_hits.induct)
  case (2 sev meta r n rest)
  then show ?case
    by (cases "sev r") (auto simp: Let_def wrap64_add wrap64_idem add.assoc)
qed simp

lemma workload_hits_highest:
  "mt_HighestSeverity (workload_hits sev meta hits) =
     Max (set (mt_HighestSeverity meta # List.map_filter (\<lambda>(r, n). sev r) hits))"
proof -
  have "mt_HighestSeverity (workload_hits sev meta hits) =
      fold max (List.map_filter (\<lambda>(r, n). sev r) hits) (mt_HighestSeverity meta)"
    by (induction sev meta hits rule: workload_hits.induct)
       (auto simp: Let_def map_filter_simps max_def split: option.split)
  then show ?thesis by (simp only: Max.set_eq_fold)
qed

definition workload_of ::
  "ClusterInfo list \<Rightarrow> (RuleID \<rightharpoonup> int) \<Rightarrow> int list \<Rightarrow> WorkloadsForNamespace \<Rightarrow> Workload option" where
  "workload_of infos sev us w = map_option (\<lambda>info.
     \<lparr>wl_Cluster = (wn_Cluster w)\<lparr>cl_DisplayName := ci_DisplayName info\<rparr>, wl_Namespace = wn_Namespace w,
      wl_Metadata = workload_hits sev ((wn_Metadata w)\<lparr>mt_HitsBySeverity := zero_severities us Map.empty\<rparr>) (wn_RecommendationsHitCount w)\<rparr>)
     (ClusterInfoArrayToMap infos (cl_UUID (wn_Cluster w)))"

interpretation workloads: select_loop "workloads_loop (ClusterInfoArrayToMap infos) sev us" "workload_of infos sev us"
  for infos sev us
  by unfold_locales (auto simp: workload_of_def Let_def split: option.split)

text \<open>
  Claim C35: the workloads of an organization. Whatever order the runtime takes over the
  counts, a workload is listed exactly when its cluster is active; its hits of a severity
  are the sum of the counts of its recommendations of that severity, as far as it fits
  into 64 bits and wrapped around otherwise, and its highest severity is the maximum of theirs and of the one it came with.
\<close>

theorem workloads_by_severity:
  assumes "GetExternalRuleSeverities (ev_content ev) cs = Some (Inr (sev, us))"
  shows "\<exists>ws. processWorkloadsRecommendations ev cs (ClusterInfoArrayToMap infos) wls = Some (Inr ws) \<and>
    length ws = length (filter (\<lambda>w. cl_UUID (wn_Cluster w) \<in> set (GetClusterNames infos)) wls) \<and>
    (\<forall>x. x \<in> set ws \<longleftrightarrow> (\<exists>w \<in> set wls. workload_of infos sev us w = Some x)) \<and>
    (\<forall>w x s. workload_of infos sev us w = Some x \<longrightarrow>
       getint (mt_HitsBySeverity (wl_Metadata x)) s =
         wrap64 (\<Sum>(r, n)\<leftarrow>wn_RecommendationsHitCount w. if sev r = Some s then n else 0) \<and>
       mt_HighestSeverity (wl_Metadata x) =
         Max (set (mt_HighestSeverity (wn_Metadata w) # List.map_filter (\<lambda>(r, n). sev r) (wn_RecommendationsHitCount w))))"
proof (intro exI conjI allI impI)
  let ?ws = "workloads_loop (ClusterInfoArrayToMap infos) sev us wls"
  show "processWorkloadsRecommendations ev cs (ClusterInfoArrayToMap infos) wls = Some (Inr ?ws)"
    using assms by (simp add: processWorkloadsRecommendations_def)
  have "workload_of infos sev us w \<noteq> None \<longleftrightarrow> cl_UUID (wn_Cluster w) \<in> set (GetClusterNames infos)" for w
    using ClusterInfoArrayToMap_dom [of infos "cl_UUID (wn_Cluster w)"] by (simp add: workload_of_def)
  then show "length ?ws = length (filter (\<lambda>w. cl_UUID (wn_Cluster w) \<in> set (GetClusterNames infos)) wls)"
    by (simp only: workloads.length_loop_eq)
  show "x \<in> set ?ws \<longleftrightarrow> (\<exists>w \<in> set wls. workload_of infos sev us w = Some x)" for x
    by (rule workloads.set_loop)
  fix w x s
  assume "workload_of infos sev us w = Some x"
  then have m: "wl_Metadata x = workload_hits sev ((wn_Metadata w)\<lparr>mt_HitsBySeverity := zero_severities us Map.empty\<rparr>)
      (wn_RecommendationsHitCount w)"
    by (auto simp: workload_of_def)
  have zero: "getint (mt_HitsBySeverity ((wn_Metadata w)\<lparr>mt_HitsBySeverity := zero_severities us Map.empty\<rparr>)) s = 0"
    by (simp add: zero_severities_facts)
  then have "wrap64 0 = 0" by (simp add: wrap64_id)
  with zero show "getint (mt_HitsBySeverity (wl_Metadata x)) s =
      wrap64 (\<Sum>(r, n)\<leftarrow>wn_RecommendationsHitCount w. if sev r = Some s then n else 0)"
    unfolding m by (subst workload_hits_by_severity) simp_all
  show "mt_HighestSeverity (wl_Metadata x) =
      Max (set (mt_HighestSeverity (wn_Metadata w) # List.map_filter (\<lambda>(r, n). sev r) (wn_RecommendationsHitCount w)))"
    unfolding m workload_hits_highest by simp
qed

definition sample_workload :: WorkloadsForNamespace where
  "sample_workload = \<lparr>wn_Cluster = \<lparr>cl_UUID = ''c1'', cl_DisplayName = []\<rparr>, wn_Namespace = \<lparr>ns_UUID = ''n'', ns_FullName = []\<rparr>,
     wn_Metadata = \<lparr>mt_Recommendations = 2, mt_Objects = 5, mt_ReportedAt = [], mt_LastCheckedAt = [], mt_HighestSeverity = 0,
       mt_HitsBySeverity = Map.empty\<rparr>, wn_RecommendationsHitCount = [(''a|K'', 2), (''b|K'', 3)]\<rparr>"

theorem workloads_by_severity_witness:
  "\<exists>x. processWorkloadsRecommendations sample_env sample_cs (ClusterInfoArrayToMap [sample_info ''c1'' False]) [sample_workload] =
     Some (Inr [x]) \<and> getint (mt_HitsBySeverity (wl_Metadata x)) 3 = 2"
proof -
  obtain x where x: "workload_of [sample_info ''c1'' False] [''a|K'' \<mapsto> 3] [3] sample_workload = Some x"
    by (auto simp: workload_of_def ClusterInfoArrayToMap_def sample_info_def sample_workload_def)
  from workloads_by_severity [OF sample_cs_facts(5), of "[sample_info ''c1'' False]" "[sample_workload]"] obtain ws where
    ws: "processWorkloadsRecommendations sample_env sample_cs (ClusterInfoArrayToMap [sample_info ''c1'' False]) [sample_workload] = Some (Inr ws)"
    "length ws = 1" "x \<in> set ws" "getint (mt_HitsBySeverity (wl_Metadata x)) 3 = 2"
    using x by (auto simp: sample_workload_def GetClusterNames_def sample_info_def wrap64_id)
  then have "ws = [x]" by (cases ws) auto
  with ws show ?thesis by blast
qed

text \<open>
  With no account management client and the fallback switched on, the endpoint for
  one namespace passes its readiness test and then uses the missing client: it panics and
  the client gets no reply.
\<close>

lemma dvo_namespace_panics:
  assumes "rq_User request = IdentityValue i" and "ev_ReadClusterName ev request = Inr c"
    and "ev_GetRouterParam ev request ''namespace'' = Inr n" and "validateNamespaceID n = Inr v"
    and "sv_amsClient sv = None" and "cf_UseOrgClustersFallback (sv_Config sv)"
  shows "run_state (getDVONamespacesForCluster ev sv request) w = (Panic, w)"
  using assms
  by (simp add: getDVONamespacesForCluster_def token_of_identity readNamespace_def Let_def)

lemma dvo_namespace_panics_instance:
  "run_state (getDVONamespacesForCluster sample_env sample_server (sample_request\<lparr>rq_User := IdentityValue sample_identity,
     rq_Vars := [(''cluster'', ''c''), (''namespace'', ''n'')]\<rparr>)) empty_world = (Panic, empty_world)"
proof -
  have "validateNamespaceID ''n'' = Inr ''n''" by code_simp
  then show ?thesis
    using dvo_namespace_panics [of "sample_request\<lparr>rq_User := IdentityValue sample_identity,
       rq_Vars := [(''cluster'', ''c''), (''namespace'', ''n'')]\<rparr>" sample_identity sample_env "''c''" "''n''" "''n''" sample_server]
    by (simp add: sample_env_def sample_server_def New_def sample_config_def)
qed

subsection \<open>Upgrade risks\<close>

lemma read_ok_body_calls: "w_calls (snd (run_state (read_ok_body ev r decode) w)) = w_calls w"
  by (simp add: read_ok_body_def split: sum.split)

text \<open>
  Claim C36: the prediction service is asked only about what it may be asked about: about a
  single cluster when the account management service says that the cluster is the one of
  the request, belongs to the organization of the requester and is not managed; about a
  list of clusters when it is not empty by its content length and has at most 100 entries.
\<close>

theorem upgrade_calls_guarded:
  "(w_calls (snd (run_state (upgradeRisksPrediction ev sv request) w)) = w_calls w \<or>
    (\<exists>ams i c info. sv_amsClient sv = Some ams \<and> rq_User request = IdentityValue i \<and> ev_ReadClusterName ev request = Inr c \<and>
       ams_GetSingleClusterInfoForOrganization ams (id_OrgID i) c = Inr info \<and> ci_ID info = c \<and> \<not> ci_Managed info \<and>
       w_calls (snd (run_state (upgradeRisksPrediction ev sv request) w)) =
         w_calls w @ [get_call (upgrade_service sv ''UpgradeRisksPredictionEndpoint'' [ArgStr c])])) \<and>
   (w_calls (snd (run_state (upgradeRisksPredictionMultiCluster ev sv request) w)) = w_calls w \<or>
    (\<exists>cs. dc_cluster_list (ev_dec ev) (rq_Body request) = Inr cs \<and> length cs \<le> 100 \<and> 0 < rq_ContentLength request \<and>
       w_calls (snd (run_state (upgradeRisksPredictionMultiCluster ev sv request) w)) =
         w_calls w @ [post_call (upgrade_service sv ''UpgradeRisksPredictionMultiClusterEndpoint'' []) (BodyClusters cs)]))"
proof
  note body = read_ok_body_calls
  have single: "w_calls (snd (run_state (fetchUpgradePrediction ev sv c) w)) =
      w_calls w @ [get_call (upgrade_service sv ''UpgradeRisksPredictionEndpoint'' [ArgStr c])]" for c w
    by (auto simp: body fetchUpgradePrediction_def http_get_call split_beta split: sum.split)
  show "w_calls (snd (run_state (upgradeRisksPrediction ev sv request) w)) = w_calls w \<or>
    (\<exists>ams i c info. sv_amsClient sv = Some ams \<and> rq_User request = IdentityValue i \<and> ev_ReadClusterName ev request = Inr c \<and>
       ams_GetSingleClusterInfoForOrganization ams (id_OrgID i) c = Inr info \<and> ci_ID info = c \<and> \<not> ci_Managed info \<and>
       w_calls (snd (run_state (upgradeRisksPrediction ev sv request) w)) =
         w_calls w @ [get_call (upgrade_service sv ''UpgradeRisksPredictionEndpoint'' [ArgStr c])])"
    by (cases request rule: GetCurrentOrgID_cases; cases "ev_ReadClusterName ev request")
       (auto simp: upgradeRisksPrediction_def single split_beta split: option.split sum.split)
  have multi: "w_calls (snd (run_state (fetchMulticlusterUpgradePrediction ev sv cs) w)) =
      w_calls w @ [post_call (upgrade_service sv ''UpgradeRisksPredictionMultiClusterEndpoint'' []) (BodyClusters cs)]" for cs w
    by (auto simp: body fetchMulticlusterUpgradePrediction_def http_post_def post_call_def split_beta split: sum.split)
  show "w_calls (snd (run_state (upgradeRisksPredictionMultiCluster ev sv request) w)) = w_calls w \<or>
    (\<exists>cs. dc_cluster_list (ev_dec ev) (rq_Body request) = Inr cs \<and> length cs \<le> 100 \<and> 0 < rq_ContentLength request \<and>
       w_calls (snd (run_state (upgradeRisksPredictionMultiCluster ev sv request) w)) =
         w_calls w @ [post_call (upgrade_service sv ''UpgradeRisksPredictionMultiClusterEndpoint'' []) (BodyClusters cs)])"
    by (auto simp: upgradeRisksPredictionMultiCluster_def multi MaxAllowedClusters_def split_beta split: option.split sum.split)
qed

end
