(* ===== verification/Proxy.thy ===== *)
theory Proxy
  imports Auth Params Reports "HOL-Library.AList"
begin

text \<open>
  Requests that are passed on to another service: \<open>modifyRequest\<close>, \<open>modifyResponse\<close>,
  \<open>proxyTo\<close>, \<open>sendRequest\<close>, \<open>composeEndpoint\<close> and \<open>copyHeader\<close> of \<open>server/server.go\<close> and the
  modifiers of \<open>server/request_modifiers.go\<close>.

  \<open>proxy_env\<close> holds what the code takes from elsewhere: the builder of URLs from an endpoint
  template and variables, the parser of URLs (path and request URI of the result) and the
  joining of a base URL and a path.
\<close>

record proxy_env =
  px_MakeURL :: "string \<Rightarrow> string \<Rightarrow> (string \<times> string) list \<Rightarrow> string"
  px_Parse :: "string \<Rightarrow> (string \<times> string) res"
  px_JoinPath :: "string \<Rightarrow> string \<Rightarrow> string res"

type_synonym RequestModifier = "http_request \<Rightarrow> http_request res"
type_synonym ResponseModifier = "http_response \<Rightarrow> http_response res"

record ProxyOptions =
  po_RequestModifiers :: "RequestModifier list"
  po_ResponseModifiers :: "ResponseModifier list"

fun modifyRequest :: "RequestModifier list \<Rightarrow> http_request \<Rightarrow> http_request res" where
  "modifyRequest [] request = Inr request"
| "modifyRequest (modifier # rest) request =
     (case modifier request of Inl err \<Rightarrow> Inl err | Inr request' \<Rightarrow> modifyRequest rest request')"

fun modifyResponse :: "ResponseModifier list \<Rightarrow> http_response \<Rightarrow> http_response res" where
  "modifyResponse [] response = Inr response"
| "modifyResponse (modifier # rest) response =
     (case modifier response of Inl err \<Rightarrow> Inl err | Inr response' \<Rightarrow> modifyResponse rest response')"

subsection \<open>Modifiers\<close>

text \<open>The tail of the three modifiers: a new URL from the template and the variables.\<close>

definition with_new_url ::
  "proxy_env \<Rightarrow> HTTPServer \<Rightarrow> string \<Rightarrow> (string \<times> string) list \<Rightarrow> http_request \<Rightarrow> http_request res" where
  "with_new_url px sv newEndpoint vars request =
     (let newURL = px_MakeURL px (cf_APIv1Prefix (sv_Config sv)) newEndpoint vars in
      case px_Parse px newURL of
        Inl err \<Rightarrow> Inl ParamsParsingError
      | Inr (path, requestURI) \<Rightarrow> Inr (request\<lparr>rq_Vars := vars, rq_Path := path, rq_RequestURI := requestURI\<rparr>))"

definition newExtractUserIDFromTokenToURLRequestModifier :: "proxy_env \<Rightarrow> HTTPServer \<Rightarrow> string \<Rightarrow> RequestModifier" where
  "newExtractUserIDFromTokenToURLRequestModifier px sv newEndpoint request =
     (case GetCurrentUserID request of
        Inl err \<Rightarrow> Inl err
      | Inr userID \<Rightarrow> with_new_url px sv newEndpoint (AList.update ''user_id'' userID (rq_Vars request)) request)"

definition extractUserIDOrgIDFromTokenToURLRequestModifier :: "proxy_env \<Rightarrow> HTTPServer \<Rightarrow> string \<Rightarrow> RequestModifier" where
  "extractUserIDOrgIDFromTokenToURLRequestModifier px sv newEndpoint request =
     (case GetCurrentOrgIDUserIDFromToken request of
        Inl err \<Rightarrow> Inl ParamsParsingError
      | Inr (orgID, userID) \<Rightarrow>
          with_new_url px sv newEndpoint
            (AList.update ''org_id'' (show_nat (unat orgID)) (AList.update ''user_id'' userID (rq_Vars request))) request)"

definition extractOrgIDFromTokenToURLRequestModifier :: "proxy_env \<Rightarrow> HTTPServer \<Rightarrow> string \<Rightarrow> RequestModifier" where
  "extractOrgIDFromTokenToURLRequestModifier px sv newEndpoint request =
     (case GetCurrentOrgID request of
        Inl err \<Rightarrow> Inl ParamsParsingError
      | Inr orgID \<Rightarrow> with_new_url px sv newEndpoint (AList.update ''org_id'' (show_nat (unat orgID)) (rq_Vars request)) request)"

definition checkRuleIDAndErrorKeyAreValid :: "env \<Rightarrow> content_state \<Rightarrow> RequestModifier" where
  "checkRuleIDAndErrorKeyAreValid ev cs request =
     (case ev_GetRouterParam ev request ''rule_id'' of
        Inl err \<Rightarrow> Inl err
      | Inr ruleID \<Rightarrow>
          (case ev_GetRouterParam ev request ''error_key'' of
             Inl err \<Rightarrow> Inl err
           | Inr errorKey \<Rightarrow>
               (case GetRuleWithErrorKeyContent cs ruleID errorKey of
                  Inl err \<Rightarrow> Inl (ItemNotFoundError (ItemStr (ruleID @ ''/'' @ errorKey)))
                | Inr c \<Rightarrow> Inr request)))"

subsection \<open>Passing on\<close>

definition header_add :: "string \<Rightarrow> string \<Rightarrow> (string \<times> string list) list \<Rightarrow> (string \<times> string list) list" where
  "header_add k v h =
     (let k = canonical True k in AList.update k ((case map_of h k of None \<Rightarrow> [] | Some vs \<Rightarrow> vs) @ [v]) h)"

fun add_values :: "string \<Rightarrow> string list \<Rightarrow> (string \<times> string list) list \<Rightarrow> (string \<times> string list) list" where
  "add_values headerKey [] dst = dst"
| "add_values headerKey (value # rest) dst = add_values headerKey rest (header_add headerKey value dst)"

fun copyHeader :: "(string \<times> string list) list \<Rightarrow> (string \<times> string list) list \<Rightarrow> (string \<times> string list) list" where
  "copyHeader [] dst = dst"
| "copyHeader ((headerKey, headerValues) # rest) dst = copyHeader rest (add_values headerKey headerValues dst)"

definition composeEndpoint :: "proxy_env \<Rightarrow> HTTPServer \<Rightarrow> string \<Rightarrow> string \<Rightarrow> string res" where
  "composeEndpoint px sv baseEndpoint currentEndpoint =
     (let endpoint = TrimPrefix currentEndpoint (cf_APIv1Prefix (sv_Config sv));
          endpoint = TrimPrefix endpoint (cf_APIv2Prefix (sv_Config sv));
          endpoint = TrimPrefix endpoint (cf_APIdbgPrefix (sv_Config sv))
      in case px_JoinPath px baseEndpoint endpoint of
           Inl err \<Rightarrow> Inl err
         | Inr joinedURL \<Rightarrow> (case px_Parse px joinedURL of Inl err \<Rightarrow> Inl err | Inr u \<Rightarrow> Inr joinedURL))"

definition evaluateProxyError :: "env \<Rightarrow> HTTPServer \<Rightarrow> gerror \<Rightarrow> string \<Rightarrow> (world, unit) state" where
  "evaluateProxyError ev sv err baseURL =
     (if is_url_error err then
        (if baseURL = sc_AggregatorBaseEndpoint (sv_ServicesConfig sv) then
           handleServerError ev (Some AggregatorServiceUnavailableError)
         else if baseURL = sc_ContentBaseEndpoint (sv_ServicesConfig sv) then
           handleServerError ev (Some ContentServiceUnavailableError)
         else handleServerError ev (Some err))
      else handleServerError ev (Some err))"

definition sendRequest :: "env \<Rightarrow> http_call \<Rightarrow> ProxyOptions option \<Rightarrow> (world, (http_response \<times> string) res) state" where
  "sendRequest ev req options = do {
     response \<leftarrow> http_do ev req;
     ret (case response of
         Inl err \<Rightarrow> Inl err
       | Inr response \<Rightarrow>
           (case (case options of None \<Rightarrow> Inr response | Some opts \<Rightarrow> modifyResponse (po_ResponseModifiers opts) response) of
              Inl err \<Rightarrow> Inl err
            | Inr response \<Rightarrow>
                (case hr_Body response of Inl err \<Rightarrow> Inl err | Inr body \<Rightarrow> Inr (response, body))))
   }"

definition proxyTo :: "env \<Rightarrow> proxy_env \<Rightarrow> HTTPServer \<Rightarrow> string \<Rightarrow> ProxyOptions option \<Rightarrow> http_request \<Rightarrow> (world, outcome) state" where
  "proxyTo ev px sv baseURL options request =
     (case (case options of None \<Rightarrow> Inr request | Some opts \<Rightarrow> modifyRequest (po_RequestModifiers opts) request) of
        Inl err \<Rightarrow> do { handleServerError ev (Some err); ret Done }
      | Inr request \<Rightarrow>
          (case composeEndpoint px sv baseURL (rq_RequestURI request) of
             Inl err \<Rightarrow> do { handleServerError ev (Some err); ret Done }
           | Inr endpointURL \<Rightarrow>
               (case ev_url_ok ev (RawURL endpointURL) of
                  Some err \<Rightarrow> ret Panic
                | None \<Rightarrow> do {
                    sent \<leftarrow> sendRequest ev \<lparr>ca_Method = rq_Method request, ca_URL = RawURL endpointURL,
                      ca_Header = copyHeader (rq_Header request) [], ca_Body = BodyReader (rq_Body request)\<rparr> options;
                    (case sent of
                       Inl err \<Rightarrow> do { evaluateProxyError ev sv err baseURL; ret Done }
                     | Inr (response, body) \<Rightarrow> do {
                         send_handle ev (Send (hr_StatusCode response) (PBytes body));
                         ret Done
                       })
                  })))"

end
