(* ===== verification/Info.thy ===== *)
theory Info
  imports Reports "HOL-Library.AList"
begin

text \<open>
  The endpoint \<open>info\<close> of \<open>server/handlers_v1.go\<close>. The map \<open>InfoParams\<close> of the server is shared
  between requests, and the handler writes its status into it, so the server is part of
  the result. A nil map that is written to is a panic.
\<close>

abbreviation filledIn :: string where
  "filledIn \<equiv> ''ok''"

definition fillInSmartProxyInfoParams :: "HTTPServer \<Rightarrow> (string \<rightharpoonup> string) \<times> HTTPServer" where
  "fillInSmartProxyInfoParams sv =
     (case sv_InfoParams sv of
        None \<Rightarrow> ([''status'' \<mapsto> ''InfoParams is empty''], sv)
      | Some params \<Rightarrow>
          (let m = params(''status'' \<mapsto> filledIn) in (m, sv\<lparr>sv_InfoParams := Some m\<rparr>)))"

text \<open>The inner option is the map, \<open>None\<close> a nil one.\<close>

definition readInfoAPIEndpoint :: "env \<Rightarrow> url \<Rightarrow> (world, (string \<rightharpoonup> string) option res) state" where
  "readInfoAPIEndpoint ev url = do {
     response \<leftarrow> http_get ev url;
     ret (case response of
         Inl err \<Rightarrow> Inl err
       | Inr r \<Rightarrow>
           if hr_StatusCode r \<noteq> StatusOK then Inl (ErrorString (''improper status code '' @ show_int (hr_StatusCode r)))
           else (case hr_Body r of
               Inl err \<Rightarrow> Inl (ErrorString ''problem reading response from /info endpoint'')
             | Inr body \<Rightarrow>
                 (case dc_info (ev_dec ev) body of
                    Inl err \<Rightarrow> Inl (ErrorString ''problem unmarshalling JSON response from /info endpoint'')
                  | Inr info \<Rightarrow> Inr info)))
   }"

definition infoFromService :: "env \<Rightarrow> url \<Rightarrow> (world, (string \<rightharpoonup> string) option) state" where
  "infoFromService ev url = do {
     m \<leftarrow> readInfoAPIEndpoint ev url;
     ret (case m of
         Inl err \<Rightarrow> Some [''status'' \<mapsto> Error ev err]
       | Inr None \<Rightarrow> None
       | Inr (Some info) \<Rightarrow> Some (info(''status'' \<mapsto> filledIn)))
   }"

definition fillInContentServiceInfoParams :: "env \<Rightarrow> HTTPServer \<Rightarrow> (world, (string \<rightharpoonup> string) option) state" where
  "fillInContentServiceInfoParams ev sv =
     infoFromService ev (Endpoint (sc_ContentBaseEndpoint (sv_ServicesConfig sv)) ''info'' [])"

definition fillInAggregatorInfoParams :: "env \<Rightarrow> HTTPServer \<Rightarrow> (world, (string \<rightharpoonup> string) option) state" where
  "fillInAggregatorInfoParams ev sv = infoFromService ev (aggregator sv ''info'' [])"

definition infoMap :: "env \<Rightarrow> HTTPServer \<Rightarrow> http_request \<Rightarrow> (world, outcome \<times> HTTPServer) state" where
  "infoMap ev sv request =
     (case fillInSmartProxyInfoParams sv of
        (smartProxy, sv') \<Rightarrow> do {
          contentService \<leftarrow> fillInContentServiceInfoParams ev sv';
          (case contentService of
             None \<Rightarrow> ret (Panic, sv')
           | Some contentService \<Rightarrow> do {
               agg \<leftarrow> fillInAggregatorInfoParams ev sv';
               (case agg of
                  None \<Rightarrow> ret (Panic, sv')
                | Some agg \<Rightarrow> do {
                    send_handle ev (SendOK (PInfo smartProxy contentService agg));
                    ret (Done, sv')
                  })
             })
        })"

text \<open>\<open>fillInInfoParams\<close> of \<open>smart_proxy.go\<close>, with the values the build sets.\<close>

record build_info =
  bi_BuildVersion :: string
  bi_BuildTime :: string
  bi_BuildBranch :: string
  bi_BuildCommit :: string
  bi_UtilsVersion :: string

definition fillInInfoParams :: "build_info \<Rightarrow> (string \<rightharpoonup> string) \<Rightarrow> (string \<rightharpoonup> string)" where
  "fillInInfoParams b params = params(''BuildVersion'' \<mapsto> bi_BuildVersion b, ''BuildTime'' \<mapsto> bi_BuildTime b,
     ''BuildBranch'' \<mapsto> bi_BuildBranch b, ''BuildCommit'' \<mapsto> bi_BuildCommit b, ''UtilsVersion'' \<mapsto> bi_UtilsVersion b)"

end
