(* ===== verification/RuleGroups.thy ===== *)
theory RuleGroups
  imports Auth ContentHandlers
begin

text \<open>
  \<open>services/services.go\<close> and the goroutine \<open>updateGroupInfo\<close> of \<open>smart_proxy.go\<close>. The goroutine
  is a state machine: it keeps the current groups, error and flag; a tick of its clock
  fetches the groups again, and a receive on one of its three channels hands out the
  current value. \<open>getGroupsConfig\<close> receives on two of them, one after the other, and a tick
  may come in between.
\<close>

subsection \<open>\<open>services/services.go\<close>\<close>

definition getFromURL :: "env \<Rightarrow> (string \<Rightarrow> parsed_url res) \<Rightarrow> string \<Rightarrow> (world, http_response res) state" where
  "getFromURL ev parse endpoint =
     (case parse endpoint of
        Inl err \<Rightarrow> ret (Inl err)
      | Inr parsedURL \<Rightarrow> http_get ev (RawURL (url_string parsedURL)))"

definition GetGroups ::
  "env \<Rightarrow> (string \<Rightarrow> parsed_url res) \<Rightarrow> ServicesConfiguration \<Rightarrow> (world, opaque list option res) state" where
  "GetGroups ev parse conf = do {
     resp \<leftarrow> getFromURL ev parse (sc_ContentBaseEndpoint conf @ ''groups'');
     ret (case resp of Inl err \<Rightarrow> Inl err | Inr r \<Rightarrow> dc_groups (ev_dec ev) (hr_Body r))
   }"

definition GetContent ::
  "env \<Rightarrow> (string \<Rightarrow> parsed_url res) \<Rightarrow> ServicesConfiguration \<Rightarrow> (world, RuleContentDirectory res) state" where
  "GetContent ev parse conf = do {
     resp \<leftarrow> getFromURL ev parse (sc_ContentBaseEndpoint conf @ ''content'');
     ret (case resp of
         Inl err \<Rightarrow> Inl err
       | Inr r \<Rightarrow> (case hr_Body r of
             Inl err \<Rightarrow> Inl err
           | Inr respBytes \<Rightarrow> dc_content (ev_dec ev) respBytes))
   }"

subsection \<open>The goroutine\<close>

record group_state =
  gs_currentGroups :: "opaque list option"
  gs_currentErrorFound :: bool
  gs_currentError :: "gerror option"

text \<open>A fetch is an error, or the groups, \<open>None\<close> for a nil slice.\<close>

definition handleGroupError ::
  "gerror option \<Rightarrow> opaque list option \<Rightarrow> opaque list option \<Rightarrow> opaque list option \<times> bool \<times> gerror option" where
  "handleGroupError err currentGroups newGroups =
     (case err of
        Some e \<Rightarrow>
          if is_url_error e then (currentGroups, True, Some ContentServiceUnavailableError)
          else (currentGroups, True, Some e)
      | None \<Rightarrow> (newGroups, False, None))"

definition start_groups :: "opaque list option res \<Rightarrow> group_state" where
  "start_groups fetched =
     (case fetched of
        Inl err \<Rightarrow> \<lparr>gs_currentGroups = None, gs_currentErrorFound = True,
          gs_currentError = Some (if is_url_error err then ContentServiceUnavailableError else err)\<rparr>
      | Inr retrievedGroups \<Rightarrow> \<lparr>gs_currentGroups = retrievedGroups, gs_currentErrorFound = False, gs_currentError = None\<rparr>)"

definition tick_groups :: "opaque list option res \<Rightarrow> group_state \<Rightarrow> group_state" where
  "tick_groups fetched st =
     (let (err, retrievedGroups) = (case fetched of Inl e \<Rightarrow> (Some e, None) | Inr g \<Rightarrow> (None, g));
          (groups, found, err') = handleGroupError err (gs_currentGroups st) retrievedGroups
      in \<lparr>gs_currentGroups = groups, gs_currentErrorFound = found, gs_currentError = err'\<rparr>)"

datatype group_event =
    Tick "opaque list option res"
  | SendErrorFound bool
  | SendError "gerror option"
  | SendGroups "opaque list option"

text \<open>The four cases of the \<open>select\<close> in \<open>updateGroupInfo\<close>.\<close>

inductive updateGroupInfo :: "group_state \<Rightarrow> group_event \<Rightarrow> group_state \<Rightarrow> bool" where
  tick: "updateGroupInfo st (Tick fetched) (tick_groups fetched st)"
| found: "updateGroupInfo st (SendErrorFound (gs_currentErrorFound st)) st"
| error: "updateGroupInfo st (SendError (gs_currentError st)) st"
| groups: "updateGroupInfo st (SendGroups (gs_currentGroups st)) st"

inductive group_run :: "group_state \<Rightarrow> group_event list \<Rightarrow> group_state \<Rightarrow> bool" where
  run_Nil: "group_run st [] st"
| run_Cons: "updateGroupInfo st e st' \<Longrightarrow> group_run st' es st'' \<Longrightarrow> group_run st (e # es) st''"

inductive_simps updateGroupInfo_simps [simp]:
  "updateGroupInfo st (Tick f) st'" "updateGroupInfo st (SendErrorFound b) st'"
  "updateGroupInfo st (SendError e) st'" "updateGroupInfo st (SendGroups g) st'"

inductive_simps group_run_simps [simp]: "group_run st [] st'" "group_run st (e # es) st'"

text \<open>The server as a request sees it when the goroutine hands out the values of a state.\<close>

definition with_groups :: "group_state \<Rightarrow> group_state \<Rightarrow> HTTPServer \<Rightarrow> HTTPServer" where
  "with_groups st st' sv = sv\<lparr>sv_ErrorFoundChannel := Received (gs_currentErrorFound st),
     sv_ErrorChannel := gs_currentError st', sv_GroupsChannel := gs_currentGroups st'\<rparr>"

end
