(* ===== verification/Conf.thy ===== *)
theory Conf
  imports Redis Ams Auth
begin

text \<open>
  \<open>conf/configuration.go\<close>: the configuration is read from a file and from the environment,
  the access to Redis may be overridden by Clowder, and the organizations that may see
  internal rules come from a CSV file. A fatal log ends the process: \<open>Fatal\<close>.

  Viper is a parameter. Its state is what the code sets before it asks for a configuration;
  the three configurations of the logging library are opaque, of the types \<open>'l\<close>, \<open>'c\<close>
  and \<open>'s\<close>. The records of a CSV file come from the standard reader, which gives no empty
  record.
\<close>

datatype 'a fatal = Fatal string | Continue 'a

record SetupConfiguration =
  stp_InternalRulesOrganizationsCSVFile :: string

record MetricsConfiguration =
  mc_Namespace :: string

record ('l, 'c, 's) Config =
  cg_ServerConf :: Configuration
  cg_ServicesConf :: ServicesConfiguration
  cg_RedisConf :: RedisConfiguration
  cg_SetupConf :: SetupConfiguration
  cg_MetricsConf :: MetricsConfiguration
  cg_LoggingConf :: 'l
  cg_CloudWatchConf :: 'c
  cg_SentryLoggingConf :: 's
  cg_AMSClientConf :: AmsConfiguration
  cg_RBACConf :: RBACConfig

subsection \<open>Clowder\<close>

record in_memory_db =
  mdb_Hostname :: string
  mdb_Port :: int
  mdb_Username :: "string option"
  mdb_Password :: "string option"

definition updateRedisConfig :: "in_memory_db \<Rightarrow> ('l, 'c, 's) Config \<Rightarrow> ('l, 'c, 's) Config" where
  "updateRedisConfig db cg =
     (let conf = (cg_RedisConf cg)\<lparr>rcf_RedisEndpoint := mdb_Hostname db @ '':'' @ show_int (mdb_Port db)\<rparr>;
          conf = (case mdb_Username db of None \<Rightarrow> conf | Some u \<Rightarrow> conf\<lparr>rcf_RedisUsername := u\<rparr>);
          conf = (case mdb_Password db of None \<Rightarrow> conf | Some p \<Rightarrow> conf\<lparr>rcf_RedisPassword := p\<rparr>)
      in cg\<lparr>cg_RedisConf := conf\<rparr>)"

text \<open>The new configuration and the lines that are printed.\<close>

definition updateConfigFromClowder ::
  "bool \<Rightarrow> in_memory_db option \<Rightarrow> ('l, 'c, 's) Config \<Rightarrow> ('l, 'c, 's) Config \<times> string list" where
  "updateConfigFromClowder enabled inMemoryDb cg =
     (if \<not> enabled then (cg, [''Clowder is disabled''])
      else case inMemoryDb of
          Some db \<Rightarrow> (updateRedisConfig db cg, [''Clowder is enabled''])
        | None \<Rightarrow> (cg, [''Clowder is enabled'', ''warning: no in-memory database section in Clowder config'']))"

subsection \<open>Loading\<close>

text \<open>
  \<open>filepath.Split\<close> cuts after the last slash, and \<open>filepath.Ext\<close> is the part of the last path
  element from its last dot on.
\<close>

definition filepath_Split :: "string \<Rightarrow> string \<times> string" where
  "filepath_Split path =
     (rev (dropWhile (\<lambda>c. c \<noteq> CHR ''/'') (rev path)), rev (takeWhile (\<lambda>c. c \<noteq> CHR ''/'') (rev path)))"

definition Ext :: "string \<Rightarrow> string" where
  "Ext path =
     (let tl = takeWhile (\<lambda>c. c \<noteq> CHR ''/'' \<and> c \<noteq> CHR ''.'') (rev path);
          rest = drop (length tl) (rev path)
      in case rest of [] \<Rightarrow> [] | c # cs \<Rightarrow> if c = CHR ''.'' then CHR ''.'' # rev tl else [])"

datatype config_source = NothingRead | ReadFromFile | ReadFromText string

record viper =
  vp_ConfigName :: string
  vp_ConfigPath :: string
  vp_ConfigType :: string
  vp_Source :: config_source
  vp_AutomaticEnv :: bool
  vp_EnvPrefix :: string
  vp_EnvKeyReplacer :: "(string \<times> string) list"

definition empty_viper :: viper where
  "empty_viper = \<lparr>vp_ConfigName = ''config'', vp_ConfigPath = [], vp_ConfigType = [], vp_Source = NothingRead,
     vp_AutomaticEnv = False, vp_EnvPrefix = [], vp_EnvKeyReplacer = []\<rparr>"

datatype read_error = ConfigFileNotFoundError string | OtherReadError string

record ('l, 'c, 's) conf_env =
  cv_LookupEnv :: "string \<Rightarrow> string option"
  cv_ReadInConfig :: "viper \<Rightarrow> read_error option"
  cv_ReadConfig :: "viper \<Rightarrow> string \<Rightarrow> gerror option"
  cv_Encode :: "('l, 'c, 's) Config \<Rightarrow> string res"
  cv_Unmarshal :: "viper \<Rightarrow> ('l, 'c, 's) Config \<Rightarrow> ('l, 'c, 's) Config res"
  cv_IsClowderEnabled :: bool
  cv_InMemoryDb :: "in_memory_db option"

definition configFileEnvVariableName :: string where
  "configFileEnvVariableName = ''INSIGHTS_RESULTS_SMART_PROXY_CONFIG_FILE''"

definition envPrefix :: string where
  "envPrefix = ''INSIGHTS_RESULTS_SMART_PROXY_''"

fun read_error_string :: "read_error \<Rightarrow> string" where
  "read_error_string (ConfigFileNotFoundError s) = s"
| "read_error_string (OtherReadError s) = s"

definition fatal_config :: "string \<Rightarrow> gerror" where
  "fatal_config s = ErrorString (''fatal error config file: '' @ s)"

text \<open>Where the configuration is read from: a file, or the defaults written out when there is none.\<close>

definition read_source :: "('l, 'c, 's) conf_env \<Rightarrow> bool \<Rightarrow> viper \<Rightarrow> ('l, 'c, 's) Config \<Rightarrow> viper res" where
  "read_source co specified v cg =
     (case cv_ReadInConfig co v of
        None \<Rightarrow> Inr (v\<lparr>vp_Source := ReadFromFile\<rparr>)
      | Some err \<Rightarrow>
          (case err of
             ConfigFileNotFoundError s \<Rightarrow>
               if \<not> specified then
                 (case cv_Encode co cg of
                    Inl err \<Rightarrow> Inl err
                  | Inr fakeTomlConfig \<Rightarrow>
                      (let v = v\<lparr>vp_ConfigType := ''toml''\<rparr> in
                       case cv_ReadConfig co v fakeTomlConfig of
                         Some err \<Rightarrow> Inl err
                       | None \<Rightarrow> Inr (v\<lparr>vp_Source := ReadFromText fakeTomlConfig\<rparr>)))
               else Inl (fatal_config s)
           | OtherReadError s \<Rightarrow> Inl (fatal_config s)))"

definition LoadConfiguration ::
  "env \<Rightarrow> ('l, 'c, 's) conf_env \<Rightarrow> string \<Rightarrow> ('l, 'c, 's) Config \<Rightarrow> (('l, 'c, 's) Config \<times> string list) res" where
  "LoadConfiguration ev co defaultConfigFile cg =
     (let (specified, v) =
        (case cv_LookupEnv co configFileEnvVariableName of
           Some configFile \<Rightarrow>
             (let (directory, basename) = filepath_Split configFile;
                  file = TrimSuffix basename (Ext basename)
              in (True, empty_viper\<lparr>vp_ConfigName := file, vp_ConfigPath := directory\<rparr>))
         | None \<Rightarrow> (False, empty_viper\<lparr>vp_ConfigName := defaultConfigFile, vp_ConfigPath := ''.''\<rparr>))
      in case read_source co specified v cg of
           Inl err \<Rightarrow> Inl err
         | Inr v \<Rightarrow>
             (let v = v\<lparr>vp_AutomaticEnv := True, vp_EnvPrefix := envPrefix,
                        vp_EnvKeyReplacer := [(''-'', ''_''), (''.'', ''__'')]\<rparr>
              in case cv_Unmarshal co v cg of
                   Inl err \<Rightarrow> Inl (fatal_config (Error ev err))
                 | Inr cg \<Rightarrow> Inr (updateConfigFromClowder (cv_IsClowderEnabled co) (cv_InMemoryDb co) cg)))"

subsection \<open>Organizations for internal rules\<close>

text \<open>
  \<open>strconv.ParseUint\<close> in base 10 with 32 bits. A line that the CSV reader returns has at least
  one field: it skips empty lines.
\<close>

definition ParseUint32 :: "string \<Rightarrow> OrgID option" where
  "ParseUint32 s = (if s \<noteq> [] \<and> list_all is_digit s \<and> read_nat s < 2 ^ 32 then Some (of_nat (read_nat s)) else None)"

fun org_ids_lines :: "nat \<Rightarrow> string list list \<Rightarrow> OrgID list \<Rightarrow> OrgID list res" where
  "org_ids_lines index [] orgIDs = Inr orgIDs"
| "org_ids_lines index (line # rest) orgIDs =
     (if index = 0 then org_ids_lines (index + 1) rest orgIDs
      else case ParseUint32 (hd line) of
          None \<Rightarrow> Inl (ErrorString (''organization ID on line '' @ show_nat (index + 1)
            @ '' in CSV is not numerical. Found value: '' @ hd line))
        | Some orgID \<Rightarrow> org_ids_lines (index + 1) rest (orgIDs @ [orgID]))"

definition loadOrgIDsFromCSV :: "env \<Rightarrow> string list list res \<Rightarrow> OrgID list res" where
  "loadOrgIDsFromCSV ev csv_lines =
     (case csv_lines of
        Inl err \<Rightarrow> Inl (ErrorString (''error reading CSV file: '' @ Error ev err))
      | Inr csv_lines \<Rightarrow> org_ids_lines 0 csv_lines [])"

datatype file_stat = StatNotExist | StatError gerror | StatFile bool

record files =
  fs_Stat :: "string \<Rightarrow> file_stat"
  fs_ReadFile :: "string \<Rightarrow> string res"
  fs_csvRead :: "string \<Rightarrow> string list list res"

definition getInternalRulesOrganizations :: "env \<Rightarrow> files \<Rightarrow> ('l, 'c, 's) Config \<Rightarrow> OrgID list fatal" where
  "getInternalRulesOrganizations ev fs cg =
     (let csvFile = stp_InternalRulesOrganizationsCSVFile (cg_SetupConf cg) in
      if \<not> cf_EnableInternalRulesOrganizations (cg_ServerConf cg) then Continue []
      else if csvFile = [] then Fatal ''Internal organizations enabled, but none supplied''
      else case fs_ReadFile fs csvFile of
          Inl err \<Rightarrow> Fatal ''Internal organizations file could not be opened''
        | Inr internalRulesCSVData \<Rightarrow>
            (case loadOrgIDsFromCSV ev (fs_csvRead fs internalRulesCSVData) of
               Inl err \<Rightarrow> Fatal ''Internal organizations CSV could not be processed''
             | Inr internalOrganizations \<Rightarrow> Continue internalOrganizations))"

subsection \<open>Access to the configuration\<close>

text \<open>Nil exactly for an existing regular file.\<close>

definition checkIfFileExists :: "(string \<Rightarrow> file_stat) \<Rightarrow> string \<Rightarrow> gerror option" where
  "checkIfFileExists Stat path =
     (if path = [] then Some (ErrorString ''empty path provided'')
      else case Stat path of
          StatNotExist \<Rightarrow> Some (ErrorString (''OpenAPI spec file path does not exist. Path: '' @ [CHR 0x27] @ path @ [CHR 0x27]))
        | StatError err \<Rightarrow> Some err
        | StatFile isRegular \<Rightarrow>
            if \<not> isRegular then Some (ErrorString (''OpenAPI spec file path is not a file. Path: '' @ [CHR 0x27] @ path @ [CHR 0x27]))
            else None)"

text \<open>The server configuration, and the global configuration it was completed in.\<close>

definition GetServerConfiguration ::
  "env \<Rightarrow> files \<Rightarrow> ('l, 'c, 's) Config \<Rightarrow> (Configuration \<times> ('l, 'c, 's) Config) fatal" where
  "GetServerConfiguration ev fs cg =
     (if checkIfFileExists (fs_Stat fs) (cf_APIv1SpecFile (cg_ServerConf cg)) \<noteq> None then
        Fatal ''API V1: All customer facing APIs MUST serve the current OpenAPI specification''
      else if checkIfFileExists (fs_Stat fs) (cf_APIv2SpecFile (cg_ServerConf cg)) \<noteq> None then
        Fatal ''API V2: All customer facing APIs MUST serve the current OpenAPI specification''
      else case getInternalRulesOrganizations ev fs cg of
          Fatal s \<Rightarrow> Fatal s
        | Continue orgs \<Rightarrow>
            (let cg = cg\<lparr>cg_ServerConf := (cg_ServerConf cg)\<lparr>cf_InternalRulesOrganizations := orgs\<rparr>\<rparr>
             in Continue (cg_ServerConf cg, cg)))"

definition GetServicesConfiguration :: "('l, 'c, 's) Config \<Rightarrow> ServicesConfiguration" where
  "GetServicesConfiguration cg = cg_ServicesConf cg"

definition GetSetupConfiguration :: "('l, 'c, 's) Config \<Rightarrow> SetupConfiguration" where
  "GetSetupConfiguration cg = cg_SetupConf cg"

definition GetMetricsConfiguration :: "('l, 'c, 's) Config \<Rightarrow> MetricsConfiguration" where
  "GetMetricsConfiguration cg = cg_MetricsConf cg"

definition GetLoggingConfiguration :: "('l, 'c, 's) Config \<Rightarrow> 'l" where
  "GetLoggingConfiguration cg = cg_LoggingConf cg"

definition GetCloudWatchConfiguration :: "('l, 'c, 's) Config \<Rightarrow> 'c" where
  "GetCloudWatchConfiguration cg = cg_CloudWatchConf cg"

definition GetSentryLoggingConfiguration :: "('l, 'c, 's) Config \<Rightarrow> 's" where
  "GetSentryLoggingConfiguration cg = cg_SentryLoggingConf cg"

definition GetAMSClientConfiguration :: "('l, 'c, 's) Config \<Rightarrow> AmsConfiguration" where
  "GetAMSClientConfiguration cg = cg_AMSClientConf cg"

definition GetRedisConfiguration :: "('l, 'c, 's) Config \<Rightarrow> RedisConfiguration" where
  "GetRedisConfiguration cg = cg_RedisConf cg"

definition GetRBACConfiguration :: "('l, 'c, 's) Config \<Rightarrow> RBACConfig" where
  "GetRBACConfiguration cg = cg_RBACConf cg"

lemmas getter_defs = GetServicesConfiguration_def GetSetupConfiguration_def GetMetricsConfiguration_def
  GetLoggingConfiguration_def GetCloudWatchConfiguration_def GetSentryLoggingConfiguration_def
  GetAMSClientConfiguration_def GetRedisConfiguration_def GetRBACConfiguration_def

end
