(* ===== verification/Metrics.thy ===== *)
theory Metrics
  imports Auth "HOL-Library.Monad_Syntax"
begin

text \<open>
  \<open>server/metrics_middleware.go\<close>: the normalization of user agents, and the middleware that
  counts requests by endpoint and user agent. The counter vector of the metrics library is
  a map from its labels to a number; the route of a request, when there is one, is a
  parameter. \<open>metrics/metrics.go\<close>: the counters and their registration under a namespace.
\<close>

definition normalizeUserAgent :: "string \<Rightarrow> string" where
  "normalizeUserAgent userAgent =
     (if userAgent = [] then ''unknown''
      else
        let userAgent = ToLower userAgent in
        if Contains userAgent ''insights-operator/mcp-server'' then ''insights-operator/mcp-server''
        else if Contains userAgent ''insights-operator'' then ''insights-operator''
        else if Contains userAgent ''acm-operator'' then ''acm-operator''
        else if Contains userAgent ''mozilla'' then ''browser''
        else if Contains userAgent ''curl'' then ''curl''
        else if Contains userAgent ''wget'' then ''wget''
        else if Contains userAgent ''python'' then ''python-client''
        else if Contains userAgent ''go-http-client'' then ''go-client''
        else if Contains userAgent ''okhttp'' then ''okhttp-client''
        else ''unknown'')"

text \<open>\<open>None\<close> is a request without a route, \<open>Inl\<close> a route without a template.\<close>

definition getEndpointFromRequest :: "(http_request \<Rightarrow> string res option) \<Rightarrow> http_request \<Rightarrow> string" where
  "getEndpointFromRequest route r =
     (case route r of None \<Rightarrow> [] | Some (Inl err) \<Rightarrow> [] | Some (Inr endpoint) \<Rightarrow> endpoint)"

type_synonym counters = "string \<times> string \<Rightarrow> nat"

definition MetricsMiddleware ::
  "(http_request \<Rightarrow> string res option) \<Rightarrow> phandler \<Rightarrow> http_request \<Rightarrow> counters \<Rightarrow> world \<Rightarrow> counters \<times> world option" where
  "MetricsMiddleware route next r counter w =
     (if HasSuffix (rq_Path r) ''/metrics'' then (counter, next r w)
      else
        let normalizedUserAgent = normalizeUserAgent (header_get (rq_Header r) ''User-Agent'');
            endpoint = getEndpointFromRequest route r;
            counter = counter((endpoint, normalizedUserAgent) := counter (endpoint, normalizedUserAgent) + 1)
        in (counter, next r w))"

subsection \<open>Registration of the counters\<close>

text \<open>
  The registry of the metrics library holds the full names of the collectors with their
  labels. \<open>promauto\<close> panics, which is \<open>None\<close>, when the full name is taken. The options of the
  three counters are variables, whose namespace is set before they are registered again;
  the counters of the operator utilities are a parameter.
\<close>

record CounterOpts =
  co_Namespace :: string
  co_Name :: string
  co_Help :: string

definition BuildFQName :: "CounterOpts \<Rightarrow> string" where
  "BuildFQName opts = (if co_Namespace opts = [] then co_Name opts else co_Namespace opts @ ''_'' @ co_Name opts)"

type_synonym registry = "(string \<times> string list) list"

definition promauto_NewCounterVec :: "CounterOpts \<Rightarrow> string list \<Rightarrow> registry \<Rightarrow> registry option" where
  "promauto_NewCounterVec opts labels reg =
     (if BuildFQName opts \<in> fst ` set reg then None else Some (reg @ [(BuildFQName opts, labels)]))"

definition rbacIdentityTypeOps :: CounterOpts where
  "rbacIdentityTypeOps = \<lparr>co_Namespace = [], co_Name = ''rbac_identity_type'',
     co_Help = ''The total number of requesters by identity type''\<rparr>"

definition rbacServiceAccountRejectedOps :: CounterOpts where
  "rbacServiceAccountRejectedOps = \<lparr>co_Namespace = [], co_Name = ''rbac_service_accounts_rejected'',
     co_Help = ''The total number of service accounts that were rejected due to ACL''\<rparr>"

definition apiEndpointsRequestsWithUserAgentOps :: CounterOpts where
  "apiEndpointsRequestsWithUserAgentOps = \<lparr>co_Namespace = [], co_Name = ''api_endpoints_user_agent'',
     co_Help = ''The total number of requests per endpoint with user agent information''\<rparr>"

definition register_counters :: "string \<Rightarrow> registry \<Rightarrow> registry option" where
  "register_counters namespace reg = do {
     reg \<leftarrow> promauto_NewCounterVec (rbacIdentityTypeOps\<lparr>co_Namespace := namespace\<rparr>) [''type''] reg;
     reg \<leftarrow> promauto_NewCounterVec (rbacServiceAccountRejectedOps\<lparr>co_Namespace := namespace\<rparr>) [] reg;
     promauto_NewCounterVec (apiEndpointsRequestsWithUserAgentOps\<lparr>co_Namespace := namespace\<rparr>) [''endpoint'', ''user_agent''] reg
   }"

definition AddAPIMetricsWithNamespace ::
  "(string \<Rightarrow> registry \<Rightarrow> registry option) \<Rightarrow> string \<Rightarrow> registry \<Rightarrow> registry option" where
  "AddAPIMetricsWithNamespace utils_metrics namespace reg = do {
     reg \<leftarrow> utils_metrics namespace reg;
     register_counters namespace reg
   }"

text \<open>
  Registration succeeds exactly when none of the three names is taken, and then the three
  collectors are added; in particular the registration under a namespace does not clash
  with the one at initialization, and a second one under the same namespace panics.
\<close>

abbreviation own_counters :: "string \<Rightarrow> registry" where
  "own_counters namespace \<equiv>
     [(BuildFQName (rbacIdentityTypeOps\<lparr>co_Namespace := namespace\<rparr>), [''type'']),
      (BuildFQName (rbacServiceAccountRejectedOps\<lparr>co_Namespace := namespace\<rparr>), []),
      (BuildFQName (apiEndpointsRequestsWithUserAgentOps\<lparr>co_Namespace := namespace\<rparr>), [''endpoint'', ''user_agent''])]"

lemma register_counters_spec:
  "register_counters namespace reg =
     (if fst ` set reg \<inter> fst ` set (own_counters namespace) = {} then Some (reg @ own_counters namespace) else None)"
  by (auto simp: register_counters_def promauto_NewCounterVec_def BuildFQName_def rbacIdentityTypeOps_def
      rbacServiceAccountRejectedOps_def apiEndpointsRequestsWithUserAgentOps_def)

lemma namespaces_disjoint:
  assumes "namespace \<noteq> []" and "hd namespace \<notin> {CHR ''r'', CHR ''a''}"
  shows "register_counters namespace (own_counters []) = Some (own_counters [] @ own_counters namespace)"
    and "register_counters namespace (own_counters namespace) = None"
  using assms
  by (cases namespace; auto simp: register_counters_spec BuildFQName_def rbacIdentityTypeOps_def
      rbacServiceAccountRejectedOps_def apiEndpointsRequestsWithUserAgentOps_def)+

end
