(* ===== verification/Service_Props.thy ===== *)
theory Service_Props
  imports Proxy Info RuleGroups Conf Metrics Reports_Props Recommendations_Props
begin

text \<open>
  The proxy passes requests on unchanged but with the identity of the token; the goroutine
  of the groups and its clients; the list of organizations for internal rules; the user
  agents; the endpoint \<open>info\<close>.
\<close>

subsection \<open>The proxy\<close>

lemma map_of_add_values:
  assumes "canonical True k = k"
  shows "map_of (add_values k vs dst) =
    (if vs = [] then map_of dst else (map_of dst)(k \<mapsto> (case map_of dst k of None \<Rightarrow> [] | Some us \<Rightarrow> us) @ vs))"
  using assms
  by (induction vs arbitrary: dst) (auto simp: header_add_def update_conv' fun_eq_iff)

lemma map_of_copyHeader:
  assumes "distinct (map fst h)" and "\<And>k vs. (k, vs) \<in> set h \<Longrightarrow> canonical True k = k \<and> vs \<noteq> []"
    and "\<And>k. k \<in> fst ` set h \<Longrightarrow> map_of dst k = None"
  shows "map_of (copyHeader h dst) = map_of dst ++ map_of h"
  using assms
proof (induction h arbitrary: dst)
  case (Cons e h)
  obtain k vs where e: "e = (k, vs)" by (cases e)
  let ?dst = "add_values k vs dst"
  have k: "map_of ?dst = (map_of dst)(k \<mapsto> vs)"
    using Cons.prems(2) [of k vs] Cons.prems(3) [of k] by (simp add: e map_of_add_values)
  have "map_of (copyHeader h ?dst) = map_of ?dst ++ map_of h"
  proof (rule Cons.IH)
    show "map_of ?dst k' = None" if "k' \<in> fst ` set h" for k'
      using that Cons.prems(1) Cons.prems(3) [of k'] by (auto simp: k e)
  qed (use Cons.prems in \<open>auto simp: e\<close>)
  moreover have "map_of h k = None" using Cons.prems(1) by (simp add: e map_of_eq_None_iff)
  ultimately show ?case by (auto simp: e k map_add_def fun_eq_iff split: option.split)
qed simp

text \<open>
  Claim C21: the proxy is transparent. Without modifiers, a request whose target can be
  composed and reached is sent with its method, its body and its headers, header by header
  with the same values in the same order, and the client gets the status and the body of
  the answer.
\<close>

theorem proxy_transparent:
  assumes "sends_ok ev" and "composeEndpoint px sv base (rq_RequestURI request) = Inr url"
    and "ev_url_ok ev (RawURL url) = None"
    and "distinct (map fst (rq_Header request))"
    and "\<And>k vs. (k, vs) \<in> set (rq_Header request) \<Longrightarrow> canonical True k = k \<and> vs \<noteq> []"
    and "\<And>c. ca_Method c = rq_Method request \<Longrightarrow> ca_URL c = RawURL url \<Longrightarrow> ca_Body c = BodyReader (rq_Body request) \<Longrightarrow>
      map_of (ca_Header c) = map_of (rq_Header request) \<Longrightarrow> net ev (w_calls w) c = Inr resp"
    and "hr_Body resp = Inr body"
  shows "\<exists>c. run_state (proxyTo ev px sv base None request) w =
      (Done, add_reply (Send (hr_StatusCode resp) (PBytes body)) (add_call c w)) \<and>
    ca_Method c = rq_Method request \<and> ca_URL c = RawURL url \<and> ca_Body c = BodyReader (rq_Body request) \<and>
    map_of (ca_Header c) = map_of (rq_Header request)"
proof -
  let ?c = "\<lparr>ca_Method = rq_Method request, ca_URL = RawURL url, ca_Header = copyHeader (rq_Header request) [],
    ca_Body = BodyReader (rq_Body request)\<rparr>"
  have h: "map_of (copyHeader (rq_Header request) []) = map_of (rq_Header request)"
    using map_of_copyHeader [OF assms(4,5), of "[]"] by simp
  have "net ev (w_calls w) ?c = Inr resp" by (rule assms(6)) (simp_all add: h)
  then have "run_state (proxyTo ev px sv base None request) w =
      (Done, add_reply (Send (hr_StatusCode resp) (PBytes body)) (add_call ?c w))"
    using assms(1-3,7) by (simp add: proxyTo_def sendRequest_def)
  with h show ?thesis by (intro exI [of _ ?c]) simp
qed

definition sample_px :: proxy_env where
  "sample_px = \<lparr>px_MakeURL = (\<lambda>prefix e vars. prefix @ e @ concat (map (\<lambda>(k, v). ''/'' @ v) vars)),
     px_Parse = (\<lambda>u. Inr (u, u)), px_JoinPath = (\<lambda>b e. Inr (b @ ''/'' @ e))\<rparr>"

theorem proxy_transparent_witness:
  "\<exists>c. run_state (proxyTo (sample_env\<lparr>net := (\<lambda>_ _. Inr \<lparr>hr_StatusCode = 201, hr_Header = [], hr_Body = Inr ''b''\<rparr>), ev_dec := sample_dec\<rparr>)
      sample_px sample_server ''agg'' None (sample_request\<lparr>rq_Header := [(''Accept'', [''x'', ''y''])]\<rparr>)) empty_world =
      (Done, add_reply (Send 201 (PBytes ''b'')) (add_call c empty_world)) \<and>
    ca_URL c = RawURL ''agg/rule'' \<and> map_of (ca_Header c) ''Accept'' = Some [''x'', ''y'']"
proof -
  let ?ev = "sample_env\<lparr>net := (\<lambda>_ _. Inr \<lparr>hr_StatusCode = 201, hr_Header = [], hr_Body = Inr ''b''\<rparr>), ev_dec := sample_dec\<rparr>"
  let ?rq = "sample_request\<lparr>rq_Header := [(''Accept'', [''x'', ''y''])]\<rparr>"
  have "composeEndpoint sample_px sample_server ''agg'' (rq_RequestURI ?rq) = Inr ''agg/rule''" by code_simp
  moreover have "canonical True ''Accept'' = ''Accept''" by code_simp
  moreover have "ev_url_ok ?ev u = None" for u by (simp add: sample_env_def)
  ultimately have "\<exists>c. run_state (proxyTo ?ev sample_px sample_server ''agg'' None ?rq) empty_world =
      (Done, add_reply (Send 201 (PBytes ''b'')) (add_call c empty_world)) \<and>
    ca_URL c = RawURL ''agg/rule'' \<and> map_of (ca_Header c) = map_of (rq_Header ?rq)"
    using proxy_transparent [of ?ev sample_px sample_server "''agg''" ?rq "''agg/rule''" empty_world
      "\<lparr>hr_StatusCode = 201, hr_Header = [], hr_Body = Inr ''b''\<rparr>" "''b''"]
    by auto
  then show ?thesis by auto
qed

text \<open>The options of the proxied rule endpoints.\<close>

definition vote_options :: "env \<Rightarrow> proxy_env \<Rightarrow> HTTPServer \<Rightarrow> string \<Rightarrow> ProxyOptions" where
  "vote_options ev px sv endpoint = \<lparr>po_RequestModifiers =
     [extractUserIDOrgIDFromTokenToURLRequestModifier px sv endpoint, checkRuleIDAndErrorKeyAreValid ev (sv_content sv)],
     po_ResponseModifiers = []\<rparr>"

lemma with_new_url_ok:
  assumes "with_new_url px sv endpoint vars request = Inr request'"
  obtains path uri where "px_Parse px (px_MakeURL px (cf_APIv1Prefix (sv_Config sv)) endpoint vars) = Inr (path, uri)"
    "request' = request\<lparr>rq_Vars := vars, rq_Path := path, rq_RequestURI := uri\<rparr>"
  using assms by (auto simp: with_new_url_def Let_def split: sum.splits)

text \<open>
  Claim C22: a vote or feedback on a rule that is passed on to the aggregator carries the
  identity of the token. When a call is made at all, the request has an identity, the URL
  is built from variables in which the user and the organization are those of the token,
  whatever the path said, while all other variables are those of the path, and the content
  of the rule named by these variables exists.
\<close>

theorem proxied_identity:
  assumes "w_calls (snd (run_state (proxyTo ev px sv base (Some (vote_options ev px sv endpoint)) request) w)) \<noteq> w_calls w"
  shows "\<exists>i vars path uri url c rule key content. rq_User request = IdentityValue i \<and>
    map_of vars ''user_id'' = Some (id_UserID i) \<and> map_of vars ''org_id'' = Some (show_nat (unat (id_OrgID i))) \<and>
    (\<forall>v. v = ''user_id'' \<or> v = ''org_id'' \<or> map_of vars v = map_of (rq_Vars request) v) \<and>
    px_Parse px (px_MakeURL px (cf_APIv1Prefix (sv_Config sv)) endpoint vars) = Inr (path, uri) \<and>
    ev_GetRouterParam ev (request\<lparr>rq_Vars := vars, rq_Path := path, rq_RequestURI := uri\<rparr>) ''rule_id'' = Inr rule \<and>
    ev_GetRouterParam ev (request\<lparr>rq_Vars := vars, rq_Path := path, rq_RequestURI := uri\<rparr>) ''error_key'' = Inr key \<and>
    GetRuleWithErrorKeyContent (sv_content sv) rule key = Inr content \<and>
    composeEndpoint px sv base uri = Inr url \<and> ca_URL c = RawURL url \<and> ca_Method c = rq_Method request \<and>
    w_calls (snd (run_state (proxyTo ev px sv base (Some (vote_options ev px sv endpoint)) request) w)) = w_calls w @ [c]"
proof -
  let ?run = "run_state (proxyTo ev px sv base (Some (vote_options ev px sv endpoint)) request) w"
  obtain rq' where mod: "modifyRequest (po_RequestModifiers (vote_options ev px sv endpoint)) request = Inr rq'"
    using assms by (cases "modifyRequest (po_RequestModifiers (vote_options ev px sv endpoint)) request") (auto simp: proxyTo_def)
  then obtain rq1 where rq1: "extractUserIDOrgIDFromTokenToURLRequestModifier px sv endpoint request = Inr rq1"
    and check: "checkRuleIDAndErrorKeyAreValid ev (sv_content sv) rq1 = Inr rq'"
    by (auto simp: vote_options_def split: sum.splits)
  from rq1 obtain i vars where i: "rq_User request = IdentityValue i" and
    vars: "vars = AList.update ''org_id'' (show_nat (unat (id_OrgID i))) (AList.update ''user_id'' (id_UserID i) (rq_Vars request))"
    and url: "with_new_url px sv endpoint vars request = Inr rq1"
    by (cases request rule: GetCurrentOrgID_cases) (auto simp: extractUserIDOrgIDFromTokenToURLRequestModifier_def)
  from url obtain path uri where u: "px_Parse px (px_MakeURL px (cf_APIv1Prefix (sv_Config sv)) endpoint vars) = Inr (path, uri)"
    "rq1 = request\<lparr>rq_Vars := vars, rq_Path := path, rq_RequestURI := uri\<rparr>" by (rule with_new_url_ok)
  from check obtain rule key content where c: "rq' = rq1" "ev_GetRouterParam ev rq1 ''rule_id'' = Inr rule"
    "ev_GetRouterParam ev rq1 ''error_key'' = Inr key" "GetRuleWithErrorKeyContent (sv_content sv) rule key = Inr content"
    by (auto simp: checkRuleIDAndErrorKeyAreValid_def split: sum.splits)
  obtain target where t: "composeEndpoint px sv base uri = Inr target"
    using assms mod c(1) u(2) by (cases "composeEndpoint px sv base uri") (auto simp: proxyTo_def)
  let ?c = "\<lparr>ca_Method = rq_Method request, ca_URL = RawURL target, ca_Header = copyHeader (rq_Header request) [],
    ca_Body = BodyReader (rq_Body request)\<rparr>"
  have "w_calls (snd ?run) = w_calls w @ [?c]"
    using assms mod c(1) u(2) t
    by (auto simp: proxyTo_def sendRequest_def evaluateProxyError_def run_send_handle split: option.splits sum.splits prod.splits)
  moreover have "map_of vars ''user_id'' = Some (id_UserID i)" "map_of vars ''org_id'' = Some (show_nat (unat (id_OrgID i)))"
    "\<forall>v. v = ''user_id'' \<or> v = ''org_id'' \<or> map_of vars v = map_of (rq_Vars request) v"
    by (auto simp: vars update_conv')
  ultimately show ?thesis
    using i u c t by (intro exI [of _ i] exI [of _ vars] exI [of _ path] exI [of _ uri] exI [of _ target] exI [of _ ?c]
      exI [of _ rule] exI [of _ key] exI [of _ content]) simp
qed

definition vote_server :: HTTPServer where
  "vote_server = sample_server\<lparr>sv_content := \<lparr>cs_ruleContentDirectory = Some [],
     cs_storage = getEmptyRulesWithContentMap\<lparr>st_rulesWithContent := [(''r'', ''K'') \<mapsto> sample_content]\<rparr>\<rparr>\<rparr>"

definition vote_request :: http_request where
  "vote_request = sample_request\<lparr>rq_User := IdentityValue sample_identity,
     rq_Vars := [(''rule_id'', ''r''), (''error_key'', ''K''), (''user_id'', ''mallory'')]\<rparr>"

theorem proxied_identity_witness:
  "\<exists>vars path uri url c. map_of vars ''user_id'' = Some ''u'' \<and> map_of vars ''rule_id'' = Some ''r'' \<and>
    px_Parse sample_px (px_MakeURL sample_px ''/api/v1/'' ''like'' vars) = Inr (path, uri) \<and>
    composeEndpoint sample_px vote_server ''agg'' uri = Inr url \<and> ca_URL c = RawURL url \<and>
    w_calls (snd (run_state (proxyTo sample_env sample_px vote_server ''agg''
      (Some (vote_options sample_env sample_px vote_server ''like'')) vote_request) empty_world)) = [c]"
proof -
  let ?vars = "AList.update ''org_id'' (show_nat (unat (1 :: OrgID))) (AList.update ''user_id'' ''u'' (rq_Vars vote_request))"
  have "GetCurrentOrgIDUserIDFromToken vote_request = Inr (1, ''u'')"
    by (simp add: vote_request_def sample_identity_def GetCurrentOrgIDUserIDFromToken_def GetAuthToken_def)
  then have "modifyRequest (po_RequestModifiers (vote_options sample_env sample_px vote_server ''like'')) vote_request =
      Inr (vote_request\<lparr>rq_Vars := ?vars, rq_Path := px_MakeURL sample_px ''/api/v1/'' ''like'' ?vars,
        rq_RequestURI := px_MakeURL sample_px ''/api/v1/'' ''like'' ?vars\<rparr>)"
    by (simp add: vote_options_def extractUserIDOrgIDFromTokenToURLRequestModifier_def with_new_url_def sample_px_def
        checkRuleIDAndErrorKeyAreValid_def sample_env_def vote_server_def sample_server_def New_def sample_config_def
        vote_request_def GetRuleWithErrorKeyContent_def when_ready_def WaitForContentDirectoryToBeReady_def
        storage_GetRuleWithErrorKeyContent_def TrimSuffix_def suffix_def getEmptyRulesWithContentMap_def Let_def)
  then have "w_calls (snd (run_state (proxyTo sample_env sample_px vote_server ''agg''
      (Some (vote_options sample_env sample_px vote_server ''like'')) vote_request) empty_world)) \<noteq> w_calls empty_world"
    by (simp add: proxyTo_def composeEndpoint_def sample_px_def sample_env_def sendRequest_def evaluateProxyError_def Let_def)
  from proxied_identity [OF this] obtain vars path uri url c where
    "map_of vars ''user_id'' = Some ''u''" "map_of vars ''rule_id'' = Some ''r''"
    "px_Parse sample_px (px_MakeURL sample_px ''/api/v1/'' ''like'' vars) = Inr (path, uri)"
    "composeEndpoint sample_px vote_server ''agg'' uri = Inr url" "ca_URL c = RawURL url"
    "w_calls (snd (run_state (proxyTo sample_env sample_px vote_server ''agg''
      (Some (vote_options sample_env sample_px vote_server ''like'')) vote_request) empty_world)) = [c]"
    by (auto simp: vote_request_def sample_identity_def empty_world_def vote_server_def sample_server_def New_def sample_config_def
        dest!: spec [of _ "''rule_id''"])
  then show ?thesis by blast
qed

subsection \<open>The groups\<close>

definition last_groups :: "opaque list option res \<Rightarrow> group_event list \<Rightarrow> opaque list option" where
  "last_groups first es = foldl (\<lambda>g e. case e of Tick (Inr g') \<Rightarrow> g' | _ \<Rightarrow> g) (case first of Inr g \<Rightarrow> g | Inl e \<Rightarrow> None) es"

lemma group_run_consistent:
  "group_run st es st' \<Longrightarrow> gs_currentErrorFound st = (gs_currentError st \<noteq> None) \<Longrightarrow>
     gs_currentErrorFound st' = (gs_currentError st' \<noteq> None) \<and>
     gs_currentGroups st' = foldl (\<lambda>g e. case e of Tick (Inr g') \<Rightarrow> g' | _ \<Rightarrow> g) (gs_currentGroups st) es"
proof (induction rule: group_run.induct)
  case (run_Cons st e st' es st'')
  have "gs_currentErrorFound st' = (gs_currentError st' \<noteq> None) \<and>
      gs_currentGroups st' = (case e of Tick (Inr g') \<Rightarrow> g' | _ \<Rightarrow> gs_currentGroups st)"
    using run_Cons.hyps(1) run_Cons.prems
    by (cases rule: updateGroupInfo.cases)
       (auto simp: tick_groups_def handleGroupError_def split: sum.split)
  with run_Cons.IH show ?case by simp
qed simp

text \<open>
  Claim C34: the goroutine of the groups. Along every run of its ticks and of the receives on
  its channels, the flag says whether there is an error, and the groups are those of the
  last fetch that succeeded, whatever failed since. A client that receives both its values
  from one state gets the error or, without one, exactly these groups.
\<close>

theorem groups_of_last_success:
  assumes "group_run (start_groups first) es st"
  shows "gs_currentErrorFound st = (gs_currentError st \<noteq> None) \<and> gs_currentGroups st = last_groups first es \<and>
    getGroupsConfig (with_groups st st sv) =
      (case gs_currentError st of
         Some e \<Rightarrow> (None, Some e)
       | None \<Rightarrow> (case last_groups first es of
           None \<Rightarrow> (None, Some (ErrorString ''no groups retrieved''))
         | Some g \<Rightarrow> (Some g, None)))"
proof -
  have "gs_currentErrorFound (start_groups first) = (gs_currentError (start_groups first) \<noteq> None) \<and>
      gs_currentGroups (start_groups first) = (case first of Inr g \<Rightarrow> g | Inl e \<Rightarrow> None)"
    by (simp add: start_groups_def split: sum.split)
  with group_run_consistent [OF assms] show ?thesis
    by (auto simp: last_groups_def getGroupsConfig_def with_groups_def split: option.split)
qed

theorem groups_of_last_success_witness:
  "getGroupsConfig (with_groups
      \<lparr>gs_currentGroups = Some [], gs_currentErrorFound = True, gs_currentError = Some ContentServiceUnavailableError\<rparr>
      \<lparr>gs_currentGroups = Some [], gs_currentErrorFound = True, gs_currentError = Some ContentServiceUnavailableError\<rparr> sample_server) =
     (None, Some ContentServiceUnavailableError)"
proof -
  have "group_run (start_groups (Inr (Some []))) [SendErrorFound False, Tick (Inl (UrlError ''u''))]
      \<lparr>gs_currentGroups = Some [], gs_currentErrorFound = True, gs_currentError = Some ContentServiceUnavailableError\<rparr>"
    by (simp add: start_groups_def tick_groups_def handleGroupError_def)
  from groups_of_last_success [OF this, of sample_server] show ?thesis by simp
qed

text \<open>
  A tick between the two receives of a client can lose the error. When the flag is
  received while there is an error, and the groups are fetched again before the error is
  received, the client gets neither an error nor groups, and the groups endpoint answers
  with status 200 and no groups.
\<close>

lemma groups_race:
  assumes "gs_currentErrorFound st" and "sends_ok ev"
  shows "getGroupsConfig (with_groups st (tick_groups (Inr g) st) sv) = (None, None) \<and>
    run_state (getGroups ev (with_groups st (tick_groups (Inr g) st) sv) request) w = ((), add_reply (SendOK (PGroups None)) w)"
  using assms by (simp add: getGroupsConfig_def with_groups_def tick_groups_def handleGroupError_def getGroups_def)

lemma groups_race_instance:
  "getGroupsConfig (with_groups (start_groups (Inl (UrlError ''u''))) (tick_groups (Inr (Some [])) (start_groups (Inl (UrlError ''u'')))) sample_server) =
     (None, None)"
  using groups_race [of "start_groups (Inl (UrlError ''u''))" sample_env "Some []" sample_server]
  by (simp add: start_groups_def)

subsection \<open>Configuration\<close>

lemma org_ids_lines_eq:
  assumes "0 < n"
  shows "org_ids_lines n ls acc = Inr ids \<longleftrightarrow> (\<exists>new. ids = acc @ new \<and> map (\<lambda>l. ParseUint32 (hd l)) ls = map Some new)"
  using assms
proof (induction ls arbitrary: n acc)
  case (Cons l ls)
  then show ?case
    by (cases "ParseUint32 (hd l)") (auto simp: Cons_eq_map_conv)
qed auto

lemma ParseUint32_show: "ParseUint32 (show_nat (unat (g :: OrgID))) = Some g"
  using unsigned_less [of g] by (simp add: ParseUint32_def list_all_iff show_nat_digits)

text \<open>
  Claim C40: the list of organizations for internal rules. After its header, the CSV file is
  accepted exactly when the first field of every line is a decimal number below
  \<open>2 ^ 32\<close>, and then these numbers, in order, are the organizations; a file that lists
  organizations in decimal gives back exactly them.
\<close>

theorem org_ids_from_csv:
  "(loadOrgIDsFromCSV ev (Inr (header # ls)) = Inr ids \<longleftrightarrow> map (\<lambda>l. ParseUint32 (hd l)) ls = map Some ids) \<and>
   loadOrgIDsFromCSV ev (Inr (header # map (\<lambda>g. [show_nat (unat g)]) orgs)) = Inr orgs"
proof -
  have csv: "loadOrgIDsFromCSV ev (Inr (header # ls)) = Inr ids \<longleftrightarrow> map (\<lambda>l. ParseUint32 (hd l)) ls = map Some ids" for ls ids
    using org_ids_lines_eq [of 1 ls "[]" ids] by (simp add: loadOrgIDsFromCSV_def)
  moreover have "loadOrgIDsFromCSV ev (Inr (header # map (\<lambda>g. [show_nat (unat g)]) orgs)) = Inr orgs"
    unfolding csv by (simp add: ParseUint32_show)
  ultimately show ?thesis by simp
qed

lemma checkIfFileExists_iff: "checkIfFileExists stat path = None \<longleftrightarrow> path \<noteq> [] \<and> stat path = StatFile True"
  by (auto simp: checkIfFileExists_def split: file_stat.split)

subsection \<open>User agents\<close>

lemma lower_lower: "lower_char (lower_char c) = lower_char c"
  by (auto simp: lower_char_def Let_def of_char_of take_bit_eq_mod)

lemma normalize_cases:
  assumes "P ''unknown''" "P ''insights-operator/mcp-server''" "P ''insights-operator''" "P ''acm-operator''" "P ''browser''"
    "P ''curl''" "P ''wget''" "P ''python-client''" "P ''go-client''" "P ''okhttp-client''"
  shows "P (normalizeUserAgent s)"
  using assms by (simp add: normalizeUserAgent_def Let_def)

text \<open>
  A user agent is counted under one of ten names, whatever the client sends, and
  upper and lower case make no difference.
\<close>

lemma user_agent_bounded:
  "normalizeUserAgent s \<in> {''unknown'', ''insights-operator/mcp-server'', ''insights-operator'', ''acm-operator'', ''browser'',
     ''curl'', ''wget'', ''python-client'', ''go-client'', ''okhttp-client''} \<and>
   normalizeUserAgent (ToLower s) = normalizeUserAgent s"
proof
  show "normalizeUserAgent s \<in> {''unknown'', ''insights-operator/mcp-server'', ''insights-operator'', ''acm-operator'', ''browser'',
     ''curl'', ''wget'', ''python-client'', ''go-client'', ''okhttp-client''}"
    by (rule normalize_cases) simp_all
  have "ToLower (ToLower s) = ToLower s" by (simp add: ToLower_def lower_lower comp_def)
  moreover have "ToLower s = [] \<longleftrightarrow> s = []" by (simp add: ToLower_def)
  ultimately show "normalizeUserAgent (ToLower s) = normalizeUserAgent s"
    by (simp only: normalizeUserAgent_def Let_def)
qed

subsection \<open>The endpoint \<open>info\<close>\<close>

lemma readInfo_calls:
  "run_state (readInfoAPIEndpoint ev url) w =
     (fst (run_state (readInfoAPIEndpoint ev url) w), add_call (get_call url) w)"
  by (simp add: readInfoAPIEndpoint_def http_get_call)

text \<open>
  The endpoint \<open>info\<close> answers once and with status 200, whatever the other services
  do, unless one of them sends an answer whose info part is null: an unreachable service,
  a bad status or an unreadable body becomes the status entry of its part. The entry of
  the smart proxy itself says that it is filled in.
\<close>

lemma info_answers:
  assumes "sends_ok ev" and "\<And>b. dc_info (ev_dec ev) b \<noteq> Inr None"
  shows "\<exists>own cs agg sv' w'. run_state (infoMap ev sv request) w = ((Done, sv'), w') \<and>
    w_replies w' = w_replies w @ [SendOK (PInfo own cs agg)] \<and>
    own ''status'' = Some (if sv_InfoParams sv = None then ''InfoParams is empty'' else ''ok'') \<and>
    cs ''status'' \<noteq> None \<and> agg ''status'' \<noteq> None"
proof -
  have ok: "\<exists>m w'. run_state (infoFromService ev url) w = (Some m, w') \<and> w_replies w' = w_replies w \<and> m ''status'' \<noteq> None" for url w
    using assms(2)
    by (auto simp: infoFromService_def readInfoAPIEndpoint_def http_get_call split: sum.split option.split)
  obtain own sv' where own: "fillInSmartProxyInfoParams sv = (own, sv')"
    "own ''status'' = Some (if sv_InfoParams sv = None then ''InfoParams is empty'' else ''ok'')"
    by (cases "sv_InfoParams sv") (auto simp: fillInSmartProxyInfoParams_def Let_def)
  obtain cs w1 where cs: "run_state (fillInContentServiceInfoParams ev sv') w = (Some cs, w1)" "w_replies w1 = w_replies w" "cs ''status'' \<noteq> None"
    using ok unfolding fillInContentServiceInfoParams_def by blast
  obtain agg w2 where agg: "run_state (fillInAggregatorInfoParams ev sv') w1 = (Some agg, w2)" "w_replies w2 = w_replies w1" "agg ''status'' \<noteq> None"
    using ok unfolding fillInAggregatorInfoParams_def by blast
  show ?thesis
    using own cs agg assms(1)
    by (intro exI [of _ own] exI [of _ cs] exI [of _ agg] exI [of _ sv'] exI [of _ "add_reply (SendOK (PInfo own cs agg)) w2"])
       (simp add: infoMap_def)
qed

lemma info_answers_instance:
  "\<exists>own cs agg sv' w'. run_state (infoMap sample_env sample_server sample_request) empty_world = ((Done, sv'), w') \<and>
    w_replies w' = [SendOK (PInfo own cs agg)] \<and> own ''status'' = Some ''ok''"
  using info_answers [of sample_env sample_server sample_request empty_world]
  by (auto simp: sample_env_def sample_dec_def sample_server_def New_def empty_world_def sends_ok_def)

end
