(* ===== verification/Endpoints.thy ===== *)
theory Endpoints
  imports Main
begin

text \<open>
  The paths of \<open>server/endpoints_v1.go\<close>, \<open>server/endpoints_v2.go\<close> and
  \<open>server/endpoints_dbg.go\<close>, relative to the prefix of
  their version. The endpoints that are constants of the aggregator are parameters of the
  router.
\<close>

subsection \<open>Version 1\<close>

definition MainEndpoint :: string where
  [simp]: "MainEndpoint = ''''"

definition OldReportEndpoint :: string where
  [simp]: "OldReportEndpoint = ''report/{org_id}/{cluster}''"

definition ReportEndpoint :: string where
  [simp]: "ReportEndpoint = ''clusters/{cluster}/report''"

definition ReportMetainfoEndpoint :: string where
  [simp]: "ReportMetainfoEndpoint = ''clusters/{cluster}/report/info''"

definition ReportForListOfClustersEndpoint :: string where
  [simp]: "ReportForListOfClustersEndpoint = ''clusters/{cluster_list}/reports''"

definition ReportForListOfClustersPayloadEndpoint :: string where
  [simp]: "ReportForListOfClustersPayloadEndpoint = ''clusters/reports''"

definition RuleGroupsEndpoint :: string where
  [simp]: "RuleGroupsEndpoint = ''groups''"

definition RuleContent_path :: string where
  [simp]: "RuleContent_path = ''rules/{rule_id}/content''"

definition RuleIDs :: string where
  [simp]: "RuleIDs = ''rule_ids''"

definition Content_path :: string where
  [simp]: "Content_path = ''content''"

definition SingleRuleEndpoint :: string where
  [simp]: "SingleRuleEndpoint = ''clusters/{cluster}/rules/{rule_id}/report''"

definition MetricsEndpoint :: string where
  [simp]: "MetricsEndpoint = ''metrics''"

definition LikeRuleEndpoint :: string where
  [simp]: "LikeRuleEndpoint = ''clusters/{cluster}/rules/{rule_id}/error_key/{error_key}/like''"

definition DislikeRuleEndpoint :: string where
  [simp]: "DislikeRuleEndpoint = ''clusters/{cluster}/rules/{rule_id}/error_key/{error_key}/dislike''"

definition ResetVoteOnRuleEndpoint :: string where
  [simp]: "ResetVoteOnRuleEndpoint = ''clusters/{cluster}/rules/{rule_id}/error_key/{error_key}/reset_vote''"

definition GetVoteOnRuleEndpoint :: string where
  [simp]: "GetVoteOnRuleEndpoint = ''clusters/{cluster}/rules/{rule_id}/error_key/{error_key}/get_vote''"

definition DisableRuleForClusterEndpoint :: string where
  [simp]: "DisableRuleForClusterEndpoint = ''clusters/{cluster}/rules/{rule_id}/error_key/{error_key}/disable''"

definition EnableRuleForClusterEndpoint :: string where
  [simp]: "EnableRuleForClusterEndpoint = ''clusters/{cluster}/rules/{rule_id}/error_key/{error_key}/enable''"

definition DisableRuleFeedbackEndpoint :: string where
  [simp]: "DisableRuleFeedbackEndpoint = ''clusters/{cluster}/rules/{rule_id}/error_key/{error_key}/disable_feedback''"

definition OverviewEndpoint :: string where
  [simp]: "OverviewEndpoint = ''org_overview''"

definition ClustersForOrganizationEndpoint :: string where
  [simp]: "ClustersForOrganizationEndpoint = ''organizations/{organization}/clusters''"

definition InfoEndpoint :: string where
  [simp]: "InfoEndpoint = ''info''"

subsection \<open>Version 2\<close>

definition ReportEndpointV2 :: string where
  [simp]: "ReportEndpointV2 = ''cluster/{cluster}/reports''"

definition ClusterInfoEndpoint :: string where
  [simp]: "ClusterInfoEndpoint = ''cluster/{cluster}/info''"

definition UpgradeRisksPredictionEndpoint :: string where
  [simp]: "UpgradeRisksPredictionEndpoint = ''cluster/{cluster}/upgrade-risks-prediction''"

definition UpgradeRisksPredictionMultiClusterEndpoint :: string where
  [simp]: "UpgradeRisksPredictionMultiClusterEndpoint = ''upgrade-risks-prediction''"

definition ClustersDetail :: string where
  [simp]: "ClustersDetail = ''rule/{rule_selector}/clusters_detail''"

definition RecommendationsListEndpoint :: string where
  [simp]: "RecommendationsListEndpoint = ''rule''"

definition ClustersRecommendationsEndpoint :: string where
  [simp]: "ClustersRecommendationsEndpoint = ''clusters''"

definition RuleContentV2_path :: string where
  [simp]: "RuleContentV2_path = ''rule/{rule_id}/content''"

definition RuleContentWithUserData :: string where
  [simp]: "RuleContentWithUserData = ''rule/{rule_id}''"

definition ContentV2 :: string where
  [simp]: "ContentV2 = ''content''"

definition ListAllRequestIDs :: string where
  [simp]: "ListAllRequestIDs = ''cluster/{cluster}/requests''"

definition StatusOfRequestID :: string where
  [simp]: "StatusOfRequestID = ''cluster/{cluster}/request/{request_id}/status''"

definition RuleHitsForRequestID :: string where
  [simp]: "RuleHitsForRequestID = ''cluster/{cluster}/request/{request_id}/report''"

definition AckListEndpoint :: string where
  [simp]: "AckListEndpoint = ''ack''"

definition AckGetEndpoint :: string where
  [simp]: "AckGetEndpoint = ''ack/{rule_id}''"

definition AckAcknowledgePostEndpoint :: string where
  [simp]: "AckAcknowledgePostEndpoint = ''ack''"

definition AckUpdateEndpoint :: string where
  [simp]: "AckUpdateEndpoint = ''ack/{rule_id}''"

definition AckDeleteEndpoint :: string where
  [simp]: "AckDeleteEndpoint = ''ack/{rule_id}''"

definition Rating :: string where
  [simp]: "Rating = ''rating''"

definition DVONamespaceForClusterEndpoint :: string where
  [simp]: "DVONamespaceForClusterEndpoint = ''namespaces/dvo/{namespace}/cluster/{cluster}''"

definition DVONamespaceListEndpoint :: string where
  [simp]: "DVONamespaceListEndpoint = ''namespaces/dvo''"

subsection \<open>Debug\<close>

definition DbgGetVoteOnRuleEndpoint :: string where
  [simp]: "DbgGetVoteOnRuleEndpoint = ''clusters/{cluster}/rules/{rule_id}/error_key/{error_key}/get_vote''"

end
