(* ===== verification/Router.thy ===== *)
theory Router
  imports Endpoints Acks ContentHandlers Overview Requests Dvo Upgrade Proxy Info Metrics
begin

text \<open>
  The routes: \<open>server/endpoints_v1.go\<close>, \<open>server/endpoints_v2.go\<close>, \<open>server/endpoints_dbg.go\<close>, and
  \<open>Initialize\<close> of \<open>server/server.go\<close>, which wraps the router in the middlewares.

  \<open>router_env\<close> holds what comes from elsewhere: the matching of a path template and a list of
  methods against a request, which yields the path variables, the redirect that a path with
  a different trailing slash gets instead of its handler (\<open>StrictSlash\<close>), the answer to a
  request without a route, the endpoint constants of the aggregator, the handlers of the
  metrics, of the profiler and of the OpenAPI files, and the logging and CORS middlewares.
  Middlewares run for requests that have a route only, and a panic of a handler ends its
  request.
\<close>

record route =
  ro_Path :: string
  ro_Prefix :: bool
  ro_Methods :: "string list"
  ro_Handler :: "http_request \<Rightarrow> (world, outcome) state"

type_synonym chandler = "http_request \<Rightarrow> counters \<Rightarrow> world \<Rightarrow> counters \<times> world option"

record router_env =
  rx_match :: "string \<Rightarrow> bool \<Rightarrow> string list \<Rightarrow> http_request \<Rightarrow> (string \<times> string) list option"
  rx_redirect :: "string \<Rightarrow> http_request \<Rightarrow> handler option"
  rx_not_found :: phandler
  rx_ira :: "string \<Rightarrow> string"
  rx_metrics :: handler
  rx_pprof :: handler
  rx_openapi :: "string \<Rightarrow> bool \<Rightarrow> handler"
  rx_LogRequest :: "chandler \<Rightarrow> chandler"
  rx_CORS :: "phandler \<Rightarrow> phandler"

definition HandleFunc :: "string \<Rightarrow> (http_request \<Rightarrow> (world, outcome) state) \<Rightarrow> string list \<Rightarrow> route" where
  "HandleFunc path h methods = \<lparr>ro_Path = path, ro_Prefix = False, ro_Methods = methods, ro_Handler = h\<rparr>"

definition simple :: "handler \<Rightarrow> http_request \<Rightarrow> (world, outcome) state" where
  "simple h request = do { h request; ret Done }"

abbreviation (input) GET :: string where "GET \<equiv> ''GET''"
abbreviation (input) POST :: string where "POST \<equiv> ''POST''"
abbreviation (input) PUT :: string where "PUT \<equiv> ''PUT''"
abbreviation (input) DELETE :: string where "DELETE \<equiv> ''DELETE''"
abbreviation (input) OPTIONS :: string where "OPTIONS \<equiv> ''OPTIONS''"

definition info_handler :: "env \<Rightarrow> HTTPServer \<Rightarrow> http_request \<Rightarrow> (world, outcome) state" where
  "info_handler ev sv request = do { (r, sv') \<leftarrow> infoMap ev sv request; ret r }"

definition modified :: "RequestModifier list \<Rightarrow> ProxyOptions option" where
  "modified ms = Some \<lparr>po_RequestModifiers = ms, po_ResponseModifiers = []\<rparr>"

subsection \<open>Version 1\<close>

definition addV1ReportsEndpointsToRouter :: "env \<Rightarrow> HTTPServer \<Rightarrow> string \<Rightarrow> route list" where
  "addV1ReportsEndpointsToRouter ev sv apiPrefix =
     [HandleFunc (apiPrefix @ OldReportEndpoint) (reportEndpointV1 ev sv) [GET, OPTIONS],
      HandleFunc (apiPrefix @ ReportEndpoint) (reportEndpointV1 ev sv) [GET, OPTIONS],
      HandleFunc (apiPrefix @ ReportMetainfoEndpoint) (simple (reportMetainfoEndpoint ev sv)) [GET, OPTIONS],
      HandleFunc (apiPrefix @ ReportForListOfClustersEndpoint) (simple (reportForListOfClustersEndpoint ev sv)) [GET],
      HandleFunc (apiPrefix @ ReportForListOfClustersPayloadEndpoint) (simple (reportForListOfClustersPayloadEndpoint ev sv)) [POST]]"

definition addV1DebugEndpointsToRouter ::
  "env \<Rightarrow> proxy_env \<Rightarrow> router_env \<Rightarrow> HTTPServer \<Rightarrow> string \<Rightarrow> string \<Rightarrow> route list" where
  "addV1DebugEndpointsToRouter ev px rx sv apiPrefix aggregatorBaseURL =
     [HandleFunc (apiPrefix @ rx_ira rx ''OrganizationsEndpoint'') (proxyTo ev px sv aggregatorBaseURL None) [GET],
      HandleFunc (apiPrefix @ rx_ira rx ''DeleteOrganizationsEndpoint'') (proxyTo ev px sv aggregatorBaseURL None) [DELETE],
      HandleFunc (apiPrefix @ rx_ira rx ''DeleteClustersEndpoint'') (proxyTo ev px sv aggregatorBaseURL None) [DELETE],
      HandleFunc (apiPrefix @ GetVoteOnRuleEndpoint) (proxyTo ev px sv aggregatorBaseURL (modified
        [newExtractUserIDFromTokenToURLRequestModifier px sv (rx_ira rx ''GetVoteOnRuleEndpoint'')])) [GET]]"

definition addV1RuleEndpointsToRouter ::
  "env \<Rightarrow> proxy_env \<Rightarrow> router_env \<Rightarrow> HTTPServer \<Rightarrow> string \<Rightarrow> string \<Rightarrow> route list" where
  "addV1RuleEndpointsToRouter ev px rx sv apiPrefix aggregatorBaseEndpoint =
     (let user_org = (\<lambda>e. modified [extractUserIDOrgIDFromTokenToURLRequestModifier px sv (rx_ira rx e),
            checkRuleIDAndErrorKeyAreValid ev (sv_content sv)]);
          org = (\<lambda>e. modified [extractOrgIDFromTokenToURLRequestModifier px sv (rx_ira rx e),
            checkRuleIDAndErrorKeyAreValid ev (sv_content sv)])
      in [HandleFunc (apiPrefix @ SingleRuleEndpoint) (singleRuleEndpoint ev sv) [GET, OPTIONS],
          HandleFunc (apiPrefix @ LikeRuleEndpoint)
            (proxyTo ev px sv aggregatorBaseEndpoint (user_org ''LikeRuleEndpoint'')) [PUT, OPTIONS],
          HandleFunc (apiPrefix @ DislikeRuleEndpoint)
            (proxyTo ev px sv aggregatorBaseEndpoint (user_org ''DislikeRuleEndpoint'')) [PUT, OPTIONS],
          HandleFunc (apiPrefix @ ResetVoteOnRuleEndpoint)
            (proxyTo ev px sv aggregatorBaseEndpoint (user_org ''ResetVoteOnRuleEndpoint'')) [PUT, OPTIONS],
          HandleFunc (apiPrefix @ DisableRuleForClusterEndpoint)
            (proxyTo ev px sv aggregatorBaseEndpoint (org ''DisableRuleForClusterEndpoint'')) [PUT, OPTIONS],
          HandleFunc (apiPrefix @ EnableRuleForClusterEndpoint)
            (proxyTo ev px sv aggregatorBaseEndpoint (org ''EnableRuleForClusterEndpoint'')) [PUT, OPTIONS],
          HandleFunc (apiPrefix @ DisableRuleFeedbackEndpoint)
            (proxyTo ev px sv aggregatorBaseEndpoint (user_org ''DisableRuleFeedbackEndpoint'')) [POST, OPTIONS]])"

definition addV1ContentEndpointsToRouter :: "env \<Rightarrow> HTTPServer \<Rightarrow> route list" where
  "addV1ContentEndpointsToRouter ev sv =
     (let apiPrefix = cf_APIv1Prefix (sv_Config sv) in
      [HandleFunc (apiPrefix @ RuleGroupsEndpoint) (simple (getGroups ev sv)) [GET, OPTIONS],
       HandleFunc (apiPrefix @ RuleContent_path) (simple (getContentForRuleV1 ev sv)) [GET],
       HandleFunc (apiPrefix @ RuleIDs) (simple (getRuleIDs ev sv)) [GET],
       HandleFunc (apiPrefix @ Content_path) (simple (getContentV1 ev sv)) [GET]])"

definition addV1EndpointsToRouter :: "env \<Rightarrow> proxy_env \<Rightarrow> router_env \<Rightarrow> HTTPServer \<Rightarrow> route list" where
  "addV1EndpointsToRouter ev px rx sv =
     (let apiPrefix = cf_APIv1Prefix (sv_Config sv);
          openAPIURL = apiPrefix @ path_base (cf_APIv1SpecFile (sv_Config sv));
          aggregatorBaseEndpoint = sc_AggregatorBaseEndpoint (sv_ServicesConfig sv)
      in (if cf_Debug (sv_Config sv) then addV1DebugEndpointsToRouter ev px rx sv apiPrefix aggregatorBaseEndpoint else []) @
         [HandleFunc (apiPrefix @ MainEndpoint) (simple (mainEndpoint ev sv)) [GET],
          HandleFunc (apiPrefix @ ClustersForOrganizationEndpoint) (simple (getClustersForOrg ev sv)) [GET],
          HandleFunc (apiPrefix @ OverviewEndpoint) (simple (overviewEndpoint ev sv)) [GET],
          HandleFunc (apiPrefix @ OverviewEndpoint) (simple (overviewEndpointWithClusterIDs ev sv)) [POST],
          HandleFunc (apiPrefix @ InfoEndpoint) (info_handler ev sv) [GET, OPTIONS]] @
         addV1ReportsEndpointsToRouter ev sv apiPrefix @
         addV1ContentEndpointsToRouter ev sv @
         addV1RuleEndpointsToRouter ev px rx sv apiPrefix aggregatorBaseEndpoint @
         [HandleFunc (apiPrefix @ MetricsEndpoint) (simple (rx_metrics rx)) [GET],
          HandleFunc openAPIURL (simple (rx_openapi rx (cf_APIv1SpecFile (sv_Config sv)) (cf_Debug (sv_Config sv)))) [GET]])"

subsection \<open>Version 2\<close>

definition addV2RedisEndpointsToRouter :: "env \<Rightarrow> HTTPServer \<Rightarrow> string \<Rightarrow> route list" where
  "addV2RedisEndpointsToRouter ev sv apiPrefix =
     [HandleFunc (apiPrefix @ ListAllRequestIDs) (getRequestsForCluster ev sv) [GET],
      HandleFunc (apiPrefix @ ListAllRequestIDs) (simple (getRequestsForClusterPostVariant ev sv)) [POST],
      HandleFunc (apiPrefix @ StatusOfRequestID) (simple (getRequestStatusForCluster ev sv)) [GET],
      HandleFunc (apiPrefix @ RuleHitsForRequestID) (simple (getReportForRequest ev sv)) [GET]]"

definition addV2DVOEndpointsToRouter :: "env \<Rightarrow> HTTPServer \<Rightarrow> string \<Rightarrow> route list" where
  "addV2DVOEndpointsToRouter ev sv apiPrefix =
     [HandleFunc (apiPrefix @ DVONamespaceForClusterEndpoint) (getDVONamespacesForCluster ev sv) [GET],
      HandleFunc (apiPrefix @ DVONamespaceListEndpoint) (getDVONamespaceList ev sv) [GET]]"

definition addV2ReportsEndpointsToRouter :: "env \<Rightarrow> HTTPServer \<Rightarrow> string \<Rightarrow> route list" where
  "addV2ReportsEndpointsToRouter ev sv apiPrefix =
     [HandleFunc (apiPrefix @ ReportEndpointV2) (reportEndpointV2 ev sv) [GET, OPTIONS],
      HandleFunc (apiPrefix @ ClusterInfoEndpoint) (simple (getSingleClusterInfo ev sv)) [GET],
      HandleFunc (apiPrefix @ RecommendationsListEndpoint) (simple (getRecommendations ev sv)) [GET],
      HandleFunc (apiPrefix @ ClustersRecommendationsEndpoint) (getClustersView ev sv) [GET]]"

definition addV2RuleEndpointsToRouter :: "env \<Rightarrow> HTTPServer \<Rightarrow> string \<Rightarrow> route list" where
  "addV2RuleEndpointsToRouter ev sv apiPrefix =
     [HandleFunc (apiPrefix @ AckListEndpoint) (simple (readAckList ev sv)) [GET],
      HandleFunc (apiPrefix @ AckGetEndpoint) (simple (getAcknowledge ev sv)) [GET],
      HandleFunc (apiPrefix @ AckAcknowledgePostEndpoint) (simple (acknowledgePost ev sv)) [POST],
      HandleFunc (apiPrefix @ AckUpdateEndpoint) (simple (updateAcknowledge ev sv)) [PUT],
      HandleFunc (apiPrefix @ AckDeleteEndpoint) (simple (deleteAcknowledge ev sv)) [DELETE],
      HandleFunc (apiPrefix @ Rating) (simple (postRating ev sv)) [POST],
      HandleFunc (apiPrefix @ ClustersDetail) (simple (getClustersDetailForRule ev sv)) [GET]]"

definition addV2ContentEndpointsToRouter :: "env \<Rightarrow> HTTPServer \<Rightarrow> string \<Rightarrow> route list" where
  "addV2ContentEndpointsToRouter ev sv apiPrefix =
     [HandleFunc (apiPrefix @ RuleContentV2_path) (getRecommendationContent ev sv) [GET],
      HandleFunc (apiPrefix @ RuleContentWithUserData) (getRecommendationContentWithUserData ev sv) [GET],
      HandleFunc (apiPrefix @ ContentV2) (simple (getContentWithGroups ev sv)) [GET]]"

definition addV2EndpointsToRouter :: "env \<Rightarrow> router_env \<Rightarrow> HTTPServer \<Rightarrow> route list" where
  "addV2EndpointsToRouter ev rx sv =
     (let apiV2Prefix = cf_APIv2Prefix (sv_Config sv);
          openAPIv2URL = apiV2Prefix @ path_base (cf_APIv2SpecFile (sv_Config sv))
      in [HandleFunc (apiV2Prefix @ MainEndpoint) (simple (mainEndpoint ev sv)) [GET],
          HandleFunc (apiV2Prefix @ RuleGroupsEndpoint) (simple (getGroups ev sv)) [GET, OPTIONS]] @
         addV2ReportsEndpointsToRouter ev sv apiV2Prefix @
         addV2ContentEndpointsToRouter ev sv apiV2Prefix @
         addV2RuleEndpointsToRouter ev sv apiV2Prefix @
         addV2RedisEndpointsToRouter ev sv apiV2Prefix @
         addV2DVOEndpointsToRouter ev sv apiV2Prefix @
         [HandleFunc (apiV2Prefix @ MetricsEndpoint) (simple (rx_metrics rx)) [GET],
          HandleFunc (apiV2Prefix @ InfoEndpoint) (info_handler ev sv) [GET, OPTIONS],
          HandleFunc (apiV2Prefix @ UpgradeRisksPredictionEndpoint) (simple (upgradeRisksPrediction ev sv)) [GET],
          HandleFunc (apiV2Prefix @ UpgradeRisksPredictionMultiClusterEndpoint) (simple (upgradeRisksPredictionMultiCluster ev sv)) [POST],
          HandleFunc openAPIv2URL (simple (rx_openapi rx (cf_APIv2SpecFile (sv_Config sv)) (cf_Debug (sv_Config sv)))) [GET]])"

subsection \<open>The whole service\<close>

definition adddbgEndpointsToRouter :: "env \<Rightarrow> proxy_env \<Rightarrow> router_env \<Rightarrow> HTTPServer \<Rightarrow> route list" where
  "adddbgEndpointsToRouter ev px rx sv =
     [HandleFunc (cf_APIdbgPrefix (sv_Config sv) @ DbgGetVoteOnRuleEndpoint)
        (proxyTo ev px sv (sc_AggregatorBaseEndpoint (sv_ServicesConfig sv)) (modified
          [newExtractUserIDFromTokenToURLRequestModifier px sv (rx_ira rx ''GetVoteOnRuleEndpoint'')])) [GET],
      \<lparr>ro_Path = ''/debug/pprof/'', ro_Prefix = True, ro_Methods = [], ro_Handler = simple (rx_pprof rx)\<rparr>]"

definition addEndpointsToRouter :: "env \<Rightarrow> proxy_env \<Rightarrow> router_env \<Rightarrow> HTTPServer \<Rightarrow> route list" where
  "addEndpointsToRouter ev px rx sv =
     (if cf_Debug (sv_Config sv) then adddbgEndpointsToRouter ev px rx sv else []) @
     addV1EndpointsToRouter ev px rx sv @ addV2EndpointsToRouter ev rx sv"

definition serve :: "(http_request \<Rightarrow> (world, outcome) state) \<Rightarrow> phandler" where
  "serve h request w = (case run_state (h request) w of (Hang, w') \<Rightarrow> None | (r, w') \<Rightarrow> Some w')"

fun find_route :: "router_env \<Rightarrow> http_request \<Rightarrow> route list \<Rightarrow> (route \<times> (string \<times> string) list) option" where
  "find_route rx request [] = None"
| "find_route rx request (r # rest) =
     (case rx_match rx (ro_Path r) (ro_Prefix r) (ro_Methods r) request of
        Some vars \<Rightarrow> Some (r, vars)
      | None \<Rightarrow> find_route rx request rest)"

text \<open>
  \<open>Initialize\<close>: the middlewares in the order in which they are registered, the first one
  outermost. The counters of the metrics are part of the state of the service.
\<close>

definition Initialize :: "env \<Rightarrow> proxy_env \<Rightarrow> router_env \<Rightarrow> HTTPServer \<Rightarrow> chandler" where
  "Initialize ev px rx sv request counter w =
     (case find_route rx request (addEndpointsToRouter ev px rx sv) of
        None \<Rightarrow> (counter, rx_not_found rx request w)
      | Some (r, vars) \<Rightarrow>
          (let handler = serve (case rx_redirect rx (ro_Path r) request of
                 Some redirect \<Rightarrow> simple redirect | None \<Rightarrow> ro_Handler r);
               cors = (if cf_EnableCORS (sv_Config sv) then rx_CORS rx handler else handler);
               auth = setupAuthMiddleware ev sv cors;
               counted = MetricsMiddleware (\<lambda>_. Some (Inr (ro_Path r))) auth
           in rx_LogRequest rx counted (request\<lparr>rq_Vars := vars\<rparr>) counter w))"

end
