(* ===== verification/Router_Props.thy ===== *)
theory Router_Props
  imports Router Effects Redis_Props Service_Props
begin

text \<open>
  Properties of the assembled service: the handlers that answer every request exactly
  once, and what the chain of middlewares around the routes guarantees.
\<close>

subsection \<open>Handlers that answer exactly once\<close>

lemma asks_cases [once_rules]:
  "(\<And>e. x = Inl e \<Longrightarrow> asks ok (f e)) \<Longrightarrow> (\<And>v. x = Inr v \<Longrightarrow> asks ok (g v)) \<Longrightarrow>
     asks ok (case x of Inl e \<Rightarrow> f e | Inr v \<Rightarrow> g v)"
  by (auto split: sum.split)

lemma asks_refused [once_rules]: "once m \<Longrightarrow> \<not> ok x \<Longrightarrow> asks ok (m \<bind> (\<lambda>_. ret x))"
  by (simp add: once_def asks_def split_beta)

lemma asks_ext_read [once_rules]:
  assumes "refuses_once r" and "\<And>v. r = Inr v \<Longrightarrow> asks ok (f (Some v))" and "f None = ret x" and "\<not> ok x"
  shows "asks ok (ext_read r \<bind> f)"
proof (cases r)
  case (Inl rs)
  with assms show ?thesis by (simp add: asks_def adds_replies_def refuses_once_def)
next
  case (Inr v)
  with assms(2) [of v] show ?thesis by (simp add: asks_def)
qed

lemma once_parameter [once_rules]:
  "(\<And>v. once (f (Inr v))) \<Longrightarrow> (\<And>e. silent (f (Inl e))) \<Longrightarrow> once (readRuleIDWithErrorKey ev rq \<bind> f)"
  "(\<And>v. once (g (Inr v))) \<Longrightarrow> (\<And>e. silent (g (Inl e))) \<Longrightarrow> once (readRequestID ev rq \<bind> g)"
  "(\<And>v. once (h (Inr v))) \<Longrightarrow> (\<And>e. silent (h (Inl e))) \<Longrightarrow> once (readRequestIDList ev rq \<bind> h)"
  by (rule once_bind_asks [OF read_rule.as_service.asks_read] once_bind_asks [OF read_request_id.as_service.asks_read]
      once_bind_asks [OF read_request_list.as_service.asks_read]; case_tac x; simp)+

lemma once_redis_ready [once_rules]:
  assumes "\<And>r. once (f (Some r))" and "silent (f None)"
  shows "once (checkRedisClientReadiness ev sv \<bind> f)"
  using assms by (cases "sv_redis sv") (simp_all add: checkRedisClientReadiness_def once_def silent_def adds_replies_def)

lemma silent_calls [simp]:
  "silent (readRuleDisableStatus ev sv r k g)" "silent (readListOfAckedRules ev sv g)"
  "silent (set_header n v)" "silent (updateAckRuleSystemWide ev sv r k g j)" "silent (deleteAckRuleSystemWide ev sv r k g)"
  by (simp_all add: silent_def readRuleDisableStatus_def readListOfAckedRules_def updateAckRuleSystemWide_def
      deleteAckRuleSystemWide_def Let_def split: option.split)

lemma silent_cluster_infos [simp]: "silent (readClusterInfoForOrgID ev sv g)"
  by (simp add: silent_def readClusterInfoForOrgID_def getClusterDetailsFromAggregator_def http_get_def
      split: option.split)

lemma once_bind_calls [once_rules]:
  "(\<And>x. once (f x)) \<Longrightarrow> once (set_header n v \<bind> f)"
  "(\<And>x. once (g x)) \<Longrightarrow> once (readRuleDisableStatus ev sv r k oid \<bind> g)"
  "(\<And>x. once (h x)) \<Longrightarrow> once (readListOfAckedRules ev sv oid \<bind> h)"
  "(\<And>x. once (i x)) \<Longrightarrow> once (updateAckRuleSystemWide ev sv r k oid j \<bind> i)"
  "(\<And>x. once (i x)) \<Longrightarrow> once (deleteAckRuleSystemWide ev sv r k oid \<bind> i)"
  "(\<And>x. once (l x)) \<Longrightarrow> once (readClusterInfoForOrgID ev sv oid \<bind> l)"
  by (simp_all add: once_bind_silent)

lemma asks_reports:
  assumes "readers_answer_once ev"
  shows "asks (\<lambda>r. r \<noteq> None) (fetchAggregatorReports ev sv request)"
    "asks (\<lambda>r. r \<noteq> None) (fetchAggregatorReportsUsingRequestBodyClusterList ev sv request)"
proof -
  have "refuses_once (ev_ReadClusterListFromPath ev request)" using assms by (simp add: readers_answer_once_def)
  then show "asks (\<lambda>r. r \<noteq> None) (fetchAggregatorReports ev sv request)"
    unfolding fetchAggregatorReports_def
    using cluster_list_reader.asks_read by (auto intro!: once_rules)
  show "asks (\<lambda>r. r \<noteq> None) (fetchAggregatorReportsUsingRequestBodyClusterList ev sv request)"
    unfolding fetchAggregatorReportsUsingRequestBodyClusterList_def
    using cluster_body_reader.asks_read by (auto intro!: once_rules)
qed

text \<open>
  The handlers with this guarantee. The others call a reader that may already have
  answered, may return without an answer, or write a status line and a body separately
  (\<open>acknowledgePost\<close>).
\<close>

definition single_answer_handlers :: "env \<Rightarrow> HTTPServer \<Rightarrow> handler list" where
  "single_answer_handlers ev sv =
     [mainEndpoint ev sv, getGroups ev sv, getContentForRuleV1 ev sv, getContentV1 ev sv, getRuleIDs ev sv,
      getContentWithGroups ev sv, getClustersForOrg ev sv, getSingleClusterInfo ev sv, readAckList ev sv,
      getAcknowledge ev sv, updateAcknowledge ev sv, deleteAcknowledge ev sv, getRequestStatusForCluster ev sv,
      getRequestsForClusterPostVariant ev sv, reportForListOfClustersEndpoint ev sv,
      reportForListOfClustersPayloadEndpoint ev sv]"

lemma once_content_handlers:
  assumes "sends_ok ev" and "readers_answer_once ev"
  shows "once (mainEndpoint ev sv rq)" "once (getGroups ev sv rq)" "once (getContentForRuleV1 ev sv rq)"
    "once (getContentV1 ev sv rq)" "once (getRuleIDs ev sv rq)" "once (getContentWithGroups ev sv rq)"
    "once (getClustersForOrg ev sv rq)"
  using assms unfolding mainEndpoint_def getGroups_def getContentForRuleV1_def getContentV1_def getRuleIDs_def
    getContentWithGroups_def getClustersForOrg_def Let_def
  by (auto intro!: once_rules simp: readers_answer_once_def)

lemma once_ack_handlers:
  shows "once (getAcknowledge ev sv rq)" "once (updateAcknowledge ev sv rq)" "once (deleteAcknowledge ev sv rq)"
    "sends_ok ev \<Longrightarrow> once (readAckList ev sv rq)"
  unfolding getAcknowledge_def updateAcknowledge_def deleteAcknowledge_def readAckList_def returnRuleAckToClient_def
  by (auto intro!: once_rules)

lemma once_request_handlers:
  assumes "sends_ok ev" and "readers_answer_once ev"
  shows "once (getRequestStatusForCluster ev sv rq)" "once (getRequestsForClusterPostVariant ev sv rq)"
    "once (getSingleClusterInfo ev sv rq)"
proof -
  have "refuses_once (ev_ReadClusterName ev rq)" using assms by (simp add: readers_answer_once_def)
  then show "once (getRequestStatusForCluster ev sv rq)" "once (getRequestsForClusterPostVariant ev sv rq)"
    "once (getSingleClusterInfo ev sv rq)"
    using assms(1) unfolding getRequestStatusForCluster_def getRequestsForClusterPostVariant_def getSingleClusterInfo_def
    by (auto intro!: once_rules split: gerror.split)
qed

lemma once_report_list_handlers:
  assumes "readers_answer_once ev"
  shows "once (reportForListOfClustersEndpoint ev sv rq)" "once (reportForListOfClustersPayloadEndpoint ev sv rq)"
  unfolding reportForListOfClustersEndpoint_def reportForListOfClustersPayloadEndpoint_def
  by (rule once_bind_asks [OF asks_reports(1) [OF assms]] once_bind_asks [OF asks_reports(2) [OF assms]];
      auto intro: once_rules)+

text \<open>
  Claim C23: sixteen endpoints answer each request exactly once, whatever the request, the
  configuration, the stored content and the other services are, provided that writing a
  reply does not fail and that the parameter readers of \<open>httputils\<close> answer once when they
  refuse a parameter.
\<close>

theorem answered_exactly_once:
  assumes "sends_ok ev" and "readers_answer_once ev" and "h \<in> set (single_answer_handlers ev sv)"
  shows "\<exists>reply. w_replies (snd (run_state (h request) w)) = w_replies w @ [reply]"
proof -
  have "once (h request)"
    using assms(3) once_content_handlers [OF assms(1,2)] once_ack_handlers once_request_handlers [OF assms(1,2)]
      once_report_list_handlers [OF assms(2)] assms(1)
    unfolding single_answer_handlers_def by auto
  then have "adds_replies 1 w (snd (run_state (h request) w))" by (simp add: once_def)
  then show ?thesis by (auto simp: adds_replies_def length_Suc_conv)
qed

theorem answered_exactly_once_witness:
  "\<exists>reply. w_replies (snd (run_state (getRuleIDs sample_env sample_server sample_request) empty_world)) =
     w_replies empty_world @ [reply]"
  by (rule answered_exactly_once [where ev = sample_env and sv = sample_server]) (simp_all add: single_answer_handlers_def)

subsection \<open>Requests without an identity\<close>

lemma exempt_vars [simp]: "auth_exempt ev urls (r\<lparr>rq_Vars := vs\<rparr>) = auth_exempt ev urls r"
  by (simp add: auth_exempt_def)

lemma decode_vars [simp]: "DecodeTokenFromHeader ev (r\<lparr>rq_Vars := vs\<rparr>) t = DecodeTokenFromHeader ev r t"
  by (simp add: DecodeTokenFromHeader_def GetAuthTokenHeader_def)

lemma MetricsMiddleware_next [simp]: "snd (MetricsMiddleware route next r counter w) = next r w"
  by (simp add: MetricsMiddleware_def Let_def)

definition refusal :: "env \<Rightarrow> HTTPServer \<Rightarrow> http_request \<Rightarrow> reply" where
  "refusal ev sv r = error_reply ev (Some (case DecodeTokenFromHeader ev r (cf_AuthType (sv_Config sv)) of
     Inl err \<Rightarrow> err | Inr tk \<Rightarrow> AuthenticationError (no_org_message ev tk)))"

definition anonymous :: "env \<Rightarrow> HTTPServer \<Rightarrow> http_request \<Rightarrow> bool" where
  "anonymous ev sv r \<longleftrightarrow> (case DecodeTokenFromHeader ev r (cf_AuthType (sv_Config sv)) of
     Inl err \<Rightarrow> True | Inr tk \<Rightarrow> id_OrgID tk = 0)"

text \<open>
  Claim C3: on every route of the service, debug routes included, a request without a
  usable identity gets exactly one reply, the error of its token, and nothing else
  happens: no handler runs, no call is made to another service. The request must not be
  exempt from authentication, and the logging middleware passes requests on.
\<close>

theorem anonymous_requests_refused:
  assumes "cf_Auth (sv_Config sv)" and "find_route rx request (addEndpointsToRouter ev px rx sv) = Some (r, vars)"
    and "\<not> auth_exempt ev (noAuthURLs sv) request" and "anonymous ev sv request"
    and "\<And>h rq counter w. rx_LogRequest rx h rq counter w = h rq counter w"
  shows "snd (Initialize ev px rx sv request counter w) = Some (add_reply (refusal ev sv request) w)"
  using assms(1-4)
  by (auto simp: Initialize_def Let_def assms(5) setupAuthMiddleware_def Authentication_def anonymous_def refusal_def
      plain_def split: sum.splits)

definition sample_rx :: router_env where
  "sample_rx = \<lparr>rx_match = (\<lambda>path prefix methods r. if path = rq_Path r \<and> rq_Method r \<in> set methods then Some [] else None),
     rx_redirect = (\<lambda>path r. None), rx_not_found = (\<lambda>r w. Some (add_reply (HttpError [] 404) w)), rx_ira = (\<lambda>e. e),
     rx_metrics = (\<lambda>r. ret ()), rx_pprof = (\<lambda>r. ret ()), rx_openapi = (\<lambda>f d r. ret ()),
     rx_LogRequest = (\<lambda>h. h), rx_CORS = (\<lambda>h. h)\<rparr>"

theorem anonymous_requests_refused_witness:
  "snd (Initialize sample_env sample_px sample_rx sample_server (sample_request\<lparr>rq_Path := ''/api/v1/groups''\<rparr>) (\<lambda>_. 0) empty_world) =
     Some (add_reply (SendForbidden ''Missing auth token'') empty_world)"
proof -
  let ?rq = "sample_request\<lparr>rq_Path := ''/api/v1/groups''\<rparr>"
  note defs = sample_server_def New_def sample_config_def sample_request_def sample_env_def
  have tok: "DecodeTokenFromHeader sample_env ?rq t = Inl (AuthenticationError ''Missing auth token'')" for t
    by (simp add: DecodeTokenFromHeader_def GetAuthTokenHeader_def header_get_def sample_request_def)
  have "snd (Initialize sample_env sample_px sample_rx sample_server ?rq (\<lambda>_. 0) empty_world) =
     Some (add_reply (refusal sample_env sample_server ?rq) empty_world)"
  proof (rule anonymous_requests_refused)
    show "cf_Auth (sv_Config sample_server)" by (simp add: defs)
    show "\<not> auth_exempt sample_env (noAuthURLs sample_server) ?rq"
      by (simp add: auth_exempt_def noAuthURLs_def path_base_def Let_def defs)
    show "anonymous sample_env sample_server ?rq" by (simp add: anonymous_def tok)
    show "find_route sample_rx ?rq (addEndpointsToRouter sample_env sample_px sample_rx sample_server) =
      Some (HandleFunc ''/api/v1/groups'' (simple (getGroups sample_env sample_server)) [GET, OPTIONS], [])"
      by (simp add: addEndpointsToRouter_def addV1EndpointsToRouter_def addV1ReportsEndpointsToRouter_def
          addV1ContentEndpointsToRouter_def HandleFunc_def sample_rx_def defs Let_def)
  qed (simp add: sample_rx_def)
  then show ?thesis by (simp add: refusal_def tok)
qed

end
