(* ===== verification/Isolation.thy ===== *)
theory Isolation
  imports Router_Props
begin

text \<open>
  Tenants are kept apart: what the calls that are made while an authenticated request is
  served may ask for. \<open>calls P m\<close>: every call that \<open>m\<close> makes satisfies \<open>P\<close>; its rules follow the
  shape of the handlers like those for the replies. \<open>own_call\<close> is the policy: it names, call by
  call, what the service may ask other services on behalf of one organization.
\<close>

named_theorems calls_rules "rules for the calls a computation may make"

definition calls :: "(http_call \<Rightarrow> bool) \<Rightarrow> (world, 'a) state \<Rightarrow> bool" where
  "calls P m \<longleftrightarrow> (\<forall>w. \<exists>cs. w_calls (snd (run_state m w)) = w_calls w @ cs \<and> list_all P cs)"

text \<open>A call to the aggregator that names an organization, and no other than \<open>g\<close>.\<close>

definition same_org :: "HTTPServer \<Rightarrow> OrgID \<Rightarrow> http_call \<Rightarrow> bool" where
  "same_org sv g c \<longleftrightarrow> (\<exists>e args. ca_URL c = aggregator sv e args \<and> ArgOrg g \<in> set args \<and>
     (\<forall>a \<in> set args. case a of ArgOrg g' \<Rightarrow> g' = g | ArgStr s \<Rightarrow> True))"

text \<open>
  The other calls: the build information of the other services, which belongs to nobody; a
  prediction for a cluster that belongs to the organization (\<open>owns\<close>); a request that is passed
  on to an endpoint of the aggregator whose URL is composed with the organization; and a
  page of the access control service, asked for with a token of the organization.
\<close>

definition public_call :: "HTTPServer \<Rightarrow> http_call \<Rightarrow> bool" where
  "public_call sv c \<longleftrightarrow> c = get_call (Endpoint (sc_ContentBaseEndpoint (sv_ServicesConfig sv)) ''info'' []) \<or>
     c = get_call (aggregator sv ''info'' [])"

definition own_prediction :: "HTTPServer \<Rightarrow> (OrgID \<Rightarrow> ClusterName \<Rightarrow> bool) \<Rightarrow> OrgID \<Rightarrow> http_call \<Rightarrow> bool" where
  "own_prediction sv owns g c \<longleftrightarrow>
     (\<exists>cluster. owns g cluster \<and> c = get_call (upgrade_service sv ''UpgradeRisksPredictionEndpoint'' [ArgStr cluster]))"

definition proxied_endpoints :: "string list" where
  "proxied_endpoints = [''LikeRuleEndpoint'', ''DislikeRuleEndpoint'', ''ResetVoteOnRuleEndpoint'',
     ''DisableRuleForClusterEndpoint'', ''EnableRuleForClusterEndpoint'', ''DisableRuleFeedbackEndpoint'']"

definition own_proxied :: "proxy_env \<Rightarrow> router_env \<Rightarrow> HTTPServer \<Rightarrow> OrgID \<Rightarrow> http_call \<Rightarrow> bool" where
  "own_proxied px rx sv g c \<longleftrightarrow> (\<exists>e \<in> set proxied_endpoints. \<exists>vars path uri u.
     map_of vars ''org_id'' = Some (show_nat (unat g)) \<and>
     px_Parse px (px_MakeURL px (cf_APIv1Prefix (sv_Config sv)) (rx_ira rx e) vars) = Inr (path, uri) \<and>
     composeEndpoint px sv (sc_AggregatorBaseEndpoint (sv_ServicesConfig sv)) uri = Inr u \<and> ca_URL c = RawURL u)"

definition own_access :: "env \<Rightarrow> OrgID \<Rightarrow> http_call \<Rightarrow> bool" where
  "own_access ev g c \<longleftrightarrow> (\<exists>url tok decoded i. c = rbac_call url tok \<and>
     ev_base64 ev tok = Inr decoded \<and> dc_token (ev_dec ev) decoded = Inr i \<and> id_OrgID i = g)"

definition own_call ::
  "env \<Rightarrow> proxy_env \<Rightarrow> router_env \<Rightarrow> HTTPServer \<Rightarrow> (OrgID \<Rightarrow> ClusterName \<Rightarrow> bool) \<Rightarrow> OrgID \<Rightarrow> http_call \<Rightarrow> bool" where
  "own_call ev px rx sv owns g c \<longleftrightarrow> same_org sv g c \<or> public_call sv c \<or> own_prediction sv owns g c \<or>
     own_proxied px rx sv g c \<or> own_access ev g c"

text \<open>
  Which clusters belong to an organization is documented behaviour of the other services:
  the account management service finds a cluster under its own id only for its owner, and
  the aggregator delivers a report only for a cluster of the organization.
\<close>

definition confines :: "(OrgID \<Rightarrow> ClusterName \<Rightarrow> bool) \<Rightarrow> env \<Rightarrow> HTTPServer \<Rightarrow> bool" where
  "confines owns ev sv \<longleftrightarrow>
     (\<forall>ams g c info. sv_amsClient sv = Some ams \<longrightarrow> ams_GetSingleClusterInfoForOrganization ams g c = Inr info \<longrightarrow>
        ci_ID info = c \<longrightarrow> owns g c) \<and>
     (\<forall>cs g c u r. net ev cs (get_call (aggregator sv ''ReportEndpoint'' [ArgOrg g, ArgStr c, ArgStr u])) = Inr r \<longrightarrow>
        hr_StatusCode r = StatusOK \<longrightarrow> owns g c)"

text \<open>
  \<open>httputils.ReadOrganizationID\<close> compares the organization of the path with that of the token
  when authentication is on.
\<close>

definition of_org :: "OrgID \<Rightarrow> http_request \<Rightarrow> bool" where
  "of_org g request \<longleftrightarrow> (\<exists>i. rq_User request = IdentityValue i \<and> id_OrgID i = g)"

definition reads_own_org :: "env \<Rightarrow> bool" where
  "reads_own_org ev \<longleftrightarrow> (\<forall>request g g'. of_org g request \<longrightarrow> ev_ReadOrganizationID ev request True = Inr g' \<longrightarrow> g' = g)"

subsection \<open>Rules\<close>

lemma calls_ret [calls_rules]: "calls P (ret x)"
  by (simp add: calls_def)

lemma calls_bind [calls_rules]:
  assumes "calls P m" and "\<And>x. calls P (f x)"
  shows "calls P (m \<bind> f)"
  unfolding calls_def
proof
  fix w
  obtain x w1 where m: "run_state m w = (x, w1)" by (cases "run_state m w")
  obtain cs where cs: "w_calls w1 = w_calls w @ cs" "list_all P cs"
    using assms(1) [unfolded calls_def, THEN spec, of w] m by auto
  obtain cs' where "w_calls (snd (run_state (f x) w1)) = w_calls w1 @ cs'" "list_all P cs'"
    using assms(2) [unfolded calls_def, THEN spec, of x w1] by auto
  with m cs show "\<exists>cs. w_calls (snd (run_state (m \<bind> f) w)) = w_calls w @ cs \<and> list_all P cs"
    by (intro exI [of _ "cs @ cs'"]) simp
qed

lemma calls_replies [calls_rules]:
  "calls P (send ev r)" "calls P (send_log ev r)" "calls P (handleServerError ev e)" "calls P (set_header n v)"
  by (simp_all add: calls_def)

lemma calls_cases [calls_rules]:
  "(\<And>e. x = Inl e \<Longrightarrow> calls P (f e)) \<Longrightarrow> (\<And>v. x = Inr v \<Longrightarrow> calls P (g v)) \<Longrightarrow>
     calls P (case x of Inl e \<Rightarrow> f e | Inr v \<Rightarrow> g v)"
  "(z = None \<Longrightarrow> calls P a) \<Longrightarrow> (\<And>v. z = Some v \<Longrightarrow> calls P (h v)) \<Longrightarrow>
     calls P (case z of None \<Rightarrow> a | Some v \<Rightarrow> h v)"
  "(\<And>u v. p = (u, v) \<Longrightarrow> calls P (k u v)) \<Longrightarrow> calls P (case p of (u, v) \<Rightarrow> k u v)"
  "(b \<Longrightarrow> calls P m) \<Longrightarrow> (\<not> b \<Longrightarrow> calls P n) \<Longrightarrow> calls P (if b then m else n)"
  "(b \<Longrightarrow> calls P m) \<Longrightarrow> (\<not> b \<Longrightarrow> calls P n) \<Longrightarrow> calls P (case b of True \<Rightarrow> m | False \<Rightarrow> n)"
  by (auto split: sum.split option.split prod.split bool.split)

lemma calls_send_handle [calls_rules]: "calls P (send_handle ev r)"
  unfolding send_handle_def by (intro calls_rules)

lemma calls_ext_read [calls_rules]: "calls P (ext_read r)"
  by (cases r) (simp_all add: calls_def)

lemma calls_http [calls_rules]:
  "P c \<Longrightarrow> calls P (http_do ev c)"
  "P \<lparr>ca_Method = ''GET'', ca_URL = u, ca_Header = [], ca_Body = NoBody\<rparr> \<Longrightarrow> calls P (http_get ev u)"
  by (simp_all add: calls_def http_get_def)

lemma calls_mono: "calls P m \<Longrightarrow> (\<And>c. P c \<Longrightarrow> Q c) \<Longrightarrow> calls Q m"
  unfolding calls_def by (metis list.pred_mono_strong)

lemma calls_post [calls_rules]: "P (post_call u b) \<Longrightarrow> calls P (http_post ev u b)"
  by (simp add: calls_def http_post_def post_call_def)

lemma same_org_simps [simp]:
  "same_org sv g \<lparr>ca_Method = m, ca_URL = aggregator sv e args, ca_Header = h, ca_Body = b\<rparr> \<longleftrightarrow>
     ArgOrg g \<in> set args \<and> (\<forall>a \<in> set args. case a of ArgOrg g' \<Rightarrow> g' = g | ArgStr s \<Rightarrow> True)"
  "same_org sv g (get_call u) = same_org sv g \<lparr>ca_Method = ''GET'', ca_URL = u, ca_Header = [], ca_Body = NoBody\<rparr>"
  "same_org sv g (post_call u b) = same_org sv g \<lparr>ca_Method = ''POST'', ca_URL = u, ca_Header = [(contentTypeHeader, [JSONContentType])], ca_Body = b\<rparr>"
  "same_org sv g (put_call u b) = same_org sv g \<lparr>ca_Method = ''PUT'', ca_URL = u, ca_Header = ca_Header (put_call u b), ca_Body = b\<rparr>"
  by (auto simp: same_org_def aggregator_def get_call_def post_call_def put_call_def)

subsection \<open>The functions that talk to the aggregator\<close>

lemma calls_acks [calls_rules]:
  "calls (same_org sv g) (readRuleDisableStatus ev sv r k g)" "calls (same_org sv g) (readListOfAckedRules ev sv g)"
  "calls (same_org sv g) (updateAckRuleSystemWide ev sv r k g j)" "calls (same_org sv g) (deleteAckRuleSystemWide ev sv r k g)"
  "calls (same_org sv g) (ackRuleSystemWide ev sv r k g j)"
  unfolding readRuleDisableStatus_def readListOfAckedRules_def updateAckRuleSystemWide_def deleteAckRuleSystemWide_def
    ackRuleSystemWide_def Let_def
  by (intro calls_rules; simp add: read_call_def update_call_def enable_call_def disable_call_def)+

lemma calls_read_service [calls_rules]:
  "calls P m \<Longrightarrow> calls P (read_service ev m decode)" "calls P (read_ok_body ev r decode')"
  unfolding read_service_def read_ok_body_def handleAggregatorError_def by (intro calls_rules | assumption)+

lemma calls_readers [calls_rules]:
  "calls P (readRuleIDWithErrorKey ev request)" "calls P (readRequestID ev request)" "calls P (readRequestIDList ev request)"
  "calls P (readNamespace ev request)" "calls P (readParamsGetRecommendations ev request)"
  "calls P (readRuleSelectorAndJustificationFromBody ev request)" "calls P (checkRedisClientReadiness ev sv)"
  unfolding readRuleIDWithErrorKey_def readRequestID_def readRequestIDList_def readNamespace_def
    readParamsGetRecommendations_def readRuleSelectorAndJustificationFromBody_def checkRedisClientReadiness_def Let_def
  by (intro calls_rules)+

lemma calls_cluster_lists [calls_rules]:
  "calls (same_org sv g) (getClusterDetailsFromAggregator ev sv g)"
  "calls (same_org sv g) (readClusterInfoForOrgID ev sv g)"
proof -
  show "calls (same_org sv g) (getClusterDetailsFromAggregator ev sv g)"
    unfolding getClusterDetailsFromAggregator_def by (intro calls_rules) simp
  then show "calls (same_org sv g) (readClusterInfoForOrgID ev sv g)"
    unfolding readClusterInfoForOrgID_def by (intro calls_rules)
qed

lemma calls_reports [calls_rules]:
  "calls (same_org sv g) (readAggregatorReportForClusterID ev sv g c u)"
  "calls (same_org sv g) (readAggregatorReportMetainfoForClusterID ev sv g c u)"
  "calls (same_org sv g) (readAggregatorReportForClusterList ev sv g cs)"
  "calls (same_org sv g) (readAggregatorReportForClusterListFromBody ev sv g request)"
  "calls (same_org sv g) (readAggregatorRuleForClusterID ev sv g c u r k)"
  unfolding readAggregatorReportForClusterID_def readAggregatorReportMetainfoForClusterID_def
    readAggregatorReportForClusterList_def readAggregatorReportForClusterListFromBody_def readAggregatorRuleForClusterID_def
    Let_def handleAggregatorError_def handleReportsResponse_def
  by (intro calls_rules; simp)+

lemma calls_user_data [calls_rules]:
  "calls (same_org sv g) (readListOfClusterDisabledRules ev sv g)"
  "calls (same_org sv g) (readListOfDisabledRulesForClusters ev sv g cs)"
  "calls (same_org sv g) (getWorkloadsForCluster ev sv g c ns)"
  "calls (same_org sv g) (getWorkloadsForOrganization ev sv g infos)"
  "calls (same_org sv g) (postRatingToAggregator ev sv g request)"
  "calls (same_org sv g) (getRatingForRecommendation ev sv g r)"
  "calls (same_org sv g) (getImpactingRecommendations ev sv g u cs)"
  "calls (same_org sv g) (getClustersAndRecommendations ev sv g u cs)"
  unfolding readListOfClusterDisabledRules_def readListOfDisabledRulesForClusters_def getWorkloadsForCluster_def
    getWorkloadsForOrganization_def postRatingToAggregator_def getRatingForRecommendation_def Let_def
    getImpactingRecommendations_def getClustersAndRecommendations_def handleAggregatorError_def
  by (intro calls_rules; simp)+

lemma calls_recommendations [calls_rules]:
  "calls (same_org sv g) (getRuleAcksMap ev sv g)" "calls (same_org sv g) (getRuleDisabledClusters ev sv g cs)"
  "calls (same_org sv g) (getUserDisabledRulesPerCluster ev sv g)" "calls (same_org sv g) (getClusterListAndUserData ev sv g u)"
  "calls (same_org sv g) (getDisabledRulesForClusterMap ev sv g c)"
  unfolding getRuleAcksMap_def getRuleDisabledClusters_def getUserDisabledRulesPerCluster_def getClusterListAndUserData_def
    getDisabledRulesForClusterMap_def
  by (intro calls_rules)+

lemma calls_clusters_detail [calls_rules]:
  "calls (same_org sv g) (getImpactedClusters ev sv g u s infos fallback)"
  "calls (same_org sv g) (getListOfDisabledClusters ev sv g s)"
  "calls (same_org sv g) (getListOfDisabledClustersAndAck ev sv g s)"
  "calls P (processClustersDetailResponse ev hits ds infos ack acked)"
proof -
  show disabled: "calls (same_org sv g) (getListOfDisabledClusters ev sv g s)"
    unfolding getListOfDisabledClusters_def by (intro calls_rules; simp)
  then show "calls (same_org sv g) (getListOfDisabledClustersAndAck ev sv g s)"
    unfolding getListOfDisabledClustersAndAck_def by (intro calls_rules)
qed (unfold getImpactedClusters_def getImpactedClustersFromAggregator_def processClustersDetailResponse_def Let_def,
  intro calls_rules; simp)+

subsection \<open>The handlers\<close>

text \<open>The identity the middlewares attached to a request.\<close>

lemma identity_simps:
  assumes "rq_User request = IdentityValue i"
  shows "GetCurrentOrgID request = Inr (id_OrgID i)"
    "GetCurrentOrgIDUserIDFromToken request = Inr (id_OrgID i, id_UserID i)"
  using assms by (simp_all add: GetCurrentOrgID_def GetCurrentOrgIDUserIDFromToken_def GetAuthToken_def)

definition serves :: "(OrgID \<Rightarrow> http_call \<Rightarrow> bool) \<Rightarrow> (http_request \<Rightarrow> (world, 'a) state) \<Rightarrow> bool" where
  "serves own h \<longleftrightarrow> (\<forall>request i. rq_User request = IdentityValue i \<longrightarrow> calls (own (id_OrgID i)) (h request))"

lemma servesI:
  "(\<And>request (i :: Identity). rq_User request = IdentityValue i \<Longrightarrow> GetCurrentOrgID request = Inr (id_OrgID i) \<Longrightarrow>
      GetCurrentOrgIDUserIDFromToken request = Inr (id_OrgID i, id_UserID i) \<Longrightarrow> calls (own (id_OrgID i)) (h request)) \<Longrightarrow>
   serves own h"
  by (auto simp: serves_def identity_simps)

lemma serves_simple: "serves own h \<Longrightarrow> serves own (simple h)"
  by (auto simp: serves_def simple_def intro!: calls_rules)

lemma serves_mono: "serves own h \<Longrightarrow> (\<And>g c. own g c \<Longrightarrow> own' g c) \<Longrightarrow> serves own' h"
  unfolding serves_def by (metis calls_mono)

named_theorems tenant_handlers "handlers that call the aggregator for their requester only"

lemma serves_acks [tenant_handlers]:
  "serves (same_org sv) (readAckList ev sv)" "serves (same_org sv) (getAcknowledge ev sv)" "serves (same_org sv) (acknowledgePost ev sv)"
  "serves (same_org sv) (updateAcknowledge ev sv)" "serves (same_org sv) (deleteAcknowledge ev sv)" "serves (same_org sv) (postRating ev sv)"
  by (rule servesI; simp only: readAckList_def getAcknowledge_def acknowledgePost_def updateAcknowledge_def
      deleteAcknowledge_def postRating_def returnRuleAckToClient_def sum.case; intro calls_rules)+

lemma serves_reports [tenant_handlers]:
  "serves (same_org sv) (reportMetainfoEndpoint ev sv)" "serves (same_org sv) (reportForListOfClustersEndpoint ev sv)"
  "serves (same_org sv) (reportForListOfClustersPayloadEndpoint ev sv)" "serves (same_org sv) (singleRuleEndpoint ev sv)"
  "serves (same_org sv) (reportEndpointV1 ev sv)" "serves (same_org sv) (reportEndpointV2 ev sv)"
  by (rule servesI; simp only: reportMetainfoEndpoint_def reportForListOfClustersEndpoint_def
      reportForListOfClustersPayloadEndpoint_def singleRuleEndpoint_def reportEndpointV1_def reportEndpointV2_def
      fetchAggregatorReportMetainfo_def fetchAggregatorReports_def fetchAggregatorReportsUsingRequestBodyClusterList_def
      fetchAggregatorReportRule_def fetchAggregatorReport_def buildReportEndpointResponse_def sendReportReponse_def
      handleFetchRuleContentError_def Let_def sum.case prod.case; intro calls_rules)+

lemma serves_overview [tenant_handlers]:
  "serves (same_org sv) (overviewEndpoint ev sv)" "serves (same_org sv) (overviewEndpointWithClusterIDs ev sv)"
  "serves (same_org sv) (getClustersDetailForRule ev sv)" "serves (same_org sv) (getClustersView ev sv)" "serves (same_org sv) (getSingleClusterInfo ev sv)"
  by (rule servesI; simp only: overviewEndpoint_def overviewEndpointWithClusterIDs_def getClustersDetailForRule_def
      getClustersView_def getSingleClusterInfo_def fetchAggregatorReportsUsingRequestBodyClusterList_def
      Let_def sum.case prod.case; intro calls_rules)+

lemma serves_requests [tenant_handlers]:
  "serves (same_org sv) (getRequestsForCluster ev sv)" "serves (same_org sv) (getRequestsForClusterPostVariant ev sv)"
  "serves (same_org sv) (getRequestStatusForCluster ev sv)" "serves (same_org sv) (getReportForRequest ev sv)"
  by (rule servesI; simp only: getRequestsForCluster_def getRequestsForClusterPostVariant_def
      getRequestStatusForCluster_def getReportForRequest_def sum.case; intro calls_rules; simp split: gerror.split add: calls_rules)+

lemma serves_dvo [tenant_handlers]:
  "serves (same_org sv) (getDVONamespaceList ev sv)" "serves (same_org sv) (getDVONamespacesForCluster ev sv)"
  by (rule servesI; simp only: getDVONamespaceList_def getDVONamespacesForCluster_def Let_def sum.case;
      intro calls_rules; simp split: gerror.split add: calls_rules)+

lemma serves_content [tenant_handlers]:
  "serves (same_org sv) (getRecommendationContent ev sv)" "serves (same_org sv) (getRecommendationContentWithUserData ev sv)"
  "serves (same_org sv) (getContentWithGroups ev sv)" "serves (same_org sv) (getGroups ev sv)" "serves (same_org sv) (mainEndpoint ev sv)"
  "serves (same_org sv) (getContentForRuleV1 ev sv)" "serves (same_org sv) (getContentV1 ev sv)" "serves (same_org sv) (getRuleIDs ev sv)"
  by (rule servesI; simp only: getRecommendationContent_def getRecommendationContentWithUserData_def mainEndpoint_def
      getContentWithGroups_def getGroups_def getContentForRuleV1_def getContentV1_def getRuleIDs_def Let_def sum.case prod.case;
      intro calls_rules)+

lemma calls_bind_result:
  assumes "calls P m" and "\<And>w x w'. run_state m w = (x, w') \<Longrightarrow> calls P (f x)"
  shows "calls P (m \<bind> f)"
  unfolding calls_def
proof
  fix w
  obtain x w1 where m: "run_state m w = (x, w1)" by (cases "run_state m w")
  obtain cs where cs: "w_calls w1 = w_calls w @ cs" "list_all P cs"
    using assms(1) [unfolded calls_def, THEN spec, of w] m by auto
  obtain cs' where "w_calls (snd (run_state (f x) w1)) = w_calls w1 @ cs'" "list_all P cs'"
    using assms(2) [OF m, unfolded calls_def, THEN spec, of w1] by auto
  with m cs show "\<exists>cs. w_calls (snd (run_state (m \<bind> f) w)) = w_calls w @ cs \<and> list_all P cs"
    by (intro exI [of _ "cs @ cs'"]) simp
qed

lemma params_org:
  assumes "run_state (readParamsGetRecommendations ev request) w = (Inr (u, g, flag), w')"
    and "GetCurrentOrgIDUserIDFromToken request = Inr (g', u')"
  shows "g = g'"
  using assms by (auto simp: readParamsGetRecommendations_def split: if_splits sum.splits)

lemma serves_recommendations [tenant_handlers]: "serves (same_org sv) (getRecommendations ev sv)"
proof (rule servesI)
  fix request and i :: Identity
  assume i: "GetCurrentOrgIDUserIDFromToken request = Inr (id_OrgID i, id_UserID i)"
  show "calls (same_org sv (id_OrgID i)) (getRecommendations ev sv request)"
    unfolding getRecommendations_def
  proof (rule calls_bind_result, goal_cases)
    case (2 w x w')
    then have "\<And>u g flag. x = Inr (u, g, flag) \<Longrightarrow> g = id_OrgID i" using params_org i by blast
    then show ?case by (auto simp: Let_def intro!: calls_rules)
  qed (rule calls_rules)
qed

lemma serves_clusters_for_org:
  assumes "cf_Auth (sv_Config sv)" and "reads_own_org ev"
  shows "serves (same_org sv) (getClustersForOrg ev sv)"
proof (rule servesI)
  fix request :: http_request and i :: Identity
  assume "rq_User request = IdentityValue i"
  then have own: "ev_ReadOrganizationID ev request True = Inr g \<Longrightarrow> g = id_OrgID i" for g
    using assms(2) by (auto simp: reads_own_org_def of_org_def)
  show "calls (same_org sv (id_OrgID i)) (getClustersForOrg ev sv request)"
    unfolding getClustersForOrg_def
  proof (rule calls_bind_result, goal_cases)
    case (2 w x w')
    then have "\<And>g. x = Some g \<Longrightarrow> g = id_OrgID i"
      using assms(1) own by (cases "ev_ReadOrganizationID ev request True") (auto simp: ext_read_def)
    then show ?case by (auto intro!: calls_rules)
  qed (rule calls_rules)
qed

text \<open>A prediction is asked for only once the cluster is known to be the requester's.\<close>

lemma serves_upgrade:
  assumes "confines owns ev sv"
  shows "serves (own_call ev px rx sv owns) (upgradeRisksPrediction ev sv)"
proof (rule servesI)
  fix request and i :: Identity
  assume org: "GetCurrentOrgID request = Inr (id_OrgID i)"
  have fetch: "calls (own_call ev px rx sv owns g) (fetchUpgradePrediction ev sv c)" if "owns g c" for g c
    unfolding fetchUpgradePrediction_def using that
    by (intro calls_rules) (auto simp: own_call_def own_prediction_def get_call_def)
  show "calls (own_call ev px rx sv owns (id_OrgID i)) (upgradeRisksPrediction ev sv request)"
    unfolding upgradeRisksPrediction_def org sum.case
    using assms by (intro calls_rules fetch) (auto simp: confines_def)
qed

lemma serves_info: "serves (own_call ev px rx sv owns) (info_handler ev sv)"
proof (rule servesI)
  fix request and i :: Identity
  have read: "calls (own_call ev px rx sv owns g) (infoFromService ev u)" if "public_call sv (get_call u)" for g u
    unfolding infoFromService_def readInfoAPIEndpoint_def using that
    by (intro calls_rules) (simp add: own_call_def get_call_def)
  have "sv_ServicesConfig (snd (fillInSmartProxyInfoParams sv)) = sv_ServicesConfig sv"
    by (simp add: fillInSmartProxyInfoParams_def Let_def split: option.split)
  then show "calls (own_call ev px rx sv owns (id_OrgID i)) (info_handler ev sv request)"
    unfolding info_handler_def infoMap_def fillInContentServiceInfoParams_def fillInAggregatorInfoParams_def
    by (intro calls_rules read) (auto simp: public_call_def aggregator_def)
qed

text \<open>
  What the modifiers make of a request that is passed on: its URL is composed with the
  organization of the requester, whatever the path was.
\<close>

lemma modified_request:
  assumes "modifyRequest [modifier, checkRuleIDAndErrorKeyAreValid ev cs] request = Inr request'"
    and "modifier \<in> {extractUserIDOrgIDFromTokenToURLRequestModifier px sv template, extractOrgIDFromTokenToURLRequestModifier px sv template}"
    and "GetCurrentOrgID request = Inr g" and "GetCurrentOrgIDUserIDFromToken request = Inr (g, u)"
  shows "\<exists>vars path. map_of vars ''org_id'' = Some (show_nat (unat g)) \<and>
    px_Parse px (px_MakeURL px (cf_APIv1Prefix (sv_Config sv)) template vars) = Inr (path, rq_RequestURI request')"
proof -
  obtain rq1 where "modifier request = Inr rq1" "checkRuleIDAndErrorKeyAreValid ev cs rq1 = Inr request'"
    using assms(1) by (auto split: sum.splits)
  then have m: "modifier request = Inr request'" by (auto simp: checkRuleIDAndErrorKeyAreValid_def split: sum.splits)
  have composed: "\<exists>vars path. map_of vars ''org_id'' = Some v \<and> px_Parse px (px_MakeURL px prefix template vars) = Inr (path, uri)"
    if "px_Parse px (px_MakeURL px prefix template (AList.update ''org_id'' v al)) = Inr (path, uri)"
    for prefix template v path uri and al :: "(string \<times> string) list"
    using that by (intro exI [of _ "AList.update ''org_id'' v al"] exI [of _ path]) (simp add: update_conv')
  from m assms(2-4) show ?thesis
    by (auto simp: extractUserIDOrgIDFromTokenToURLRequestModifier_def extractOrgIDFromTokenToURLRequestModifier_def
        elim!: with_new_url_ok dest!: composed) blast+
qed

lemma serves_proxied:
  assumes "e \<in> set proxied_endpoints" and "modifier \<in> {extractUserIDOrgIDFromTokenToURLRequestModifier px sv (rx_ira rx e),
      extractOrgIDFromTokenToURLRequestModifier px sv (rx_ira rx e)}"
  shows "serves (own_call ev px rx sv owns) (proxyTo ev px sv (sc_AggregatorBaseEndpoint (sv_ServicesConfig sv))
    (modified [modifier, checkRuleIDAndErrorKeyAreValid ev cs]))"
proof (rule servesI)
  fix request and i :: Identity
  assume "GetCurrentOrgID request = Inr (id_OrgID i)" "GetCurrentOrgIDUserIDFromToken request = Inr (id_OrgID i, id_UserID i)"
  note org = modified_request [OF _ assms(2) this]
  have call: "own_call ev px rx sv owns (id_OrgID i) \<lparr>ca_Method = m, ca_URL = RawURL u, ca_Header = h, ca_Body = b\<rparr>"
    if "modifyRequest [modifier, checkRuleIDAndErrorKeyAreValid ev cs] request = Inr request'"
      "composeEndpoint px sv (sc_AggregatorBaseEndpoint (sv_ServicesConfig sv)) (rq_RequestURI request') = Inr u" for request' u m h b
    using org [OF that(1)] that(2) assms(1) by (auto simp: own_call_def own_proxied_def)
  show "calls (own_call ev px rx sv owns (id_OrgID i)) (proxyTo ev px sv (sc_AggregatorBaseEndpoint (sv_ServicesConfig sv))
      (modified [modifier, checkRuleIDAndErrorKeyAreValid ev cs]) request)"
    unfolding proxyTo_def modified_def option.case ProxyOptions.select_convs sendRequest_def evaluateProxyError_def
    by (intro calls_rules call)
qed

subsection \<open>The routes\<close>

text \<open>
  The routes whose handlers belong to this service: all that are registered without the
  debug mode, but for the handlers of libraries (metrics and OpenAPI files). The
  prediction for a list of clusters is apart: the clusters of the request are passed on
  as they come, and nothing compares them with the requester
  (\<open>multi_cluster_unchecked\<close>).
\<close>

definition multi_cluster_path :: "HTTPServer \<Rightarrow> string" where
  "multi_cluster_path sv = cf_APIv2Prefix (sv_Config sv) @ UpgradeRisksPredictionMultiClusterEndpoint"

definition tenant_routes :: "env \<Rightarrow> proxy_env \<Rightarrow> router_env \<Rightarrow> HTTPServer \<Rightarrow> route list" where
  "tenant_routes ev px rx sv =
     (let v1 = cf_APIv1Prefix (sv_Config sv); v2 = cf_APIv2Prefix (sv_Config sv) in
      [HandleFunc (v1 @ MainEndpoint) (simple (mainEndpoint ev sv)) [GET],
       HandleFunc (v1 @ ClustersForOrganizationEndpoint) (simple (getClustersForOrg ev sv)) [GET],
       HandleFunc (v1 @ OverviewEndpoint) (simple (overviewEndpoint ev sv)) [GET],
       HandleFunc (v1 @ OverviewEndpoint) (simple (overviewEndpointWithClusterIDs ev sv)) [POST],
       HandleFunc (v1 @ InfoEndpoint) (info_handler ev sv) [GET, OPTIONS]] @
      addV1ReportsEndpointsToRouter ev sv v1 @ addV1ContentEndpointsToRouter ev sv @
      addV1RuleEndpointsToRouter ev px rx sv v1 (sc_AggregatorBaseEndpoint (sv_ServicesConfig sv)) @
      [HandleFunc (v2 @ MainEndpoint) (simple (mainEndpoint ev sv)) [GET],
       HandleFunc (v2 @ RuleGroupsEndpoint) (simple (getGroups ev sv)) [GET, OPTIONS]] @
      addV2ReportsEndpointsToRouter ev sv v2 @
      addV2ContentEndpointsToRouter ev sv v2 @ addV2RuleEndpointsToRouter ev sv v2 @
      addV2RedisEndpointsToRouter ev sv v2 @ addV2DVOEndpointsToRouter ev sv v2 @
      [HandleFunc (v2 @ InfoEndpoint) (info_handler ev sv) [GET, OPTIONS],
       HandleFunc (v2 @ UpgradeRisksPredictionEndpoint) (simple (upgradeRisksPrediction ev sv)) [GET]])"

lemma tenant_routes_registered: "set (tenant_routes ev px rx sv) \<subseteq> set (addEndpointsToRouter ev px rx sv)"
  by (auto simp: tenant_routes_def addEndpointsToRouter_def addV1EndpointsToRouter_def addV2EndpointsToRouter_def Let_def)

text \<open>Nothing else is registered outside the debug mode but the handlers of libraries and the list of predictions.\<close>

lemma tenant_routes_complete:
  assumes "\<not> cf_Debug (sv_Config sv)"
  shows "set (addEndpointsToRouter ev px rx sv) = set (tenant_routes ev px rx sv) \<union>
    {HandleFunc (multi_cluster_path sv) (simple (upgradeRisksPredictionMultiCluster ev sv)) [POST],
     HandleFunc (cf_APIv1Prefix (sv_Config sv) @ MetricsEndpoint) (simple (rx_metrics rx)) [GET],
     HandleFunc (cf_APIv2Prefix (sv_Config sv) @ MetricsEndpoint) (simple (rx_metrics rx)) [GET],
     HandleFunc (cf_APIv1Prefix (sv_Config sv) @ path_base (cf_APIv1SpecFile (sv_Config sv)))
       (simple (rx_openapi rx (cf_APIv1SpecFile (sv_Config sv)) False)) [GET],
     HandleFunc (cf_APIv2Prefix (sv_Config sv) @ path_base (cf_APIv2SpecFile (sv_Config sv)))
       (simple (rx_openapi rx (cf_APIv2SpecFile (sv_Config sv)) False)) [GET]}"
  using assms
  by (auto simp: tenant_routes_def addEndpointsToRouter_def addV1EndpointsToRouter_def addV2EndpointsToRouter_def
      multi_cluster_path_def Let_def)

lemma tenant_routes_serve:
  assumes "confines owns ev sv" and "cf_Auth (sv_Config sv)" and "reads_own_org ev" and "r \<in> set (tenant_routes ev px rx sv)"
  shows "serves (own_call ev px rx sv owns) (ro_Handler r)"
proof -
  have own: "serves (same_org sv) h \<Longrightarrow> serves (own_call ev px rx sv owns) h" for h :: "http_request \<Rightarrow> (world, 'a) state"
    by (erule serves_mono) (simp add: own_call_def)
  note handlers = tenant_handlers [THEN own] serves_clusters_for_org [OF assms(2,3), THEN own] serves_upgrade [OF assms(1)] serves_info
  have proxied: "serves (own_call ev px rx sv owns) (proxyTo ev px sv (sc_AggregatorBaseEndpoint (sv_ServicesConfig sv))
      (modified [extractUserIDOrgIDFromTokenToURLRequestModifier px sv (rx_ira rx e), checkRuleIDAndErrorKeyAreValid ev cs]))"
    "serves (own_call ev px rx sv owns) (proxyTo ev px sv (sc_AggregatorBaseEndpoint (sv_ServicesConfig sv))
      (modified [extractOrgIDFromTokenToURLRequestModifier px sv (rx_ira rx e), checkRuleIDAndErrorKeyAreValid ev cs]))"
    if "e \<in> set proxied_endpoints" for e cs
    using that by (auto intro!: serves_proxied)
  have "list_all (\<lambda>r. serves (own_call ev px rx sv owns) (ro_Handler r)) (tenant_routes ev px rx sv)"
    unfolding tenant_routes_def addV1ReportsEndpointsToRouter_def addV2ReportsEndpointsToRouter_def Let_def
      addV1ContentEndpointsToRouter_def addV1RuleEndpointsToRouter_def addV2ContentEndpointsToRouter_def addV2RuleEndpointsToRouter_def
      addV2RedisEndpointsToRouter_def addV2DVOEndpointsToRouter_def HandleFunc_def list_all_append list.pred_inject route.select_convs
    by (intro conjI TrueI handlers serves_simple proxied) (simp_all add: proxied_endpoints_def)
  with assms(4) show ?thesis by (auto simp: list_all_iff)
qed

lemma rbac_chain_calls:
  "rbac_chain ev rc tok url cs ps cs' \<Longrightarrow> \<exists>ds. cs' = cs @ ds \<and> list_all (\<lambda>c. \<exists>u. c = rbac_call u tok) ds"
proof (induction rule: rbac_chain.induct)
  case (more url cs p ps cs')
  then show ?case by auto
qed auto

lemma IsAuthorized_calls:
  assumes "IsAuthorized ev rc tok w = Some (b, w')"
  shows "\<exists>ds. w_calls w' = w_calls w @ ds \<and> list_all (\<lambda>c. \<exists>u. c = rbac_call u tok) ds"
proof -
  from assms obtain acls w1 where "requestAccess ev rc (ri_uri rc) tok w = Some (acls, w1)" "w' = w1"
    by (auto simp: IsAuthorized_def getPermissions_def bind_eq_Some_conv split: prod.splits if_splits)
  then show ?thesis using requestAccess_sound rbac_chain_calls by fastforce
qed

subsection \<open>Through the middlewares\<close>

definition keeps :: "(http_call \<Rightarrow> bool) \<Rightarrow> world \<Rightarrow> world option \<Rightarrow> bool" where
  "keeps P w out \<longleftrightarrow> (case out of None \<Rightarrow> True | Some w' \<Rightarrow> \<exists>cs. w_calls w' = w_calls w @ cs \<and> list_all P cs)"

lemma keeps_reply [simp]: "keeps P w (Some (add_reply r w))"
  by (simp add: keeps_def add_reply_def)

lemma keeps_trans:
  "w_calls w1 = w_calls w @ ds \<Longrightarrow> list_all P ds \<Longrightarrow> keeps P w1 out \<Longrightarrow> keeps P w out"
  by (auto simp: keeps_def split: option.splits)

lemma keeps_serve:
  assumes "serves own h" and "rq_User request = IdentityValue i"
  shows "keeps (own (id_OrgID i)) w (serve h request w)"
proof -
  have "calls (own (id_OrgID i)) (h request)" using assms by (simp add: serves_def)
  then show ?thesis
    by (cases "run_state (h request) w"; cases "fst (run_state (h request) w)")
       (auto simp: calls_def keeps_def serve_def dest: spec [of _ w])
qed

lemma token_user [simp]:
  "auth_exempt ev urls (r\<lparr>rq_User := u\<rparr>) = auth_exempt ev urls r"
  "DecodeTokenFromHeader ev (r\<lparr>rq_User := u\<rparr>) t = DecodeTokenFromHeader ev r t"
  by (simp_all add: auth_exempt_def DecodeTokenFromHeader_def GetAuthTokenHeader_def)

lemma token_vars [simp]:
  "auth_exempt ev urls (r\<lparr>rq_Vars := v\<rparr>) = auth_exempt ev urls r"
  "DecodeTokenFromHeader ev (r\<lparr>rq_Vars := v\<rparr>) t = DecodeTokenFromHeader ev r t"
  by (simp_all add: auth_exempt_def DecodeTokenFromHeader_def GetAuthTokenHeader_def)

lemma token_access:
  assumes "DecodeTokenFromHeader ev r t = Inr tk"
  shows "own_access ev (id_OrgID tk) (rbac_call u (GetAuthTokenHeader r))"
  using assms by (auto simp: own_access_def DecodeTokenFromHeader_def Let_def split: if_splits sum.splits)

lemma keeps_Authorization:
  assumes "sv_rbacClient sv = rbac_client ev rc" and "\<And>w. keeps P w (next r w)"
    and access: "\<And>u. P (rbac_call u (GetAuthTokenHeader r))"
  shows "keeps P w (Authorization ev sv next urls r w)"
proof (cases "DecodeTokenFromHeader ev r (cf_AuthType (sv_Config sv))")
  case (Inr tk)
  let ?w = "Inc (RBACIdentityType (id_Type tk)) w"
  have later: "keeps P w (next r w1)" "keeps P w (plain (\<lambda>_. handleServerError ev e) r w1)"
    if "w_calls w1 = w_calls w @ ds" "list_all P ds" for w1 ds e
    using keeps_trans [OF that assms(2)] keeps_trans [OF that keeps_reply] by (simp_all add: plain_def)
  have walk: "\<exists>ds. w_calls w1 = w_calls w @ ds \<and> list_all P ds"
    if "IsAuthorized ev rc (GetAuthTokenHeader r) ?w = Some (b, w1)" for b w1
    using IsAuthorized_calls [OF that] access by (fastforce simp: list_all_iff)
  show ?thesis
  proof (cases "IsAuthorized ev rc (GetAuthTokenHeader r) ?w")
    case None
    with Inr assms later [of ?w "[]"] show ?thesis
      by (cases "id_Type tk = ''ServiceAccount''") (simp_all add: Authorization_def rbac_client_def Let_def keeps_def)
  next
    case (Some bw)
    obtain b w1 where bw: "bw = (b, w1)" by (cases bw)
    with Some walk obtain ds where ds: "w_calls w1 = w_calls w @ ds" "list_all P ds" by blast
    with Some bw Inr assms later [of w1 ds] later [of "Inc RBACServiceAccountRejected w1" ds] later [of ?w "[]"] show ?thesis
      by (cases "id_Type tk = ''ServiceAccount''") (simp_all add: Authorization_def rbac_client_def Let_def)
  qed
qed (use assms in \<open>simp add: Authorization_def plain_def keeps_def\<close>)

lemma keeps_middlewares:
  assumes "cf_Auth (sv_Config sv)" and "\<not> auth_exempt ev (noAuthURLs sv) r"
    and "DecodeTokenFromHeader ev r (cf_AuthType (sv_Config sv)) = Inr tk"
    and "sv_rbacClient sv = rbac_client ev rc" and "serves (own_call ev px rx sv owns) h"
  shows "keeps (own_call ev px rx sv owns (id_OrgID tk)) w (setupAuthMiddleware ev sv (serve h) r w)"
proof -
  let ?i = "if id_UserID tk = [] then tk\<lparr>id_UserID := ''0''\<rparr> else tk"
  let ?P = "own_call ev px rx sv owns (id_OrgID tk)" and ?rq = "r\<lparr>rq_User := IdentityValue ?i\<rparr>"
  have "?P (rbac_call u (GetAuthTokenHeader ?rq))" for u
    using token_access [OF assms(3)] by (simp add: own_call_def GetAuthTokenHeader_def)
  moreover have handler: "keeps ?P w (serve h ?rq w)" for w
    using keeps_serve [OF assms(5), of ?rq ?i w] by (auto split: if_splits)
  ultimately have "keeps ?P w (Authorization ev sv (serve h) (noAuthURLs sv) ?rq w)" for w
    by (intro keeps_Authorization [OF assms(4)])
  with handler show ?thesis
    using assms(1-3) by (simp add: setupAuthMiddleware_def Authentication_def Let_def plain_def)
qed

lemma Initialize_dispatch:
  assumes "find_route rx request (addEndpointsToRouter ev px rx sv) = Some (r, vars)"
    and "rx_redirect rx (ro_Path r) request = None" and "\<not> cf_EnableCORS (sv_Config sv)"
    and "\<And>h rq counter w. rx_LogRequest rx h rq counter w = h rq counter w"
  shows "snd (Initialize ev px rx sv request counter w) =
      setupAuthMiddleware ev sv (serve (ro_Handler r)) (request\<lparr>rq_Vars := vars\<rparr>) w"
  using assms(1-3) by (simp add: Initialize_def Let_def assms(4))

lemma tenant_calls:
  assumes "cf_Auth (sv_Config sv)" and "\<not> auth_exempt ev (noAuthURLs sv) request"
    and "DecodeTokenFromHeader ev request (cf_AuthType (sv_Config sv)) = Inr tk"
    and "sv_rbacClient sv = rbac_client ev rc" and "confines owns ev sv" and "reads_own_org ev"
    and "find_route rx request (addEndpointsToRouter ev px rx sv) = Some (r, vars)" and "r \<in> set (tenant_routes ev px rx sv)"
    and "rx_redirect rx (ro_Path r) request = None" and "\<not> cf_EnableCORS (sv_Config sv)"
    and "\<And>h rq counter w. rx_LogRequest rx h rq counter w = h rq counter w"
  shows "keeps (own_call ev px rx sv owns (id_OrgID tk)) w (snd (Initialize ev px rx sv request counter w))"
  unfolding Initialize_dispatch [OF assms(7,9-11)]
  using assms(1-6,8) by (intro keeps_middlewares tenant_routes_serve) simp_all

subsection \<open>A sample tenant\<close>

definition tenant_env :: env where
  "tenant_env = sample_env\<lparr>ev_dec := sample_dec\<lparr>dc_token := (\<lambda>_. Inr (sample_identity\<lparr>id_Type := ''User''\<rparr>))\<rparr>,
     ev_ReadOrganizationID := (\<lambda>rq auth. case rq_User rq of IdentityValue i \<Rightarrow> Inr (id_OrgID i) | _ \<Rightarrow> Inl [])\<rparr>"

text \<open>What the clients hold: one cluster of the organization 1, and \<open>others\<close> for all others.\<close>

definition tenant_cluster :: ClusterInfo where
  "tenant_cluster = \<lparr>ci_ID = ''c1'', ci_DisplayName = ''one'', ci_Managed = False, ci_Status = ''Active''\<rparr>"

definition tenant_ams :: "ClusterInfo \<Rightarrow> AMSClient" where
  "tenant_ams others = \<lparr>ams_GetClustersForOrganization = (\<lambda>g _ _. (if g = 1 then [tenant_cluster] else [others], None)),
     ams_GetClusterDetailsFromExternalClusterID = (\<lambda>c. if c = ''c1'' then tenant_cluster else others),
     ams_GetSingleClusterInfoForOrganization =
       (\<lambda>g c. if g = 1 \<and> c = ''c1'' then Inr tenant_cluster else Inl (ItemNotFoundError (ItemStr c)))\<rparr>"

definition tenant_redis :: "RequestID list \<Rightarrow> RedisInterface" where
  "tenant_redis others = \<lparr>redis_GetRequestIDsForClusterID = (\<lambda>g _. Some (Inr (if g = 1 then [] else others))),
     redis_GetTimestampsForRequestIDs = (\<lambda>_ _ _ _. Inr []), redis_GetRuleHitsForRequest = (\<lambda>_ _ _. Inr []),
     redis_GetRequestStatus = (\<lambda>_ _ _. None)\<rparr>"

definition tenant_owns :: "OrgID \<Rightarrow> ClusterName \<Rightarrow> bool" where
  "tenant_owns g c \<longleftrightarrow> g = 1 \<and> c = ''c1''"

definition tenant_server :: HTTPServer where
  "tenant_server = (SetRBACClient sample_server (rbac_client tenant_env sample_rc))
     \<lparr>sv_amsClient := Some (tenant_ams empty_ClusterInfo), sv_redis := Some (tenant_redis [])\<rparr>"

definition tenant_request :: http_request where
  "tenant_request = sample_request\<lparr>rq_Path := ''/api/v2/ack'', rq_Header := [(''X-Rh-Identity'', [''token''])]\<rparr>"

lemmas tenant_sample = tenant_server_def SetRBACClient_def sample_server_def New_def sample_config_def tenant_request_def
  sample_request_def tenant_env_def sample_env_def

lemma tenant_reads_own_org: "reads_own_org tenant_env"
  by (auto simp: reads_own_org_def of_org_def tenant_env_def)

lemma tenant_confined: "confines tenant_owns tenant_env tenant_server"
  by (auto simp: confines_def tenant_owns_def tenant_ams_def tenant_sample split: if_splits)

lemma tenant_not_exempt: "\<not> auth_exempt tenant_env (noAuthURLs tenant_server) tenant_request"
  by (simp add: auth_exempt_def noAuthURLs_def path_base_def Let_def tenant_sample)

lemma tenant_token:
  "DecodeTokenFromHeader tenant_env tenant_request (cf_AuthType (sv_Config tenant_server)) =
     Inr (sample_identity\<lparr>id_Type := ''User''\<rparr>)"
proof -
  have "header_get [(''X-Rh-Identity'', [''token''])] XRHAuthTokenHeader = ''token''" by code_simp
  then show ?thesis by (simp add: DecodeTokenFromHeader_def GetAuthTokenHeader_def tenant_sample)
qed

abbreviation tenant_route :: route where
  "tenant_route \<equiv> HandleFunc ''/api/v2/ack'' (simple (readAckList tenant_env tenant_server)) [GET]"

lemma tenant_route_found:
  "find_route sample_rx tenant_request (addEndpointsToRouter tenant_env sample_px sample_rx tenant_server) = Some (tenant_route, [])"
  by (simp add: addEndpointsToRouter_def addV1EndpointsToRouter_def addV1ReportsEndpointsToRouter_def
      addV1ContentEndpointsToRouter_def addV1RuleEndpointsToRouter_def addV2EndpointsToRouter_def
      addV2ReportsEndpointsToRouter_def addV2ContentEndpointsToRouter_def addV2RuleEndpointsToRouter_def
      HandleFunc_def sample_rx_def path_base_def tenant_sample Let_def)

lemma tenant_route_member: "tenant_route \<in> set (tenant_routes tenant_env sample_px sample_rx tenant_server)"
  by (simp add: tenant_routes_def addV2RuleEndpointsToRouter_def HandleFunc_def Let_def tenant_sample)

lemma tenant_run:
  "\<exists>w'. snd (Initialize tenant_env sample_px sample_rx tenant_server tenant_request (\<lambda>_. 0) empty_world) = Some w' \<and> w_calls w' \<noteq> []"
proof -
  have run: "cf_Auth (sv_Config tenant_server)" "\<not> cf_EnableCORS (sv_Config tenant_server)"
    "net tenant_env cs c = Inl (UrlError ''unreachable'')" "cf_UseRBAC (sv_Config tenant_server)" for cs c
    by (simp_all add: tenant_sample)
  have "snd (Initialize tenant_env sample_px sample_rx tenant_server tenant_request (\<lambda>_. 0) empty_world) =
      setupAuthMiddleware tenant_env tenant_server (serve (ro_Handler tenant_route)) (tenant_request\<lparr>rq_Vars := []\<rparr>) empty_world"
    by (rule Initialize_dispatch [OF tenant_route_found _ run(2)]) (simp_all add: sample_rx_def)
  then show ?thesis
    using tenant_not_exempt tenant_token
    by (simp add: setupAuthMiddleware_def Authentication_def Authorization_def sample_identity_def HandleFunc_def
        serve_def simple_def readAckList_def identity_simps readListOfAckedRules_def add_call_def run)
qed

end
