(* ===== verification/Noninterference.thy ===== *)
theory Noninterference
  imports Isolation
begin

text \<open>
  What other tenants hold has no influence on the answers of one: two runs are compared,
  over backends that agree on what \<open>own_call\<close> names for one organization and may differ in
  everything else. Where a lookup is not an HTTP call (account management, Redis), what the
  service asks for shows in this comparison only: a handler that looked up the data of
  somebody else would answer differently when they differ.

  A computation is an element of the state monad, so that two runs agree when the
  computations are equal. The equations come in layers that unfold into each other: what
  does not use the network at all (\<open>net_free\<close>) or neither client (\<open>clients_free\<close>) is the same
  for any two environments, and what calls the aggregator or a client on behalf of the
  organization (\<open>net_same\<close>, \<open>clients_same\<close>) is the same when they agree on it; the handlers and
  the routes follow.
\<close>

subsection \<open>What does not use the network\<close>

named_theorems net_free "functions that do not use the network"

lemma net_free_fields [net_free]:
  "send_err (ev\<lparr>net := n\<rparr>) = send_err ev" "ev_content (ev\<lparr>net := n\<rparr>) = ev_content ev" "ev_dec (ev\<lparr>net := n\<rparr>) = ev_dec ev"
  "ev_GetRouterParam (ev\<lparr>net := n\<rparr>) = ev_GetRouterParam ev" "ev_ReadClusterName (ev\<lparr>net := n\<rparr>) = ev_ReadClusterName ev"
  "ev_ReadRuleID (ev\<lparr>net := n\<rparr>) = ev_ReadRuleID ev" "ev_ReadOrganizationID (ev\<lparr>net := n\<rparr>) = ev_ReadOrganizationID ev"
  "ev_ReadRuleSelector (ev\<lparr>net := n\<rparr>) = ev_ReadRuleSelector ev"
  "ev_ReadClusterListFromPath (ev\<lparr>net := n\<rparr>) = ev_ReadClusterListFromPath ev"
  "ev_ParseRuleSelector (ev\<lparr>net := n\<rparr>) = ev_ParseRuleSelector ev"
  "ev_item_not_found_text (ev\<lparr>net := n\<rparr>) = ev_item_not_found_text ev" "ev_base64 (ev\<lparr>net := n\<rparr>) = ev_base64 ev"
  "ev_fmt_user (ev\<lparr>net := n\<rparr>) = ev_fmt_user ev" "ev_url_ok (ev\<lparr>net := n\<rparr>) = ev_url_ok ev"
  by simp_all

lemma net_free_Error [net_free]: "Error (ev\<lparr>net := n\<rparr>) = Error ev" "error_reply (ev\<lparr>net := n\<rparr>) = error_reply ev"
proof -
  show e: "Error (ev\<lparr>net := n\<rparr>) = Error ev"
  proof
    show "Error (ev\<lparr>net := n\<rparr>) e = Error ev e" for e by (cases e) simp_all
  qed
  show "error_reply (ev\<lparr>net := n\<rparr>) = error_reply ev"
  proof
    show "error_reply (ev\<lparr>net := n\<rparr>) e = error_reply ev e" for e
      by (cases "(ev, e)" rule: error_reply.cases) (simp_all add: e)
  qed
qed

lemma net_free_effects [net_free]:
  "send (ev\<lparr>net := n\<rparr>) = send ev" "handleServerError (ev\<lparr>net := n\<rparr>) = handleServerError ev"
  "send_log (ev\<lparr>net := n\<rparr>) = send_log ev" "send_handle (ev\<lparr>net := n\<rparr>) = send_handle ev"
  by (intro ext; unfold send_def handleServerError_def send_log_def send_handle_def net_free; rule refl)+

lemma net_free_validate_ids [net_free]: "validate_ids (ev\<lparr>net := n\<rparr>) = validate_ids ev"
proof (intro ext)
  fix ids
  show "validate_ids (ev\<lparr>net := n\<rparr>) ids = validate_ids ev ids"
    by (induction ids) (auto simp: net_free Let_def split: sum.split option.split prod.split)
qed

lemma net_free_rule_ack_loop [net_free]: "rule_ack_loop (ev\<lparr>net := n\<rparr>) = rule_ack_loop ev"
proof (intro ext)
  fix m acks x
  show "rule_ack_loop (ev\<lparr>net := n\<rparr>) m acks x = rule_ack_loop ev m acks x"
    by (induction acks arbitrary: m) (auto simp: net_free Let_def split: sum.split option.split prod.split)
qed

lemma net_free_params [net_free]:
  "readRuleIDWithErrorKey (ev\<lparr>net := n\<rparr>) = readRuleIDWithErrorKey ev"
  "readCompositeRuleID (ev\<lparr>net := n\<rparr>) = readCompositeRuleID ev"
  "readParamsGetRecommendations (ev\<lparr>net := n\<rparr>) = readParamsGetRecommendations ev"
  "readRequestID (ev\<lparr>net := n\<rparr>) = readRequestID ev"
  "readRequestIDList (ev\<lparr>net := n\<rparr>) = readRequestIDList ev"
  "readNamespace (ev\<lparr>net := n\<rparr>) = readNamespace ev"
  "generateCompositeRuleIDFromDisabled (ev\<lparr>net := n\<rparr>) = generateCompositeRuleIDFromDisabled ev"
  "readJustificationFromBody (ev\<lparr>net := n\<rparr>) = readJustificationFromBody ev"
  "readRuleSelectorAndJustificationFromBody (ev\<lparr>net := n\<rparr>) = readRuleSelectorAndJustificationFromBody ev"
  "returnRuleAckToClient (ev\<lparr>net := n\<rparr>) = returnRuleAckToClient ev"
  "formatNullTime (ev\<lparr>net := n\<rparr>) = formatNullTime ev"
  "handleAggregatorError (ev\<lparr>net := n\<rparr>) = handleAggregatorError ev"
  by (intro ext; unfold readRuleIDWithErrorKey_def readCompositeRuleID_def readParamsGetRecommendations_def readRequestID_def readRequestIDList_def readNamespace_def generateCompositeRuleIDFromDisabled_def readJustificationFromBody_def readRuleSelectorAndJustificationFromBody_def returnRuleAckToClient_def formatNullTime_def handleAggregatorError_def net_free; rule refl)+

lemma net_free_filter_rules_loop [net_free]: "filter_rules_loop (ev\<lparr>net := n\<rparr>) = filter_rules_loop ev"
proof (intro ext)
  fix cs osd disabled acks res rules
  show "filter_rules_loop (ev\<lparr>net := n\<rparr>) cs osd disabled acks res rules = filter_rules_loop ev cs osd disabled acks res rules"
    by (induction rules arbitrary: res) (auto simp: net_free Let_def split: sum.split option.split prod.split)
qed

lemma net_free_disabled_clusters_loop [net_free]: "disabled_clusters_loop (ev\<lparr>net := n\<rparr>) = disabled_clusters_loop ev"
proof (intro ext)
  fix m rules x
  show "disabled_clusters_loop (ev\<lparr>net := n\<rparr>) m rules x = disabled_clusters_loop ev m rules x"
    by (induction rules arbitrary: m) (auto simp: net_free Let_def split: sum.split option.split prod.split)
qed

lemma net_free_user_disabled_loop [net_free]: "user_disabled_loop (ev\<lparr>net := n\<rparr>) = user_disabled_loop ev"
proof (intro ext)
  fix m rules x
  show "user_disabled_loop (ev\<lparr>net := n\<rparr>) m rules x = user_disabled_loop ev m rules x"
    by (induction rules arbitrary: m) (auto simp: net_free Let_def split: sum.split option.split prod.split)
qed

lemma net_free_disabled_rules_loop [net_free]: "disabled_rules_loop (ev\<lparr>net := n\<rparr>) = disabled_rules_loop ev"
proof (intro ext)
  fix m rules x
  show "disabled_rules_loop (ev\<lparr>net := n\<rparr>) m rules x = disabled_rules_loop ev m rules x"
    by (induction rules arbitrary: m) (auto simp: net_free Let_def split: sum.split option.split prod.split)
qed

lemma net_free_org_reports [net_free]: "org_reports (ev\<lparr>net := n\<rparr>) = org_reports ev"
proof (intro ext)
  fix cs acks overview reports
  show "org_reports (ev\<lparr>net := n\<rparr>) cs acks overview reports = org_reports ev cs acks overview reports"
    by (induction reports arbitrary: overview) (auto simp: net_free Let_def split: sum.split option.split prod.split)
qed

lemma net_free_impacted_details [net_free]: "impacted_details (ev\<lparr>net := n\<rparr>) = impacted_details ev"
proof (intro ext)
  fix infos disabled ack acked data hits
  show "impacted_details (ev\<lparr>net := n\<rparr>) infos disabled ack acked data hits = impacted_details ev infos disabled ack acked data hits"
    by (induction hits arbitrary: data) (auto simp: net_free Let_def split: sum.split option.split prod.split)
qed

lemma net_free_content [net_free]:
  "ack_of (ev\<lparr>net := n\<rparr>) = ack_of ev"
  "fill_impacted (ev\<lparr>net := n\<rparr>) = fill_impacted ev"
  "fillDVORecommendationRuleContent (ev\<lparr>net := n\<rparr>) = fillDVORecommendationRuleContent ev"
  "cluster_view_item (ev\<lparr>net := n\<rparr>) = cluster_view_item ev"
  "read_ok_body (ev\<lparr>net := n\<rparr>) = read_ok_body ev"
  by (intro ext; unfold ack_of_def fill_impacted_def fillDVORecommendationRuleContent_def cluster_view_item_def read_ok_body_def net_free; rule refl)+

lemma net_free_fill_workloads_loop [net_free]: "fill_workloads_loop (ev\<lparr>net := n\<rparr>) = fill_workloads_loop ev"
proof (intro ext)
  fix cs severities meta acc recs
  show "fill_workloads_loop (ev\<lparr>net := n\<rparr>) cs severities meta acc recs = fill_workloads_loop ev cs severities meta acc recs"
    by (induction recs arbitrary: meta acc) (auto simp: net_free Let_def split: sum.split option.split prod.split)
qed

lemma net_free_results [net_free]:
  "prepareAckList (ev\<lparr>net := n\<rparr>) = prepareAckList ev"
  "generateRuleAckMap (ev\<lparr>net := n\<rparr>) = generateRuleAckMap ev"
  "handleReportsResponse (ev\<lparr>net := n\<rparr>) = handleReportsResponse ev"
  "filterRulesInResponse (ev\<lparr>net := n\<rparr>) = filterRulesInResponse ev"
  "fillImpacted (ev\<lparr>net := n\<rparr>) = fillImpacted ev"
  "sendReportReponse (ev\<lparr>net := n\<rparr>) = sendReportReponse ev"
  "handleFetchRuleContentError (ev\<lparr>net := n\<rparr>) = handleFetchRuleContentError ev"
  "matchClusterInfoAndUserData (ev\<lparr>net := n\<rparr>) = matchClusterInfoAndUserData ev"
  "generateOrgOverview (ev\<lparr>net := n\<rparr>) = generateOrgOverview ev"
  "clusters_detail_data (ev\<lparr>net := n\<rparr>) = clusters_detail_data ev"
  "processWorkloadsRecommendations (ev\<lparr>net := n\<rparr>) = processWorkloadsRecommendations ev"
  "fillInWorkloadsData (ev\<lparr>net := n\<rparr>) = fillInWorkloadsData ev"
  "checkRuleIDAndErrorKeyAreValid (ev\<lparr>net := n\<rparr>) = checkRuleIDAndErrorKeyAreValid ev"
  "evaluateProxyError (ev\<lparr>net := n\<rparr>) = evaluateProxyError ev"
  by (intro ext; unfold prepareAckList_def generateRuleAckMap_def handleReportsResponse_def filterRulesInResponse_def fillImpacted_def sendReportReponse_def handleFetchRuleContentError_def matchClusterInfoAndUserData_def generateOrgOverview_def clusters_detail_data_def processWorkloadsRecommendations_def fillInWorkloadsData_def checkRuleIDAndErrorKeyAreValid_def evaluateProxyError_def net_free; rule refl)+

lemma net_free_handlers [net_free]:
  "processClustersDetailResponse (ev\<lparr>net := n\<rparr>) = processClustersDetailResponse ev"
  "mainEndpoint (ev\<lparr>net := n\<rparr>) = mainEndpoint ev"
  "getGroups (ev\<lparr>net := n\<rparr>) = getGroups ev"
  "getContentForRuleV1 (ev\<lparr>net := n\<rparr>) = getContentForRuleV1 ev"
  "getContentV1 (ev\<lparr>net := n\<rparr>) = getContentV1 ev"
  "getRuleIDs (ev\<lparr>net := n\<rparr>) = getRuleIDs ev"
  "getContentWithGroups (ev\<lparr>net := n\<rparr>) = getContentWithGroups ev"
  "checkRedisClientReadiness (ev\<lparr>net := n\<rparr>) = checkRedisClientReadiness ev"
  "getRecommendationContent (ev\<lparr>net := n\<rparr>) = getRecommendationContent ev"
  by (intro ext; unfold processClustersDetailResponse_def mainEndpoint_def getGroups_def getContentForRuleV1_def getContentV1_def getRuleIDs_def getContentWithGroups_def checkRedisClientReadiness_def getRecommendationContent_def net_free; rule refl)+

subsection \<open>The aggregator as one organization sees it\<close>

definition agree_net ::
  "(http_call \<Rightarrow> bool) \<Rightarrow> env \<Rightarrow> (http_call list \<Rightarrow> http_call \<Rightarrow> http_response res) \<Rightarrow> bool" where
  "agree_net own ev n \<longleftrightarrow> (\<forall>cs c. own c \<longrightarrow> n cs c = net ev cs c)"

named_theorems net_same "functions whose calls are on behalf of one organization"

lemma http_same:
  assumes "agree_net own ev n"
  shows "own c \<Longrightarrow> http_do (ev\<lparr>net := n\<rparr>) c = http_do ev c"
    and "own (get_call u) \<Longrightarrow> http_get (ev\<lparr>net := n\<rparr>) u = http_get ev u"
    and "own (post_call u b) \<Longrightarrow> http_post (ev\<lparr>net := n\<rparr>) u b = http_post ev u b"
  using assms by (simp_all add: http_do_def http_get_def http_post_def agree_net_def get_call_def post_call_def)

lemma net_same_acks [net_same]:
  assumes A: "agree_net (same_org sv g) ev n"
  shows "readRuleDisableStatus (ev\<lparr>net := n\<rparr>) sv r k g = readRuleDisableStatus ev sv r k g"
    "readListOfAckedRules (ev\<lparr>net := n\<rparr>) sv g = readListOfAckedRules ev sv g"
    "updateAckRuleSystemWide (ev\<lparr>net := n\<rparr>) sv r k g j = updateAckRuleSystemWide ev sv r k g j"
    "deleteAckRuleSystemWide (ev\<lparr>net := n\<rparr>) sv r k g = deleteAckRuleSystemWide ev sv r k g"
    "ackRuleSystemWide (ev\<lparr>net := n\<rparr>) sv r k g j = ackRuleSystemWide ev sv r k g j"
  unfolding readRuleDisableStatus_def readListOfAckedRules_def updateAckRuleSystemWide_def deleteAckRuleSystemWide_def
    ackRuleSystemWide_def Let_def net_free
  by (simp_all add: http_same [OF A] read_call_def update_call_def enable_call_def disable_call_def split: option.split)

lemma net_same_clusters [net_same]:
  assumes A: "agree_net (same_org sv g) ev n"
  shows "getClusterDetailsFromAggregator (ev\<lparr>net := n\<rparr>) sv g = getClusterDetailsFromAggregator ev sv g"
    "readClusterInfoForOrgID (ev\<lparr>net := n\<rparr>) sv g = readClusterInfoForOrgID ev sv g"
proof -
  show clusters: "getClusterDetailsFromAggregator (ev\<lparr>net := n\<rparr>) sv g = getClusterDetailsFromAggregator ev sv g"
    unfolding getClusterDetailsFromAggregator_def net_free by (simp add: http_same [OF A])
  show "readClusterInfoForOrgID (ev\<lparr>net := n\<rparr>) sv g = readClusterInfoForOrgID ev sv g"
    unfolding readClusterInfoForOrgID_def clusters ..
qed

lemma net_free_read_service [net_free]: "read_service (ev\<lparr>net := n\<rparr>) m decode = read_service ev m decode"
  unfolding read_service_def net_free ..

lemma net_same_reports [net_same]:
  assumes A: "agree_net (same_org sv g) ev n"
  shows "readAggregatorReportForClusterID (ev\<lparr>net := n\<rparr>) sv g c u = readAggregatorReportForClusterID ev sv g c u"
    "readAggregatorReportMetainfoForClusterID (ev\<lparr>net := n\<rparr>) sv g c u = readAggregatorReportMetainfoForClusterID ev sv g c u"
    "readAggregatorReportForClusterList (ev\<lparr>net := n\<rparr>) sv g cs = readAggregatorReportForClusterList ev sv g cs"
    "readAggregatorRuleForClusterID (ev\<lparr>net := n\<rparr>) sv g c u r k = readAggregatorRuleForClusterID ev sv g c u r k"
    "readAggregatorReportForClusterListFromBody (ev\<lparr>net := n\<rparr>) sv g request = readAggregatorReportForClusterListFromBody ev sv g request"
  unfolding readAggregatorReportForClusterID_def readAggregatorReportMetainfoForClusterID_def
    readAggregatorReportForClusterList_def readAggregatorReportForClusterListFromBody_def readAggregatorRuleForClusterID_def
    Let_def net_free
  by (simp_all add: http_same [OF A] split: sum.split)

lemma net_same_user_data [net_same]:
  assumes A: "agree_net (same_org sv g) ev n"
  shows "readListOfClusterDisabledRules (ev\<lparr>net := n\<rparr>) sv g = readListOfClusterDisabledRules ev sv g"
    "readListOfDisabledRulesForClusters (ev\<lparr>net := n\<rparr>) sv g cs = readListOfDisabledRulesForClusters ev sv g cs"
    "getWorkloadsForCluster (ev\<lparr>net := n\<rparr>) sv g c ns = getWorkloadsForCluster ev sv g c ns"
    "getWorkloadsForOrganization (ev\<lparr>net := n\<rparr>) sv g infos = getWorkloadsForOrganization ev sv g infos"
    "postRatingToAggregator (ev\<lparr>net := n\<rparr>) sv g request = postRatingToAggregator ev sv g request"
    "getRatingForRecommendation (ev\<lparr>net := n\<rparr>) sv g r = getRatingForRecommendation ev sv g r"
    "getImpactingRecommendations (ev\<lparr>net := n\<rparr>) sv g u cs = getImpactingRecommendations ev sv g u cs"
    "getClustersAndRecommendations (ev\<lparr>net := n\<rparr>) sv g u cs = getClustersAndRecommendations ev sv g u cs"
    "getImpactedClusters (ev\<lparr>net := n\<rparr>) sv g u s infos fallback = getImpactedClusters ev sv g u s infos fallback"
    "getListOfDisabledClusters (ev\<lparr>net := n\<rparr>) sv g s = getListOfDisabledClusters ev sv g s"
  unfolding readListOfClusterDisabledRules_def readListOfDisabledRulesForClusters_def getWorkloadsForCluster_def
    getWorkloadsForOrganization_def postRatingToAggregator_def getRatingForRecommendation_def Let_def
    getImpactingRecommendations_def getClustersAndRecommendations_def getImpactedClusters_def
    getImpactedClustersFromAggregator_def getListOfDisabledClusters_def net_free
  by (simp_all add: http_same [OF A] split: sum.split prod.split option.split)

lemma net_same_combined [net_same]:
  assumes A: "agree_net (same_org sv g) ev n"
  shows "getRuleAcksMap (ev\<lparr>net := n\<rparr>) sv g = getRuleAcksMap ev sv g"
    "getRuleDisabledClusters (ev\<lparr>net := n\<rparr>) sv g cs = getRuleDisabledClusters ev sv g cs"
    "getUserDisabledRulesPerCluster (ev\<lparr>net := n\<rparr>) sv g = getUserDisabledRulesPerCluster ev sv g"
    "getDisabledRulesForClusterMap (ev\<lparr>net := n\<rparr>) sv g c = getDisabledRulesForClusterMap ev sv g c"
    "getListOfDisabledClustersAndAck (ev\<lparr>net := n\<rparr>) sv g s = getListOfDisabledClustersAndAck ev sv g s"
  unfolding getRuleAcksMap_def getRuleDisabledClusters_def getUserDisabledRulesPerCluster_def
    getDisabledRulesForClusterMap_def getListOfDisabledClustersAndAck_def net_free net_same [OF A]
  by (rule refl)+

lemma net_same_lists [net_same]:
  assumes A: "agree_net (same_org sv g) ev n"
  shows "getClusterListAndUserData (ev\<lparr>net := n\<rparr>) sv g u = getClusterListAndUserData ev sv g u"
  unfolding getClusterListAndUserData_def net_free net_same [OF A] ..

subsection \<open>The handlers\<close>

definition user_of :: "http_request \<Rightarrow> UserID" where
  "user_of request = (case rq_User request of IdentityValue i \<Rightarrow> id_UserID i | _ \<Rightarrow> [])"

lemma of_org_simps:
  assumes "of_org g request"
  shows "GetCurrentOrgID request = Inr g" "GetCurrentOrgIDUserIDFromToken request = Inr (g, user_of request)"
  using assms by (auto simp: of_org_def identity_simps user_of_def)

named_theorems handlers_same "handlers that call the aggregator for one organization"
named_theorems handlers_same_own "handlers that call other services for one organization"

lemma handlers_same_acks [handlers_same]:
  assumes A: "agree_net (same_org sv g) ev n" and R: "of_org g request"
  shows "readAckList (ev\<lparr>net := n\<rparr>) sv request = readAckList ev sv request"
    "getAcknowledge (ev\<lparr>net := n\<rparr>) sv request = getAcknowledge ev sv request"
    "acknowledgePost (ev\<lparr>net := n\<rparr>) sv request = acknowledgePost ev sv request"
    "updateAcknowledge (ev\<lparr>net := n\<rparr>) sv request = updateAcknowledge ev sv request"
    "deleteAcknowledge (ev\<lparr>net := n\<rparr>) sv request = deleteAcknowledge ev sv request"
    "postRating (ev\<lparr>net := n\<rparr>) sv request = postRating ev sv request"
  unfolding readAckList_def getAcknowledge_def acknowledgePost_def updateAcknowledge_def deleteAcknowledge_def postRating_def
     of_org_simps [OF R] sum.case prod.case net_free net_same [OF A]
  by (rule refl)+

lemma handlers_same_reports [handlers_same]:
  assumes A: "agree_net (same_org sv g) ev n" and R: "of_org g request"
  shows "reportMetainfoEndpoint (ev\<lparr>net := n\<rparr>) sv request = reportMetainfoEndpoint ev sv request"
    "reportForListOfClustersEndpoint (ev\<lparr>net := n\<rparr>) sv request = reportForListOfClustersEndpoint ev sv request"
    "reportForListOfClustersPayloadEndpoint (ev\<lparr>net := n\<rparr>) sv request = reportForListOfClustersPayloadEndpoint ev sv request"
    "singleRuleEndpoint (ev\<lparr>net := n\<rparr>) sv request = singleRuleEndpoint ev sv request"
    "reportEndpointV1 (ev\<lparr>net := n\<rparr>) sv request = reportEndpointV1 ev sv request"
    "reportEndpointV2 (ev\<lparr>net := n\<rparr>) sv request = reportEndpointV2 ev sv request"
  unfolding reportMetainfoEndpoint_def reportForListOfClustersEndpoint_def reportForListOfClustersPayloadEndpoint_def singleRuleEndpoint_def reportEndpointV1_def reportEndpointV2_def
    fetchAggregatorReportMetainfo_def fetchAggregatorReports_def fetchAggregatorReportsUsingRequestBodyClusterList_def fetchAggregatorReportRule_def
    fetchAggregatorReport_def buildReportEndpointResponse_def of_org_simps [OF R] sum.case prod.case net_free net_same [OF A]
  by (rule refl)+

lemma handlers_same_overview [handlers_same]:
  assumes A: "agree_net (same_org sv g) ev n" and R: "of_org g request"
  shows "overviewEndpoint (ev\<lparr>net := n\<rparr>) sv request = overviewEndpoint ev sv request"
    "overviewEndpointWithClusterIDs (ev\<lparr>net := n\<rparr>) sv request = overviewEndpointWithClusterIDs ev sv request"
    "getClustersDetailForRule (ev\<lparr>net := n\<rparr>) sv request = getClustersDetailForRule ev sv request"
    "getClustersView (ev\<lparr>net := n\<rparr>) sv request = getClustersView ev sv request"
    "getSingleClusterInfo (ev\<lparr>net := n\<rparr>) sv request = getSingleClusterInfo ev sv request"
  unfolding overviewEndpoint_def overviewEndpointWithClusterIDs_def getClustersDetailForRule_def getClustersView_def getSingleClusterInfo_def
    fetchAggregatorReportsUsingRequestBodyClusterList_def of_org_simps [OF R] sum.case prod.case net_free net_same [OF A]
  by (rule refl)+

lemma handlers_same_requests [handlers_same]:
  assumes A: "agree_net (same_org sv g) ev n" and R: "of_org g request"
  shows "getRequestsForCluster (ev\<lparr>net := n\<rparr>) sv request = getRequestsForCluster ev sv request"
    "getRequestsForClusterPostVariant (ev\<lparr>net := n\<rparr>) sv request = getRequestsForClusterPostVariant ev sv request"
    "getRequestStatusForCluster (ev\<lparr>net := n\<rparr>) sv request = getRequestStatusForCluster ev sv request"
    "getReportForRequest (ev\<lparr>net := n\<rparr>) sv request = getReportForRequest ev sv request"
  unfolding getRequestsForCluster_def getRequestsForClusterPostVariant_def getRequestStatusForCluster_def getReportForRequest_def
     of_org_simps [OF R] sum.case prod.case net_free net_same [OF A]
  by (rule refl)+

lemma handlers_same_dvo [handlers_same]:
  assumes A: "agree_net (same_org sv g) ev n" and R: "of_org g request"
  shows "getDVONamespaceList (ev\<lparr>net := n\<rparr>) sv request = getDVONamespaceList ev sv request"
    "getDVONamespacesForCluster (ev\<lparr>net := n\<rparr>) sv request = getDVONamespacesForCluster ev sv request"
    "getRecommendationContentWithUserData (ev\<lparr>net := n\<rparr>) sv request = getRecommendationContentWithUserData ev sv request"
  unfolding getDVONamespaceList_def getDVONamespacesForCluster_def getRecommendationContentWithUserData_def
    Let_def of_org_simps [OF R] sum.case prod.case net_free net_same [OF A]
  by (rule refl)+

lemma bind_cong_result:
  assumes "\<And>w x w'. run_state m w = (x, w') \<Longrightarrow> f x = f' x"
  shows "m \<bind> f = m \<bind> f'"
  by (rule state.expand) (auto simp: fun_eq_iff assms split: prod.split)

lemma handlers_same_recommendations [handlers_same]:
  assumes A: "agree_net (same_org sv g) ev n" and R: "of_org g request"
  shows "getRecommendations (ev\<lparr>net := n\<rparr>) sv request = getRecommendations ev sv request"
  unfolding getRecommendations_def net_free
proof (rule bind_cong_result, goal_cases)
  case (1 w x w')
  then have "x = Inr (u, g', flag) \<Longrightarrow> g' = g" for u g' flag
    using params_org of_org_simps(2) [OF R] by blast
  then show ?case
    by (cases x) (auto simp: Let_def net_free net_same [OF A] split: prod.split)
qed

lemma handlers_same_upgrade [handlers_same_own]:
  assumes A: "agree_net (own_call ev px rx sv owns g) ev n" and R: "of_org g request" and O: "confines owns ev sv"
  shows "upgradeRisksPrediction (ev\<lparr>net := n\<rparr>) sv request = upgradeRisksPrediction ev sv request"
proof -
  have fetch: "fetchUpgradePrediction (ev\<lparr>net := n\<rparr>) sv c = fetchUpgradePrediction ev sv c" if "owns g c" for c
    unfolding fetchUpgradePrediction_def net_free
    using that by (subst http_same(2) [OF A]) (auto simp: own_call_def own_prediction_def)
  show ?thesis
  proof (cases "sv_amsClient sv")
    case (Some ams)
    have "ams_GetSingleClusterInfoForOrganization ams g c = Inr info \<Longrightarrow> ci_ID info = c \<Longrightarrow>
        fetchUpgradePrediction (ev\<lparr>net := n\<rparr>) sv c = fetchUpgradePrediction ev sv c" for c info
      using O Some by (intro fetch) (auto simp: confines_def)
    then show ?thesis
      unfolding upgradeRisksPrediction_def net_free of_org_simps [OF R] sum.case Some option.case
      by (intro bind_cong_result) (auto split: option.split sum.split)
  qed (simp add: upgradeRisksPrediction_def net_free)
qed

lemma handlers_same_info [handlers_same_own]:
  assumes A: "agree_net (own_call ev px rx sv owns g) ev n"
  shows "info_handler (ev\<lparr>net := n\<rparr>) sv request = info_handler ev sv request"
proof -
  have info: "infoFromService (ev\<lparr>net := n\<rparr>) u = infoFromService ev u" if "public_call sv (get_call u)" for u
    unfolding infoFromService_def readInfoAPIEndpoint_def net_free
    using that by (subst http_same(2) [OF A]) (auto simp: own_call_def)
  obtain info sv' where p: "fillInSmartProxyInfoParams sv = (info, sv')" "sv_ServicesConfig sv' = sv_ServicesConfig sv"
    by (cases "fillInSmartProxyInfoParams sv")
       (auto simp: fillInSmartProxyInfoParams_def Let_def split: option.splits)
  then have "fillInContentServiceInfoParams (ev\<lparr>net := n\<rparr>) sv' = fillInContentServiceInfoParams ev sv'"
    "fillInAggregatorInfoParams (ev\<lparr>net := n\<rparr>) sv' = fillInAggregatorInfoParams ev sv'"
    by (auto simp: fillInContentServiceInfoParams_def fillInAggregatorInfoParams_def aggregator_def public_call_def intro!: info)
  then show ?thesis
    unfolding info_handler_def infoMap_def net_free p(1) by simp
qed

text \<open>A request that is passed on is sent to the URL that its modifiers made of it.\<close>

lemma handlers_same_proxy [handlers_same_own]:
  assumes A: "agree_net (own_call ev px rx sv owns g) ev n" and R: "of_org g request"
    and "e \<in> set proxied_endpoints"
  shows "proxyTo (ev\<lparr>net := n\<rparr>) px sv (sc_AggregatorBaseEndpoint (sv_ServicesConfig sv))
      (modified [extractUserIDOrgIDFromTokenToURLRequestModifier px sv (rx_ira rx e), checkRuleIDAndErrorKeyAreValid ev cs]) request =
    proxyTo ev px sv (sc_AggregatorBaseEndpoint (sv_ServicesConfig sv))
      (modified [extractUserIDOrgIDFromTokenToURLRequestModifier px sv (rx_ira rx e), checkRuleIDAndErrorKeyAreValid ev cs]) request"
    "proxyTo (ev\<lparr>net := n\<rparr>) px sv (sc_AggregatorBaseEndpoint (sv_ServicesConfig sv))
      (modified [extractOrgIDFromTokenToURLRequestModifier px sv (rx_ira rx e), checkRuleIDAndErrorKeyAreValid ev cs]) request =
    proxyTo ev px sv (sc_AggregatorBaseEndpoint (sv_ServicesConfig sv))
      (modified [extractOrgIDFromTokenToURLRequestModifier px sv (rx_ira rx e), checkRuleIDAndErrorKeyAreValid ev cs]) request"
proof -
  have "proxyTo (ev\<lparr>net := n\<rparr>) px sv (sc_AggregatorBaseEndpoint (sv_ServicesConfig sv))
      (modified [modifier, checkRuleIDAndErrorKeyAreValid ev cs]) request =
    proxyTo ev px sv (sc_AggregatorBaseEndpoint (sv_ServicesConfig sv))
      (modified [modifier, checkRuleIDAndErrorKeyAreValid ev cs]) request"
    if m: "modifier \<in> {extractUserIDOrgIDFromTokenToURLRequestModifier px sv (rx_ira rx e),
        extractOrgIDFromTokenToURLRequestModifier px sv (rx_ira rx e)}" for modifier
  proof (cases "modifyRequest [modifier, checkRuleIDAndErrorKeyAreValid ev cs] request")
    case (Inr request')
    note org = modified_request [OF Inr m of_org_simps [OF R]]
    have sent: "sendRequest (ev\<lparr>net := n\<rparr>) \<lparr>ca_Method = k, ca_URL = RawURL u, ca_Header = h, ca_Body = b\<rparr> options =
        sendRequest ev \<lparr>ca_Method = k, ca_URL = RawURL u, ca_Header = h, ca_Body = b\<rparr> options"
      if "composeEndpoint px sv (sc_AggregatorBaseEndpoint (sv_ServicesConfig sv)) (rq_RequestURI request') = Inr u" for k u h b options
      unfolding sendRequest_def using org that assms(3)
      by (subst http_same(1) [OF A]) (auto simp: own_call_def own_proxied_def)
    show ?thesis
      unfolding proxyTo_def net_free modified_def option.case ProxyOptions.select_convs Inr sum.case
      by (cases "composeEndpoint px sv (sc_AggregatorBaseEndpoint (sv_ServicesConfig sv)) (rq_RequestURI request')")
         (simp_all add: sent split: option.split)
  qed (simp add: proxyTo_def modified_def net_free)
  then show "proxyTo (ev\<lparr>net := n\<rparr>) px sv (sc_AggregatorBaseEndpoint (sv_ServicesConfig sv))
      (modified [extractUserIDOrgIDFromTokenToURLRequestModifier px sv (rx_ira rx e), checkRuleIDAndErrorKeyAreValid ev cs]) request =
    proxyTo ev px sv (sc_AggregatorBaseEndpoint (sv_ServicesConfig sv))
      (modified [extractUserIDOrgIDFromTokenToURLRequestModifier px sv (rx_ira rx e), checkRuleIDAndErrorKeyAreValid ev cs]) request"
    "proxyTo (ev\<lparr>net := n\<rparr>) px sv (sc_AggregatorBaseEndpoint (sv_ServicesConfig sv))
      (modified [extractOrgIDFromTokenToURLRequestModifier px sv (rx_ira rx e), checkRuleIDAndErrorKeyAreValid ev cs]) request =
    proxyTo ev px sv (sc_AggregatorBaseEndpoint (sv_ServicesConfig sv))
      (modified [extractOrgIDFromTokenToURLRequestModifier px sv (rx_ira rx e), checkRuleIDAndErrorKeyAreValid ev cs]) request"
    by blast+
qed

lemma handlers_same_clusters_for_org [handlers_same]:
  assumes A: "agree_net (same_org sv g) ev n" and R: "of_org g request" and "cf_Auth (sv_Config sv)" and "reads_own_org ev"
  shows "getClustersForOrg (ev\<lparr>net := n\<rparr>) sv request = getClustersForOrg ev sv request"
  unfolding getClustersForOrg_def net_free
proof (rule bind_cong_result, goal_cases)
  case (1 w x w')
  then have "x = Some g' \<Longrightarrow> g' = g" for g'
    using assms(3,4) R by (cases "ev_ReadOrganizationID ev request True") (auto simp: reads_own_org_def ext_read_def)
  then show ?case by (cases x) (simp_all add: net_same [OF A])
qed

subsection \<open>Account management and Redis as one organization sees them\<close>

abbreviation with_clients :: "HTTPServer \<Rightarrow> AMSClient option \<Rightarrow> RedisInterface option \<Rightarrow> RBACClient \<Rightarrow> HTTPServer" where
  "with_clients sv am rd rb \<equiv> sv\<lparr>sv_amsClient := am, sv_redis := rd, sv_rbacClient := rb\<rparr>"

text \<open>The details of a cluster are looked up by its id alone: only those of a cluster of the organization have to agree.\<close>

definition same_ams :: "(ClusterName \<Rightarrow> bool) \<Rightarrow> OrgID \<Rightarrow> AMSClient \<Rightarrow> AMSClient \<Rightarrow> bool" where
  "same_ams own g a b \<longleftrightarrow> ams_GetClustersForOrganization b g = ams_GetClustersForOrganization a g \<and>
     ams_GetSingleClusterInfoForOrganization b g = ams_GetSingleClusterInfoForOrganization a g \<and>
     (\<forall>c. own c \<longrightarrow> ams_GetClusterDetailsFromExternalClusterID b c = ams_GetClusterDetailsFromExternalClusterID a c)"

definition same_redis :: "OrgID \<Rightarrow> RedisInterface \<Rightarrow> RedisInterface \<Rightarrow> bool" where
  "same_redis g a b \<longleftrightarrow> redis_GetRequestIDsForClusterID b g = redis_GetRequestIDsForClusterID a g \<and>
     redis_GetTimestampsForRequestIDs b g = redis_GetTimestampsForRequestIDs a g \<and>
     redis_GetRuleHitsForRequest b g = redis_GetRuleHitsForRequest a g \<and>
     redis_GetRequestStatus b g = redis_GetRequestStatus a g"

definition agree_clients ::
  "(OrgID \<Rightarrow> ClusterName \<Rightarrow> bool) \<Rightarrow> OrgID \<Rightarrow> HTTPServer \<Rightarrow> AMSClient option \<Rightarrow> RedisInterface option \<Rightarrow> bool" where
  "agree_clients owns g sv am rd \<longleftrightarrow> rel_option (same_ams (owns g) g) (sv_amsClient sv) am \<and> rel_option (same_redis g) (sv_redis sv) rd"

lemma agree_ams_cases:
  assumes "agree_clients owns g sv am rd"
  obtains (no_client) "sv_amsClient sv = None" "am = None"
  | (client) a b where "sv_amsClient sv = Some a" "am = Some b"
      "ams_GetClustersForOrganization b g = ams_GetClustersForOrganization a g"
      "ams_GetSingleClusterInfoForOrganization b g = ams_GetSingleClusterInfoForOrganization a g"
      "\<And>c. owns g c \<Longrightarrow> ams_GetClusterDetailsFromExternalClusterID b c = ams_GetClusterDetailsFromExternalClusterID a c"
  using assms by (auto simp: agree_clients_def same_ams_def elim: option.rel_cases)

lemma agree_redis_cases:
  assumes "agree_clients owns g sv am rd"
  obtains (no_client) "sv_redis sv = None" "rd = None"
  | (client) a b where "sv_redis sv = Some a" "rd = Some b"
      "redis_GetRequestIDsForClusterID b g = redis_GetRequestIDsForClusterID a g"
      "redis_GetTimestampsForRequestIDs b g = redis_GetTimestampsForRequestIDs a g"
      "redis_GetRuleHitsForRequest b g = redis_GetRuleHitsForRequest a g" "redis_GetRequestStatus b g = redis_GetRequestStatus a g"
  using assms by (auto simp: agree_clients_def same_redis_def elim: option.rel_cases)

named_theorems clients_free "functions that use neither the account management client nor Redis"

lemma clients_free_fields [clients_free]:
  "sv_Config (with_clients sv am rd rb) = sv_Config sv" "sv_ServicesConfig (with_clients sv am rd rb) = sv_ServicesConfig sv"
  "sv_content (with_clients sv am rd rb) = sv_content sv" "sv_ErrorFoundChannel (with_clients sv am rd rb) = sv_ErrorFoundChannel sv"
  "sv_ErrorChannel (with_clients sv am rd rb) = sv_ErrorChannel sv" "sv_GroupsChannel (with_clients sv am rd rb) = sv_GroupsChannel sv"
  "sv_rbacClient (with_clients sv am rd rb) = rb" "sv_amsClient (with_clients sv am rd rb) = am"
  "sv_redis (with_clients sv am rd rb) = rd"
  by simp_all

lemma clients_free_urls [clients_free]:
  "aggregator (with_clients sv am rd rb) = aggregator sv"
  "upgrade_service (with_clients sv am rd rb) = upgrade_service sv"
  "checkInternalRulePermissions (with_clients sv am rd rb) = checkInternalRulePermissions sv"
  "noAuthURLs (with_clients sv am rd rb) = noAuthURLs sv"
  "getGroupsConfig (with_clients sv am rd rb) = getGroupsConfig sv"
  by ((intro ext)?; unfold aggregator_def upgrade_service_def checkInternalRulePermissions_def noAuthURLs_def getGroupsConfig_def  clients_free; rule refl)+

lemma clients_free_calls [clients_free]:
  "disable_call (with_clients sv am rd rb) = disable_call sv"
  "update_call (with_clients sv am rd rb) = update_call sv"
  "enable_call (with_clients sv am rd rb) = enable_call sv"
  "read_call (with_clients sv am rd rb) = read_call sv"
  by (intro ext; unfold disable_call_def update_call_def enable_call_def read_call_def  clients_free; rule refl)+

lemma clients_free_visible [clients_free]:
  "visible_rules (with_clients sv am rd rb) = visible_rules sv"
  by (intro ext; unfold visible_rules_def clients_free; rule refl)+

lemma clients_free_readers [clients_free]:
  "readRuleDisableStatus ev (with_clients sv am rd rb) = readRuleDisableStatus ev sv"
  "readListOfAckedRules ev (with_clients sv am rd rb) = readListOfAckedRules ev sv"
  "updateAckRuleSystemWide ev (with_clients sv am rd rb) = updateAckRuleSystemWide ev sv"
  "deleteAckRuleSystemWide ev (with_clients sv am rd rb) = deleteAckRuleSystemWide ev sv"
  "ackRuleSystemWide ev (with_clients sv am rd rb) = ackRuleSystemWide ev sv"
  "getClusterDetailsFromAggregator ev (with_clients sv am rd rb) = getClusterDetailsFromAggregator ev sv"
  "readAggregatorReportForClusterID ev (with_clients sv am rd rb) = readAggregatorReportForClusterID ev sv"
  "readAggregatorReportMetainfoForClusterID ev (with_clients sv am rd rb) = readAggregatorReportMetainfoForClusterID ev sv"
  "readAggregatorReportForClusterList ev (with_clients sv am rd rb) = readAggregatorReportForClusterList ev sv"
  "readAggregatorReportForClusterListFromBody ev (with_clients sv am rd rb) = readAggregatorReportForClusterListFromBody ev sv"
  "readAggregatorRuleForClusterID ev (with_clients sv am rd rb) = readAggregatorRuleForClusterID ev sv"
  "readListOfClusterDisabledRules ev (with_clients sv am rd rb) = readListOfClusterDisabledRules ev sv"
  "readListOfDisabledRulesForClusters ev (with_clients sv am rd rb) = readListOfDisabledRulesForClusters ev sv"
  "getWorkloadsForCluster ev (with_clients sv am rd rb) = getWorkloadsForCluster ev sv"
  "getWorkloadsForOrganization ev (with_clients sv am rd rb) = getWorkloadsForOrganization ev sv"
  "postRatingToAggregator ev (with_clients sv am rd rb) = postRatingToAggregator ev sv"
  "getRatingForRecommendation ev (with_clients sv am rd rb) = getRatingForRecommendation ev sv"
  "getImpactingRecommendations ev (with_clients sv am rd rb) = getImpactingRecommendations ev sv"
  "getClustersAndRecommendations ev (with_clients sv am rd rb) = getClustersAndRecommendations ev sv"
  "getImpactedClusters ev (with_clients sv am rd rb) = getImpactedClusters ev sv"
  "getListOfDisabledClusters ev (with_clients sv am rd rb) = getListOfDisabledClusters ev sv"
  "fetchUpgradePrediction ev (with_clients sv am rd rb) = fetchUpgradePrediction ev sv"
  "fetchMulticlusterUpgradePrediction ev (with_clients sv am rd rb) = fetchMulticlusterUpgradePrediction ev sv"
  by (intro ext; unfold readRuleDisableStatus_def readListOfAckedRules_def updateAckRuleSystemWide_def deleteAckRuleSystemWide_def ackRuleSystemWide_def getClusterDetailsFromAggregator_def readAggregatorReportForClusterID_def readAggregatorReportMetainfoForClusterID_def readAggregatorReportForClusterList_def readAggregatorReportForClusterListFromBody_def readAggregatorRuleForClusterID_def readListOfClusterDisabledRules_def readListOfDisabledRulesForClusters_def getWorkloadsForCluster_def getWorkloadsForOrganization_def postRatingToAggregator_def getRatingForRecommendation_def getImpactingRecommendations_def getClustersAndRecommendations_def getImpactedClusters_def getListOfDisabledClusters_def fetchUpgradePrediction_def fetchMulticlusterUpgradePrediction_def  clients_free; rule refl)+

lemma clients_free_combined [clients_free]:
  "getRuleAcksMap ev (with_clients sv am rd rb) = getRuleAcksMap ev sv"
  "getRuleDisabledClusters ev (with_clients sv am rd rb) = getRuleDisabledClusters ev sv"
  "getUserDisabledRulesPerCluster ev (with_clients sv am rd rb) = getUserDisabledRulesPerCluster ev sv"
  "getDisabledRulesForClusterMap ev (with_clients sv am rd rb) = getDisabledRulesForClusterMap ev sv"
  "getListOfDisabledClustersAndAck ev (with_clients sv am rd rb) = getListOfDisabledClustersAndAck ev sv"
  "fetchAggregatorReport ev (with_clients sv am rd rb) = fetchAggregatorReport ev sv"
  "fetchAggregatorReportMetainfo ev (with_clients sv am rd rb) = fetchAggregatorReportMetainfo ev sv"
  "fetchAggregatorReports ev (with_clients sv am rd rb) = fetchAggregatorReports ev sv"
  "fetchAggregatorReportsUsingRequestBodyClusterList ev (with_clients sv am rd rb) = fetchAggregatorReportsUsingRequestBodyClusterList ev sv"
  "fetchAggregatorReportRule ev (with_clients sv am rd rb) = fetchAggregatorReportRule ev sv"
  "buildReportEndpointResponse ev (with_clients sv am rd rb) = buildReportEndpointResponse ev sv"
  by (intro ext; unfold getRuleAcksMap_def getRuleDisabledClusters_def getUserDisabledRulesPerCluster_def getDisabledRulesForClusterMap_def getListOfDisabledClustersAndAck_def fetchAggregatorReport_def fetchAggregatorReportMetainfo_def fetchAggregatorReports_def fetchAggregatorReportsUsingRequestBodyClusterList_def fetchAggregatorReportRule_def buildReportEndpointResponse_def  clients_free; rule refl)+

lemma clients_free_handlers [clients_free]:
  "readAckList ev (with_clients sv am rd rb) = readAckList ev sv"
  "getAcknowledge ev (with_clients sv am rd rb) = getAcknowledge ev sv"
  "acknowledgePost ev (with_clients sv am rd rb) = acknowledgePost ev sv"
  "updateAcknowledge ev (with_clients sv am rd rb) = updateAcknowledge ev sv"
  "deleteAcknowledge ev (with_clients sv am rd rb) = deleteAcknowledge ev sv"
  "postRating ev (with_clients sv am rd rb) = postRating ev sv"
  "reportMetainfoEndpoint ev (with_clients sv am rd rb) = reportMetainfoEndpoint ev sv"
  "reportForListOfClustersEndpoint ev (with_clients sv am rd rb) = reportForListOfClustersEndpoint ev sv"
  "reportForListOfClustersPayloadEndpoint ev (with_clients sv am rd rb) = reportForListOfClustersPayloadEndpoint ev sv"
  "singleRuleEndpoint ev (with_clients sv am rd rb) = singleRuleEndpoint ev sv"
  "overviewEndpointWithClusterIDs ev (with_clients sv am rd rb) = overviewEndpointWithClusterIDs ev sv"
  "upgradeRisksPredictionMultiCluster ev (with_clients sv am rd rb) = upgradeRisksPredictionMultiCluster ev sv"
  "mainEndpoint ev (with_clients sv am rd rb) = mainEndpoint ev sv"
  "getGroups ev (with_clients sv am rd rb) = getGroups ev sv"
  "getContentForRuleV1 ev (with_clients sv am rd rb) = getContentForRuleV1 ev sv"
  "getContentV1 ev (with_clients sv am rd rb) = getContentV1 ev sv"
  "getRuleIDs ev (with_clients sv am rd rb) = getRuleIDs ev sv"
  "getContentWithGroups ev (with_clients sv am rd rb) = getContentWithGroups ev sv"
  by (intro ext; unfold readAckList_def getAcknowledge_def acknowledgePost_def updateAcknowledge_def deleteAcknowledge_def postRating_def reportMetainfoEndpoint_def reportForListOfClustersEndpoint_def reportForListOfClustersPayloadEndpoint_def singleRuleEndpoint_def overviewEndpointWithClusterIDs_def upgradeRisksPredictionMultiCluster_def mainEndpoint_def getGroups_def getContentForRuleV1_def getContentV1_def getRuleIDs_def getContentWithGroups_def  clients_free; rule refl)+

lemma clients_free_content [clients_free]:
  "getRecommendationContent ev (with_clients sv am rd rb) = getRecommendationContent ev sv"
  "getRecommendationContentWithUserData ev (with_clients sv am rd rb) = getRecommendationContentWithUserData ev sv"
  by (intro ext; unfold getRecommendationContent_def getRecommendationContentWithUserData_def
      getRuleWithGroups_def getContentCheckInternal_def clients_free; rule refl)+

lemma clients_free_proxy [clients_free]:
  "composeEndpoint px (with_clients sv am rd rb) = composeEndpoint px sv"
  "evaluateProxyError ev (with_clients sv am rd rb) = evaluateProxyError ev sv"
  "with_new_url px (with_clients sv am rd rb) = with_new_url px sv"
  by (intro ext; unfold composeEndpoint_def evaluateProxyError_def with_new_url_def clients_free; rule refl)+

lemma clients_free_modifiers [clients_free]:
  "newExtractUserIDFromTokenToURLRequestModifier px (with_clients sv am rd rb) = newExtractUserIDFromTokenToURLRequestModifier px sv"
  "extractUserIDOrgIDFromTokenToURLRequestModifier px (with_clients sv am rd rb) = extractUserIDOrgIDFromTokenToURLRequestModifier px sv"
  "extractOrgIDFromTokenToURLRequestModifier px (with_clients sv am rd rb) = extractOrgIDFromTokenToURLRequestModifier px sv"
  "proxyTo ev px (with_clients sv am rd rb) = proxyTo ev px sv"
  by (intro ext; unfold newExtractUserIDFromTokenToURLRequestModifier_def extractUserIDOrgIDFromTokenToURLRequestModifier_def
      extractOrgIDFromTokenToURLRequestModifier_def proxyTo_def clients_free; rule refl)+

lemma clients_free_info [clients_free]: "info_handler ev (with_clients sv am rd rb) = info_handler ev sv"
proof
  show "info_handler ev (with_clients sv am rd rb) request = info_handler ev sv request" for request
    by (rule state.expand, cases "sv_InfoParams sv")
       (simp_all add: fun_eq_iff info_handler_def infoMap_def fillInSmartProxyInfoParams_def fillInContentServiceInfoParams_def
         fillInAggregatorInfoParams_def aggregator_def Let_def split: option.split prod.split)
qed

named_theorems handlers_clients "handlers that use the clients on behalf of one organization"
named_theorems clients_same "functions that use the clients on behalf of one organization"

lemma clients_same_clusters [clients_same]:
  assumes C: "agree_clients owns g sv am rd"
  shows "readClusterInfoForOrgID ev (with_clients sv am rd rb) g = readClusterInfoForOrgID ev sv g"
    "owns g c \<Longrightarrow> SetAMSInfoInReport (with_clients sv am rd rb) c = SetAMSInfoInReport sv c"
  using C by (cases rule: agree_ams_cases;
    simp add: readClusterInfoForOrgID_def getClusterInfoFromAMS_def SetAMSInfoInReport_def fun_eq_iff clients_free)+

lemma clients_same_lists [clients_same]:
  assumes C: "agree_clients owns g sv am rd"
  shows "getClusterListAndUserData ev (with_clients sv am rd rb) g u = getClusterListAndUserData ev sv g u"
  unfolding getClusterListAndUserData_def clients_free clients_same_clusters(1) [OF C] ..

lemma handlers_clients_lists [handlers_clients]:
  assumes C: "agree_clients owns g sv am rd" and R: "of_org g request"
  shows "overviewEndpoint ev (with_clients sv am rd rb) request = overviewEndpoint ev sv request"
    "getClustersDetailForRule ev (with_clients sv am rd rb) request = getClustersDetailForRule ev sv request"
    "getClustersView ev (with_clients sv am rd rb) request = getClustersView ev sv request"
    "getDVONamespaceList ev (with_clients sv am rd rb) request = getDVONamespaceList ev sv request"
  unfolding overviewEndpoint_def getClustersDetailForRule_def getClustersView_def getDVONamespaceList_def
    of_org_simps [OF R] sum.case prod.case clients_free clients_same_clusters(1) [OF C] clients_same_lists [OF C]
  by (rule refl)+

lemma handlers_clients_ams [handlers_clients]:
  assumes C: "agree_clients owns g sv am rd" and R: "of_org g request"
  shows "getSingleClusterInfo ev (with_clients sv am rd rb) request = getSingleClusterInfo ev sv request"
    "reportEndpointV1 ev (with_clients sv am rd rb) request = reportEndpointV1 ev sv request"
    "upgradeRisksPrediction ev (with_clients sv am rd rb) request = upgradeRisksPrediction ev sv request"
    "getDVONamespacesForCluster ev (with_clients sv am rd rb) request = getDVONamespacesForCluster ev sv request"
  using C
  by (cases rule: agree_ams_cases;
      simp only: getSingleClusterInfo_def reportEndpointV1_def upgradeRisksPrediction_def getDVONamespacesForCluster_def
        of_org_simps [OF R] sum.case option.case clients_free option.distinct)+

lemma handlers_clients_redis [handlers_clients]:
  assumes C: "agree_clients owns g sv am rd" and R: "of_org g request"
  shows "getRequestsForCluster ev (with_clients sv am rd rb) request = getRequestsForCluster ev sv request"
    "getRequestsForClusterPostVariant ev (with_clients sv am rd rb) request = getRequestsForClusterPostVariant ev sv request"
    "getRequestStatusForCluster ev (with_clients sv am rd rb) request = getRequestStatusForCluster ev sv request"
    "getReportForRequest ev (with_clients sv am rd rb) request = getReportForRequest ev sv request"
  using C
  by (cases rule: agree_redis_cases;
      simp only: getRequestsForCluster_def getRequestsForClusterPostVariant_def getRequestStatusForCluster_def getReportForRequest_def
        checkRedisClientReadiness_def State_Monad.bind_left_identity of_org_simps [OF R] sum.case option.case clients_free)+

lemma handlers_clients_recommendations [handlers_clients]:
  assumes C: "agree_clients owns g sv am rd" and R: "of_org g request"
  shows "getRecommendations ev (with_clients sv am rd rb) request = getRecommendations ev sv request"
  unfolding getRecommendations_def clients_free
proof (rule bind_cong_result, goal_cases)
  case (1 w x w')
  then have "x = Inr (u, g', flag) \<Longrightarrow> g' = g" for u g' flag
    using params_org of_org_simps(2) [OF R] by blast
  then show ?case
    by (cases x) (auto simp: Let_def clients_free clients_same [OF C] split: prod.split)
qed

text \<open>The details of a cluster are looked up only after a report on it has been read for the organization.\<close>

lemma read_service_status:
  assumes "run_state (read_service ev (http_get ev u) decode) w = (Some x, w')"
  shows "\<exists>cs r. net ev cs (get_call u) = Inr r \<and> hr_StatusCode r = StatusOK"
  using assms
  by (auto simp: read_service_def http_get_def get_call_def read_ok_body_def
      split: sum.splits if_splits prod.splits)

lemma fetched_owned:
  assumes "run_state (fetchAggregatorReport ev sv request) w = (Some (x, True, c), w')"
    and "of_org g request" and "confines owns ev sv"
  shows "owns g c"
proof -
  obtain u report w1 where "run_state (read_service ev
      (http_get ev (aggregator sv ''ReportEndpoint'' [ArgOrg g, ArgStr c, ArgStr u])) (dc_report (ev_dec ev))) w = (Some (Some report), w1)"
    using assms(1)
    by (auto simp: fetchAggregatorReport_def readAggregatorReportForClusterID_def of_org_simps [OF assms(2)] ext_read_def
        split: prod.splits option.splits sum.splits reply.splits)
  from read_service_status [OF this] assms(3) show ?thesis by (auto simp: confines_def)
qed

lemma handlers_clients_report [handlers_clients]:
  assumes C: "agree_clients owns g sv am rd"
    and own: "\<And>w x c w'. run_state (fetchAggregatorReport ev sv request) w = (Some (x, True, c), w') \<Longrightarrow> owns g c"
  shows "reportEndpointV2 ev (with_clients sv am rd rb) request = reportEndpointV2 ev sv request"
  unfolding reportEndpointV2_def clients_free
proof (rule bind_cong_result, goal_cases)
  case (1 w fetched w')
  show ?case
  proof (cases fetched)
    case (Some f)
    obtain x ok c where "f = (x, ok, c)" by (cases f)
    with 1 Some own clients_same_clusters(2) [OF C] show ?thesis by (cases ok) simp_all
  qed simp
qed

lemma handlers_clients_for_org [handlers_clients]:
  assumes C: "agree_clients owns g sv am rd" and R: "of_org g request" and "cf_Auth (sv_Config sv)" and "reads_own_org ev"
  shows "getClustersForOrg ev (with_clients sv am rd rb) request = getClustersForOrg ev sv request"
  unfolding getClustersForOrg_def clients_free
proof (rule bind_cong_result, goal_cases)
  case (1 w x w')
  then have "x = Some g' \<Longrightarrow> g' = g" for g'
    using assms(3,4) R by (cases "ev_ReadOrganizationID ev request True") (auto simp: reads_own_org_def ext_read_def)
  then show ?case by (cases x) (simp_all add: clients_same [OF C])
qed

subsection \<open>The routes\<close>

definition same_route :: "HTTPServer \<Rightarrow> OrgID \<Rightarrow> route \<Rightarrow> route \<Rightarrow> bool" where
  "same_route sv g r r' \<longleftrightarrow> ro_Path r' = ro_Path r \<and> ro_Prefix r' = ro_Prefix r \<and> ro_Methods r' = ro_Methods r \<and>
     (ro_Path r \<noteq> multi_cluster_path sv \<longrightarrow>
       (\<forall>request. of_org g request \<longrightarrow> ro_Handler r' request = ro_Handler r request))"

lemma same_route_refl [simp]: "same_route sv g r r"
  by (simp add: same_route_def)

lemma net_free_own_org [net_free]: "reads_own_org (ev\<lparr>net := n\<rparr>) = reads_own_org ev"
  by (simp add: reads_own_org_def)

lemma agree_net_same_org: "agree_net (own_call ev px rx sv owns g) ev n \<Longrightarrow> agree_net (same_org sv g) ev n"
  by (simp add: agree_net_def own_call_def)

lemma routes_same:
  assumes A: "agree_net (own_call ev px rx sv owns g) ev n" and C: "agree_clients owns g sv am rd"
    and O: "confines owns ev sv" and auth: "cf_Auth (sv_Config sv)" and own: "reads_own_org ev" and debug: "\<not> cf_Debug (sv_Config sv)"
  shows "list_all2 (same_route sv g) (addEndpointsToRouter ev px rx sv)
    (addEndpointsToRouter (ev\<lparr>net := n\<rparr>) px rx (with_clients sv am rd rb))"
proof -
  let ?ev = "ev\<lparr>net := n\<rparr>" and ?sv = "with_clients sv am rd rb"
  note A' = agree_net_same_org [OF A]
  have report: "reportEndpointV2 ?ev ?sv request = reportEndpointV2 ev sv request" if R: "of_org g request" for request
  proof -
    have "fetchAggregatorReport ?ev sv request = fetchAggregatorReport ev sv request"
      unfolding fetchAggregatorReport_def of_org_simps [OF R] sum.case prod.case net_free net_same [OF A'] ..
    then have "reportEndpointV2 ?ev ?sv request = reportEndpointV2 ?ev sv request"
      using fetched_owned [OF _ R O] by (intro handlers_clients_report [OF C]) simp
    also have "\<dots> = reportEndpointV2 ev sv request" by (rule handlers_same [OF A' R])
    finally show ?thesis .
  qed
  note same = same_route_def HandleFunc_def simple_def report handlers_same [OF A'] handlers_same_own [OF A] handlers_clients [OF C]
    auth own O debug net_free clients_free proxied_endpoints_def Let_def
  have "list_all2 (same_route sv g) (addV1EndpointsToRouter ev px rx sv) (addV1EndpointsToRouter ?ev px rx ?sv)"
    unfolding addV1EndpointsToRouter_def addV1ReportsEndpointsToRouter_def
      addV1ContentEndpointsToRouter_def addV1RuleEndpointsToRouter_def Let_def clients_free net_free
    by (intro list_all2_appendI) (simp_all add: same)
  moreover have "list_all2 (same_route sv g) (addV2EndpointsToRouter ev rx sv) (addV2EndpointsToRouter ?ev rx ?sv)"
    unfolding addV2EndpointsToRouter_def addV2ReportsEndpointsToRouter_def addV2ContentEndpointsToRouter_def
      addV2RuleEndpointsToRouter_def addV2RedisEndpointsToRouter_def addV2DVOEndpointsToRouter_def Let_def clients_free net_free
    by (intro list_all2_appendI) (simp_all add: same multi_cluster_path_def)
  ultimately show ?thesis
    using debug by (simp add: addEndpointsToRouter_def list_all2_appendI clients_free)
qed

lemma find_route_same:
  assumes "list_all2 (same_route sv g) rs rs'"
  shows "rel_option (rel_prod (same_route sv g) (=)) (find_route rx request rs) (find_route rx request rs')"
  using assms by induction (auto simp: same_route_def split: option.split)

subsection \<open>Through the middlewares\<close>

lemma net_free_auth [net_free]:
  "auth_exempt (ev\<lparr>net := n\<rparr>) = auth_exempt ev" "DecodeTokenFromHeader (ev\<lparr>net := n\<rparr>) = DecodeTokenFromHeader ev"
  "no_org_message (ev\<lparr>net := n\<rparr>) = no_org_message ev" "rbac_page (ev\<lparr>net := n\<rparr>) = rbac_page ev"
  by (intro ext; unfold auth_exempt_def DecodeTokenFromHeader_def no_org_message_def rbac_page_def net_free; rule refl)+

lemma rbac_chain_same:
  assumes "rbac_chain ev rc tok url cs ps cs'" and "\<And>cs u. n cs (rbac_call u tok) = net ev cs (rbac_call u tok)"
  shows "rbac_chain (ev\<lparr>net := n\<rparr>) rc tok url cs ps cs'"
  using assms(1) by induction (simp_all add: assms(2) rbac_chain.intros net_free)

lemma IsAuthorized_some:
  assumes "IsAuthorized ev rc tok w = Some x" and "\<And>cs u. n cs (rbac_call u tok) = net ev cs (rbac_call u tok)"
  shows "IsAuthorized (ev\<lparr>net := n\<rparr>) rc tok w = Some x"
proof -
  from assms(1) obtain r where "requestAccess ev rc (ri_uri rc) tok w = Some r"
    by (auto simp: IsAuthorized_def getPermissions_def)
  from requestAccess_sound [OF this] obtain ps cs' where c: "rbac_chain ev rc tok (ri_uri rc) (w_calls w) ps cs'" by blast
  show ?thesis
    using assms(1) IsAuthorized_chain [OF c] IsAuthorized_chain [OF rbac_chain_same [OF c assms(2)]] by simp
qed

lemma IsAuthorized_same:
  assumes "\<And>cs u. n cs (rbac_call u tok) = net ev cs (rbac_call u tok)"
  shows "IsAuthorized (ev\<lparr>net := n\<rparr>) rc tok w = IsAuthorized ev rc tok w"
proof (cases "IsAuthorized (ev\<lparr>net := n\<rparr>) rc tok w")
  case None
  with IsAuthorized_some [of ev rc tok w _ n] assms show ?thesis by (cases "IsAuthorized ev rc tok w") auto
next
  case (Some x)
  with IsAuthorized_some [of "ev\<lparr>net := n\<rparr>" rc tok w x "net ev"] assms show ?thesis by simp
qed

lemma Authorization_same:
  assumes "\<And>w. next' r w = next r w" and "sv_rbacClient sv = rbac_client ev rc"
    and "\<And>cs u. n cs (rbac_call u (GetAuthTokenHeader r)) = net ev cs (rbac_call u (GetAuthTokenHeader r))"
  shows "Authorization (ev\<lparr>net := n\<rparr>) (with_clients sv am rd (rbac_client (ev\<lparr>net := n\<rparr>) rc)) next' urls r w =
    Authorization ev sv next urls r w"
  unfolding Authorization_def net_free clients_free assms(1,2) rbac_client_def RBACClient.select_convs
    IsAuthorized_same [of n "GetAuthTokenHeader r" ev, OF assms(3)] ..

lemma middlewares_same:
  assumes "cf_Auth (sv_Config sv)" and "\<not> auth_exempt ev (noAuthURLs sv) r"
    and "\<And>tk. DecodeTokenFromHeader ev r (cf_AuthType (sv_Config sv)) = Inr tk \<Longrightarrow> id_OrgID tk = g"
    and rbac: "sv_rbacClient sv = rbac_client ev rc" and A: "agree_net (own_call ev px rx sv owns g) ev n"
    and step: "\<And>rq w. of_org g rq \<Longrightarrow> next' rq w = next rq w"
  shows "setupAuthMiddleware (ev\<lparr>net := n\<rparr>) (with_clients sv am rd (rbac_client (ev\<lparr>net := n\<rparr>) rc)) next' r w =
    setupAuthMiddleware ev sv next r w"
proof (cases "DecodeTokenFromHeader ev r (cf_AuthType (sv_Config sv))")
  case (Inl e)
  with assms(1,2) show ?thesis by (simp add: setupAuthMiddleware_def Authentication_def net_free clients_free)
next
  case (Inr tk)
  let ?rq = "r\<lparr>rq_User := IdentityValue (if id_UserID tk = [] then tk\<lparr>id_UserID := ''0''\<rparr> else tk)\<rparr>"
  have "of_org g ?rq" using assms(3) [OF Inr] by (simp add: of_org_def)
  then have handler: "next' ?rq w = next ?rq w" for w by (rule step)
  have "n cs (rbac_call u (GetAuthTokenHeader ?rq)) = net ev cs (rbac_call u (GetAuthTokenHeader ?rq))" for cs u
    using A token_access [OF Inr, of u] assms(3) [OF Inr] by (simp add: agree_net_def own_call_def GetAuthTokenHeader_def)
  with handler rbac have "Authorization (ev\<lparr>net := n\<rparr>) (with_clients sv am rd (rbac_client (ev\<lparr>net := n\<rparr>) rc)) next' urls ?rq w =
      Authorization ev sv next urls ?rq w" for urls w
    by (intro Authorization_same)
  with handler show ?thesis
    using assms(1,2) Inr by (simp only: setupAuthMiddleware_def Authentication_def net_free clients_free Let_def sum.case if_True if_False
        split: if_split) simp
qed

lemma tenant_same:
  assumes "agree_net (own_call ev px rx sv owns g) ev n" and "agree_clients owns g sv am rd"
    and "confines owns ev sv" and "reads_own_org ev" and "sv_rbacClient sv = rbac_client ev rc"
    and "cf_Auth (sv_Config sv)" and "\<not> auth_exempt ev (noAuthURLs sv) request"
    and "\<And>tk. DecodeTokenFromHeader ev request (cf_AuthType (sv_Config sv)) = Inr tk \<Longrightarrow> id_OrgID tk = g"
    and "\<And>r vars. find_route rx request (addEndpointsToRouter ev px rx sv) = Some (r, vars) \<Longrightarrow> ro_Path r \<noteq> multi_cluster_path sv"
    and "\<not> cf_Debug (sv_Config sv)" and "\<not> cf_EnableCORS (sv_Config sv)"
    and "\<And>h rq counter w. rx_LogRequest rx h rq counter w = h rq counter w"
  shows "Initialize (ev\<lparr>net := n\<rparr>) px rx (with_clients sv am rd (rbac_client (ev\<lparr>net := n\<rparr>) rc)) request counter w =
    Initialize ev px rx sv request counter w"
proof -
  let ?sv = "with_clients sv am rd (rbac_client (ev\<lparr>net := n\<rparr>) rc)"
  let ?rs = "addEndpointsToRouter ev px rx sv" and ?rs' = "addEndpointsToRouter (ev\<lparr>net := n\<rparr>) px rx ?sv"
  have "rel_option (rel_prod (same_route sv g) (=)) (find_route rx request ?rs) (find_route rx request ?rs')"
    by (rule find_route_same [OF routes_same [OF assms(1-3,6,4,10)]])
  then show ?thesis
  proof (cases rule: option.rel_cases)
    case None
    then show ?thesis by (simp add: Initialize_def)
  next
    case (Some x y)
    then obtain r r' vars where r: "x = (r, vars)" "y = (r', vars)" "same_route sv g r r'" by (auto elim: rel_prod.cases)
    with Some assms(9) have path: "ro_Path r \<noteq> multi_cluster_path sv" by blast
    let ?h = "\<lambda>r. serve (case rx_redirect rx (ro_Path r) request of Some redirect \<Rightarrow> simple redirect | None \<Rightarrow> ro_Handler r)"
    have "?h r' rq w = ?h r rq w" if "of_org g rq" for rq w
      using r(3) that path by (cases "rx_redirect rx (ro_Path r) request") (simp_all add: same_route_def serve_def)
    then have "setupAuthMiddleware (ev\<lparr>net := n\<rparr>) ?sv (?h r') (request\<lparr>rq_Vars := vars\<rparr>) w =
        setupAuthMiddleware ev sv (?h r) (request\<lparr>rq_Vars := vars\<rparr>) w" for w
      using assms(6-8) by (intro middlewares_same [OF _ _ _ assms(5,1)]) simp_all
    with Some r assms(11,12) show ?thesis
      by (simp add: Initialize_def MetricsMiddleware_def getEndpointFromRequest_def same_route_def Let_def)
  qed
qed

text \<open>
  The prediction for a list of clusters is the exception that both theorems below leave
  out: the clusters of the request are passed on as they come, and nothing compares them
  with the requester.
\<close>

lemma multi_cluster_unchecked:
  "upgradeRisksPredictionMultiCluster ev sv (request\<lparr>rq_User := u\<rparr>) = upgradeRisksPredictionMultiCluster ev sv request"
  by (simp add: upgradeRisksPredictionMultiCluster_def)

text \<open>
  Claim C1: noninterference. Take two runs of the service whose HTTP services, account
  management client, Redis and access control client may differ in everything but what
  belongs to one organization: the calls \<open>own_call\<close> names for it (aggregator calls with its
  id, votes and switches passed on to a URL composed with its id, predictions for its
  clusters, access control pages asked for with its tokens, build information), and the
  lookups of the clients under its id or for its clusters. Outside the debug mode, and on
  every route but the prediction for a list of clusters, an authenticated request of the
  organization is treated in the same way: the same calls, the same replies, the same
  counters.
\<close>

theorem tenant_noninterference:
  assumes "agree_net (own_call ev px rx sv owns g) ev n" and "agree_clients owns g sv am rd"
    and "confines owns ev sv" and "reads_own_org ev" and "sv_rbacClient sv = rbac_client ev rc"
    and "cf_Auth (sv_Config sv)" and "\<not> auth_exempt ev (noAuthURLs sv) request"
    and "\<And>tk. DecodeTokenFromHeader ev request (cf_AuthType (sv_Config sv)) = Inr tk \<Longrightarrow> id_OrgID tk = g"
    and "\<And>r vars. find_route rx request (addEndpointsToRouter ev px rx sv) = Some (r, vars) \<Longrightarrow> ro_Path r \<noteq> multi_cluster_path sv"
    and "\<not> cf_Debug (sv_Config sv)" and "\<not> cf_EnableCORS (sv_Config sv)"
    and "\<And>h rq counter w. rx_LogRequest rx h rq counter w = h rq counter w"
  shows "Initialize (ev\<lparr>net := n\<rparr>) px rx (sv\<lparr>sv_amsClient := am, sv_redis := rd, sv_rbacClient := rbac_client (ev\<lparr>net := n\<rparr>) rc\<rparr>)
      request counter w = Initialize ev px rx sv request counter w"
  using assms by (rule tenant_same)

text \<open>Another organization whose answers, clusters and requests differ.\<close>

definition other_tenants :: "http_call list \<Rightarrow> http_call \<Rightarrow> http_response res" where
  "other_tenants cs c = (if own_call tenant_env sample_px sample_rx tenant_server tenant_owns 1 c then net tenant_env cs c
     else Inr \<lparr>hr_StatusCode = 200, hr_Header = [], hr_Body = Inr []\<rparr>)"

lemma others_differ:
  "\<not> own_call tenant_env sample_px sample_rx tenant_server tenant_owns 1
     (get_call (aggregator tenant_server ''ListOfDisabledRulesSystemWide'' [ArgOrg 2]))"
  "\<not> own_call tenant_env sample_px sample_rx tenant_server tenant_owns 1
     (get_call (upgrade_service tenant_server ''UpgradeRisksPredictionEndpoint'' [ArgStr ''c2'']))"
  by (simp_all add: own_call_def same_org_def public_call_def own_prediction_def own_proxied_def own_access_def rbac_call_def
      tenant_owns_def aggregator_def upgrade_service_def get_call_def)

lemma tenant_clients_agree:
  "agree_clients tenant_owns 1 tenant_server (Some (tenant_ams others)) (Some (tenant_redis requests))"
  by (simp add: agree_clients_def same_ams_def same_redis_def tenant_owns_def tenant_ams_def tenant_redis_def tenant_server_def)

lemma tenant_route_path: "ro_Path tenant_route \<noteq> multi_cluster_path tenant_server"
  by (simp add: HandleFunc_def multi_cluster_path_def tenant_sample)

theorem tenant_noninterference_witness:
  "other_tenants [] (get_call (aggregator tenant_server ''ListOfDisabledRulesSystemWide'' [ArgOrg 2])) \<noteq>
     net tenant_env [] (get_call (aggregator tenant_server ''ListOfDisabledRulesSystemWide'' [ArgOrg 2])) \<and>
   other_tenants [] (get_call (upgrade_service tenant_server ''UpgradeRisksPredictionEndpoint'' [ArgStr ''c2''])) \<noteq>
     net tenant_env [] (get_call (upgrade_service tenant_server ''UpgradeRisksPredictionEndpoint'' [ArgStr ''c2''])) \<and>
   Initialize (tenant_env\<lparr>net := other_tenants\<rparr>) sample_px sample_rx
     (tenant_server\<lparr>sv_amsClient := Some (tenant_ams (tenant_cluster\<lparr>ci_Managed := True\<rparr>)), sv_redis := Some (tenant_redis [''r2'']),
        sv_rbacClient := rbac_client (tenant_env\<lparr>net := other_tenants\<rparr>) sample_rc\<rparr>) tenant_request (\<lambda>_. 0) empty_world =
   Initialize tenant_env sample_px sample_rx tenant_server tenant_request (\<lambda>_. 0) empty_world"
proof (intro conjI)
  show "Initialize (tenant_env\<lparr>net := other_tenants\<rparr>) sample_px sample_rx
     (tenant_server\<lparr>sv_amsClient := Some (tenant_ams (tenant_cluster\<lparr>ci_Managed := True\<rparr>)), sv_redis := Some (tenant_redis [''r2'']),
        sv_rbacClient := rbac_client (tenant_env\<lparr>net := other_tenants\<rparr>) sample_rc\<rparr>) tenant_request (\<lambda>_. 0) empty_world =
   Initialize tenant_env sample_px sample_rx tenant_server tenant_request (\<lambda>_. 0) empty_world"
  proof (rule tenant_noninterference [of _ _ _ _ tenant_owns 1])
    show "agree_net (own_call tenant_env sample_px sample_rx tenant_server tenant_owns 1) tenant_env other_tenants"
      by (simp add: agree_net_def other_tenants_def)
    show "id_OrgID tk = 1" if "DecodeTokenFromHeader tenant_env tenant_request (cf_AuthType (sv_Config tenant_server)) = Inr tk" for tk
      using that tenant_token by (auto simp: sample_identity_def)
    show "ro_Path r \<noteq> multi_cluster_path tenant_server"
      if "find_route sample_rx tenant_request (addEndpointsToRouter tenant_env sample_px sample_rx tenant_server) = Some (r, vars)" for r vars
      using that tenant_route_found tenant_route_path by simp
  qed (simp_all add: tenant_clients_agree tenant_confined tenant_reads_own_org tenant_not_exempt,
    simp_all add: tenant_sample sample_rx_def)
qed (simp_all add: other_tenants_def others_differ, simp_all add: tenant_sample)

text \<open>
  Claim C2: tenants are kept apart. Outside the debug mode, on every route of this service
  but the prediction for a list of clusters, while an authenticated request is served, (1)
  every HTTP call is one that the policy \<open>own_call\<close> allows for the organization of the
  token, whatever the path, the query and the body say, and with access control on or off:
  a call to the aggregator with the id of the organization and no other, a request passed
  on to a URL composed with that id, a prediction for a cluster of the organization, a
  page of the access control service asked for with its token, or build information; and
  (2) account management and Redis are consulted under the id of the organization or for
  its clusters only: what they hold for others changes nothing, neither calls nor replies.
\<close>

theorem tenant_isolation:
  assumes "cf_Auth (sv_Config sv)" and "\<not> auth_exempt ev (noAuthURLs sv) request"
    and "DecodeTokenFromHeader ev request (cf_AuthType (sv_Config sv)) = Inr tk"
    and "sv_rbacClient sv = rbac_client ev rc" and "confines owns ev sv" and "reads_own_org ev"
    and "find_route rx request (addEndpointsToRouter ev px rx sv) = Some (r, vars)" and "r \<in> set (tenant_routes ev px rx sv)"
    and "ro_Path r \<noteq> multi_cluster_path sv" and "rx_redirect rx (ro_Path r) request = None"
    and "\<not> cf_Debug (sv_Config sv)" and "\<not> cf_EnableCORS (sv_Config sv)"
    and "\<And>h rq counter w. rx_LogRequest rx h rq counter w = h rq counter w"
    and "snd (Initialize ev px rx sv request counter w) = Some w'"
  shows "(\<exists>cs. w_calls w' = w_calls w @ cs \<and> list_all (own_call ev px rx sv owns (id_OrgID tk)) cs) \<and>
    (\<forall>am rd. agree_clients owns (id_OrgID tk) sv am rd \<longrightarrow>
       Initialize ev px rx (sv\<lparr>sv_amsClient := am, sv_redis := rd\<rparr>) request counter w = Initialize ev px rx sv request counter w)"
proof (intro conjI allI impI)
  have "keeps (own_call ev px rx sv owns (id_OrgID tk)) w (snd (Initialize ev px rx sv request counter w))"
    by (rule tenant_calls [OF assms(1-8,10,12,13)])
  then show "\<exists>cs. w_calls w' = w_calls w @ cs \<and> list_all (own_call ev px rx sv owns (id_OrgID tk)) cs"
    by (simp add: keeps_def assms(14))
next
  fix am rd
  assume "agree_clients owns (id_OrgID tk) sv am rd"
  then have "Initialize (ev\<lparr>net := net ev\<rparr>) px rx (sv\<lparr>sv_amsClient := am, sv_redis := rd, sv_rbacClient := rbac_client (ev\<lparr>net := net ev\<rparr>) rc\<rparr>)
      request counter w = Initialize ev px rx sv request counter w"
    using assms(1-7,9,11-13) by (intro tenant_same [of ev px rx sv owns "id_OrgID tk"]) (auto simp: agree_net_def)
  moreover have "sv\<lparr>sv_amsClient := am, sv_redis := rd, sv_rbacClient := rbac_client ev rc\<rparr> = sv\<lparr>sv_amsClient := am, sv_redis := rd\<rparr>"
    using assms(4) by (cases sv) simp
  ultimately show "Initialize ev px rx (sv\<lparr>sv_amsClient := am, sv_redis := rd\<rparr>) request counter w = Initialize ev px rx sv request counter w"
    by simp
qed

theorem tenant_isolation_witness:
  "\<exists>w'. snd (Initialize tenant_env sample_px sample_rx tenant_server tenant_request (\<lambda>_. 0) empty_world) = Some w' \<and>
     w_calls w' \<noteq> [] \<and> list_all (own_call tenant_env sample_px sample_rx tenant_server tenant_owns 1) (w_calls w') \<and>
     Initialize tenant_env sample_px sample_rx (tenant_server\<lparr>sv_amsClient := Some (tenant_ams (tenant_cluster\<lparr>ci_Managed := True\<rparr>)),
         sv_redis := Some (tenant_redis [''r2''])\<rparr>) tenant_request (\<lambda>_. 0) empty_world =
       Initialize tenant_env sample_px sample_rx tenant_server tenant_request (\<lambda>_. 0) empty_world"
proof -
  obtain w' where w': "snd (Initialize tenant_env sample_px sample_rx tenant_server tenant_request (\<lambda>_. 0) empty_world) = Some w'"
    "w_calls w' \<noteq> []"
    using tenant_run by blast
  have conf: "cf_Auth (sv_Config tenant_server)" "\<not> cf_Debug (sv_Config tenant_server)" "\<not> cf_EnableCORS (sv_Config tenant_server)"
    "sv_rbacClient tenant_server = rbac_client tenant_env sample_rc"
    by (simp_all add: tenant_sample)
  note isolated = tenant_isolation [OF conf(1) tenant_not_exempt tenant_token conf(4) tenant_confined tenant_reads_own_org
      tenant_route_found tenant_route_member tenant_route_path _ conf(2,3) _ w'(1)]
  have "id_OrgID (sample_identity\<lparr>id_Type := ''User''\<rparr>) = 1" by (simp add: sample_identity_def)
  with isolated w' tenant_clients_agree show ?thesis by (auto simp: sample_rx_def empty_world_def)
qed

end
