(* ===== verification/Healthy.thy ===== *)
theory Healthy
  imports Noninterference
begin

text \<open>
  With healthy backends every endpoint answers. \<open>answered_exactly_once\<close> lists the handlers
  that answer once whatever the backends do; the others may answer twice, not at all or
  panic when a backend fails in one of the ways their callers do not handle. Here those
  ways are excluded: the lists and acknowledgements the service builds its answers from
  are delivered, what is delivered can be read and decoded, the content is loaded and its
  severity table is intact. Every other call may still fail.

  \<open>asking R ok m\<close>: the result of \<open>m\<close> satisfies \<open>R\<close>, and \<open>m\<close> writes one reply when it is not \<open>ok\<close> and
  none when it is. A computation that \<open>yields\<close> is silent, one that \<open>answers\<close> always replies.
\<close>

definition asking :: "('a \<Rightarrow> bool) \<Rightarrow> ('a \<Rightarrow> bool) \<Rightarrow> (world, 'a) state \<Rightarrow> bool" where
  "asking R ok m \<longleftrightarrow> asks ok m \<and> (\<forall>w. R (fst (run_state m w)))"

abbreviation yields :: "('a \<Rightarrow> bool) \<Rightarrow> (world, 'a) state \<Rightarrow> bool" where
  "yields P \<equiv> asking P (\<lambda>_. True)"


subsection \<open>Rules\<close>

lemma asking_iff: "asking R ok m \<longleftrightarrow> (\<forall>w. R (fst (run_state m w)) \<and>
    adds_replies (if ok (fst (run_state m w)) then 0 else 1) w (snd (run_state m w)))"
  by (auto simp: asking_def asks_def)







lemma yields_asking: "yields P m \<Longrightarrow> (\<And>x. P x \<Longrightarrow> R x \<and> ok x) \<Longrightarrow> asking R ok m"
  by (simp add: asking_iff)






lemma Inr_iff: "(\<exists>v. r = Inr v) \<longleftrightarrow> \<not> isl r"
  by (cases r) auto

context reader
begin

lemma asking_read: "asking (\<lambda>_. True) (\<lambda>r. \<not> isl r) (read x)"
  using as_service.asks_read by (simp add: asking_def)

end


lemma asking_asks: "asks ok m \<Longrightarrow> (\<And>w. R (fst (run_state m w))) \<Longrightarrow> asking R ok m"
  by (simp add: asking_def)

subsection \<open>Healthy backends\<close>

text \<open>
  Identifiers that fit into a URL as they are; the URLs of the other services are filled
  in without escaping.
\<close>

definition url_safe :: "string \<Rightarrow> bool" where
  "url_safe s \<longleftrightarrow> list_all (\<lambda>c. is_alnum c \<or> c \<in> set ''-_.|@'') s"

definition safe_args :: "url_arg list \<Rightarrow> bool" where
  "safe_args args \<longleftrightarrow> list_all (\<lambda>a. case a of ArgOrg g \<Rightarrow> True | ArgStr s \<Rightarrow> url_safe s) args"

lemma safe_args_simps [simp]:
  "safe_args []" "safe_args (ArgOrg g # args) = safe_args args" "safe_args (ArgStr s # args) \<longleftrightarrow> url_safe s \<and> safe_args args"
  by (simp_all add: safe_args_def)

text \<open>
  What a body delivered with status 200 by an endpoint of another service has to be. A
  report, a rule, a prediction and build information may be anything but the JSON null,
  which Go decodes without an error into a nil pointer; the lists, the acknowledgements
  and a new rating have to decode. Nothing is asked of other bodies.
\<close>

definition decodes :: "decoders \<Rightarrow> string \<Rightarrow> string \<Rightarrow> bool" where
  "decodes d e b \<longleftrightarrow>
     (e = ''ReportEndpoint'' \<longrightarrow> dc_report d b \<noteq> Inr None) \<and> (e = ''RuleEndpoint'' \<longrightarrow> dc_rule d b \<noteq> Inr None) \<and>
     (e = ''UpgradeRisksPredictionEndpoint'' \<longrightarrow> dc_data_eng d b \<noteq> Inr None) \<and>
     (e = ''UpgradeRisksPredictionMultiClusterEndpoint'' \<longrightarrow> dc_predictions d b \<noteq> Inr None) \<and>
     (e = ''info'' \<longrightarrow> dc_info d b \<noteq> Inr None) \<and> (e = ''Rating'' \<longrightarrow> snd (dc_rating_post d (Inr b)) = None) \<and>
     (e = ''RecommendationsListEndpoint'' \<longrightarrow> \<not> isl (dc_recommendations d b)) \<and>
     (e = ''ClustersRecommendationsListEndpoint'' \<longrightarrow> \<not> isl (dc_cluster_recommendations d b)) \<and>
     (e = ''ListOfDisabledRulesForClusters'' \<longrightarrow> \<not> isl (dc_disabled_rules d (Inr b))) \<and>
     (e = ''ListOfDisabledRulesSystemWide'' \<longrightarrow> \<not> isl (dc_acked d (Inr b)))"

lemma decodes_simps [simp]:
  "decodes d ''ReportEndpoint'' b \<longleftrightarrow> dc_report d b \<noteq> Inr None" "decodes d ''RuleEndpoint'' b \<longleftrightarrow> dc_rule d b \<noteq> Inr None"
  "decodes d ''UpgradeRisksPredictionEndpoint'' b \<longleftrightarrow> dc_data_eng d b \<noteq> Inr None"
  "decodes d ''UpgradeRisksPredictionMultiClusterEndpoint'' b \<longleftrightarrow> dc_predictions d b \<noteq> Inr None"
  "decodes d ''info'' b \<longleftrightarrow> dc_info d b \<noteq> Inr None" "decodes d ''Rating'' b \<longleftrightarrow> snd (dc_rating_post d (Inr b)) = None"
  "decodes d ''RecommendationsListEndpoint'' b \<longleftrightarrow> \<not> isl (dc_recommendations d b)"
  "decodes d ''ClustersRecommendationsListEndpoint'' b \<longleftrightarrow> \<not> isl (dc_cluster_recommendations d b)"
  "decodes d ''ListOfDisabledRulesForClusters'' b \<longleftrightarrow> \<not> isl (dc_disabled_rules d (Inr b))"
  "decodes d ''ListOfDisabledRulesSystemWide'' b \<longleftrightarrow> \<not> isl (dc_acked d (Inr b))"
  by (simp_all add: decodes_def)

text \<open>The aggregator's endpoints that have to answer with status 200, and those that only have to be reached.\<close>

definition list_endpoints :: "string list" where
  "list_endpoints = [''RecommendationsListEndpoint'', ''ClustersRecommendationsListEndpoint'',
     ''ListOfDisabledRulesForClusters'', ''ListOfDisabledRulesSystemWide'']"

definition reached_endpoints :: "string list" where
  "reached_endpoints = [''RuleClusterDetailEndpoint'', ''DVOWorkloadRecommendations'']"














lemma list_members [simp]:
  "''RecommendationsListEndpoint'' \<in> set list_endpoints" "''ClustersRecommendationsListEndpoint'' \<in> set list_endpoints"
  "''ListOfDisabledRulesForClusters'' \<in> set list_endpoints" "''ListOfDisabledRulesSystemWide'' \<in> set list_endpoints"
  "''RuleClusterDetailEndpoint'' \<in> set reached_endpoints" "''DVOWorkloadRecommendations'' \<in> set reached_endpoints"
  by (simp_all add: list_endpoints_def reached_endpoints_def)

lemma decoded: "(\<And>e. x \<noteq> Inl e) \<Longrightarrow> \<exists>v. x = Inr v"
  by (cases x) auto







subsection \<open>Readers that may refuse\<close>




subsection \<open>The handlers\<close>









subsection \<open>The service\<close>












subsection \<open>A healthy instance\<close>










end
