(* ===== verification/Startup.thy ===== *)
theory Startup
  imports ContentWait Conf RuleGroups Info Router
begin

text \<open>
  \<open>smart_proxy.go\<close>, \<open>version.go\<close> and the life cycle of the HTTP server in \<open>server/server.go\<close>.
  The configuration is loaded, a command is chosen, and \<open>startServer\<close> builds the components
  from the configuration in the order of the code; the first one that cannot be built ends
  the process with an error.

  \<open>startup_env\<close> holds what comes from elsewhere: the configuration library, the file system,
  the URL parser, the connections of the two SDKs, the health check, the HTTP listeners,
  the counters of the operator utilities, the environment and the values set by the build.
  An account management client is used through its interface \<open>su_ams\<close>, which answers as the
  methods of the client do (\<open>ams_implements\<close>) as long as every search ends.
\<close>

subsection \<open>The HTTP server\<close>

text \<open>Times are in seconds.\<close>

record http_server =
  hs_Addr :: string
  hs_Handler :: chandler
  hs_ReadTimeout :: int
  hs_ReadHeaderTimeout :: int
  hs_WriteTimeout :: int

datatype listen = ListenAndServe | ListenAndServeTLS string string

datatype listen_error = ErrServerClosed | ListenError gerror

record ('l, 'c, 's) startup_env =
  su_conf :: "('l, 'c, 's) conf_env"
  su_files :: files
  su_InitZerolog :: "'l \<Rightarrow> 'c \<Rightarrow> 's \<Rightarrow> gerror option"
  su_parse :: "string \<Rightarrow> parsed_url res"
  su_BuildAMS :: "string \<Rightarrow> credentials \<Rightarrow> ams_conn res"
  su_ams :: "amsClientImpl \<Rightarrow> AMSClient"
  su_CreateRedisClient :: "string \<Rightarrow> int \<Rightarrow> string \<Rightarrow> string \<Rightarrow> int \<Rightarrow> redis_conn res"
  su_HealthCheck :: "redis_conn \<Rightarrow> gerror option"
  su_utils_metrics :: "string \<Rightarrow> registry \<Rightarrow> registry option"
  su_listen :: "http_server \<Rightarrow> listen \<Rightarrow> listen_error option"
  su_Shutdown :: "http_server \<Rightarrow> gerror option"
  su_build :: build_info
  su_MarshalIndent :: "('l, 'c, 's) Config \<Rightarrow> string res"
  su_Environ :: "string list"
  su_Arg0 :: string

text \<open>
  \<open>Start\<close> returns when the listener does; the error of a server that was shut down is not
  one. It also sets \<open>Serv\<close>, which \<open>Stop\<close> uses; before that, \<open>Stop\<close> is a panic (\<open>None\<close>).
\<close>

definition Start ::
  "env \<Rightarrow> proxy_env \<Rightarrow> router_env \<Rightarrow> ('l, 'c, 's) startup_env \<Rightarrow> HTTPServer \<Rightarrow> listen_error option \<times> http_server" where
  "Start ev px rx su sv =
     (let address = cf_Address (sv_Config sv);
          router = Initialize ev px rx sv;
          serv = \<lparr>hs_Addr = address, hs_Handler = router, hs_ReadTimeout = 60, hs_ReadHeaderTimeout = 5, hs_WriteTimeout = 30\<rparr>;
          err = (if cf_UseHTTPS (sv_Config sv) then su_listen su serv (ListenAndServeTLS ''server.crt'' ''server.key'')
                 else su_listen su serv ListenAndServe)
      in if err \<noteq> None \<and> err \<noteq> Some ErrServerClosed then (err, serv) else (None, serv))"

definition Stop :: "('l, 'c, 's) startup_env \<Rightarrow> http_server option \<Rightarrow> gerror option option" where
  "Stop su serv = map_option (su_Shutdown su) serv"

subsection \<open>Commands that print\<close>

definition helpMessage :: "string \<Rightarrow> string list" where
  "helpMessage arg0 =
     ['''', ''Smart Proxy service for insights results'', '''', ''Usage:'', '''',
      ''    '' @ arg0 @ '' [command]'', '''', ''The commands are:'', '''',
      ''    <EMPTY>             starts smart-proxy'',
      ''    start-service       starts smart-proxy'',
      ''    help                prints help'',
      ''    print-help          prints help'',
      ''    print-config        prints current configuration set by files & env variables'',
      ''    print-env           prints env variables'',
      ''    print-version-info  prints version info'', '''', '''']"

datatype exit_code = ExitStatusOK | ExitStatusServerError | ExitFatal string | ExitPanic

definition printHelp :: "('l, 'c, 's) startup_env \<Rightarrow> exit_code \<times> string list" where
  "printHelp su = (ExitStatusOK, helpMessage (su_Arg0 su))"

definition printConfig :: "('l, 'c, 's) startup_env \<Rightarrow> ('l, 'c, 's) Config \<Rightarrow> exit_code \<times> string list" where
  "printConfig su cg =
     (case su_MarshalIndent su cg of
        Inl err \<Rightarrow> (ExitStatusServerError, [])
      | Inr configBytes \<Rightarrow> (ExitStatusOK, [configBytes]))"

definition printEnv :: "('l, 'c, 's) startup_env \<Rightarrow> exit_code \<times> string list" where
  "printEnv su = (ExitStatusOK, su_Environ su)"

definition printInfo :: "string \<Rightarrow> string \<Rightarrow> string" where
  "printInfo msg val = msg @ [CHR 0x09] @ val"

definition printVersionInfo :: "('l, 'c, 's) startup_env \<Rightarrow> exit_code \<times> string list" where
  "printVersionInfo su =
     (ExitStatusOK,
      [printInfo ''Version:'' (bi_BuildVersion (su_build su)), printInfo ''Build time:'' (bi_BuildTime (su_build su)),
       printInfo ''Branch:'' (bi_BuildBranch (su_build su)), printInfo ''Commit:'' (bi_BuildCommit (su_build su)),
       printInfo ''Utils version:'' (bi_UtilsVersion (su_build su))])"

subsection \<open>Starting the service\<close>

text \<open>
  The exit code, the server that was started, if any, and the registry of the metrics. The
  goroutines that poll the groups and the content are started after the server was built,
  so its channels are still empty and no content is loaded. \<open>start_content\<close> is the state from
  which the package \<open>content\<close> then runs, beside the server.
\<close>

definition start_content :: "ServicesConfiguration \<Rightarrow> content_service" where
  "start_content servicesCfg = SetContentDirectoryTimeout (sc_ContentDirectoryTimeout servicesCfg) initial_service"

definition startServer ::
  "env \<Rightarrow> proxy_env \<Rightarrow> router_env \<Rightarrow> ('l, 'c, 's) startup_env \<Rightarrow> ('l, 'c, 's) Config \<Rightarrow> registry
    \<Rightarrow> exit_code \<times> HTTPServer option \<times> registry" where
  "startServer ev px rx su cg reg =
     (case GetServerConfiguration ev (su_files su) cg of
        Fatal s \<Rightarrow> (ExitFatal s, None, reg)
      | Continue (serverCfg, cg) \<Rightarrow>
          (let metricsCfg = GetMetricsConfiguration cg;
               servicesCfg = GetServicesConfiguration cg;
               amsConfig = GetAMSClientConfiguration cg;
               redisConf = GetRedisConfiguration cg;
               rbacCfg = GetRBACConfiguration cg
           in case (if mc_Namespace metricsCfg \<noteq> [] then AddAPIMetricsWithNamespace (su_utils_metrics su) (mc_Namespace metricsCfg) reg
                    else Some reg) of
                None \<Rightarrow> (ExitPanic, None, reg)
              | Some reg \<Rightarrow>
                  (let amsClient = (case NewAMSClient (su_BuildAMS su) amsConfig of
                         Inl err \<Rightarrow> None | Inr c \<Rightarrow> Some (su_ams su c))
                   in case NewRedisClient (su_CreateRedisClient su) redisConf of
                        Inl err \<Rightarrow> (ExitStatusServerError, None, reg)
                      | Inr (conn, redisClient) \<Rightarrow>
                          (case su_HealthCheck su conn of
                             Some err \<Rightarrow> (ExitStatusServerError, None, reg)
                           | None \<Rightarrow>
                               (case NewRBACClient ev (su_parse su) rbacCfg of
                                  Inl err \<Rightarrow> (ExitStatusServerError, None, reg)
                                | Inr rbac \<Rightarrow>
                                    (let sv = New serverCfg servicesCfg amsClient (Some redisClient) None EmptyChannel None
                                           (rbac_client ev rbac)
                                           (cw_content (start_content servicesCfg));
                                         sv = sv\<lparr>sv_InfoParams := map_option (fillInInfoParams (su_build su)) (sv_InfoParams sv)\<rparr>
                                     in case fst (Start ev px rx su sv) of
                                          Some err \<Rightarrow> (ExitStatusServerError, Some sv, reg)
                                        | None \<Rightarrow> (ExitStatusOK, Some sv, reg)))))))"

text \<open>The exit codes of the printing commands are dropped.\<close>

definition handleCommand ::
  "env \<Rightarrow> proxy_env \<Rightarrow> router_env \<Rightarrow> ('l, 'c, 's) startup_env \<Rightarrow> ('l, 'c, 's) Config \<Rightarrow> registry \<Rightarrow> string
    \<Rightarrow> exit_code \<times> string list \<times> HTTPServer option" where
  "handleCommand ev px rx su cg reg command =
     (if command = ''start-service'' then
        (case startServer ev px rx su cg reg of (code, sv, reg') \<Rightarrow> (code, [], sv))
      else if command = ''print-version'' then (ExitStatusOK, snd (printVersionInfo su), None)
      else if command = ''print-help'' then (ExitStatusOK, snd (printHelp su), None)
      else if command = ''print-config'' then (ExitStatusOK, snd (printConfig su cg), None)
      else if command = ''print-env'' then (ExitStatusOK, snd (printEnv su), None)
      else (ExitStatusOK, [], None))"

text \<open>
  \<open>main\<close>, from the flags and the arguments that are left when they are parsed. The
  configuration is loaded over the zero one.
\<close>

definition main ::
  "env \<Rightarrow> proxy_env \<Rightarrow> router_env \<Rightarrow> ('l, 'c, 's) startup_env \<Rightarrow> ('l, 'c, 's) Config \<Rightarrow> registry \<Rightarrow> bool \<Rightarrow> bool \<Rightarrow> string list
    \<Rightarrow> exit_code \<times> string list \<times> HTTPServer option" where
  "main ev px rx su zero reg showHelp showVersion args =
     (case LoadConfiguration ev (su_conf su) ''config'' zero of
        Inl err \<Rightarrow> (ExitPanic, [], None)
      | Inr (cg, printed) \<Rightarrow>
          (case su_InitZerolog su (GetLoggingConfiguration cg) (GetCloudWatchConfiguration cg) (GetSentryLoggingConfiguration cg) of
             Some err \<Rightarrow> (ExitPanic, printed, None)
           | None \<Rightarrow>
               if showHelp then (case printHelp su of (code, out) \<Rightarrow> (code, printed @ out, None))
               else if showVersion then (ExitStatusOK, printed @ snd (printVersionInfo su), None)
               else
                 (let command = (if length args \<ge> 1 then ToLower (TrimSpace (args ! 0)) else ''start-service'')
                  in case handleCommand ev px rx su cg reg command of (code, out, sv) \<Rightarrow> (code, printed @ out, sv))))"

end
