(* ===== verification/Startup_Props.thy ===== *)
theory Startup_Props
  imports Startup Router_Props
begin

text \<open>
  The configuration is read from the file that the environment names or, when it names
  none and there is no default file, from the defaults; the server that the process starts
  is built from it.
\<close>

subsection \<open>Paths\<close>

lemma filepath_Split_append: "fst (filepath_Split path) @ snd (filepath_Split path) = path"
  by (simp add: filepath_Split_def flip: rev_append)

lemma filepath_Split_basename: "CHR ''/'' \<notin> set (snd (filepath_Split path))"
  by (auto simp: filepath_Split_def dest: set_takeWhileD)

lemma Ext_suffix: "suffix (Ext path) path"
proof -
  let ?P = "\<lambda>c. c \<noteq> CHR ''/'' \<and> c \<noteq> CHR ''.''"
  have path: "path = rev (dropWhile ?P (rev path)) @ rev (takeWhile ?P (rev path))"
    by (simp flip: rev_append)
  show ?thesis
  proof (cases "dropWhile ?P (rev path)")
    case Nil
    then show ?thesis by (simp only: Ext_def Let_def dropWhile_eq_drop [symmetric] list.case Nil_suffix)
  next
    case (Cons c cs)
    with path have "path = rev cs @ c # rev (takeWhile ?P (rev path))" by simp
    with Cons show ?thesis
      by (auto simp: Ext_def Let_def suffix_def dropWhile_eq_drop [symmetric])
  qed
qed

lemma file_and_extension: "TrimSuffix basename (Ext basename) @ Ext basename = basename"
  using Ext_suffix [of basename] by (metis TrimSuffix_append suffix_def)

subsection \<open>Loading\<close>

lemma read_source_cases:
  assumes "read_source co specified v cg = Inr v'"
  obtains (from_file) "cv_ReadInConfig co v = None" "v' = v\<lparr>vp_Source := ReadFromFile\<rparr>"
  | (from_zero) toml s where "\<not> specified" "cv_ReadInConfig co v = Some (ConfigFileNotFoundError s)" "cv_Encode co cg = Inr toml"
      "v' = v\<lparr>vp_ConfigType := ''toml'', vp_Source := ReadFromText toml\<rparr>"
  using assms by (auto simp: read_source_def Let_def split: option.splits read_error.splits if_splits sum.splits)

text \<open>Where the configuration is looked for, as it is set before anything is read.\<close>

definition configured_viper :: "string option \<Rightarrow> string \<Rightarrow> viper" where
  "configured_viper env defaultFile = (case env of
      Some path \<Rightarrow> empty_viper\<lparr>vp_ConfigName := TrimSuffix (snd (filepath_Split path)) (Ext (snd (filepath_Split path))),
        vp_ConfigPath := fst (filepath_Split path)\<rparr>
    | None \<Rightarrow> empty_viper\<lparr>vp_ConfigName := defaultFile, vp_ConfigPath := ''.''\<rparr>)"

lemma configured_viper_path:
  "vp_ConfigPath (configured_viper (Some path) d) @ vp_ConfigName (configured_viper (Some path) d) @ Ext (snd (filepath_Split path)) = path"
  by (simp add: configured_viper_def file_and_extension filepath_Split_append)

lemma LoadConfiguration_cases:
  assumes "LoadConfiguration ev co defaultFile zero = Inr (cg, printed)"
  obtains v decoded where "read_source co (cv_LookupEnv co configFileEnvVariableName \<noteq> None)
      (configured_viper (cv_LookupEnv co configFileEnvVariableName) defaultFile) zero = Inr v"
    "cv_Unmarshal co (v\<lparr>vp_AutomaticEnv := True, vp_EnvPrefix := envPrefix, vp_EnvKeyReplacer := [(''-'', ''_''), (''.'', ''__'')]\<rparr>) zero =
      Inr decoded"
    "(cg, printed) = updateConfigFromClowder (cv_IsClowderEnabled co) (cv_InMemoryDb co) decoded"
  using assms by (auto simp: LoadConfiguration_def configured_viper_def Let_def split_beta split: option.splits sum.splits)

lemma clowder_keeps:
  "fst (updateConfigFromClowder enabled db cg) = cg\<lparr>cg_RedisConf := cg_RedisConf (fst (updateConfigFromClowder enabled db cg))\<rparr>"
  by (simp add: updateConfigFromClowder_def updateRedisConfig_def Let_def split: option.split)

text \<open>
  Claim C28: where the configuration that is loaded comes from. The file is looked for under
  the path that the environment names, cut into directory, name and extension, and under the
  default name in the current directory when it names none. When that file can be read, the
  configuration is what is decoded from it. When it cannot, loading succeeds only if the
  environment names no file and the default file is not found, and then the configuration is
  decoded from the defaults written out. In both cases the variables of the environment take
  precedence in decoding, and afterwards nothing is changed without Clowder, and nothing
  but the access to Redis with it.
\<close>

theorem configuration_loaded:
  assumes "LoadConfiguration ev co defaultFile zero = Inr (cg, printed)"
  shows "\<exists>v0 v decoded.
    (case cv_LookupEnv co configFileEnvVariableName of
       Some path \<Rightarrow> vp_ConfigPath v0 @ vp_ConfigName v0 @ Ext (snd (filepath_Split path)) = path \<and> CHR ''/'' \<notin> set (vp_ConfigName v0)
     | None \<Rightarrow> vp_ConfigPath v0 = ''.'' \<and> vp_ConfigName v0 = defaultFile) \<and>
    vp_ConfigPath v = vp_ConfigPath v0 \<and> vp_ConfigName v = vp_ConfigName v0 \<and>
    (case cv_ReadInConfig co v0 of
       None \<Rightarrow> vp_Source v = ReadFromFile
     | Some err \<Rightarrow> cv_LookupEnv co configFileEnvVariableName = None \<and> (\<exists>s. err = ConfigFileNotFoundError s) \<and>
         (\<exists>toml. cv_Encode co zero = Inr toml \<and> vp_ConfigType v = ''toml'' \<and> vp_Source v = ReadFromText toml)) \<and>
    vp_AutomaticEnv v \<and> vp_EnvPrefix v = envPrefix \<and> vp_EnvKeyReplacer v = [(''-'', ''_''), (''.'', ''__'')] \<and>
    cv_Unmarshal co v zero = Inr decoded \<and>
    cg = decoded\<lparr>cg_RedisConf := cg_RedisConf cg\<rparr> \<and> (cv_IsClowderEnabled co \<or> cg = decoded)"
proof -
  let ?v0 = "configured_viper (cv_LookupEnv co configFileEnvVariableName) defaultFile"
  let ?set = "\<lambda>v. v\<lparr>vp_AutomaticEnv := True, vp_EnvPrefix := envPrefix, vp_EnvKeyReplacer := [(''-'', ''_''), (''.'', ''__'')]\<rparr>"
  obtain v decoded where v: "read_source co (cv_LookupEnv co configFileEnvVariableName \<noteq> None) ?v0 zero = Inr v"
    and decoded: "cv_Unmarshal co (?set v) zero = Inr decoded"
    and cg: "(cg, printed) = updateConfigFromClowder (cv_IsClowderEnabled co) (cv_InMemoryDb co) decoded"
    using assms by (rule LoadConfiguration_cases)
  have "cg = decoded\<lparr>cg_RedisConf := cg_RedisConf cg\<rparr>" using cg clowder_keeps by (metis fst_conv)
  moreover have "cv_IsClowderEnabled co \<or> cg = decoded" using cg by (auto simp: updateConfigFromClowder_def split: if_splits)
  moreover have "set (vp_ConfigName ?v0) \<subseteq> set (snd (filepath_Split path))" if "cv_LookupEnv co configFileEnvVariableName = Some path" for path
    using that by (auto simp: configured_viper_def TrimSuffix_def dest: in_set_takeD)
  then have "case cv_LookupEnv co configFileEnvVariableName of
       Some path \<Rightarrow> vp_ConfigPath ?v0 @ vp_ConfigName ?v0 @ Ext (snd (filepath_Split path)) = path \<and> CHR ''/'' \<notin> set (vp_ConfigName ?v0)
     | None \<Rightarrow> vp_ConfigPath ?v0 = ''.'' \<and> vp_ConfigName ?v0 = defaultFile"
    using configured_viper_path filepath_Split_basename by (auto simp: configured_viper_def split: option.split)
  moreover have "case cv_ReadInConfig co ?v0 of
       None \<Rightarrow> vp_Source (?set v) = ReadFromFile
     | Some err \<Rightarrow> cv_LookupEnv co configFileEnvVariableName = None \<and> (\<exists>s. err = ConfigFileNotFoundError s) \<and>
         (\<exists>toml. cv_Encode co zero = Inr toml \<and> vp_ConfigType (?set v) = ''toml'' \<and> vp_Source (?set v) = ReadFromText toml)"
    and "vp_ConfigPath (?set v) = vp_ConfigPath ?v0" "vp_ConfigName (?set v) = vp_ConfigName ?v0"
    using v by (cases rule: read_source_cases; simp)+
  ultimately show ?thesis using decoded by (intro exI [of _ ?v0] exI [of _ "?set v"] exI [of _ decoded]) simp
qed

subsection \<open>The server that is started\<close>

lemma GetServerConfiguration_keeps:
  assumes "GetServerConfiguration ev fs cg = Continue (cfg, cg')"
  shows "cfg = (cg_ServerConf cg)\<lparr>cf_InternalRulesOrganizations := cf_InternalRulesOrganizations cfg\<rparr>"
    and "cg' = cg\<lparr>cg_ServerConf := cfg\<rparr>"
    and "fs_Stat fs (cf_APIv1SpecFile cfg) = StatFile True" and "fs_Stat fs (cf_APIv2SpecFile cfg) = StatFile True"
    and "getInternalRulesOrganizations ev fs cg = Continue (cf_InternalRulesOrganizations cfg)"
  using assms by (auto simp: GetServerConfiguration_def checkIfFileExists_def Let_def split: if_splits fatal.splits file_stat.splits)

text \<open>A server listens with TLS exactly when it is configured to, and shutting it down is no error.\<close>

lemma Start_spec:
  "fst (Start ev px rx su sv) = None \<longleftrightarrow>
     su_listen su (snd (Start ev px rx su sv))
       (if cf_UseHTTPS (sv_Config sv) then ListenAndServeTLS ''server.crt'' ''server.key'' else ListenAndServe) \<in> {None, Some ErrServerClosed}"
  "hs_Addr (snd (Start ev px rx su sv)) = cf_Address (sv_Config sv)"
  "hs_Handler (snd (Start ev px rx su sv)) = Initialize ev px rx sv"
  by (auto simp: Start_def Let_def)

lemma start_content_empty [simp]:
  "cw_content (start_content servicesCfg) = \<lparr>cs_ruleContentDirectory = None, cs_storage = getEmptyRulesWithContentMap\<rparr>"
  by (simp add: start_content_def SetContentDirectoryTimeout_def initial_service_def)

text \<open>The runs of the content service that a server sees are those of \<open>ContentWait\<close>.\<close>

lemma start_content_runs:
  "(content_step ce)\<^sup>*\<^sup>* (start_content servicesCfg) st \<Longrightarrow> reachable_service ce st"
  unfolding start_content_def reachable_service_def
  by (meson converse_rtranclp_into_rtranclp content_step.set_timeout)

definition built_server ::
  "env \<Rightarrow> ('l, 'c, 's) startup_env \<Rightarrow> ('l, 'c, 's) Config \<Rightarrow> Configuration \<Rightarrow> redis_conn \<Rightarrow> rbacClientImpl \<Rightarrow> HTTPServer" where
  "built_server ev su cg cfg conn rc =
     (New cfg (cg_ServicesConf cg)
        (case NewAMSClient (su_BuildAMS su) (cg_AMSClientConf cg) of Inl err \<Rightarrow> None | Inr c \<Rightarrow> Some (su_ams su c))
        (Some (RedisClient conn)) None EmptyChannel None (rbac_client ev rc)
        \<lparr>cs_ruleContentDirectory = None, cs_storage = getEmptyRulesWithContentMap\<rparr>)
     \<lparr>sv_InfoParams := Some (fillInInfoParams (su_build su) Map.empty)\<rparr>"

lemma startServer_eq:
  assumes "GetServerConfiguration ev (su_files su) cg = Continue (cfg, cg\<lparr>cg_ServerConf := cfg\<rparr>)"
  shows "startServer ev px rx su cg reg =
    (case (if mc_Namespace (cg_MetricsConf cg) \<noteq> []
           then AddAPIMetricsWithNamespace (su_utils_metrics su) (mc_Namespace (cg_MetricsConf cg)) reg else Some reg) of
       None \<Rightarrow> (ExitPanic, None, reg)
     | Some reg \<Rightarrow>
         (case NewRedisClient (su_CreateRedisClient su) (cg_RedisConf cg) of
            Inl err \<Rightarrow> (ExitStatusServerError, None, reg)
          | Inr (conn, client) \<Rightarrow>
              (case su_HealthCheck su conn of
                 Some err \<Rightarrow> (ExitStatusServerError, None, reg)
               | None \<Rightarrow>
                   (case NewRBACClient ev (su_parse su) (cg_RBACConf cg) of
                      Inl err \<Rightarrow> (ExitStatusServerError, None, reg)
                    | Inr rc \<Rightarrow>
                        (if fst (Start ev px rx su (built_server ev su cg cfg conn rc)) = None then ExitStatusOK else ExitStatusServerError,
                         Some (built_server ev su cg cfg conn rc), reg)))))"
  unfolding startServer_def assms
  by (auto simp: getter_defs built_server_def New_def NewRedisClient_def Let_def split: option.split sum.split)

lemma startServer_started:
  assumes "startServer ev px rx su cg reg = (code, started, reg')"
  obtains (failed) "started = None" "code \<noteq> ExitStatusOK"
  | (built) conn rc cfg where "started = Some (built_server ev su cg cfg conn rc)"
      "GetServerConfiguration ev (su_files su) cg = Continue (cfg, cg\<lparr>cg_ServerConf := cfg\<rparr>)"
      "NewRBACClient ev (su_parse su) (cg_RBACConf cg) = Inr rc" "su_HealthCheck su conn = None"
      "code = (if fst (Start ev px rx su (built_server ev su cg cfg conn rc)) = None then ExitStatusOK else ExitStatusServerError)"
proof (cases "GetServerConfiguration ev (su_files su) cg")
  case (Continue r)
  then obtain cfg where r: "GetServerConfiguration ev (su_files su) cg = Continue (cfg, cg\<lparr>cg_ServerConf := cfg\<rparr>)"
    using GetServerConfiguration_keeps(2) by (metis prod.collapse)
  from assms r show ?thesis
    unfolding startServer_eq [OF r]
    by (auto intro: failed built split: option.splits sum.splits prod.splits)
qed (use assms failed in \<open>auto simp: startServer_def\<close>)

definition command_of :: "string list \<Rightarrow> string" where
  "command_of args = (if length args \<ge> 1 then ToLower (TrimSpace (args ! 0)) else ''start-service'')"

lemmas main_unfold = main_def [folded command_of_def]

text \<open>
  Claim C27: the process as a whole. It ends with success and without a server exactly when the
  configuration was loaded, logging was set up and it was not asked to start the service:
  it was given a flag or a command that prints, or any other word, for which it does
  nothing and still reports success. Every server it starts is built from the configuration
  that was loaded: it has a Redis client that answered, access control over the configured
  RBAC service, the account management client if one could be built, the organizations of
  the CSV file, and the OpenAPI files it serves. Its exit code is that of the listener, for
  which a shutdown is a success.
\<close>

theorem started_server:
  assumes "main ev px rx su zero reg showHelp showVersion args = (code, printed, started)"
  shows "(code = ExitStatusOK \<and> started = None \<longleftrightarrow> (showHelp \<or> showVersion \<or> command_of args \<noteq> ''start-service'') \<and>
      (\<exists>cg out. LoadConfiguration ev (su_conf su) ''config'' zero = Inr (cg, out) \<and>
         su_InitZerolog su (cg_LoggingConf cg) (cg_CloudWatchConf cg) (cg_SentryLoggingConf cg) = None)) \<and>
    (\<forall>sv. started = Some sv \<longrightarrow> \<not> showHelp \<and> \<not> showVersion \<and> command_of args = ''start-service'' \<and>
       (\<exists>cg conn rc. LoadConfiguration ev (su_conf su) ''config'' zero = Inr (cg, printed) \<and>
          sv_redis sv = Some (RedisClient conn) \<and> su_HealthCheck su conn = None \<and>
          NewRBACClient ev (su_parse su) (cg_RBACConf cg) = Inr rc \<and> sv_rbacClient sv = rbac_client ev rc \<and>
          sv_ServicesConfig sv = cg_ServicesConf cg \<and>
          sv_amsClient sv = (case NewAMSClient (su_BuildAMS su) (cg_AMSClientConf cg) of Inl err \<Rightarrow> None | Inr c \<Rightarrow> Some (su_ams su c)) \<and>
          sv_Config sv = (cg_ServerConf cg)\<lparr>cf_InternalRulesOrganizations := cf_InternalRulesOrganizations (sv_Config sv)\<rparr> \<and>
          getInternalRulesOrganizations ev (su_files su) cg = Continue (cf_InternalRulesOrganizations (sv_Config sv))) \<and>
       fs_Stat (su_files su) (cf_APIv1SpecFile (sv_Config sv)) = StatFile True \<and>
       fs_Stat (su_files su) (cf_APIv2SpecFile (sv_Config sv)) = StatFile True \<and>
       sv_InfoParams sv = Some (fillInInfoParams (su_build su) Map.empty) \<and>
       (code = ExitStatusOK \<longleftrightarrow> fst (Start ev px rx su sv) = None))"
proof (cases "\<exists>cg out. LoadConfiguration ev (su_conf su) ''config'' zero = Inr (cg, out) \<and> \<not> showHelp \<and> \<not> showVersion \<and>
    command_of args = ''start-service'' \<and> su_InitZerolog su (cg_LoggingConf cg) (cg_CloudWatchConf cg) (cg_SentryLoggingConf cg) = None")
  case True
  then obtain cg out where cg: "LoadConfiguration ev (su_conf su) ''config'' zero = Inr (cg, out)"
    "\<not> showHelp" "\<not> showVersion" "command_of args = ''start-service''"
    "su_InitZerolog su (cg_LoggingConf cg) (cg_CloudWatchConf cg) (cg_SentryLoggingConf cg) = None" by blast
  from cg assms obtain reg' where "startServer ev px rx su cg reg = (code, started, reg')" and "printed = out"
    by (auto simp: main_unfold getter_defs handleCommand_def Let_def split: prod.splits)
  from this(1) show ?thesis
  proof (cases rule: startServer_started)
    case (built conn rc cfg)
    with cg GetServerConfiguration_keeps [OF built(2)] \<open>printed = out\<close> show ?thesis
      by (auto simp: built_server_def New_def)
  qed (use cg in simp)
next
  case False
  with assms show ?thesis
    by (auto simp: main_unfold getter_defs handleCommand_def printHelp_def Let_def
        split: sum.splits option.splits prod.splits if_splits)
qed

subsection \<open>A sample process\<close>

definition sample_Config :: "(unit, unit, unit) Config" where
  "sample_Config = \<lparr>cg_ServerConf = sample_config, cg_ServicesConf = sv_ServicesConfig sample_server,
     cg_RedisConf = \<lparr>rcf_RedisEndpoint = [], rcf_RedisDatabase = 0, rcf_RedisTimeoutSeconds = 30, rcf_RedisPassword = [], rcf_RedisUsername = []\<rparr>,
     cg_SetupConf = \<lparr>stp_InternalRulesOrganizationsCSVFile = ''orgs.csv''\<rparr>, cg_MetricsConf = \<lparr>mc_Namespace = ''smart_proxy''\<rparr>,
     cg_LoggingConf = (), cg_CloudWatchConf = (), cg_SentryLoggingConf = (),
     cg_AMSClientConf = \<lparr>ac_Token = [], ac_ClientID = [], ac_ClientSecret = [], ac_URL = [], ac_PageSize = 0, ac_ClusterListCaching = False\<rparr>,
     cg_RBACConf = \<lparr>rbc_URL = ''rbac'', rbc_EnforceAuth = True\<rparr>\<rparr>"

definition sample_conf_env :: "(unit, unit, unit) conf_env" where
  "sample_conf_env = \<lparr>cv_LookupEnv = [configFileEnvVariableName \<mapsto> ''/etc/proxy.toml''], cv_ReadInConfig = (\<lambda>v. None),
     cv_ReadConfig = (\<lambda>v s. None), cv_Encode = (\<lambda>cg. Inr []), cv_Unmarshal = (\<lambda>v cg. Inr sample_Config),
     cv_IsClowderEnabled = True,
     cv_InMemoryDb = Some \<lparr>mdb_Hostname = ''redis'', mdb_Port = 7, mdb_Username = None, mdb_Password = None\<rparr>\<rparr>"

theorem configuration_loaded_witness:
  "\<exists>v decoded. cv_Unmarshal sample_conf_env v sample_Config = Inr decoded \<and> vp_Source v = ReadFromFile \<and>
     vp_ConfigPath v @ vp_ConfigName v @ ''.toml'' = ''/etc/proxy.toml'' \<and>
     rcf_RedisEndpoint (cg_RedisConf (fst (updateConfigFromClowder True (cv_InMemoryDb sample_conf_env) decoded))) = ''redis:7''"
proof -
  let ?cg = "fst (updateConfigFromClowder True (cv_InMemoryDb sample_conf_env) sample_Config)"
  have "LoadConfiguration sample_env sample_conf_env ''config'' sample_Config = Inr (?cg, [''Clowder is enabled''])"
    by (simp add: LoadConfiguration_def read_source_def sample_conf_env_def updateConfigFromClowder_def Let_def split_beta)
  from configuration_loaded [OF this] obtain v decoded where
    v: "cv_Unmarshal sample_conf_env v sample_Config = Inr decoded" "vp_Source v = ReadFromFile"
    "vp_ConfigPath v @ vp_ConfigName v @ Ext (snd (filepath_Split ''/etc/proxy.toml'')) = ''/etc/proxy.toml''"
    by (auto simp: sample_conf_env_def)
  moreover have "Ext (snd (filepath_Split ''/etc/proxy.toml'')) = ''.toml''" by code_simp
  moreover have "rcf_RedisEndpoint (cg_RedisConf ?cg) = ''redis:7''" by code_simp
  moreover have "decoded = sample_Config" using v(1) by (simp add: sample_conf_env_def)
  ultimately show ?thesis by auto
qed

definition sample_startup :: "(unit, unit, unit) startup_env" where
  "sample_startup = \<lparr>su_conf = sample_conf_env,
     su_files = \<lparr>fs_Stat = (\<lambda>p. StatFile True), fs_ReadFile = Inr, fs_csvRead = (\<lambda>d. Inr [[''org'']])\<rparr>,
     su_InitZerolog = (\<lambda>l c s. None),
     su_parse = (\<lambda>u. Inr \<lparr>pu_Before = ''https://rbac'', pu_Host = ''rbac'', pu_Path = [], pu_After = []\<rparr>),
     su_BuildAMS = (\<lambda>u c. Inl (ErrorString ''offline'')),
     su_ams = (\<lambda>c. \<lparr>ams_GetClustersForOrganization = (\<lambda>g s n. ([], None)),
       ams_GetClusterDetailsFromExternalClusterID = (\<lambda>x. empty_ClusterInfo),
       ams_GetSingleClusterInfoForOrganization = (\<lambda>g x. Inl (OtherError x))\<rparr>),
     su_CreateRedisClient = (\<lambda>e d u p t. Inr \<lparr>rd_Scan = (\<lambda>n c k b. Inr ([], 0)), rd_Pipelined = (\<lambda>ks. None),
       rd_HMGet = (\<lambda>k. Inl (OtherError k)), rd_HMGetReport = (\<lambda>k. (None, Inl (OtherError k))), rd_Exists = (\<lambda>k. Inr 0)\<rparr>),
     su_HealthCheck = (\<lambda>c. None), su_utils_metrics = (\<lambda>n. Some), su_listen = (\<lambda>hs l. Some ErrServerClosed),
     su_Shutdown = (\<lambda>hs. None),
     su_build = \<lparr>bi_BuildVersion = ''1'', bi_BuildTime = [], bi_BuildBranch = [], bi_BuildCommit = [], bi_UtilsVersion = []\<rparr>,
     su_MarshalIndent = (\<lambda>cg. Inr []), su_Environ = [], su_Arg0 = ''proxy''\<rparr>"

lemma sample_starts:
  "fst (main sample_env sample_px sample_rx sample_startup sample_Config [] False False []) = ExitStatusOK"
proof -
  let ?cg = "fst (updateConfigFromClowder True (cv_InMemoryDb sample_conf_env) sample_Config)"
  have load: "LoadConfiguration sample_env sample_conf_env ''config'' sample_Config = Inr (?cg, [''Clowder is enabled''])"
    by (simp add: LoadConfiguration_def read_source_def sample_conf_env_def updateConfigFromClowder_def Let_def split_beta)
  have cfg: "GetServerConfiguration sample_env (su_files sample_startup) ?cg =
      Continue (sample_config\<lparr>cf_InternalRulesOrganizations := []\<rparr>, ?cg\<lparr>cg_ServerConf := sample_config\<lparr>cf_InternalRulesOrganizations := []\<rparr>\<rparr>)"
    by (simp add: GetServerConfiguration_def checkIfFileExists_def getInternalRulesOrganizations_def updateConfigFromClowder_def
        updateRedisConfig_def loadOrgIDsFromCSV_def sample_startup_def sample_Config_def sample_config_def sample_conf_env_def Let_def)
  have "register_counters ''smart_proxy'' [] \<noteq> None" by (simp add: register_counters_spec)
  then have "fst (startServer sample_env sample_px sample_rx sample_startup ?cg []) = ExitStatusOK"
    unfolding startServer_eq [OF cfg]
    by (auto simp: Start_def sample_startup_def NewRedisClient_def NewRBACClient_def constructRBACURL_def updateConfigFromClowder_def
        updateRedisConfig_def sample_conf_env_def sample_Config_def AddAPIMetricsWithNamespace_def Let_def split: option.split)
  then show ?thesis
    by (simp add: main_unfold command_of_def handleCommand_def load sample_startup_def Let_def split_beta)
qed

theorem started_server_witness:
  "\<exists>out sv. main sample_env sample_px sample_rx sample_startup sample_Config [] False False [] = (ExitStatusOK, out, Some sv) \<and>
     sv_amsClient sv = None \<and> sv_redis sv \<noteq> None"
proof -
  obtain out started where st: "main sample_env sample_px sample_rx sample_startup sample_Config [] False False [] = (ExitStatusOK, out, started)"
    using sample_starts by (metis prod.collapse)
  from started_server [OF st] obtain sv where "started = Some sv" by (auto simp: command_of_def)
  with st started_server [OF st] show ?thesis
    by (auto simp: sample_startup_def NewAMSClient_def NewAMSClientWithTransport_def Let_def)
qed

text \<open>Two of the commands that the help text lists do nothing.\<close>

lemma help_commands_ignored:
  "handleCommand ev px rx su cg reg ''help'' = (ExitStatusOK, [], None)"
  "handleCommand ev px rx su cg reg ''print-version-info'' = (ExitStatusOK, [], None)"
  "command_of ['' Print-Version''] = ''print-version''"
  by (simp_all add: handleCommand_def) code_simp

end
