(* ===== verification/AckLifecycle.thy ===== *)
theory AckLifecycle
  imports Reports_Props Recommendations_Props
begin

text \<open>
  Acknowledgements and reports together: what a client sees of a rule from the moment it
  acknowledges the rule until it takes the acknowledgement back. The acknowledgement
  handlers write the aggregator's table and the report endpoint reads it as a list, so the
  contract of \<open>Acks_Props\<close> is extended by that list (\<open>lists_table\<close>) and by the report of the
  cluster (\<open>delivers\<close>).
\<close>

subsection \<open>The list of acknowledgements\<close>

definition lists_table :: "env \<Rightarrow> HTTPServer \<Rightarrow> (http_call list \<Rightarrow> ack_table) \<Rightarrow> bool" where
  "lists_table ev sv tab \<longleftrightarrow>
     (\<forall>cs g. tab (cs @ [acked_call sv g]) = tab cs \<and>
        (\<exists>resp acks. net ev cs (acked_call sv g) = Inr resp \<and> hr_StatusCode resp = 200 \<and>
           dc_acked (ev_dec ev) (hr_Body resp) = Inr acks \<and> set acks = {d. \<exists>r k. tab cs (r, k, g) = Some d})) \<and>
     (\<forall>cs r k g d. tab cs (r, k, g) = Some d \<longrightarrow> sw_RuleID d = r \<and> sw_ErrorKey d = k)"

definition delivers :: "env \<Rightarrow> HTTPServer \<Rightarrow> (http_call list \<Rightarrow> ack_table) \<Rightarrow> Identity \<Rightarrow> ClusterName \<Rightarrow> ReportResponse \<Rightarrow> bool" where
  "delivers ev sv tab i c report \<longleftrightarrow> (\<forall>cs. tab (cs @ [report_call sv i c]) = tab cs \<and>
     (\<exists>resp b. net ev cs (report_call sv i c) = Inr resp \<and> hr_StatusCode resp = 200 \<and> hr_Body resp = Inr b \<and>
        dc_report (ev_dec ev) b = Inr (Some report)))"

text \<open>The composite id that names a rule of a report among the acknowledgements.\<close>

definition composite_of :: "RuleOnReport \<Rightarrow> RuleID" where
  "composite_of e = TrimSuffix (ror_Module e) ''.report'' @ ''|'' @ ror_ErrorKey e"

lemma org_selector_composite [simp]: "org_selector e = composite_of e"
  by (simp add: org_selector_def composite_of_def)

definition acknowledged :: "env \<Rightarrow> ack_table \<Rightarrow> OrgID \<Rightarrow> RuleOnReport \<Rightarrow> bool" where
  "acknowledged ev T g e \<longleftrightarrow> (\<exists>r k. (r, k, g) \<in> dom T \<and> ce_GenerateCompositeRuleID (ev_content ev) r k = (composite_of e, None))"

lemma lists_keeps: "lists_table ev sv tab \<Longrightarrow> tab (cs @ [acked_call sv g]) = tab cs"
  by (simp add: lists_table_def)

lemma rule_ack_loop_spec:
  "getbool (rule_ack_loop ev m acks) x \<longleftrightarrow>
     getbool m x \<or> (\<exists>d \<in> set acks. ce_GenerateCompositeRuleID (ev_content ev) (sw_RuleID d) (sw_ErrorKey d) = (x, None))"
  by (induction acks arbitrary: m) (auto simp: getbool_def split: prod.split option.split)

lemma ack_map_of_table:
  assumes "lists_table ev sv tab" and "set acks = {d. \<exists>r k. tab cs (r, k, g) = Some d}"
  shows "getbool (generateRuleAckMap ev acks) (composite_of e) \<longleftrightarrow> acknowledged ev (tab cs) g e"
proof -
  have row: "sw_RuleID d = r \<and> sw_ErrorKey d = k" if "tab cs (r, k, g) = Some d" for r k d
    using assms(1) that unfolding lists_table_def by blast
  have "getbool (generateRuleAckMap ev acks) (composite_of e) \<longleftrightarrow>
      (\<exists>r k d. tab cs (r, k, g) = Some d \<and> ce_GenerateCompositeRuleID (ev_content ev) (sw_RuleID d) (sw_ErrorKey d) = (composite_of e, None))"
    unfolding generateRuleAckMap_def rule_ack_loop_spec using assms(2) by (auto simp: getbool_def)
  also have "\<dots> \<longleftrightarrow> acknowledged ev (tab cs) g e"
    unfolding acknowledged_def using row by fastforce
  finally show ?thesis .
qed

subsection \<open>What a report shows\<close>

definition managed :: "HTTPServer \<Rightarrow> ClusterName \<Rightarrow> bool" where
  "managed sv c = (case sv_amsClient sv of None \<Rightarrow> False | Some ams \<Rightarrow> ci_Managed (ams_GetClusterDetailsFromExternalClusterID ams c))"

definition shown :: "env \<Rightarrow> HTTPServer \<Rightarrow> ClusterName \<Rightarrow> OrgID \<Rightarrow> ack_table \<Rightarrow> RuleOnReport \<Rightarrow> bool" where
  "shown ev sv c g T e \<longleftrightarrow> \<not> ror_Disabled e \<and> \<not> acknowledged ev T g e \<and>
     (case rule_content (sv_content sv) e of None \<Rightarrow> False | Some content \<Rightarrow> managed sv c \<longrightarrow> rwc_OSDCustomer content)"

definition names :: "RuleWithContentResponse list \<Rightarrow> (RuleID \<times> ErrorKey) list" where
  "names data = map (\<lambda>x. (rwr_RuleID x, rwr_ErrorKey x)) data"

definition named :: "RuleOnReport \<Rightarrow> RuleID \<times> ErrorKey" where
  "named e = (ror_Module e, ror_ErrorKey e)"

lemma names_fillImpacted [simp]: "names (fillImpacted ev data report) = names data"
  by (auto simp: names_def fillImpacted_def fill_impacted_def split: option.split sum.split)

lemma names_map_filter:
  assumes "\<And>e. f e \<noteq> None \<longleftrightarrow> P e" and "\<And>e x. f e = Some x \<Longrightarrow> (rwr_RuleID x, rwr_ErrorKey x) = named e"
  shows "names (List.map_filter f es) = map named (filter P es)"
proof (induction es)
  case (Cons e es)
  then show ?case using assms(1,2) [of e] by (cases "f e") (auto simp: names_def map_filter_simps)
qed (simp add: names_def map_filter_simps)

lemma visible_shown:
  assumes "WaitForContentDirectoryToBeReady (sv_content sv) = None"
    and acks: "getbool acks (composite_of e) \<longleftrightarrow> acknowledged ev T g e"
  shows "visible ev (sv_content sv) (managed sv c) False acks e \<noteq> None \<longleftrightarrow> shown ev sv c g T e"
    and "visible ev (sv_content sv) (managed sv c) False acks e = Some x \<Longrightarrow> (rwr_RuleID x, rwr_ErrorKey x) = named e"
  using FetchRuleContent_Some [OF assms(1), of e _ "managed sv c" "ev_content ev"]
  by (auto simp: visible_def shown_def named_def dropped_def acks split: option.splits if_splits)

lemma SetAMSInfoInReport_managed: "mv2_Managed (SetAMSInfoInReport sv c meta) = (managed sv c \<or> (sv_amsClient sv = None \<and> mv2_Managed meta))"
  by (auto simp: SetAMSInfoInReport_def managed_def Let_def split: option.split)

lemma report_follows_table:
  assumes lists: "lists_table ev sv tab" and report: "delivers ev sv tab i c report"
    and get: "ev_ReadClusterName ev get = Inr c" "rq_User get = IdentityValue i" "readGetDisabledParam get = Inr False"
    and ready: "WaitForContentDirectoryToBeReady (sv_content sv) = None"
  obtains w' rp where "run_state (reportEndpointV2 ev sv get) w = (Done, w')"
    and "w_replies w' = w_replies w @ [SendOK (PReportV2 rp)]" and "tab (w_calls w') = tab (w_calls w)"
    and "names (rp2_Data rp) = map named (filter (shown ev sv c (id_OrgID i) (tab (w_calls w))) (rr_Report report))"
proof -
  let ?g = "id_OrgID i" and ?w1 = "add_call (report_call sv i c) w"
  obtain resp b where fetched: "net ev (w_calls w) (report_call sv i c) = Inr resp" "hr_StatusCode resp = 200"
    "hr_Body resp = Inr b" "dc_report (ev_dec ev) b = Inr (Some report)" and t1: "tab (w_calls ?w1) = tab (w_calls w)"
    using report unfolding delivers_def by (metis add_simps(3))
  obtain resp' acks where listed: "net ev (w_calls w @ [report_call sv i c]) (acked_call sv ?g) = Inr resp'"
    "hr_StatusCode resp' = 200" "dc_acked (ev_dec ev) (hr_Body resp') = Inr acks"
    and acks: "set acks = {d. \<exists>r k. tab (w_calls w @ [report_call sv i c]) (r, k, ?g) = Some d}"
    using lists unfolding lists_table_def by blast
  have selects: "getbool (generateRuleAckMap ev acks) (composite_of e) \<longleftrightarrow> acknowledged ev (tab (w_calls w)) ?g e" for e
    using ack_map_of_table [OF lists acks] t1 by simp
  note vis = visible_shown [OF ready selects]
  have data: "names (report_data ev sv (managed sv c) False acks es) = map named (filter (shown ev sv c ?g (tab (w_calls w))) es)" for es
    unfolding report_data_def by (rule names_map_filter [OF vis])
  have acked: "run_state (readListOfAckedRules ev sv ?g) ?w1 = (Inr acks, add_call (acked_call sv ?g) ?w1)"
    using listed by (intro read_acks_ok) simp_all
  note run = fetch_report_ok [OF get(1,2) fetched] build_report_ok [OF get(3) token_of_identity(1) [OF get(2)] acked ready]
  have "\<exists>w' rp. run_state (reportEndpointV2 ev sv get) w = (Done, w') \<and>
    w' = add_reply (SendOK (PReportV2 rp)) (add_call (acked_call sv ?g) ?w1) \<and>
    names (rp2_Data rp) = names (report_data ev sv (managed sv c) False acks (rr_Report report))"
    by (auto simp: reportEndpointV2_def run Let_def sendReportReponse_def SetAMSInfoInReport_managed)
  then obtain w' rp where "run_state (reportEndpointV2 ev sv get) w = (Done, w')"
    "w' = add_reply (SendOK (PReportV2 rp)) (add_call (acked_call sv ?g) ?w1)"
    "names (rp2_Data rp) = names (report_data ev sv (managed sv c) False acks (rr_Report report))" by blast
  moreover have "tab (w_calls ?w1 @ [acked_call sv ?g]) = tab (w_calls w)" by (simp only: lists_keeps [OF lists] t1)
  ultimately show thesis by (intro that [of w' rp]) (simp_all add: data)
qed

subsection \<open>The life of an acknowledgement\<close>

lemma acknowledgePost_sets:
  assumes "ack_aggregator ev sv tab" and "GetCurrentOrgID post = Inr g"
    and "dc_selector_justification (ev_dec ev) (rq_Body post) = Inr (sel, v)" and "ev_ParseRuleSelector ev sel = Inr (r, k)"
  obtains d where "tab (w_calls (snd (run_state (acknowledgePost ev sv post) w))) = (tab (w_calls w))((r, k, g) \<mapsto> d)"
proof (cases "tab (w_calls w) (r, k, g)")
  case None
  with acknowledgePost_absent [OF assms] that show thesis by blast
next
  case (Some d)
  with acknowledgePost_present [OF assms] that [of d] show thesis by (simp add: map_upd_triv)
qed

lemma acknowledged_upd:
  assumes "ce_GenerateCompositeRuleID (ev_content ev) r k = (r @ ''|'' @ k, None)"
  shows "acknowledged ev (T((r, k, g) \<mapsto> d)) g e \<longleftrightarrow> acknowledged ev T g e \<or> composite_of e = r @ ''|'' @ k"
  unfolding acknowledged_def dom_fun_upd using assms by (auto, blast)

lemma shown_upd:
  assumes "ce_GenerateCompositeRuleID (ev_content ev) r k = (r @ ''|'' @ k, None)"
  shows "shown ev sv c g (T((r, k, g) \<mapsto> d)) = (\<lambda>e. shown ev sv c g T e \<and> composite_of e \<noteq> r @ ''|'' @ k)"
  by (auto simp: fun_eq_iff shown_def acknowledged_upd [OF assms])

text \<open>
  Claim C4: from acknowledgement to withdrawal. After a client has acknowledged a rule, the
  reports of every cluster of its organization show exactly what they would have shown,
  without that rule; and after the acknowledgement is deleted, which is answered with 204,
  they show what they would have shown if it had never been there. This holds for every
  report, whatever was acknowledged before.
\<close>

theorem acknowledgement_life_cycle:
  assumes agg: "ack_aggregator ev sv tab" and lists: "lists_table ev sv tab" and report: "delivers ev sv tab i c report"
    and fmt: "ce_GenerateCompositeRuleID (ev_content ev) r k = (r @ ''|'' @ k, None)"
    and post: "GetCurrentOrgID post = Inr (id_OrgID i)" "dc_selector_justification (ev_dec ev) (rq_Body post) = Inr (sel, v)"
      "ev_ParseRuleSelector ev sel = Inr (r, k)"
    and del: "GetCurrentOrgID del = Inr (id_OrgID i)" "\<And>w. run_state (readRuleIDWithErrorKey ev del) w = (Inr (r, k), w)"
    and get: "ev_ReadClusterName ev get = Inr c" "rq_User get = IdentityValue i" "readGetDisabledParam get = Inr False"
    and ready: "WaitForContentDirectoryToBeReady (sv_content sv) = None"
    and w1: "w1 = snd (run_state (acknowledgePost ev sv post) w)" and w2: "w2 = snd (run_state (reportEndpointV2 ev sv get) w1)"
    and w3: "w3 = snd (run_state (deleteAcknowledge ev sv del) w2)" and w4: "w4 = snd (run_state (reportEndpointV2 ev sv get) w3)"
  shows "\<exists>rp rp'. w_replies w2 = w_replies w1 @ [SendOK (PReportV2 rp)] \<and> w_replies w3 = w_replies w2 @ [WriteHeader 204] \<and>
    w_replies w4 = w_replies w3 @ [SendOK (PReportV2 rp')] \<and>
    names (rp2_Data rp) = map named (filter (\<lambda>e. shown ev sv c (id_OrgID i) (tab (w_calls w)) e \<and> composite_of e \<noteq> r @ ''|'' @ k)
      (rr_Report report)) \<and>
    names (rp2_Data rp') = map named (filter (shown ev sv c (id_OrgID i) ((tab (w_calls w))((r, k, id_OrgID i) := None)))
      (rr_Report report))"
proof -
  let ?key = "(r, k, id_OrgID i)" and ?T = "tab (w_calls w)"
  obtain d where t1: "tab (w_calls w1) = ?T(?key \<mapsto> d)" unfolding w1 by (rule acknowledgePost_sets [OF agg post])
  obtain rp where rp: "w_replies w2 = w_replies w1 @ [SendOK (PReportV2 rp)]" "tab (w_calls w2) = tab (w_calls w1)"
    "names (rp2_Data rp) = map named (filter (shown ev sv c (id_OrgID i) (tab (w_calls w1))) (rr_Report report))"
    by (rule report_follows_table [OF lists report get ready, of w1]) (simp add: w2)
  have t2: "tab (w_calls w2) ?key = Some d" using rp(2) t1 by simp
  have del: "tab (w_calls w3) = (tab (w_calls w2))(?key := None)" "w_replies w3 = w_replies w2 @ [WriteHeader 204]"
    using deleteAcknowledge_present [OF agg del t2] by (simp_all add: w3)
  then have t3: "tab (w_calls w3) = ?T(?key := None)" using rp(2) t1 by simp
  obtain rp' where rp': "w_replies w4 = w_replies w3 @ [SendOK (PReportV2 rp')]"
    "names (rp2_Data rp') = map named (filter (shown ev sv c (id_OrgID i) (tab (w_calls w3))) (rr_Report report))"
    by (rule report_follows_table [OF lists report get ready, of w3]) (simp add: w4)
  show ?thesis using rp(1,3) del(2) rp' by (auto simp: t1 t3 shown_upd [OF fmt])
qed

subsection \<open>An aggregator with lists\<close>

text \<open>The aggregator of \<open>Acks_Props\<close>, which now also lists the rows of an organization and has one report.\<close>

definition call_keys :: "http_call \<Rightarrow> (RuleID \<times> ErrorKey \<times> OrgID) list" where
  "call_keys c = (case ca_URL c of Endpoint b name [ArgStr r, ArgStr k, ArgOrg g] \<Rightarrow> [(r, k, g)] | _ \<Rightarrow> [])"

definition rows_of :: "http_call list \<Rightarrow> OrgID \<Rightarrow> SystemWideRuleDisable list" where
  "rows_of cs g = List.map_filter (\<lambda>(r, k, g'). if g' = g then sample_tab cs (r, k, g) else None) (concat (map call_keys cs))"

definition enc_rows :: "SystemWideRuleDisable list \<Rightarrow> string" where
  "enc_rows ds = concat (map (\<lambda>d. enc (sw_RuleID d) @ enc (sw_ErrorKey d) @ enc (sw_Justification d)) ds)"

primrec dec_rows :: "nat \<Rightarrow> string \<Rightarrow> SystemWideRuleDisable list" where
  "dec_rows 0 s = []"
| "dec_rows (Suc n) s = (if s = [] then [] else
     (let (r, s1) = dec s; (k, s2) = dec s1; (j, s3) = dec s2 in sample_row r k j # dec_rows n s3))"

lemma dec_enc_rows:
  "length ds \<le> n \<Longrightarrow> \<forall>d \<in> set ds. \<exists>r k j. d = sample_row r k j \<Longrightarrow> dec_rows n (enc_rows ds) = ds"
proof (induction ds arbitrary: n)
  case (Cons d ds)
  then obtain m r k j where n: "n = Suc m" and d: "d = sample_row r k j" by (cases n) auto
  have "enc_rows (d # ds) = enc r @ enc k @ enc j @ enc_rows ds" by (simp add: enc_rows_def d sample_row_def)
  moreover have "enc r \<noteq> []" by (simp add: enc_def)
  ultimately show ?case using Cons.IH [of m] Cons.prems by (simp add: n d dec_enc)
qed (case_tac n; simp add: enc_rows_def)

lemma enc_rows_length: "length ds \<le> length (enc_rows ds)"
proof (induction ds)
  case (Cons d ds)
  obtain n where "length (enc (sw_RuleID d)) = Suc n" by (simp add: enc_def)
  with Cons show ?case by (simp add: enc_rows_def)
qed simp

lemma sample_tab_keys: "sample_tab cs (r, k, g) = Some d \<Longrightarrow> (r, k, g) \<in> set (concat (map call_keys cs))"
proof (induction cs arbitrary: d rule: rev_induct)
  case (snoc c cs)
  show ?case
  proof (cases "sample_tab cs (r, k, g)")
    case None
    with snoc.prems have "(r, k, g) \<in> set (call_keys c)"
      by (auto simp: sample_tab_def call_keys_def split: url.splits call_body.splits list.splits url_arg.splits if_splits)
    then show ?thesis by simp
  qed (use snoc.IH in auto)
qed (simp add: sample_tab_def)

lemma sample_tab_row: "sample_tab cs (r, k, g) = Some d \<Longrightarrow> \<exists>j. d = sample_row r k j"
  by (auto simp: sample_tab_def)

lemma rows_of_set: "set (rows_of cs g) = {d. \<exists>r k. sample_tab cs (r, k, g) = Some d}"
  using sample_tab_keys by (fastforce simp: rows_of_def List.map_filter_def image_iff split: if_splits)

lemma rows_of_roundtrip: "dec_rows (length (enc_rows (rows_of cs g))) (enc_rows (rows_of cs g)) = rows_of cs g"
proof (rule dec_enc_rows [OF enc_rows_length])
  show "\<forall>d \<in> set (rows_of cs g). \<exists>r k j. d = sample_row r k j" unfolding rows_of_set using sample_tab_row by blast
qed

definition life_net :: "http_call list \<Rightarrow> http_call \<Rightarrow> http_response res" where
  "life_net cs c = (case ca_URL c of
      Endpoint b name args \<Rightarrow>
        if name = ''ListOfDisabledRulesSystemWide'' then
          (case args of
             [ArgOrg g] \<Rightarrow> Inr \<lparr>hr_StatusCode = 200, hr_Header = [], hr_Body = Inr (enc_rows (rows_of cs g))\<rparr>
           | _ \<Rightarrow> Inl (UrlError []))
        else if name = ''ReportEndpoint'' then Inr \<lparr>hr_StatusCode = 200, hr_Header = [], hr_Body = Inr []\<rparr>
        else sample_net cs c
    | _ \<Rightarrow> sample_net cs c)"

definition life_report :: ReportResponse where
  "life_report = \<lparr>rr_Meta = \<lparr>rm_LastCheckedAt = ''t1'', rm_GatheredAt = ''t2''\<rparr>,
     rr_Report = [sample_hit ''a.b.report'' ''K'', sample_hit ''x.y'' ''K'']\<rparr>"

definition life_env :: env where
  "life_env = sample_ack_env\<lparr>net := life_net, ev_dec := (ev_dec sample_ack_env)\<lparr>
     dc_acked := (\<lambda>b. case b of Inl e \<Rightarrow> Inl e | Inr s \<Rightarrow> Inr (dec_rows (length s) s)), dc_report := (\<lambda>_. Inr (Some life_report))\<rparr>\<rparr>"

definition life_server :: HTTPServer where
  "life_server = sample_server\<lparr>sv_content := \<lparr>cs_ruleContentDirectory = Some [], cs_storage = getEmptyRulesWithContentMap
     \<lparr>st_rulesWithContent := [(''a.b'', ''K'') \<mapsto> sample_content, (''x.y'', ''K'') \<mapsto> sample_content]\<rparr>\<rparr>\<rparr>"

lemma life_lists_table: "lists_table life_env sv sample_tab"
  unfolding lists_table_def
proof (intro conjI allI impI)
  fix cs g
  show "sample_tab (cs @ [acked_call sv g]) = sample_tab cs"
    by (simp add: sample_tab_def acked_call_def get_call_def aggregator_def)
  show "\<exists>resp acks. net life_env cs (acked_call sv g) = Inr resp \<and> hr_StatusCode resp = 200 \<and>
      dc_acked (ev_dec life_env) (hr_Body resp) = Inr acks \<and> set acks = {d. \<exists>r k. sample_tab cs (r, k, g) = Some d}"
    by (simp add: life_env_def life_net_def acked_call_def get_call_def aggregator_def rows_of_roundtrip rows_of_set)
next
  fix cs r k g d
  assume "sample_tab cs (r, k, g) = Some d"
  then show "sw_RuleID d = r" "sw_ErrorKey d = k" by (auto simp: sample_tab_def sample_row_def)
qed

lemma life_delivers: "delivers life_env sv sample_tab i c life_report"
  by (simp add: delivers_def sample_tab_def life_env_def life_net_def report_call_def get_call_def aggregator_def)

lemma life_ack_aggregator: "ack_aggregator life_env sv sample_tab"
proof -
  note calls = disable_call_def update_call_def enable_call_def read_call_def put_call_def post_call_def get_call_def aggregator_def
  have net: "net life_env cs (disable_call sv r k g j) = net sample_ack_env cs (disable_call sv r k g j)"
    "net life_env cs (update_call sv r k g j) = net sample_ack_env cs (update_call sv r k g j)"
    "net life_env cs (enable_call sv r k g) = net sample_ack_env cs (enable_call sv r k g)"
    "net life_env cs (read_call sv r k g) = net sample_ack_env cs (read_call sv r k g)" for cs r k g j
    by (simp_all add: life_env_def life_net_def calls sample_ack_env_simps)
  have env: "dc_ack (ev_dec life_env) = dc_ack (ev_dec sample_ack_env)" "ev_url_ok life_env = ev_url_ok sample_ack_env"
    by (simp_all add: life_env_def)
  show ?thesis
    using sample_ack_aggregator [of sv] unfolding ack_aggregator_def reads_table_def net env .
qed

lemma life_requests:
  "GetCurrentOrgID sample_ack_request = Inr (id_OrgID sample_identity)"
  "dc_selector_justification (ev_dec life_env) b = Inr (''a.b|K'', ''why'')"
  "ev_ParseRuleSelector life_env ''a.b|K'' = Inr (''a.b'', ''K'')"
  "run_state (readRuleIDWithErrorKey life_env sample_ack_request) w = (Inr (''a.b'', ''K''), w)"
  "ev_ReadClusterName life_env sample_report_request = Inr ''c1''"
  "ce_GenerateCompositeRuleID (ev_content life_env) r k = (r @ ''|'' @ k, None)"
proof -
  note defs = life_env_def sample_ack_env_def sample_env_def sample_ack_request_def sample_report_request_def sample_request_def
  have split: "RuleIDWithErrorKeyFromCompositeRuleID ''a.b|K'' = Inr (''a.b'', ''K'')"
    using sample_ack_request_facts(2) by (simp add: sample_ack_env_def sample_env_def)
  have "ev_GetRouterParam life_env sample_ack_request ''rule_id'' = Inr ''a.b|K''" by (simp add: defs)
  with split show "run_state (readRuleIDWithErrorKey life_env sample_ack_request) w = (Inr (''a.b'', ''K''), w)"
    by (simp add: readRuleIDWithErrorKey_def)
  show "GetCurrentOrgID sample_ack_request = Inr (id_OrgID sample_identity)"
    using sample_ack_request_facts(1) by (simp add: sample_identity_def)
qed (use sample_ack_request_facts(2) in \<open>simp_all add: life_env_def sample_ack_env_def sample_env_def sample_report_request_def
    sample_request_def\<close>)

lemma life_shown:
  "shown life_env life_server ''c1'' g Map.empty (sample_hit ''a.b.report'' ''K'')"
  "shown life_env life_server ''c1'' g Map.empty (sample_hit ''x.y'' ''K'')"
  "composite_of (sample_hit ''a.b.report'' ''K'') = ''a.b|K''" "composite_of (sample_hit ''x.y'' ''K'') = ''x.y|K''"
proof -
  have trim: "TrimSuffix ''a.b.report'' dotReport = ''a.b''" "TrimSuffix ''x.y'' dotReport = ''x.y''" by code_simp+
  then show "composite_of (sample_hit ''a.b.report'' ''K'') = ''a.b|K''" "composite_of (sample_hit ''x.y'' ''K'') = ''x.y|K''"
    by (simp_all add: composite_of_def sample_hit_def)
  from trim have "rule_content (sv_content life_server) (sample_hit ''a.b.report'' ''K'') = Some sample_content"
    "rule_content (sv_content life_server) (sample_hit ''x.y'' ''K'') = Some sample_content"
    by (simp_all add: rule_content_def storage_GetRuleWithErrorKeyContent_def sample_hit_def life_server_def)
  then show "shown life_env life_server ''c1'' g Map.empty (sample_hit ''a.b.report'' ''K'')"
    "shown life_env life_server ''c1'' g Map.empty (sample_hit ''x.y'' ''K'')"
    by (simp_all add: shown_def acknowledged_def managed_def life_server_def sample_server_def New_def sample_hit_def)
qed

theorem acknowledgement_life_cycle_witness:
  "\<exists>w1 w2 w3 w4 rp rp'. w1 = snd (run_state (acknowledgePost life_env life_server sample_ack_request) empty_world) \<and>
     w2 = snd (run_state (reportEndpointV2 life_env life_server sample_report_request) w1) \<and>
     w3 = snd (run_state (deleteAcknowledge life_env life_server sample_ack_request) w2) \<and>
     w4 = snd (run_state (reportEndpointV2 life_env life_server sample_report_request) w3) \<and>
     w_replies w2 = w_replies w1 @ [SendOK (PReportV2 rp)] \<and> names (rp2_Data rp) = [(''x.y'', ''K'')] \<and>
     w_replies w4 = w_replies w3 @ [SendOK (PReportV2 rp')] \<and> names (rp2_Data rp') = [(''a.b.report'', ''K''), (''x.y'', ''K'')]"
proof -
  have ready: "WaitForContentDirectoryToBeReady (sv_content life_server) = None"
    by (simp add: life_server_def WaitForContentDirectoryToBeReady_def)
  have empty: "sample_tab (w_calls empty_world) = Map.empty" by (auto simp: sample_tab_def empty_world_def fun_eq_iff)
  have named: "named (sample_hit m k) = (m, k)" for m k by (simp add: named_def sample_hit_def)
  let ?post = "\<lambda>w. snd (run_state (acknowledgePost life_env life_server sample_ack_request) w)"
    and ?get = "\<lambda>w. snd (run_state (reportEndpointV2 life_env life_server sample_report_request) w)"
    and ?delete = "\<lambda>w. snd (run_state (deleteAcknowledge life_env life_server sample_ack_request) w)"
  let ?w1 = "?post empty_world"
  let ?w2 = "?get ?w1"
  let ?w3 = "?delete ?w2"
  let ?w4 = "?get ?w3" and ?shown = "\<lambda>T e. shown life_env life_server ''c1'' (id_OrgID sample_identity) T e"
  obtain rp rp' where "w_replies ?w2 = w_replies ?w1 @ [SendOK (PReportV2 rp)]" "w_replies ?w4 = w_replies ?w3 @ [SendOK (PReportV2 rp')]"
    and n: "names (rp2_Data rp) = map named (filter (\<lambda>e. ?shown (sample_tab (w_calls empty_world)) e \<and> composite_of e \<noteq> ''a.b'' @ ''|'' @ ''K'')
      (rr_Report life_report))"
    "names (rp2_Data rp') = map named (filter (?shown ((sample_tab (w_calls empty_world))((''a.b'', ''K'', id_OrgID sample_identity) := None)))
      (rr_Report life_report))"
    using acknowledgement_life_cycle [OF life_ack_aggregator life_lists_table life_delivers life_requests(6,1,2,3,1,4,5)
        sample_report_facts(2,8) ready refl refl refl refl, where w = empty_world] by blast
  moreover have "names (rp2_Data rp) = [(''x.y'', ''K'')]" "names (rp2_Data rp') = [(''a.b.report'', ''K''), (''x.y'', ''K'')]"
    unfolding n by (simp_all add: empty life_report_def life_shown named fun_upd_idem)
  ultimately show ?thesis by blast
qed

end
