(* ===== verification/Logging.thy ===== *)
theory Logging
  imports Types Prelude
begin

text \<open>
  The log messages about rule hits (\<open>server/utils.go\<close>): \<open>logClusterInfos\<close>, \<open>logClusterInfo\<close> and
  \<open>logClustersReport\<close>. A logger returns the messages it writes, in order. \<open>logClustersReport\<close>
  decodes every report into the same variable; \<open>unmarshal json old\<close> is the decoder of the
  standard library, which leaves what the text does not mention at its old value.
\<close>

definition newline_tab :: string where
  "newline_tab = [CHR 0x0A, CHR 0x09]"

fun hit_lines :: "string \<Rightarrow> RuleOnReport list \<Rightarrow> string" where
  "hit_lines logMessage [] = logMessage"
| "hit_lines logMessage (ruleHit # rest) =
     hit_lines (logMessage @ newline_tab @ ''rule: '' @ ror_Module ruleHit @ ''; error key: '' @ ror_ErrorKey ruleHit) rest"

definition logClusterInfos :: "OrgID \<Rightarrow> ClusterName \<Rightarrow> RuleOnReport list \<Rightarrow> string" where
  "logClusterInfos orgID clusterID ruleHits =
     hit_lines (''rule hits for '' @ show_nat (unat orgID) @ ''.'' @ clusterID @ '':'') ruleHits"

definition logClusterInfo :: "OrgID \<Rightarrow> ClusterName \<Rightarrow> RuleOnReport \<Rightarrow> string" where
  "logClusterInfo orgID clusterID response = logClusterInfos orgID clusterID [response]"

fun reports_loop ::
  "(string \<Rightarrow> RuleOnReport list \<Rightarrow> RuleOnReport list \<times> gerror option) \<Rightarrow> OrgID \<Rightarrow> RuleOnReport list
    \<Rightarrow> (ClusterName \<times> string) list \<Rightarrow> string list" where
  "reports_loop unmarshal orgID report [] = []"
| "reports_loop unmarshal orgID report ((clusterName, jsonReport) # rest) =
     (case unmarshal jsonReport report of
        (report, Some err) \<Rightarrow>
          (''can'' @ [CHR 0x27] @ ''t log report for cluster. raw json: ['' @ jsonReport @ '']'') # reports_loop unmarshal orgID report rest
      | (report, None) \<Rightarrow> logClusterInfos orgID clusterName report # reports_loop unmarshal orgID report rest)"

definition logClustersReport ::
  "(string \<Rightarrow> RuleOnReport list \<Rightarrow> RuleOnReport list \<times> gerror option) \<Rightarrow> OrgID \<Rightarrow> (ClusterName \<times> string) list \<Rightarrow> string list" where
  "logClustersReport unmarshal orgID reports = reports_loop unmarshal orgID [] reports"

lemma hit_lines_eq:
  "hit_lines m hits = m @ concat (map (\<lambda>h. newline_tab @ ''rule: '' @ ror_Module h @ ''; error key: '' @ ror_ErrorKey h) hits)"
  by (induction hits arbitrary: m) simp_all

lemma reports_loop_length: "length (reports_loop unmarshal orgID report reports) = length reports"
  by (induction unmarshal orgID report reports rule: reports_loop.induct) (auto split: prod.split option.split)

text \<open>
  With a decoder that overwrites the variable every cluster is logged with its own rules. A
  report that does not mention its rules is logged with the rules of the cluster before it.
\<close>

lemma logClustersReport_fresh:
  assumes "\<And>j old. unmarshal j old = (hits j, None)"
  shows "logClustersReport unmarshal orgID reports = map (\<lambda>(c, j). logClusterInfos orgID c (hits j)) reports"
proof -
  have "reports_loop unmarshal orgID report reports = map (\<lambda>(c, j). logClusterInfos orgID c (hits j)) reports" for report
    using assms by (induction unmarshal orgID report reports rule: reports_loop.induct) auto
  then show ?thesis by (simp add: logClustersReport_def)
qed

lemma logClustersReport_stale:
  assumes "unmarshal j1 [] = (hits, None)" and "\<And>old. unmarshal j2 old = (old, None)"
  shows "logClustersReport unmarshal orgID [(c1, j1), (c2, j2)] = [logClusterInfos orgID c1 hits, logClusterInfos orgID c2 hits]"
  using assms by (simp add: logClustersReport_def)

end
