(* ===== verification/Spec2Isabelle.thy ===== *)
theory Spec2Isabelle
  imports Content_Props ContentWait Auth Params Acks_Props Reports_Props Recommendations_Props ContentHandlers_Props
    Overview_Props Redis_Props Clients_Props Service_Props Router_Props Isolation Noninterference Healthy Startup_Props
    AckLifecycle Logging
begin

text \<open>
  \<^bold>\<open>A verification of the Insights Results Smart Proxy.\<close>

  The program is an HTTP service between the web console and four other services: the
  aggregator (reports, acknowledgements, votes), the content service (texts of rules and
  groups of rules), the account management service (clusters of an organization) and the
  upgrade risks predictions; it reads the state of on-demand requests from Redis. It
  authenticates each request by the identity token in its header, checks access of service
  accounts with RBAC, reads the parameters, asks the services, filters and combines what
  they say with the stored rule content, and answers in JSON. It keeps three pieces of state: the
  rule content storage, which a loop refreshes, the rule groups, which a goroutine polls,
  and the counters of the metrics. Acknowledgements, votes and reports live in the
  aggregator; the service changes them by calls.

  \<^bold>\<open>How programs are modelled.\<close>
  A handler is a computation in the state monad over \<open>world\<close> (theory \<open>World\<close>): the calls made
  so far, the replies written so far, the headers set and the increments of the access
  control counters. A call is answered by \<open>net\<close>, a
  function of the calls before it, so that the other services may have any state and may
  change it by the calls; nothing is assumed of them unless a theorem says so. The record
  \<open>env\<close> holds the code outside the repository as parameters: the JSON decoders (\<open>decoders\<close>),
  the readers of \<open>httputils\<close>, base64, the generator of composite ids, the orders in which the
  runtime ranges over maps. Go errors are the values of \<open>gerror\<close>; results are \<open>error + value\<close>, and
  where Go returns a value next to an error the result is a pair. A nil dereference is
  \<open>None\<close> or \<open>Panic\<close>, a loop that does not end is \<open>None\<close> or \<open>Hang\<close>. \<open>uint8\<close>, \<open>uint32\<close> and the scan
  cursor are words; Go's \<open>int\<close> is \<open>int\<close>, with the wrap-around written out where the code adds
  untrusted values (\<open>calculateTotalRisk\<close>, the hits of workloads in \<open>bump64\<close>). Maps that are ranged over are association lists.

  \<^bold>\<open>Theories and the code they model.\<close>

  \<^item> \<open>Prelude\<close>: strings, decimal numbers, the state monad, and two locales for loops that the
    sources repeat: \<open>select_loop\<close> and \<open>filter_loop\<close>, interpreted for the loops over rules,
    clusters, hits, workloads and scanned keys.
  \<^item> \<open>Types\<close>: the structs of \<open>types/\<close>, the errors, \<open>types/operations.go\<close>.
  \<^item> \<open>Content\<close>, \<open>Content_Props\<close>: the package \<open>content\<close>. The tables of the storage satisfy the contract
    \<open>keyed_store\<close>. Lookups after an update find the last valid entry; the two tables agree; the
    severity table, when it panics, and the update loop.
  \<^item> \<open>ContentWait\<close>: the same package with its concurrency. The step relation \<open>content_step\<close> interleaves
    the update loop, requests in \<open>WaitForContentDirectoryToBeReady\<close>, their goroutines, the mutex
    and the timers; a directory is fetched, its rules and entries are loaded one by one into a
    new storage, and the storage is swapped in. No request is stuck, what a request is told
    agrees with the test that the sequential lookups use, and no request sees half a storage.
  \<^item> \<open>World\<close>, \<open>Server\<close>: the effects, \<open>server/errors.go\<close>, the record \<open>HTTPServer\<close>, the configuration, the
    identity of the requester, the permission to see internal rules.
  \<^item> \<open>Auth\<close>: \<open>auth/\<close> and \<open>server/auth_middleware.go\<close>. The walk over the RBAC pages is a partial
    function, characterised by the inductive \<open>rbac_chain\<close>. The locale \<open>gate\<close> says what a
    middleware may forward; both middlewares and their composition (\<open>gate_pair\<close>) are
    interpretations.
  \<^item> \<open>Params\<close>: \<open>server/router_utils.go\<close>; the locale \<open>reader\<close> is the contract of the parameter readers.
  \<^item> \<open>Acks\<close>, \<open>Acks_Props\<close>: \<open>server/acks_utils.go\<close>, \<open>server/acks_handlers.go\<close>. \<open>ack_aggregator\<close> states what
    the aggregator's interface promises over an abstract table of acknowledgements; the handlers
    refine the operations of that table.
  \<^item> \<open>AckLifecycle\<close>: acknowledgements and reports together. The contract is extended by the list of the
    table's rows; a report leaves out exactly the acknowledged rules from the moment of the
    acknowledgement until it is deleted.
  \<^item> \<open>Aggregator\<close>: the reads from the aggregator (\<open>server/server.go\<close>) and \<open>server/rating.go\<close>; the locale
    \<open>service_reader\<close> (of which \<open>reader\<close> is a special case) says that a reader answers the client
    exactly when it fails.
  \<^item> \<open>Reports\<close>, \<open>Reports_Props\<close>: the report endpoints of \<open>server/server.go\<close>.
  \<^item> \<open>Recommendations\<close>, \<open>Recommendations_Props\<close>, \<open>Overview\<close>, \<open>Overview_Props\<close>: recommendation list, cluster
    list, overview and cluster detail (\<open>server/handlers_v2.go\<close>, \<open>server/handlers_v1.go\<close>), each shown
    equal to a specification by counting and filtering.
  \<^item> \<open>ContentHandlers\<close>, \<open>ContentHandlers_Props\<close>: the content and groups endpoints, and that internal rules
    stay hidden. \<open>Effects\<close>: the logics \<open>writes\<close> (which replies), \<open>once\<close>, \<open>silent\<close> and \<open>asks\<close> (how many).
  \<^item> \<open>Redis\<close>, \<open>Requests\<close>, \<open>Redis_Props\<close>: \<open>services/redis.go\<close> and the endpoints over it.
  \<^item> \<open>Dvo\<close>, \<open>Upgrade\<close>, \<open>Ams\<close>, \<open>Clients_Props\<close>: workloads, \<open>server/upgrade_risks_prediction.go\<close>, \<open>amsclient/\<close>.
  \<^item> \<open>Proxy\<close>, \<open>Info\<close>, \<open>RuleGroups\<close>, \<open>Metrics\<close>, \<open>Service_Props\<close>: forwarding with its request modifiers, the
    info endpoint, the polling goroutine as a step relation (\<open>updateGroupInfo\<close>) with runs, the
    metrics middleware and the registration of the counters (\<open>metrics/metrics.go\<close>).
  \<^item> \<open>Endpoints\<close>, \<open>Router\<close>, \<open>Router_Props\<close>: \<open>server/endpoints_*.go\<close> and \<open>Initialize\<close>, the assembled service.
    Anonymous requests are refused on every route; sixteen handlers answer exactly once.
  \<^item> \<open>Isolation\<close>, \<open>Noninterference\<close>: tenants of the assembled service. \<open>own_call\<close> is the policy which calls
    may be made for an organization, and \<open>tenant_routes\<close> the routes of this service outside the
    debug mode, but the prediction for a list of clusters, which nothing compares with the
    requester. The logic \<open>calls\<close> shows that every HTTP call obeys the policy; lookups in Redis and
    account management are not calls, and are bounded by comparing two runs: backends that
    agree on what belongs to the organization (\<open>agree_net\<close>, \<open>agree_clients\<close>) give the same run.
  \<^item> \<open>Healthy\<close>: when the lists the answers are built from are delivered, and what is delivered
    decodes, every request is answered exactly once (logics \<open>asking\<close>, \<open>yields\<close>).
  \<^item> \<open>Logging\<close>: the messages about rule hits (\<open>server/utils.go\<close>).
  \<^item> \<open>Conf\<close>, \<open>Startup\<close>, \<open>Startup_Props\<close>: \<open>conf/\<close>, \<open>smart_proxy.go\<close>, \<open>version.go\<close> and \<open>Start\<close> and \<open>Stop\<close> of
    \<open>server/server.go\<close>: where the configuration comes from, what each command does, and what
    the server that is started was built from.

  \<^bold>\<open>Loops.\<close> Loops over slices are structural. The three loops without a bound (RBAC pages,
  subscription pages, the Redis scan) are partial functions, and the theorems about them
  state that they return when the data they follow is finite, and what. The update loop
  and the goroutine of the groups run over arbitrary finite histories, the content service
  over arbitrary interleavings. No fuel is used.

  \<^bold>\<open>Assumptions.\<close> \<open>sends_ok\<close>: writing a reply to the client does not fail. \<open>readers_answer_once\<close>: the
  readers of \<open>httputils\<close> answer once when they refuse a parameter, as they document.
  \<open>reads_own_org\<close>: \<open>httputils.ReadOrganizationID\<close> refuses an organization that is not that of the
  token. \<open>confines\<close>: account management finds a cluster under its own id, and the aggregator
  delivers a report on it, only for the organization that owns it. \<open>parses_alike\<close>: what
  \<open>url.Parse\<close> accepts, \<open>http.NewRequest\<close> accepts. Theorems name further hypotheses where they
  need them, and their witnesses show that the hypotheses can hold. The interface of the account management client is total;
  \<open>ams_implements\<close> says when the client's methods have such an interface, which presupposes
  that the pages of its searches come to an end.

  \<^bold>\<open>Not modelled.\<close> Log messages other than those of \<open>Logging\<close>; closing of response bodies
  (\<open>CloseResponseBody\<close>); JSON encoding of replies (a reply carries its value); the listeners of
  the HTTP library and TLS; how the configuration library finds and decodes a file, which is
  a parameter that is given the settings the code makes; races between requests on the
  shared map of the info endpoint, and torn reads of the variables of the package \<open>content\<close>:
  an access to one of them is atomic here. Types and constants that no code uses are left
  out (\<open>ClusterOverview\<close>, \<open>SmartProxyReport\<close>).
\<close>

end
